(* ===== verification/Models.thy ===== *)
theory Models
  imports Prelude
begin

section \<open>Domain models: enumerations, exit codes, exceptions, Python values\<close>

text \<open>
  The types every other theory shares: the enumerations of \<open>models.py\<close>, the exit codes of
  \<open>exit_codes.py\<close>, the exception classes of \<open>errors.py\<close> and of the service modules
  with their class hierarchy as \<open>isinstance\<close> predicates, and the dynamically typed values an
  OCI response carries.
\<close>

text \<open>An instant is a number of microseconds since the epoch (the resolution of Python's
  \<open>datetime\<close>); a stored RFC 3339 timestamp has second precision.\<close>

type_synonym instant = int
type_synonym seconds = int

abbreviation second :: int where
  "second \<equiv> 1000000"

subsection \<open>models.py\<close>

datatype environment = PRODUCTION | STAGING

datatype key_type = RSA | ECDSA

datatype audit_mode = DISABLED | OBSERVE | ENFORCE

subsection \<open>exit_codes.py\<close>

datatype exit_code =
    Exit_SUCCESS
  | Exit_CONFIGURATION_INVALID
  | Exit_HTTP01_PREFLIGHT_FAILED
  | Exit_ACME_FAILED
  | Exit_X509_VALIDATION_FAILED
  | Exit_OCI_IMPORT_FAILED
  | Exit_OCI_PROMOTION_FAILED
  | Exit_AUDIT_ENFORCE_FAILED
  | Exit_ROLLBACK_FAILED
  | Exit_RETENTION_STRICT_FAILED
  | Exit_OCI_CERTIFICATE_PROFILE_INCOMPATIBLE
  | Exit_LINEAGE_DRIFT
  | Exit_LOCKED_OR_TEMPORARY_FAILURE

fun exit_value :: "exit_code \<Rightarrow> int" where
  "exit_value Exit_SUCCESS = 0"
| "exit_value Exit_CONFIGURATION_INVALID = 2"
| "exit_value Exit_HTTP01_PREFLIGHT_FAILED = 3"
| "exit_value Exit_ACME_FAILED = 4"
| "exit_value Exit_X509_VALIDATION_FAILED = 5"
| "exit_value Exit_OCI_IMPORT_FAILED = 6"
| "exit_value Exit_OCI_PROMOTION_FAILED = 7"
| "exit_value Exit_AUDIT_ENFORCE_FAILED = 8"
| "exit_value Exit_ROLLBACK_FAILED = 9"
| "exit_value Exit_RETENTION_STRICT_FAILED = 10"
| "exit_value Exit_OCI_CERTIFICATE_PROFILE_INCOMPATIBLE = 11"
| "exit_value Exit_LINEAGE_DRIFT = 12"
| "exit_value Exit_LOCKED_OR_TEMPORARY_FAILURE = 75"

subsection \<open>Python values of an SDK response\<close>

text \<open>
  The OCI SDK is not typed: the adapters read attributes with \<open>getattr\<close> and check what they
  got with \<open>isinstance\<close>. \<open>PObj\<close> is an object by its attributes.
\<close>

datatype pyval =
    PNone
  | PBool bool
  | PInt int
  | PStr string
  | PTime instant
  | PList "pyval list"
  | PObj "(string \<times> pyval) list"

definition getattr_or :: "pyval \<Rightarrow> string \<Rightarrow> pyval \<Rightarrow> pyval" where
  "getattr_or v name dflt =
     (case v of
        PObj fields \<Rightarrow> (case map_of fields name of Some x \<Rightarrow> x | None \<Rightarrow> dflt)
      | _ \<Rightarrow> dflt)"

text \<open>\<open>isinstance(v, int)\<close> holds of a \<open>bool\<close> too, whose value is 0 or 1.\<close>

fun as_int :: "pyval \<Rightarrow> int option" where
  "as_int (PInt n) = Some n"
| "as_int (PBool b) = Some (if b then 1 else 0)"
| "as_int _ = None"

fun as_str :: "pyval \<Rightarrow> string option" where
  "as_str (PStr s) = Some s"
| "as_str _ = None"

fun as_time :: "pyval \<Rightarrow> instant option" where
  "as_time (PTime t) = Some t"
| "as_time _ = None"

text \<open>A list all of whose elements are strings.\<close>

fun as_str_list :: "pyval \<Rightarrow> string list option" where
  "as_str_list (PList vs) = those (map as_str vs)"
| "as_str_list _ = None"

definition header_get :: "(string \<times> pyval) list \<Rightarrow> string \<Rightarrow> pyval" where
  "header_get headers name = (case map_of headers name of Some v \<Rightarrow> v | None \<Rightarrow> PNone)"

record response =
  resp_data :: pyval
  resp_headers :: "(string \<times> pyval) list"

subsection \<open>Exceptions\<close>

text \<open>
  \<open>lib_exn\<close> are the exceptions of the language, the standard library and third-party packages:
  all that code outside the repository can raise. \<open>ServiceError\<close> is the OCI SDK's, with its
  status, code and headers; \<open>ClientError\<close> is aiohttp's; \<open>AcmeError\<close> and its subclass
  \<open>AcmeConflict\<close>, with the location of the existing account, are those of the acme package; \<open>Interrupted\<close> stands for an
  exception outside \<open>Exception\<close> or the death of the process, which no \<open>except\<close> clause
  of the modelled code sees. \<open>exn\<close> adds the repository's own classes; \<open>OutOfFuel\<close>
  marks a loop that did not end within the bound the model gives it.
\<close>

datatype lib_exn =
    ServiceError int string "(string \<times> pyval) list option"
  | OSError string
  | TimeoutError
  | ValueError string
  | JSONDecodeError
  | AcmeError string
  | AcmeConflict string
  | KeyError string
  | TypeError string
  | RuntimeError string
  | SqliteError string
  | ClientError
  | InvalidSignature
  | Interrupted

datatype exn =
    Lib lib_exn
  | ConfigurationError string
  | LockUnavailableError
  | CertificateStoreError string
  | CertificateValidationError string
  | ChainBuildError string
  | AcmeOperationError string
  | PreflightError string
  | ChallengeFileError string
  | HostHeaderError string
  | AuditError string
  | RollbackError string
  | ReconciliationError string
  | PublicationServiceError string
  | OciAuthenticationError string
  | OciCertificateError string
  | NotificationError string
  | CompatibilityProbeError string
  | LiveProbePrerequisiteError string
  | OutOfFuel

text \<open>\<open>TimeoutError\<close> is a subclass of \<open>OSError\<close> (as the exceptions of \<open>requests\<close> are,
  which are \<open>OSError\<close> here); \<open>JSONDecodeError\<close> is one of \<open>ValueError\<close>; \<open>CertificateStoreError\<close> and
  \<open>CertificateValidationError\<close> and \<open>HostHeaderError\<close> are subclasses of \<open>ValueError\<close>, and
  \<open>ChainBuildError\<close> of \<open>CertificateValidationError\<close>.\<close>

fun is_ServiceError :: "exn \<Rightarrow> bool" where
  "is_ServiceError (Lib (ServiceError _ _ _)) = True"
| "is_ServiceError _ = False"

fun is_OSError :: "exn \<Rightarrow> bool" where
  "is_OSError (Lib (OSError _)) = True"
| "is_OSError (Lib TimeoutError) = True"
| "is_OSError _ = False"

fun is_CertificateValidationError :: "exn \<Rightarrow> bool" where
  "is_CertificateValidationError (CertificateValidationError _) = True"
| "is_CertificateValidationError (ChainBuildError _) = True"
| "is_CertificateValidationError _ = False"

fun is_CertificateStoreError :: "exn \<Rightarrow> bool" where
  "is_CertificateStoreError (CertificateStoreError _) = True"
| "is_CertificateStoreError _ = False"

fun is_ValueError :: "exn \<Rightarrow> bool" where
  "is_ValueError (Lib (ValueError _)) = True"
| "is_ValueError (Lib JSONDecodeError) = True"
| "is_ValueError (CertificateStoreError _) = True"
| "is_ValueError (CertificateValidationError _) = True"
| "is_ValueError (ChainBuildError _) = True"
| "is_ValueError (HostHeaderError _) = True"
| "is_ValueError _ = False"

fun is_OciCertificateError :: "exn \<Rightarrow> bool" where
  "is_OciCertificateError (OciCertificateError _) = True"
| "is_OciCertificateError _ = False"

fun is_AuditError :: "exn \<Rightarrow> bool" where
  "is_AuditError (AuditError _) = True"
| "is_AuditError _ = False"

text \<open>\<open>except (ServiceError, TimeoutError, OSError)\<close>: what the OCI retry loops catch.\<close>

definition is_transport_error :: "exn \<Rightarrow> bool" where
  "is_transport_error e \<longleftrightarrow> is_ServiceError e \<or> is_OSError e"

end
