(* ===== verification/Files.thy ===== *)
theory Files
  imports Models PyString "HOL-Library.AList" "HOL-Library.Word"
begin

unbundle bit_operations_syntax

section \<open>The file system\<close>

text \<open>
  What the source uses of POSIX files: a tree of directories, regular files and symbolic links with
  their owners and permission bits, name resolution, and the system calls the modules make. A
  system call is a function of the tree that fails with an errno or gives a new tree; the program
  makes it through \<open>sys\<close>, which lets any call fail (or the process be interrupted) before it
  has an effect. The bits of a mode are a word.
\<close>

type_synonym path = "string list"

datatype node =
    Regular int "32 word" string
  | Directory int "32 word"
  | Symlink int string

type_synonym fs = "(path \<times> node) list"

abbreviation ENOENT where "ENOENT \<equiv> OSError ''ENOENT''"
abbreviation ENOTDIR where "ENOTDIR \<equiv> OSError ''ENOTDIR''"
abbreviation ELOOP where "ELOOP \<equiv> OSError ''ELOOP''"
abbreviation EEXIST where "EEXIST \<equiv> OSError ''EEXIST''"
abbreviation EISDIR where "EISDIR \<equiv> OSError ''EISDIR''"
abbreviation ENOTEMPTY where "ENOTEMPTY \<equiv> OSError ''ENOTEMPTY''"

definition components :: "string \<Rightarrow> path" where
  "components s = filter (\<lambda>c. c \<noteq> [] \<and> c \<noteq> ''.'') (split_on (CHR ''/'') s)"

definition node_at :: "fs \<Rightarrow> path \<Rightarrow> node option" where
  "node_at f p = (if p = [] then Some (Directory 0 0x1ED) else map_of f p)"

fun is_directory :: "node option \<Rightarrow> bool" where
  "is_directory (Some (Directory _ _)) = True"
| "is_directory _ = False"

subsection \<open>Name resolution\<close>

text \<open>
  \<open>walk f follow k d cs\<close>: the components \<open>cs\<close> from directory \<open>d\<close>, through at most \<open>k\<close>
  links; a link that is the last component is followed only if \<open>follow\<close> is set. The last
  component need not exist.
\<close>

fun walk :: "fs \<Rightarrow> bool \<Rightarrow> nat \<Rightarrow> path \<Rightarrow> string list \<Rightarrow> lib_exn + path" where
  "walk f follow k d [] = Inr d"
| "walk f follow k d (c # cs) =
     (if c = ''..'' then walk f follow k (butlast d) cs
      else
        (case node_at f (d @ [c]) of
           Some (Symlink _ target) \<Rightarrow>
             if cs = [] \<and> \<not> follow then Inr (d @ [c])
             else
               (case k of
                  0 \<Rightarrow> Inl ELOOP
                | Suc k' \<Rightarrow> walk f follow k' (if startswith target ''/'' then [] else d) (components target @ cs))
         | Some (Directory _ _) \<Rightarrow> walk f follow k (d @ [c]) cs
         | Some (Regular _ _ _) \<Rightarrow> if cs = [] then Inr (d @ [c]) else Inl ENOTDIR
         | None \<Rightarrow> if cs = [] then Inr (d @ [c]) else Inl ENOENT))"

definition max_links :: nat where
  "max_links = 40"

definition resolve :: "fs \<Rightarrow> bool \<Rightarrow> path \<Rightarrow> lib_exn + path" where
  "resolve f follow p = walk f follow max_links [] p"

text \<open>\<open>stat\<close> and \<open>lstat\<close>.\<close>

definition stat_at :: "fs \<Rightarrow> bool \<Rightarrow> path \<Rightarrow> lib_exn + (path \<times> node)" where
  "stat_at f follow p =
     (case resolve f follow p of
        Inl e \<Rightarrow> Inl e
      | Inr q \<Rightarrow> (case node_at f q of None \<Rightarrow> Inl ENOENT | Some n \<Rightarrow> Inr (q, n)))"

text \<open>\<open>os.path.realpath\<close>: what does not exist is kept as it is.\<close>

fun real_walk :: "fs \<Rightarrow> nat \<Rightarrow> path \<Rightarrow> string list \<Rightarrow> path" where
  "real_walk f k d [] = d"
| "real_walk f k d (c # cs) =
     (if c = ''..'' then real_walk f k (butlast d) cs
      else
        (case node_at f (d @ [c]) of
           Some (Symlink _ target) \<Rightarrow>
             (case k of
                0 \<Rightarrow> d @ c # cs
              | Suc k' \<Rightarrow> real_walk f k' (if startswith target ''/'' then [] else d) (components target @ cs))
         | _ \<Rightarrow> real_walk f k (d @ [c]) cs))"

definition realpath :: "fs \<Rightarrow> path \<Rightarrow> path" where
  "realpath f p = real_walk f max_links [] p"

subsection \<open>System calls\<close>

type_synonym 'a syscall = "fs \<Rightarrow> lib_exn + ('a \<times> fs)"

definition observe :: "(fs \<Rightarrow> 'a) \<Rightarrow> 'a syscall" where
  "observe g f = Inr (g f, f)"

definition is_symlink :: "path \<Rightarrow> fs \<Rightarrow> bool" where
  "is_symlink p f = (case stat_at f False p of Inr (_, Symlink _ _) \<Rightarrow> True | _ \<Rightarrow> False)"

definition is_dir :: "path \<Rightarrow> fs \<Rightarrow> bool" where
  "is_dir p f = (case stat_at f True p of Inr (_, Directory _ _) \<Rightarrow> True | _ \<Rightarrow> False)"

definition path_exists :: "path \<Rightarrow> fs \<Rightarrow> bool" where
  "path_exists p f = (case stat_at f True p of Inr _ \<Rightarrow> True | Inl _ \<Rightarrow> False)"

text \<open>The place for a new entry: its parent is a directory and it does not exist, not even as a link.\<close>

definition new_entry :: "fs \<Rightarrow> path \<Rightarrow> lib_exn + path" where
  "new_entry f p =
     (case resolve f False p of
        Inl e \<Rightarrow> Inl e
      | Inr q \<Rightarrow> if q = [] \<or> node_at f q \<noteq> None then Inl EEXIST else Inr q)"

definition make_dir :: "int \<Rightarrow> 32 word \<Rightarrow> path \<Rightarrow> unit syscall" where
  "make_dir uid mode p f =
     (case new_entry f p of Inl e \<Rightarrow> Inl e | Inr q \<Rightarrow> Inr ((), AList.update q (Directory uid mode) f))"

definition create_file :: "int \<Rightarrow> 32 word \<Rightarrow> path \<Rightarrow> path syscall" where
  "create_file uid mode p f =
     (case new_entry f p of Inl e \<Rightarrow> Inl e | Inr q \<Rightarrow> Inr (q, AList.update q (Regular uid mode []) f))"

definition make_symlink :: "int \<Rightarrow> string \<Rightarrow> path \<Rightarrow> unit syscall" where
  "make_symlink uid target p f =
     (case new_entry f p of Inl e \<Rightarrow> Inl e | Inr q \<Rightarrow> Inr ((), AList.update q (Symlink uid target) f))"

text \<open>Writes and attribute changes through an open descriptor, which is the path it was opened at.\<close>

definition append_bytes :: "path \<Rightarrow> string \<Rightarrow> unit syscall" where
  "append_bytes q bytes f =
     (case node_at f q of
        Some (Regular u m b) \<Rightarrow> Inr ((), AList.update q (Regular u m (b @ bytes)) f)
      | _ \<Rightarrow> Inr ((), f))"

fun with_owner :: "int \<Rightarrow> node \<Rightarrow> node" where
  "with_owner u (Regular _ m b) = Regular u m b"
| "with_owner u (Directory _ m) = Directory u m"
| "with_owner u (Symlink _ t) = Symlink u t"

fun with_mode :: "32 word \<Rightarrow> node \<Rightarrow> node" where
  "with_mode m (Regular u _ b) = Regular u m b"
| "with_mode m (Directory u _) = Directory u m"
| "with_mode m (Symlink u t) = Symlink u t"

definition alter :: "bool \<Rightarrow> (node \<Rightarrow> node) \<Rightarrow> path \<Rightarrow> unit syscall" where
  "alter follow g p f =
     (case stat_at f follow p of Inl e \<Rightarrow> Inl e | Inr (q, n) \<Rightarrow> Inr ((), AList.update q (g n) f))"

text \<open>\<open>rename\<close> of something that is not a directory: the destination is replaced in one step.\<close>

definition replace_entry :: "path \<Rightarrow> path \<Rightarrow> unit syscall" where
  "replace_entry src dst f =
     (case stat_at f False src of
        Inl e \<Rightarrow> Inl e
      | Inr (q, n) \<Rightarrow>
          (case resolve f False dst of
             Inl e \<Rightarrow> Inl e
           | Inr r \<Rightarrow>
               if r = q then Inr ((), f)
               else if is_directory (node_at f r) then Inl EISDIR
               else Inr ((), AList.update r n (AList.delete q f))))"

definition unlink_entry :: "path \<Rightarrow> unit syscall" where
  "unlink_entry p f =
     (case stat_at f False p of
        Inl e \<Rightarrow> Inl e
      | Inr (q, Directory _ _) \<Rightarrow> Inl EISDIR
      | Inr (q, _) \<Rightarrow> Inr ((), AList.delete q f))"

definition remove_dir :: "path \<Rightarrow> unit syscall" where
  "remove_dir p f =
     (case stat_at f False p of
        Inl e \<Rightarrow> Inl e
      | Inr (q, Directory _ _) \<Rightarrow>
          if list_ex (\<lambda>(r, _). r \<noteq> [] \<and> butlast r = q) f then Inl ENOTEMPTY else Inr ((), AList.delete q f)
      | Inr (q, _) \<Rightarrow> Inl ENOTDIR)"

text \<open>\<open>os.open\<close> for reading with \<open>O_NOFOLLOW\<close>: the node that is opened.\<close>

definition open_nofollow :: "path \<Rightarrow> node syscall" where
  "open_nofollow p f =
     (case stat_at f False p of
        Inl e \<Rightarrow> Inl e
      | Inr (_, Symlink _ _) \<Rightarrow> Inl ELOOP
      | Inr (_, n) \<Rightarrow> Inr (n, f))"

subsection \<open>Programs on files\<close>

record 'w mount =
  disk :: "'w \<Rightarrow> fs"
  set_disk :: "fs \<Rightarrow> 'w \<Rightarrow> 'w"
  io_fault :: "'w \<Rightarrow> lib_exn option \<times> 'w"
  token_bytes :: "nat \<Rightarrow> 'w \<Rightarrow> string \<times> 'w"
  chunk :: "'w \<Rightarrow> nat \<times> 'w"
  euid :: int
  umask :: "32 word"

definition sys :: "'w mount \<Rightarrow> 'a syscall \<Rightarrow> ('w, exn, 'a) prog" where
  "sys K call =
     (\<lambda>w. case io_fault K w of
        (Some e, w') \<Rightarrow> (Inl (Lib e), w')
      | (None, w') \<Rightarrow>
          (case call (disk K w') of
             Inl e \<Rightarrow> (Inl (Lib e), w')
           | Inr (a, f) \<Rightarrow> (Inr a, set_disk K f w')))"

text \<open>\<open>secrets.token_hex(n)\<close>, and the bytes a \<open>write\<close> takes beyond the first.\<close>

definition token_hex :: "'w mount \<Rightarrow> nat \<Rightarrow> ('w, exn, string) prog" where
  "token_hex K n = (\<lambda>w. case token_bytes K n w of (t, w') \<Rightarrow> (Inr t, w'))"

definition write_count :: "'w mount \<Rightarrow> ('w, exn, nat) prog" where
  "write_count K = (\<lambda>w. case chunk K w of (n, w') \<Rightarrow> (Inr n, w'))"

definition created_mode :: "'w mount \<Rightarrow> 32 word \<Rightarrow> 32 word" where
  "created_mode K mode = mode AND NOT (umask K)"

lemma created_mode_code [code]: "created_mode K mode = mode XOR (mode AND umask K)"
  by (simp add: created_mode_def bit_eq_iff bit_simps) blast

text \<open>\<open>while offset < len(content): offset += os.write(fd, content[offset:])\<close>.\<close>

function write_all :: "'w mount \<Rightarrow> path \<Rightarrow> string \<Rightarrow> ('w, exn, unit) prog" where
  "write_all K q content =
     (if content = [] then return ()
      else
        bind (write_count K) (\<lambda>n.
        seq (sys K (append_bytes q (take (Suc n) content))) (write_all K q (drop (Suc n) content))))"
  by pat_completeness auto
termination by (relation "measure (\<lambda>(K, q, content). length content)") auto

declare write_all.simps [simp del]

text \<open>The disk is a part of the outside that only these calls change.\<close>

definition mount_law :: "'w mount \<Rightarrow> bool" where
  "mount_law K \<longleftrightarrow>
     (\<forall>f w. disk K (set_disk K f w) = f) \<and> (\<forall>w. disk K (snd (io_fault K w)) = disk K w) \<and>
     (\<forall>n w. disk K (snd (token_bytes K n w)) = disk K w) \<and> (\<forall>w. disk K (snd (chunk K w)) = disk K w)"

subsection \<open>Reasoning about programs on files\<close>

lemma wp_sys:
  assumes "mount_law K"
    and "\<And>a f w'. call (disk K w) = Inr (a, f) \<Longrightarrow> disk K w' = f \<Longrightarrow> Q a w'"
    and "\<And>e w'. disk K w' = disk K w \<Longrightarrow> E e w'"
  shows "wp (sys K call) Q E w"
proof -
  obtain x w1 where x: "io_fault K w = (x, w1)" by fastforce
  then have "disk K w1 = disk K w" using assms(1) by (metis mount_law_def snd_conv)
  then show ?thesis
    using x assms by (auto simp: wp_def sys_def mount_law_def split: option.splits sum.splits)
qed

lemma wp_observe:
  assumes "mount_law K" and "\<And>w'. disk K w' = disk K w \<Longrightarrow> Q (g (disk K w)) w'" and "\<And>e w'. disk K w' = disk K w \<Longrightarrow> E e w'"
  shows "wp (sys K (observe g)) Q E w"
  by (rule wp_sys[OF assms(1)]) (use assms(2,3) in \<open>auto simp: observe_def\<close>)

lemma wp_token_hex: "mount_law K \<Longrightarrow> (\<And>t w'. disk K w' = disk K w \<Longrightarrow> Q t w') \<Longrightarrow> wp (token_hex K n) Q E w"
  by (auto simp: wp_def token_hex_def mount_law_def split: prod.splits) (metis snd_conv)

lemma wp_write_count: "mount_law K \<Longrightarrow> (\<And>t w'. disk K w' = disk K w \<Longrightarrow> Q t w') \<Longrightarrow> wp (write_count K) Q E w"
  by (auto simp: wp_def write_count_def mount_law_def split: prod.splits) (metis snd_conv)

text \<open>A disk whose calls fail only for what they find in the tree.\<close>

definition reliable :: "'w mount \<Rightarrow> bool" where
  "reliable K \<longleftrightarrow> (\<forall>w. fst (io_fault K w) = None)"

lemma wp_sys_quiet:
  assumes "mount_law K" and "reliable K"
    and "case call (disk K w) of Inl e \<Rightarrow> \<forall>w'. disk K w' = disk K w \<longrightarrow> E (Lib e) w'
       | Inr (a, f) \<Rightarrow> \<forall>w'. disk K w' = f \<longrightarrow> Q a w'"
  shows "wp (sys K call) Q E w"
proof -
  obtain w1 where w1: "io_fault K w = (None, w1)" "disk K w1 = disk K w"
    using assms(1,2) by (metis mount_law_def prod.collapse reliable_def)
  then show ?thesis using assms by (auto simp: wp_def sys_def mount_law_def split: sum.splits)
qed

lemma wp_sys_reliable:
  "mount_law K \<Longrightarrow> reliable K \<Longrightarrow> call (disk K w) = Inr (a, f) \<Longrightarrow> (\<And>w'. disk K w' = f \<Longrightarrow> Q a w') \<Longrightarrow>
     wp (sys K call) Q E w"
  by (rule wp_sys_quiet) simp_all

lemma quiet_observe:
  "mount_law K \<Longrightarrow> reliable K \<Longrightarrow> (\<And>w'. disk K w' = disk K w \<Longrightarrow> Q (g (disk K w)) w') \<Longrightarrow> wp (sys K (observe g)) Q E w"
  by (rule wp_sys_quiet) (simp_all add: observe_def)

subsection \<open>Directories without links\<close>

text \<open>\<open>plain f d\<close>: every component of \<open>d\<close> is a directory, and none is \<open>..\<close>.\<close>

definition plain :: "fs \<Rightarrow> path \<Rightarrow> bool" where
  "plain f d \<longleftrightarrow> (\<forall>p c. prefix (p @ [c]) d \<longrightarrow> c \<noteq> ''..'' \<and> is_directory (node_at f (p @ [c])))"

lemma plain_Nil [simp]: "plain f []"
  by (simp add: plain_def)

lemma plain_snoc: "plain f (d @ [c]) \<longleftrightarrow> plain f d \<and> c \<noteq> ''..'' \<and> is_directory (node_at f (d @ [c]))"
  by (auto simp: plain_def)

lemma plain_prefix: "plain f d \<Longrightarrow> prefix p d \<Longrightarrow> plain f p"
  unfolding plain_def by (blast intro: prefix_order.order_trans)

lemma is_directoryE: "is_directory n \<Longrightarrow> (\<And>u m. n = Some (Directory u m) \<Longrightarrow> thesis) \<Longrightarrow> thesis"
  by (cases n rule: is_directory.cases) simp_all

lemma walk_plain: "plain f d \<Longrightarrow> walk f fl k [] (d @ cs) = walk f fl k d cs"
proof (induction d arbitrary: cs rule: rev_induct)
  case (snoc c d)
  then have "walk f fl k [] (d @ c # cs) = walk f fl k d (c # cs)" by (simp add: plain_snoc)
  moreover obtain u m where "node_at f (d @ [c]) = Some (Directory u m)"
    using snoc.prems by (auto simp: plain_snoc elim: is_directoryE)
  ultimately show ?case using snoc.prems by (simp add: plain_snoc)
qed simp

lemma real_walk_plain: "plain f d \<Longrightarrow> real_walk f k [] (d @ cs) = real_walk f k d cs"
proof (induction d arbitrary: cs rule: rev_induct)
  case (snoc c d)
  then have "real_walk f k [] (d @ c # cs) = real_walk f k d (c # cs)" by (simp add: plain_snoc)
  moreover obtain u m where "node_at f (d @ [c]) = Some (Directory u m)"
    using snoc.prems by (auto simp: plain_snoc elim: is_directoryE)
  ultimately show ?case using snoc.prems by (simp add: plain_snoc)
qed simp

lemma resolve_plain: "plain f d \<Longrightarrow> resolve f fl d = Inr d"
  using walk_plain[of f d fl max_links "[]"] by (simp add: resolve_def)

lemma plain_node: "plain f d \<Longrightarrow> is_directory (node_at f d)"
  by (cases d rule: rev_cases) (simp_all add: plain_snoc node_at_def)

text \<open>An entry of such a directory is found where it says.\<close>

fun is_link :: "node option \<Rightarrow> bool" where
  "is_link (Some (Symlink _ _)) = True"
| "is_link _ = False"

lemma resolve_entry:
  assumes "plain f d" and "c \<noteq> ''..''" and "fl \<longrightarrow> \<not> is_link (node_at f (d @ [c]))"
  shows "resolve f fl (d @ [c]) = Inr (d @ [c])"
  using assms by (auto simp: resolve_def walk_plain split: option.splits node.splits)

lemma stat_entry:
  assumes "plain f d" and "c \<noteq> ''..''" and "fl \<longrightarrow> \<not> is_link (node_at f (d @ [c]))"
  shows "stat_at f fl (d @ [c]) =
     (case node_at f (d @ [c]) of None \<Rightarrow> Inl ENOENT | Some n \<Rightarrow> Inr (d @ [c], n))"
  using assms by (simp add: stat_at_def resolve_entry)

lemma new_entry_plain:
  "plain f d \<Longrightarrow> c \<noteq> ''..'' \<Longrightarrow>
     new_entry f (d @ [c]) = (if node_at f (d @ [c]) \<noteq> None then Inl EEXIST else Inr (d @ [c]))"
  by (simp add: new_entry_def resolve_entry)

lemma node_at_update: "p \<noteq> [] \<Longrightarrow> node_at (AList.update p n f) q = (if q = p then Some n else node_at f q)"
  by (simp add: node_at_def update_conv')

lemma node_at_delete: "p \<noteq> [] \<Longrightarrow> node_at (AList.delete p f) q = (if q = p then None else node_at f q)"
  by (simp add: node_at_def delete_conv')

lemma plain_update:
  "plain f d \<Longrightarrow> p \<noteq> [] \<Longrightarrow> (prefix p d \<longrightarrow> is_directory (Some n)) \<Longrightarrow> plain (AList.update p n f) d"
  by (auto simp: plain_def node_at_update)

lemma plain_delete: "plain f d \<Longrightarrow> p \<noteq> [] \<Longrightarrow> \<not> prefix p d \<Longrightarrow> plain (AList.delete p f) d"
  unfolding plain_def by (metis node_at_delete)

text \<open>The trees agree outside the entry.\<close>

definition same_but :: "path \<Rightarrow> fs \<Rightarrow> fs \<Rightarrow> bool" where
  "same_but q f f' \<longleftrightarrow> (\<forall>p. p \<noteq> q \<longrightarrow> node_at f' p = node_at f p)"

lemma plain_same_but: "plain f d \<Longrightarrow> same_but p f f' \<Longrightarrow> \<not> prefix p d \<Longrightarrow> plain f' d"
  unfolding plain_def same_but_def by metis

lemma same_but_refl: "same_but q f f"
  by (simp add: same_but_def)

lemma wp_write_all:
  assumes K: "mount_law K" and "q \<noteq> []"
  shows "node_at (disk K w) q = Some (Regular u m b) \<Longrightarrow> same_but q f0 (disk K w) \<Longrightarrow>
    wp (write_all K q content)
      (\<lambda>_ w'. node_at (disk K w') q = Some (Regular u m (b @ content)) \<and> same_but q f0 (disk K w'))
      (\<lambda>_ w'. same_but q f0 (disk K w')) w"
proof (induction content arbitrary: w b rule: length_induct)
  case (1 content)
  show ?case
  proof (cases "content = []")
    case True
    then show ?thesis using "1.prems" by (simp add: write_all.simps wp_simps)
  next
    case False
    have step: "wp (sys K (append_bytes q (take (Suc n) content)))
        (\<lambda>_. wp (write_all K q (drop (Suc n) content))
           (\<lambda>_ w'. node_at (disk K w') q = Some (Regular u m (b @ content)) \<and> same_but q f0 (disk K w'))
           (\<lambda>_ w'. same_but q f0 (disk K w'))) (\<lambda>_ w'. same_but q f0 (disk K w')) w1"
      if "disk K w1 = disk K w" for n w1
    proof (rule wp_sys[OF K])
      fix a f w2
      assume "append_bytes q (take (Suc n) content) (disk K w1) = Inr (a, f)" "disk K w2 = f"
      then have "node_at (disk K w2) q = Some (Regular u m (b @ take (Suc n) content))" "same_but q f0 (disk K w2)"
        using "1.prems" that assms(2) by (auto simp: append_bytes_def node_at_update same_but_def)
      from "1.IH"[rule_format, of "drop (Suc n) content", OF _ this] False
      show "wp (write_all K q (drop (Suc n) content))
           (\<lambda>_ w'. node_at (disk K w') q = Some (Regular u m (b @ content)) \<and> same_but q f0 (disk K w'))
           (\<lambda>_ w'. same_but q f0 (disk K w')) w2"
        by simp
    qed (use "1.prems" that in simp)
    show ?thesis
      using False by (simp add: write_all.simps[of K q content] wp_bind wp_seq wp_write_count[OF K] step)
  qed
qed

end
