(* ===== verification/Ipaddress.thy ===== *)
theory Ipaddress
  imports PyString "HOL-Library.Word"
begin

unbundle bit_operations_syntax

section \<open>Addresses\<close>

text \<open>
  What the source uses of Python's \<open>ipaddress\<close>: parsing of a textual IPv4 or IPv6 address
  and \<open>is_global\<close>, with the special-purpose registries of the Python 3.11 and 3.12 security
  releases (3.11.10, 3.12.4 and later). An address is the word of its bits.
\<close>

datatype ip_address = V4 "32 word" | V6 "128 word"

definition all_digits :: "string \<Rightarrow> bool" where
  "all_digits s \<longleftrightarrow> s \<noteq> [] \<and> list_all is_digit s"

definition decimal_value :: "string \<Rightarrow> int" where
  "decimal_value s = foldl (\<lambda>n c. 10 * n + int (of_char c - 48)) 0 s"

definition octet :: "string \<Rightarrow> int option" where
  "octet s =
     (if all_digits s \<and> length s \<le> 3 \<and> (s = ''0'' \<or> hd s \<noteq> CHR ''0'') \<and> decimal_value s \<le> 255
      then Some (decimal_value s) else None)"

definition parse_v4 :: "string \<Rightarrow> 32 word option" where
  "parse_v4 s =
     (let parts = split_on (CHR ''.'') s
      in if length parts \<noteq> 4 then None
         else map_option (foldl (\<lambda>ip n. push_bit 8 ip OR of_int n) 0) (those (map octet parts)))"

definition hex_digit :: "char \<Rightarrow> int option" where
  "hex_digit c =
     (if is_digit c then Some (int (of_char c - 48))
      else if is_lower_hex (lower_char c) then Some (int (of_char (lower_char c) - 87))
      else None)"

definition hextet :: "string \<Rightarrow> int option" where
  "hextet s =
     (if s = [] \<or> 4 < length s then None
      else map_option (foldl (\<lambda>n d. 16 * n + d) 0) (those (map hex_digit s)))"

definition pack :: "int list \<Rightarrow> 128 word" where
  "pack = foldl (\<lambda>ip n. push_bit 16 ip OR of_int n) 0"

text \<open>The indices of the empty groups that are neither the first nor the last.\<close>

definition inner_gaps :: "string list \<Rightarrow> nat list" where
  "inner_gaps parts = filter (\<lambda>i. parts ! i = []) [1..<length parts - 1]"

definition groups :: "string list \<Rightarrow> int list option" where
  "groups parts =
     (case inner_gaps parts of
        [] \<Rightarrow> if length parts = 8 then those (map hextet parts) else None
      | [gap] \<Rightarrow>
          (let hi = (if parts ! 0 = [] then gap - 1 else gap);
               lo = (let n = length parts - gap - 1 in if last parts = [] then n - 1 else n)
           in if (parts ! 0 = [] \<and> hi \<noteq> 0) \<or> (last parts = [] \<and> lo \<noteq> 0) \<or> 7 < hi + lo then None
              else
                (case (those (map hextet (take hi parts)),
                       those (map hextet (drop (length parts - lo) parts))) of
                   (Some hs, Some ls) \<Rightarrow> Some (hs @ replicate (8 - (hi + lo)) 0 @ ls)
                 | _ \<Rightarrow> None))
      | _ \<Rightarrow> None)"

text \<open>A dotted quad in the last group stands for two groups.\<close>

definition expand_quad :: "string list \<Rightarrow> string list option" where
  "expand_quad parts =
     (if List.member (last parts) (CHR ''.'') then
        (case parse_v4 (last parts) of
           None \<Rightarrow> None
         | Some ip \<Rightarrow>
             let hex = (\<lambda>n. map (\<lambda>k. ''0123456789abcdef'' ! nat (n div 16 ^ k mod 16)) [3, 2, 1, 0 :: nat])
             in Some (butlast parts @ [hex (uint (drop_bit 16 ip)), hex (uint (ip AND 0xFFFF))]))
      else Some parts)"

definition parse_v6 :: "string \<Rightarrow> 128 word option" where
  "parse_v6 s =
     (let parts = split_on (CHR '':'') s
      in if s = [] \<or> length parts < 3 then None
         else
           (case expand_quad parts of
              None \<Rightarrow> None
            | Some ps \<Rightarrow> if 9 < length ps then None else map_option pack (groups ps)))"

text \<open>An IPv6 scope id follows a single percent sign.\<close>

definition strip_scope :: "string \<Rightarrow> string option" where
  "strip_scope s =
     (case split_on (CHR ''%'') s of
        [a] \<Rightarrow> Some a
      | [a, scope] \<Rightarrow> if scope = [] then None else Some a
      | _ \<Rightarrow> None)"

definition ip_address :: "string \<Rightarrow> ip_address option" where
  "ip_address s =
     (if List.member s (CHR ''/'') then None
      else
        (case parse_v4 s of
           Some ip \<Rightarrow> Some (V4 ip)
         | None \<Rightarrow> (case strip_scope s of None \<Rightarrow> None | Some a \<Rightarrow> map_option V6 (parse_v6 a))))"

subsection \<open>Globally reachable addresses\<close>

definition in_net :: "'n::len word \<Rightarrow> nat \<Rightarrow> 'n word \<Rightarrow> bool" where
  "in_net net bits ip \<longleftrightarrow>
     drop_bit (LENGTH('n) - bits) ip = drop_bit (LENGTH('n) - bits) net"

definition v4 :: "int \<Rightarrow> int \<Rightarrow> int \<Rightarrow> int \<Rightarrow> 32 word" where
  "v4 a b c d = of_int (((a * 256 + b) * 256 + c) * 256 + d)"

definition private_v4 :: "(32 word \<times> nat) list" where
  "private_v4 =
     [(v4 0 0 0 0, 8), (v4 10 0 0 0, 8), (v4 127 0 0 0, 8), (v4 169 254 0 0, 16),
      (v4 172 16 0 0, 12), (v4 192 0 0 0, 24), (v4 192 0 0 170, 31), (v4 192 0 2 0, 24),
      (v4 192 168 0 0, 16), (v4 198 18 0 0, 15), (v4 198 51 100 0, 24), (v4 203 0 113 0, 24),
      (v4 240 0 0 0, 4), (v4 255 255 255 255, 32)]"

definition exceptions_v4 :: "(32 word \<times> nat) list" where
  "exceptions_v4 = [(v4 192 0 0 9, 32), (v4 192 0 0 10, 32)]"

definition in_any :: "('n::len word \<times> nat) list \<Rightarrow> 'n word \<Rightarrow> bool" where
  "in_any nets ip \<longleftrightarrow> list_ex (\<lambda>(net, bits). in_net net bits ip) nets"

definition is_private_v4 :: "32 word \<Rightarrow> bool" where
  "is_private_v4 ip \<longleftrightarrow> in_any private_v4 ip \<and> \<not> in_any exceptions_v4 ip"

definition private_v6 :: "(128 word \<times> nat) list" where
  "private_v6 =
     [(pack [0,0,0,0,0,0,0,1], 128), (0, 128), (pack [0,0,0,0,0,0xffff,0,0], 96),
      (pack [0x64,0xff9b,1,0,0,0,0,0], 48), (pack [0x100,0,0,0,0,0,0,0], 64),
      (pack [0x2001,0,0,0,0,0,0,0], 23), (pack [0x2001,0xdb8,0,0,0,0,0,0], 32),
      (pack [0x2002,0,0,0,0,0,0,0], 16), (pack [0xfc00,0,0,0,0,0,0,0], 7),
      (pack [0xfe80,0,0,0,0,0,0,0], 10)]"

definition exceptions_v6 :: "(128 word \<times> nat) list" where
  "exceptions_v6 =
     [(pack [0x2001,1,0,0,0,0,0,1], 128), (pack [0x2001,1,0,0,0,0,0,2], 128),
      (pack [0x2001,3,0,0,0,0,0,0], 32), (pack [0x2001,4,0x112,0,0,0,0,0], 48),
      (pack [0x2001,0x20,0,0,0,0,0,0], 28), (pack [0x2001,0x30,0,0,0,0,0,0], 28)]"

definition is_private_v6 :: "128 word \<Rightarrow> bool" where
  "is_private_v6 ip \<longleftrightarrow>
     (if drop_bit 32 ip = 0xffff then is_private_v4 (ucast ip)
      else in_any private_v6 ip \<and> \<not> in_any exceptions_v6 ip)"

fun is_global :: "ip_address \<Rightarrow> bool" where
  "is_global (V4 ip) = (\<not> in_net (v4 100 64 0 0) 10 ip \<and> \<not> is_private_v4 ip)"
| "is_global (V6 ip) = (\<not> is_private_v6 ip)"

end
