(* ===== verification/Config.thy ===== *)
theory Config
  imports Models Ipaddress
begin

section \<open>Configuration\<close>

text \<open>
  \<open>config.py\<close>: the configuration classes as records with the class's own constraints. The
  YAML parser and pydantic's typing are outside the repository: a value of a record type is a
  document whose fields already have their declared types. What the source adds is here: the
  declared ranges and patterns, the field validators that normalise domain names, and the
  model validators with the errors they raise. \<open>idna\<close> is the third-party encoder
  (\<open>None\<close> for an \<open>IDNAError\<close>).
\<close>

abbreviation value_error :: "string \<Rightarrow> exn + 'a" where
  "value_error t \<equiv> Inl (Lib (ValueError t))"

definition ensure :: "bool \<Rightarrow> string \<Rightarrow> exn + unit" where
  "ensure b t = (if b then Inr () else value_error t)"

text \<open>The first error of a list of checks.\<close>

fun all_of :: "(exn + unit) list \<Rightarrow> exn + unit" where
  "all_of [] = Inr ()"
| "all_of (Inl e # cs) = Inl e"
| "all_of (Inr _ # cs) = all_of cs"

definition then_return :: "exn + unit \<Rightarrow> 'a \<Rightarrow> exn + 'a" where
  "then_return c a = map_sum id (\<lambda>_. a) c"

fun map_result :: "('a \<Rightarrow> exn + 'b) \<Rightarrow> 'a list \<Rightarrow> exn + 'b list" where
  "map_result f [] = Inr []"
| "map_result f (x # xs) =
     (case f x of Inl e \<Rightarrow> Inl e
      | Inr y \<Rightarrow> (case map_result f xs of Inl e \<Rightarrow> Inl e | Inr ys \<Rightarrow> Inr (y # ys)))"

lemma all_of_Inr: "all_of cs = Inr () \<longleftrightarrow> (\<forall>c\<in>set cs. c = Inr ())"
  by (induction cs rule: all_of.induct) auto

lemma then_return_Inr: "then_return c a = Inr b \<longleftrightarrow> c = Inr () \<and> b = a"
  by (cases c) (auto simp: then_return_def)

lemma ensure_Inr [simp]: "ensure b t = Inr u \<longleftrightarrow> b"
  by (simp add: ensure_def)

lemma map_result_Inr:
  "map_result f xs = Inr ys \<longleftrightarrow> list_all2 (\<lambda>x y. f x = Inr y) xs ys"
proof (induction xs arbitrary: ys)
  case (Cons x xs)
  show ?case
    by (cases "f x") (auto simp: list_all2_Cons1 Cons.IH[symmetric] split: sum.splits)
qed auto

subsection \<open>Domain names\<close>

definition label_error :: "string \<Rightarrow> string option" where
  "label_error label =
     (if \<not> (1 \<le> length label \<and> length label \<le> 63)
      then Some ''contains a label outside DNS length limits''
      else if startswith label ''-'' \<or> endswith label ''-''
      then Some ''contains a label beginning or ending with a hyphen''
      else None)"

definition first_label_error :: "string \<Rightarrow> string option" where
  "first_label_error name =
     (case filter (\<lambda>l. label_error l \<noteq> None) (split_on (CHR ''.'') name) of
        [] \<Rightarrow> None
      | l # _ \<Rightarrow> label_error l)"

definition normalize_domain :: "(string \<Rightarrow> string option) \<Rightarrow> string \<Rightarrow> exn + string" where
  "normalize_domain idna value =
     (let candidate = lower (rstrip_char (CHR ''.'') (strip value))
      in if candidate = [] \<or> List.member candidate (CHR ''_'') \<or> List.member candidate (CHR ''*'')
         then value_error ''must be a non-empty non-wildcard FQDN without underscores''
         else if ip_address candidate \<noteq> None then value_error ''must not be an IP address''
         else
           (case idna candidate of
              None \<Rightarrow> value_error ''is not a valid IDNA domain''
            | Some normalized \<Rightarrow>
                if 253 < length normalized then value_error ''exceeds DNS maximum length''
                else
                  (case first_label_error normalized of
                     Some t \<Rightarrow> value_error t
                   | None \<Rightarrow> Inr normalized)))"

definition absolute_path :: "string \<Rightarrow> bool" where
  "absolute_path value \<longleftrightarrow> startswith value ''/''"

text \<open>\<open>^[a-z][a-z0-9-]{0,62}$\<close> and \<open>^[0-9a-f]{64}$\<close>.\<close>

definition is_slug :: "string \<Rightarrow> bool" where
  "is_slug s \<longleftrightarrow>
     (case s of
        [] \<Rightarrow> False
      | c # cs \<Rightarrow> is_lower_letter c \<and> length cs \<le> 62 \<and>
          list_all (\<lambda>x. is_lower_letter x \<or> is_digit x \<or> x = CHR ''-'') cs)"

definition is_sha256_hex :: "string \<Rightarrow> bool" where
  "is_sha256_hex s \<longleftrightarrow> length s = 64 \<and> list_all is_lower_hex s"

definition between :: "int \<Rightarrow> int \<Rightarrow> int \<Rightarrow> bool" where
  "between lo hi n \<longleftrightarrow> lo \<le> n \<and> n \<le> hi"

subsection \<open>Service settings\<close>

record global_config =
  environment_of :: environment
  state_dir :: string
  log_level :: string
  json_logging :: bool
  max_parallel_certificates :: int
  clock_skew_tolerance_seconds :: int

definition global_checks :: "global_config \<Rightarrow> exn + unit" where
  "global_checks c =
     all_of
       [ensure (absolute_path (state_dir c)) ''must be an absolute path'',
        ensure (List.member [''DEBUG'', ''INFO'', ''WARNING'', ''ERROR''] (log_level c)) ''log_level'',
        ensure (between 1 16 (max_parallel_certificates c)) ''max_parallel_certificates'',
        ensure (between 0 3600 (clock_skew_tolerance_seconds c)) ''clock_skew_tolerance_seconds'']"

record compatibility_config =
  live_verified :: bool
  live_evidence_paths :: "string list"
  enforce_documented_subject_country :: bool
  require_complete_chain_to_root :: bool
  reject_mixed_algorithm_chain :: bool

definition compatibility_checks :: "compatibility_config \<Rightarrow> exn + unit" where
  "compatibility_checks c =
     all_of
       [ensure (list_all absolute_path (live_evidence_paths c)) ''must be an absolute path'',
        ensure (\<not> (\<not> live_verified c \<and> live_evidence_paths c \<noteq> []))
          ''live_evidence_paths require live_verified'',
        ensure (distinct (live_evidence_paths c)) ''live_evidence_paths must be unique'']"

record acme_config =
  email :: string
  agree_to_terms :: bool
  directory_url :: string
  account_key_path :: string
  certificates_dir :: string
  acme_timeout_seconds :: int
  renew_before_days :: int
  rotate_private_key_on_renewal :: bool
  preferred_profile :: "string option"

definition acme_checks :: "acme_config \<Rightarrow> exn + unit" where
  "acme_checks c =
     all_of
       [ensure (absolute_path (account_key_path c)) ''must be an absolute path'',
        ensure (absolute_path (certificates_dir c)) ''must be an absolute path'',
        ensure (between 30 7200 (acme_timeout_seconds c)) ''operation_timeout_seconds'',
        ensure (between 1 90 (renew_before_days c)) ''renew_before_days'',
        ensure (List.member [None, Some ''shortlived''] (preferred_profile c)) ''preferred_profile'',
        ensure (email c \<noteq> [] \<and> List.member (email c) (CHR ''@'') \<and> \<not> list_ex is_space (email c))
          ''must be a valid non-empty email address'',
        ensure (startswith (directory_url c) ''https://'') ''must use HTTPS'']"

record responder_config =
  bind_address :: string
  bind_port :: int
  health_path :: string
  readiness_path :: string
  max_request_body_bytes :: int
  max_challenge_file_bytes :: int
  max_concurrent_requests :: int
  request_timeout_seconds :: int
  keepalive_timeout_seconds :: int
  backlog :: int

definition responder_checks :: "responder_config \<Rightarrow> exn + unit" where
  "responder_checks c =
     all_of
       [ensure (between 1 65535 (bind_port c)) ''bind_port'',
        ensure (health_path c = ''/healthz'') ''health_path'',
        ensure (readiness_path c = ''/readyz'') ''readiness_path'',
        ensure (between 0 1024 (max_request_body_bytes c)) ''max_request_body_bytes'',
        ensure (between 1 4096 (max_challenge_file_bytes c)) ''max_challenge_file_bytes'',
        ensure (between 1 1024 (max_concurrent_requests c)) ''max_concurrent_requests'',
        ensure (between 1 60 (request_timeout_seconds c)) ''request_timeout_seconds'',
        ensure (between 1 60 (keepalive_timeout_seconds c)) ''keepalive_timeout_seconds'',
        ensure (between 1 1024 (backlog c)) ''backlog'']"

record self_check_config =
  self_check_enabled :: bool
  require_all_domains :: bool
  self_require_all_addresses :: bool
  allow_redirects :: bool
  self_reject_non_global :: bool
  connect_timeout_seconds :: int
  response_timeout_seconds :: int
  total_timeout_seconds :: int

definition self_check_checks :: "self_check_config \<Rightarrow> exn + unit" where
  "self_check_checks c =
     all_of
       [ensure (between 1 60 (connect_timeout_seconds c)) ''connect_timeout_seconds'',
        ensure (between 1 60 (response_timeout_seconds c)) ''response_timeout_seconds'',
        ensure (between 1 600 (total_timeout_seconds c)) ''total_timeout_seconds'']"

record http01_config =
  webroot_base :: string
  responder :: responder_config
  self_check :: self_check_config

definition http01_checks :: "http01_config \<Rightarrow> exn + unit" where
  "http01_checks c =
     all_of
       [ensure (absolute_path (webroot_base c)) ''must be an absolute path'',
        responder_checks (responder c), self_check_checks (self_check c)]"

record oci_config =
  authentication :: string
  oci_connect_timeout_seconds :: int
  oci_read_timeout_seconds :: int
  max_read_attempts :: int
  mutation_reconciliation_attempts :: int
  oci_operation_timeout_seconds :: int
  use_etag :: bool

definition oci_checks :: "oci_config \<Rightarrow> exn + unit" where
  "oci_checks c =
     all_of
       [ensure (authentication c = ''instance_principal'') ''authentication'',
        ensure (between 1 60 (oci_connect_timeout_seconds c)) ''connect_timeout_seconds'',
        ensure (between 1 300 (oci_read_timeout_seconds c)) ''read_timeout_seconds'',
        ensure (between 1 30 (max_read_attempts c)) ''max_read_attempts'',
        ensure (between 1 10 (mutation_reconciliation_attempts c)) ''mutation_reconciliation_attempts'',
        ensure (between 30 3600 (oci_operation_timeout_seconds c)) ''operation_timeout_seconds'',
        ensure (use_etag c) ''use_etag'']"

record notifications_config =
  notifications_enabled :: bool
  provider :: string
  credential_ref :: "string option"
  allowed_hosts :: "string list"
  minimum_repeat_interval_minutes :: int
  notify_connect_timeout_seconds :: int
  notify_total_timeout_seconds :: int

definition notifications_checks :: "notifications_config \<Rightarrow> exn + unit" where
  "notifications_checks c =
     all_of
       [ensure (List.member [''slack'', ''webhook''] (provider c)) ''provider'',
        ensure (between 1 1440 (minimum_repeat_interval_minutes c)) ''minimum_repeat_interval_minutes'',
        ensure (between 1 60 (notify_connect_timeout_seconds c)) ''connect_timeout_seconds'',
        ensure (between 1 120 (notify_total_timeout_seconds c)) ''total_timeout_seconds'',
        (if \<not> notifications_enabled c then Inr ()
         else
           all_of
             [ensure (case credential_ref c of None \<Rightarrow> False
                      | Some r \<Rightarrow> startswith r ''systemd-credential:'')
                ''enabled notifications require a systemd credential reference'',
              ensure (allowed_hosts c \<noteq> []) ''enabled notifications require an HTTPS host allowlist''])]"

record monitoring_config =
  warning_days :: int
  critical_days :: int
  textfile_enabled :: bool
  textfile_path :: string

definition monitoring_checks :: "monitoring_config \<Rightarrow> exn + unit" where
  "monitoring_checks c =
     all_of
       [ensure (between 1 3650 (warning_days c)) ''warning_days'',
        ensure (between 0 3650 (critical_days c)) ''critical_days'',
        ensure (absolute_path (textfile_path c)) ''must be an absolute path'',
        ensure (\<not> warning_days c < critical_days c) ''critical_days must not exceed warning_days'']"

subsection \<open>One certificate set\<close>

record key_config =
  key_family :: key_type
  rsa_size :: "int option"
  ecdsa_curve :: "string option"

definition key_checks :: "key_config \<Rightarrow> exn + unit" where
  "key_checks c =
     all_of
       [ensure (List.member [None, Some 2048, Some 4096] (rsa_size c)) ''rsa_size'',
        ensure (List.member [None, Some ''secp256r1'', Some ''secp384r1''] (ecdsa_curve c)) ''ecdsa_curve'',
        ensure (\<not> (key_family c = RSA \<and> rsa_size c = None)) ''rsa_size is required for RSA'',
        ensure (\<not> (key_family c = RSA \<and> ecdsa_curve c \<noteq> None)) ''ecdsa_curve is forbidden for RSA'',
        ensure (\<not> (key_family c = ECDSA \<and> ecdsa_curve c = None)) ''ecdsa_curve is required for ECDSA'',
        ensure (\<not> (key_family c = ECDSA \<and> rsa_size c \<noteq> None)) ''rsa_size is forbidden for ECDSA'']"

record chain_config =
  root_pem_path :: string
  allowed_root_sha256 :: "string list"
  allowed_issuer_common_names :: "string list"

definition chain_checks :: "chain_config \<Rightarrow> exn + unit" where
  "chain_checks c =
     all_of
       [ensure (absolute_path (root_pem_path c)) ''must be an absolute path'',
        ensure (allowed_root_sha256 c \<noteq> [] \<and> list_all is_sha256_hex (allowed_root_sha256 c))
          ''must contain lowercase SHA-256 fingerprints'']"

record certificate_oci_config =
  region :: string
  compartment_ocid :: string
  certificate_ocid :: "string option"
  certificate_name :: string

record audit_endpoint =
  endpoint_hostname :: string
  endpoint_port :: int

record audit_config =
  audit_mode_of :: audit_mode
  automatic_rollback_on_failure :: bool
  propagation_timeout_seconds :: int
  retry_interval_seconds :: int
  audit_require_all_addresses :: bool
  audit_reject_non_global :: bool
  endpoints :: "audit_endpoint list"

definition validate_endpoint :: "(string \<Rightarrow> string option) \<Rightarrow> audit_endpoint \<Rightarrow> exn + audit_endpoint" where
  "validate_endpoint idna e =
     (case normalize_domain idna (endpoint_hostname e) of
        Inl err \<Rightarrow> Inl err
      | Inr h \<Rightarrow> then_return (ensure (between 1 65535 (endpoint_port e)) ''port'') (e\<lparr>endpoint_hostname := h\<rparr>))"

definition audit_checks :: "audit_config \<Rightarrow> exn + unit" where
  "audit_checks c =
     all_of
       [ensure (between 0 3600 (propagation_timeout_seconds c)) ''propagation_timeout_seconds'',
        ensure (between 1 300 (retry_interval_seconds c)) ''retry_interval_seconds'',
        ensure (\<not> (automatic_rollback_on_failure c \<and> audit_mode_of c \<noteq> ENFORCE))
          ''automatic_rollback_on_failure requires audit mode enforce'']"

definition validate_audit :: "(string \<Rightarrow> string option) \<Rightarrow> audit_config \<Rightarrow> exn + audit_config" where
  "validate_audit idna c =
     (case map_result (validate_endpoint idna) (endpoints c) of
        Inl e \<Rightarrow> Inl e
      | Inr es \<Rightarrow> then_return (audit_checks c) (c\<lparr>endpoints := es\<rparr>))"

record retention_config =
  retention_enabled :: bool
  keep_deprecated_versions :: int
  minimum_age_days :: int
  deletion_delay_days :: int

definition retention_checks :: "retention_config \<Rightarrow> exn + unit" where
  "retention_checks c =
     all_of
       [ensure (between 1 100 (keep_deprecated_versions c)) ''keep_deprecated_versions'',
        ensure (between 0 3650 (minimum_age_days c)) ''minimum_age_days'',
        ensure (between 1 3650 (deletion_delay_days c)) ''deletion_delay_days'']"

record certificate_config =
  cert_id :: string
  webroot_id :: string
  common_name :: string
  domains :: "string list"
  key_of :: key_config
  chain_of :: chain_config
  oci_of :: certificate_oci_config
  audit_of :: audit_config
  retention_of :: retention_config

definition certificate_field_checks :: "certificate_config \<Rightarrow> exn + unit" where
  "certificate_field_checks c =
     all_of
       [ensure (is_slug (cert_id c)) ''id'', ensure (is_slug (webroot_id c)) ''webroot_id'',
        key_checks (key_of c), chain_checks (chain_of c), retention_checks (retention_of c)]"

definition certificate_invariants :: "certificate_config \<Rightarrow> exn + unit" where
  "certificate_invariants c =
     all_of
       [ensure (domains c \<noteq> []) ''domains must not be empty'',
        ensure (distinct (domains c)) ''domains must be unique within a certificate'',
        ensure (domains c \<noteq> [] \<and> hd (domains c) = common_name c) ''common_name must be the first domain'',
        ensure (\<not> 64 < length (common_name c)) ''common_name exceeds 64 bytes'',
        ensure (case certificate_ocid (oci_of c) of None \<Rightarrow> True
                | Some ocid \<Rightarrow> startswith ocid ''ocid1.certificate.'')
          ''certificate_ocid is not an OCI certificate OCID'',
        ensure (\<not> (audit_mode_of (audit_of c) \<noteq> DISABLED \<and> endpoints (audit_of c) = []))
          ''audit endpoints are required unless audit mode is disabled'']"

definition validate_certificate ::
  "(string \<Rightarrow> string option) \<Rightarrow> certificate_config \<Rightarrow> exn + certificate_config" where
  "validate_certificate idna c =
     (case certificate_field_checks c of Inl e \<Rightarrow> Inl e | Inr _ \<Rightarrow>
     (case normalize_domain idna (common_name c) of Inl e \<Rightarrow> Inl e | Inr cn \<Rightarrow>
     (case map_result (normalize_domain idna) (domains c) of Inl e \<Rightarrow> Inl e | Inr ds \<Rightarrow>
     (case validate_audit idna (audit_of c) of Inl e \<Rightarrow> Inl e | Inr au \<Rightarrow>
        (let c' = c\<lparr>common_name := cn, domains := ds, audit_of := au\<rparr>
         in then_return (certificate_invariants c') c')))))"

subsection \<open>The whole configuration\<close>

record app_config =
  schema_version :: int
  global_of :: global_config
  compatibility :: compatibility_config
  acme :: acme_config
  http01 :: http01_config
  oci_settings :: oci_config
  notifications :: notifications_config
  monitoring :: monitoring_config
  certificates :: "certificate_config list"

text \<open>The loop over the certificate sets: \<open>seen_domains\<close> and \<open>seen_ocids\<close> are its
  accumulators.\<close>

fun disjoint_sets ::
  "certificate_config list \<Rightarrow> string list \<Rightarrow> (string \<times> certificate_config) list \<Rightarrow> exn + unit" where
  "disjoint_sets [] seen_domains seen_ocids = Inr ()"
| "disjoint_sets (c # cs) seen_domains seen_ocids =
     (if list_ex (List.member seen_domains) (domains c)
      then value_error ''domain configured by multiple certificate sets''
      else
        (case certificate_ocid (oci_of c) of
           None \<Rightarrow> disjoint_sets cs (domains c @ seen_domains) seen_ocids
         | Some ocid \<Rightarrow>
             (case map_of seen_ocids ocid of
                Some previous \<Rightarrow>
                  if common_name previous \<noteq> common_name c
                  then value_error ''certificate OCID cannot have incompatible common names''
                  else disjoint_sets cs (domains c @ seen_domains) ((ocid, c) # seen_ocids)
              | None \<Rightarrow> disjoint_sets cs (domains c @ seen_domains) ((ocid, c) # seen_ocids))))"

definition cross_field_invariants :: "app_config \<Rightarrow> exn + unit" where
  "cross_field_invariants c =
     all_of
       [ensure (certificates c \<noteq> []) ''certificates must not be empty'',
        ensure (distinct (map cert_id (certificates c))) ''certificate ids must be globally unique'',
        ensure (distinct (map webroot_id (certificates c))) ''webroot_id must be globally unique'',
        disjoint_sets (certificates c) [] [],
        ensure (\<not> (environment_of (global_of c) = PRODUCTION \<and> contains ''staging'' (directory_url (acme c))))
          ''production environment cannot use an ACME staging directory'',
        ensure (\<not> (environment_of (global_of c) = STAGING \<and> \<not> contains ''staging'' (directory_url (acme c))))
          ''staging environment must use an ACME staging directory'',
        ensure (\<not> startswith (webroot_base (http01 c))
                  (rstrip_char (CHR ''/'') (certificates_dir (acme c)) @ ''/''))
          ''webroot_base must not be inside ACME certificates_dir'']"

definition app_checks :: "app_config \<Rightarrow> exn + unit" where
  "app_checks c =
     all_of
       [ensure (schema_version c = 4) ''schema_version'', global_checks (global_of c),
        compatibility_checks (compatibility c), acme_checks (acme c), http01_checks (http01 c),
        oci_checks (oci_settings c), notifications_checks (notifications c),
        monitoring_checks (monitoring c)]"

text \<open>\<open>AppConfig.model_validate\<close>, with the \<open>ConfigurationError\<close> of \<open>_validate_config\<close>.\<close>

definition validate_config :: "(string \<Rightarrow> string option) \<Rightarrow> app_config \<Rightarrow> exn + app_config" where
  "validate_config idna c =
     (case (case app_checks c of Inl e \<Rightarrow> Inl e | Inr _ \<Rightarrow>
            (case map_result (validate_certificate idna) (certificates c) of Inl e \<Rightarrow> Inl e | Inr cs \<Rightarrow>
               (let c' = c\<lparr>certificates := cs\<rparr> in then_return (cross_field_invariants c') c'))) of
        Inl _ \<Rightarrow> Inl (ConfigurationError ''invalid configuration fields'')
      | Inr c' \<Rightarrow> Inr c')"

text \<open>\<open>configured_certificate\<close> of \<open>publication_service.py\<close>.\<close>

definition configured_certificate :: "app_config \<Rightarrow> string \<Rightarrow> exn + certificate_config" where
  "configured_certificate config cid =
     (case filter (\<lambda>c. cert_id c = cid) (certificates config) of
        [] \<Rightarrow> Inl (PublicationServiceError ''configured certificate id was not found'')
      | c # _ \<Rightarrow> Inr c)"


subsection \<open>What a validated configuration guarantees\<close>

lemma normalize_domain_Inr:
  "normalize_domain idna v = Inr d \<Longrightarrow>
     idna (lower (rstrip_char (CHR ''.'') (strip v))) = Some d \<and> length d \<le> 253 \<and>
     first_label_error d = None"
  by (auto simp: normalize_domain_def Let_def split: if_splits option.splits)

lemma first_label_error_None:
  "first_label_error d = None \<longleftrightarrow> (\<forall>l\<in>set (split_on (CHR ''.'') d). label_error l = None)"
proof (cases "filter (\<lambda>l. label_error l \<noteq> None) (split_on (CHR ''.'') d)")
  case Nil
  then show ?thesis by (simp add: first_label_error_def filter_empty_conv)
next
  case (Cons l ls)
  have "l \<in> set (filter (\<lambda>l. label_error l \<noteq> None) (split_on (CHR ''.'') d))"
    by (simp only: Cons list.set_intros)
  then have "l \<in> set (split_on (CHR ''.'') d)" "label_error l \<noteq> None"
    unfolding set_filter by blast+
  with Cons show ?thesis by (auto simp: first_label_error_def)
qed

lemma disjoint_sets_distinct:
  "disjoint_sets cs ds os = Inr () \<Longrightarrow> (\<forall>c\<in>set cs. distinct (domains c)) \<Longrightarrow>
     distinct (concat (map domains cs)) \<and> set (concat (map domains cs)) \<inter> set ds = {}"
proof (induction cs ds os rule: disjoint_sets.induct)
  case (2 c cs ds os)
  then have new: "set (domains c) \<inter> set ds = {}"
    by (auto simp: list_ex_iff split: if_splits)
  have "distinct (concat (map domains cs)) \<and> set (concat (map domains cs)) \<inter> set (domains c @ ds) = {}"
  proof (cases "certificate_ocid (oci_of c)")
    case None
    with 2 show ?thesis by (simp split: if_splits)
  next
    case (Some ocid)
    with 2 show ?thesis by (cases "map_of os ocid") (simp_all split: if_splits)
  qed
  with new 2(5) show ?case by auto
qed simp

lemma validated_certificate:
  assumes "validate_config idna raw = Inr config" and "c \<in> set (certificates config)"
  shows "is_slug (cert_id c)" and "is_slug (webroot_id c)" and "certificate_invariants c = Inr ()"
    and "\<forall>d\<in>set (domains c). length d \<le> 253 \<and> first_label_error d = None" and "audit_checks (audit_of c) = Inr ()"
proof -
  from assms(1) obtain cs where cs: "map_result (validate_certificate idna) (certificates raw) = Inr cs" "certificates config = cs"
    by (auto simp: validate_config_def Let_def then_return_Inr split: sum.splits)
  with assms(2) obtain r where "validate_certificate idna r = Inr c"
    by (auto simp: map_result_Inr list_all2_conv_all_nth in_set_conv_nth)
  then obtain cn ds au where f: "certificate_field_checks r = Inr ()" and ds: "map_result (normalize_domain idna) (domains r) = Inr ds"
    and au: "validate_audit idna (audit_of r) = Inr au"
    and c: "c = r\<lparr>common_name := cn, domains := ds, audit_of := au\<rparr>" "certificate_invariants c = Inr ()"
    by (auto simp: validate_certificate_def Let_def then_return_Inr split: sum.splits)
  show "is_slug (cert_id c)" "is_slug (webroot_id c)"
    using f by (simp_all add: certificate_field_checks_def all_of_Inr c(1))
  show "certificate_invariants c = Inr ()" by (rule c(2))
  show "\<forall>d\<in>set (domains c). length d \<le> 253 \<and> first_label_error d = None"
    using ds by (auto simp: c(1) map_result_Inr list_all2_conv_all_nth in_set_conv_nth dest!: normalize_domain_Inr)
  show "audit_checks (audit_of c) = Inr ()"
    using au by (auto simp: c(1) validate_audit_def then_return_Inr audit_checks_def split: sum.splits)
qed

end
