(* ===== verification/Tables.thy ===== *)
theory Tables
  imports Models
begin

section \<open>The durable tables\<close>

text \<open>
  The SQLite database of \<open>migrations.py\<close> and \<open>state_store.py\<close> as data: the three tables
  with their columns, and the statements as functions on the database. \<open>operations\<close> is a
  list of rows in insertion order, because it is read in order; the two tables that are only
  read and written by primary key are maps. A nullable column is an \<open>option\<close>. A stored
  timestamp is its number of seconds: the fixed-width UTC text the program writes
  orders as the number does.
\<close>

subsection \<open>Rows\<close>

datatype operation_type = BOOTSTRAP | RENEW | PUBLISH | RECONCILE | AUDIT | ROLLBACK

datatype operation_state =
    DISCOVERED
  | CONFIG_VALIDATED
  | HTTP01_PREFLIGHT_OK
  | ACME_COMPLETED
  | LOCAL_CERT_VALIDATED
  | OCI_RECONCILED
  | OCI_PENDING_UPLOADED
  | OCI_PENDING_VERIFIED
  | OCI_CURRENT_CONFIRMED
  | AUDIT_PENDING
  | AUDIT_SUCCESS
  | COMPLETED
  | CONFIG_FAILED
  | HTTP01_PREFLIGHT_FAILED
  | ACME_FAILED
  | LOCAL_VALIDATION_FAILED
  | OCI_UPLOAD_FAILED
  | OCI_VERSION_FAILED
  | OCI_PROMOTION_FAILED
  | AUDIT_FAILED
  | ROLLBACK_FAILED
  | MANUAL_INTERVENTION_REQUIRED

definition terminal_states :: "operation_state list" where
  "terminal_states =
     [COMPLETED, CONFIG_FAILED, HTTP01_PREFLIGHT_FAILED, ACME_FAILED, LOCAL_VALIDATION_FAILED,
      OCI_UPLOAD_FAILED, OCI_VERSION_FAILED, OCI_PROMOTION_FAILED, AUDIT_FAILED,
      ROLLBACK_FAILED, MANUAL_INTERVENTION_REQUIRED]"

definition is_terminal :: "operation_state \<Rightarrow> bool" where
  "is_terminal st \<longleftrightarrow> List.member terminal_states st"

lemma is_terminal_simps [simp]:
  "is_terminal COMPLETED" "is_terminal CONFIG_FAILED" "is_terminal HTTP01_PREFLIGHT_FAILED"
  "is_terminal ACME_FAILED" "is_terminal LOCAL_VALIDATION_FAILED"
  "is_terminal OCI_UPLOAD_FAILED" "is_terminal OCI_VERSION_FAILED"
  "is_terminal OCI_PROMOTION_FAILED" "is_terminal AUDIT_FAILED"
  "is_terminal ROLLBACK_FAILED" "is_terminal MANUAL_INTERVENTION_REQUIRED"
  "\<not> is_terminal DISCOVERED" "\<not> is_terminal CONFIG_VALIDATED"
  "\<not> is_terminal HTTP01_PREFLIGHT_OK" "\<not> is_terminal ACME_COMPLETED"
  "\<not> is_terminal LOCAL_CERT_VALIDATED" "\<not> is_terminal OCI_RECONCILED"
  "\<not> is_terminal OCI_PENDING_UPLOADED" "\<not> is_terminal OCI_PENDING_VERIFIED"
  "\<not> is_terminal OCI_CURRENT_CONFIRMED" "\<not> is_terminal AUDIT_PENDING"
  "\<not> is_terminal AUDIT_SUCCESS"
  by (simp_all add: is_terminal_def terminal_states_def)

record op_row =
  row_id :: string
  row_certificate :: string
  row_type :: operation_type
  row_state :: operation_state
  row_fingerprint :: "string option"
  row_ocid :: "string option"
  row_version :: "int option"
  row_request :: "string option"
  row_started :: seconds
  row_updated :: seconds
  row_completed :: "seconds option"
  row_error_code :: "string option"
  row_error_message :: "string option"

record cert_row =
  last_local_fingerprint :: "string option"
  last_oci_current_fingerprint :: "string option"
  last_oci_current_version :: "int option"
  last_successful_renewal_at :: "seconds option"
  last_successful_publication_at :: "seconds option"
  last_successful_audit_at :: "seconds option"
  last_error_code :: "string option"
  cert_updated_at :: seconds

text \<open>\<open>last_sent_at\<close> is \<open>None\<close> where the stored text is no timestamp.\<close>

record alert_row =
  last_sent_at :: "seconds option"
  last_status :: string

text \<open>\<open>schema_meta\<close> and \<open>objects\<close> are the recorded migration versions and the
  tables and indexes that exist.\<close>

record database =
  schema_meta :: "(int \<times> seconds) list"
  objects :: "string list"
  operations :: "op_row list"
  certificate_states :: "string \<Rightarrow> cert_row option"
  alerts :: "string \<Rightarrow> alert_row option"

definition empty_database :: database where
  "empty_database =
     \<lparr>schema_meta = [], objects = [], operations = [], certificate_states = Map.empty,
      alerts = Map.empty\<rparr>"

subsection \<open>Statements\<close>

text \<open>A statement yields a value and the next database, or an SQLite error and no change.\<close>

type_synonym 'a statement = "database \<Rightarrow> lib_exn + ('a \<times> database)"

definition select_from :: "(database \<Rightarrow> 'a) \<Rightarrow> 'a statement" where
  "select_from f = (\<lambda>d. Inr (f d, d))"

datatype ddl =
    CreateTableIfNotExists string
  | CreateTable string
  | CreateIndex string

definition create_object :: "string \<Rightarrow> unit statement" where
  "create_object n =
     (\<lambda>d. if List.member (objects d) n then Inl (SqliteError ''object already exists'')
          else Inr ((), d\<lparr>objects := objects d @ [n]\<rparr>))"

fun exec_ddl :: "ddl \<Rightarrow> unit statement" where
  "exec_ddl (CreateTableIfNotExists n) d =
     (if List.member (objects d) n then Inr ((), d) else create_object n d)"
| "exec_ddl (CreateTable n) d = create_object n d"
| "exec_ddl (CreateIndex n) d = create_object n d"

definition insert_schema_version :: "int \<Rightarrow> seconds \<Rightarrow> unit statement" where
  "insert_schema_version v t =
     (\<lambda>d. if List.member (map fst (schema_meta d)) v
          then Inl (SqliteError ''UNIQUE constraint failed'')
          else Inr ((), d\<lparr>schema_meta := schema_meta d @ [(v, t)]\<rparr>))"

definition insert_operation :: "op_row \<Rightarrow> unit statement" where
  "insert_operation r =
     (\<lambda>d. if List.member (map row_id (operations d)) (row_id r)
          then Inl (SqliteError ''UNIQUE constraint failed'')
          else Inr ((), d\<lparr>operations := operations d @ [r]\<rparr>))"

text \<open>\<open>UPDATE operations SET ... WHERE ...\<close>, with the number of rows it matched.\<close>

definition update_operations ::
  "(op_row \<Rightarrow> bool) \<Rightarrow> (op_row \<Rightarrow> op_row) \<Rightarrow> nat statement" where
  "update_operations p f =
     (\<lambda>d. Inr (length (filter p (operations d)),
             d\<lparr>operations := map (\<lambda>r. if p r then f r else r) (operations d)\<rparr>))"

text \<open>\<open>INSERT ... ON CONFLICT(certificate_id) DO UPDATE SET ...\<close>.\<close>

definition upsert_certificate_state ::
  "string \<Rightarrow> cert_row \<Rightarrow> (cert_row \<Rightarrow> cert_row) \<Rightarrow> unit statement" where
  "upsert_certificate_state cid fresh f =
     (\<lambda>d. Inr ((),
        d\<lparr>certificate_states :=
            (certificate_states d)(cid \<mapsto>
               (case certificate_states d cid of None \<Rightarrow> fresh | Some r \<Rightarrow> f r))\<rparr>))"

definition upsert_alert :: "string \<Rightarrow> alert_row \<Rightarrow> unit statement" where
  "upsert_alert key r = (\<lambda>d. Inr ((), d\<lparr>alerts := (alerts d)(key \<mapsto> r)\<rparr>))"

subsection \<open>Facts about the statements\<close>

lemma insert_operation_Inr:
  "insert_operation r d = Inr (u, d') \<longleftrightarrow>
     row_id r \<notin> set (map row_id (operations d)) \<and> d' = d\<lparr>operations := operations d @ [r]\<rparr>"
  by (auto simp: insert_operation_def)

lemma update_operations_ids [simp]:
  "(\<And>r. row_id (f r) = row_id r) \<Longrightarrow>
     map row_id (map (\<lambda>r. if p r then f r else r) rs) = map row_id rs"
  by (induction rs) auto

lemma filter_id_distinct:
  "distinct (map row_id rs) \<Longrightarrow> r \<in> set rs \<Longrightarrow> filter (\<lambda>x. row_id x = row_id r) rs = [r]"
proof (induction rs)
  case (Cons a rs)
  then show ?case
    by (cases "a = r") (auto simp: filter_empty_conv rev_image_eqI)
qed simp

end
