(* ===== verification/Runtime.thy ===== *)
theory Runtime
  imports Tables Complex_Main
begin

section \<open>The runtime: what the program runs on\<close>

text \<open>
  Everything outside the repository is a parameter: the record \<open>env\<close> holds the operations
  the program calls (the OCI client, the clock, the random source, opening the database file) as
  functions on an abstract outside world \<open>'w\<close>, each of which may change that world, and may
  raise where the real one does. Nothing is assumed of them here; a theorem that needs a law
  of the outside names it as a hypothesis.

  The world of the program is the outside together with the database, the journal of structured
  log events and the trace of the OCI requests sent with their outcomes. The trace is an
  observation: no code reads it.
\<close>

subsection \<open>Requests of the OCI SDK\<close>

text \<open>The details objects of \<open>oci.certificates_management.models\<close> the adapters build.\<close>

record import_details =
  imp_version_name :: string
  imp_stage :: "string option"
  imp_certificate_pem :: string
  imp_cert_chain_pem :: string
  imp_private_key_pem :: string

datatype oci_request =
    GetCertificate string
  | ListCertificateVersions string "string option"
  | GetCertificateVersion string int
  | CreateCertificate string string import_details
  | UpdateByImporting string import_details "string option"
  | UpdateCurrentVersion string int "string option"
  | ScheduleVersionDeletion string int instant "string option"
  | GetCertificateBundle string "int option"

text \<open>The requests that change the resource.\<close>

fun is_mutation :: "oci_request \<Rightarrow> bool" where
  "is_mutation (CreateCertificate _ _ _) = True"
| "is_mutation (UpdateByImporting _ _ _) = True"
| "is_mutation (UpdateCurrentVersion _ _ _) = True"
| "is_mutation (ScheduleVersionDeletion _ _ _ _) = True"
| "is_mutation _ = False"

text \<open>The public certificates of a response and of the local material are opaque texts; what
  the X.509 library reads in them is a parameter of the validator.\<close>

subsection \<open>The environment and the world\<close>

record 'w env =
  oci_call :: "oci_request \<Rightarrow> string \<Rightarrow> 'w \<Rightarrow> (lib_exn + response) \<times> 'w"
  read_clock :: "'w \<Rightarrow> instant \<times> 'w"
  new_uuid :: "'w \<Rightarrow> string \<times> 'w"
  wait :: "rat \<Rightarrow> 'w \<Rightarrow> 'w"
  uniform :: "rat \<Rightarrow> 'w \<Rightarrow> rat \<times> 'w"
  sql_fault :: "'w \<Rightarrow> lib_exn option \<times> 'w"
  open_database :: "'w \<Rightarrow> lib_exn option \<times> 'w"
  page_budget :: nat

text \<open>
  \<open>sql_fault\<close> is asked before each SQL statement: an exception there is SQLite failing
  (locked, disk full) or the process dying between two statements. \<open>page_budget\<close> bounds the
  pages a listing may follow.
\<close>

type_synonym log_entry = "string \<times> string"
type_synonym io_entry = "oci_request \<times> (lib_exn + response)"

record 'w world =
  outside :: 'w
  db :: database
  trace :: "io_entry list"
  journal :: "log_entry list"

type_synonym ('w, 'a) action = "('w world, exn, 'a) prog"

definition external :: "('w \<Rightarrow> 'a \<times> 'w) \<Rightarrow> ('w, 'a) action" where
  "external f = (\<lambda>w. case f (outside w) of (a, o') \<Rightarrow> (Inr a, w\<lparr>outside := o'\<rparr>))"

text \<open>\<open>datetime.now(UTC)\<close>; \<open>clock.utc_now_rfc3339\<close> with its microseconds dropped.\<close>

definition now_utc :: "'w env \<Rightarrow> ('w, instant) action" where
  "now_utc env = external (read_clock env)"

definition utc_now_rfc3339 :: "'w env \<Rightarrow> ('w, seconds) action" where
  "utc_now_rfc3339 env = bind (now_utc env) (\<lambda>t. return (t div second))"

definition uuid4 :: "'w env \<Rightarrow> ('w, string) action" where
  "uuid4 env = external (new_uuid env)"

definition sleep :: "'w env \<Rightarrow> rat \<Rightarrow> ('w, unit) action" where
  "sleep env t = external (\<lambda>o'. ((), wait env t o'))"

definition log_event :: "string \<Rightarrow> string \<Rightarrow> ('w, unit) action" where
  "log_event event cid = modify (\<lambda>w. w\<lparr>journal := journal w @ [(event, cid)]\<rparr>)"

text \<open>One request of the SDK client, recorded with its outcome.\<close>

definition oci :: "'w env \<Rightarrow> oci_request \<Rightarrow> string \<Rightarrow> ('w, response) action" where
  "oci env req request_id =
     (\<lambda>w. case oci_call env req request_id (outside w) of
        (r, o') \<Rightarrow> (map_sum Lib id r, w\<lparr>outside := o', trace := trace w @ [(req, r)]\<rparr>))"

text \<open>One SQL statement: a fault leaves the database as it was.\<close>

definition sql :: "'w env \<Rightarrow> 'a statement \<Rightarrow> ('w, 'a) action" where
  "sql env st =
     (\<lambda>w. case sql_fault env (outside w) of
        (Some e, o') \<Rightarrow> (Inl (Lib e), w\<lparr>outside := o'\<rparr>)
      | (None, o') \<Rightarrow>
          (case st (db w) of
             Inl e \<Rightarrow> (Inl (Lib e), w\<lparr>outside := o'\<rparr>)
           | Inr (a, d) \<Rightarrow> (Inr a, w\<lparr>outside := o', db := d\<rparr>)))"

subsection \<open>What the primitive actions touch\<close>

text \<open>
  \<open>on_db\<close> lifts a predicate on the database to the world. Only \<open>sql\<close> can change the
  database, and only \<open>oci\<close> the trace.
\<close>

definition on_db :: "(database \<Rightarrow> bool) \<Rightarrow> 'w world \<Rightarrow> bool" where
  "on_db P w = P (db w)"

lemma keeps_db_external [keeps_intros]: "keeps (on_db P) (external f)"
  by (simp add: keeps_def on_db_def external_def split: prod.splits)

lemma keeps_db_oci [keeps_intros]: "keeps (on_db P) (oci env req rid)"
  by (simp add: keeps_def on_db_def oci_def split: prod.splits)

lemma keeps_db_log [keeps_intros]: "keeps (on_db P) (log_event e c)"
  by (simp add: keeps_def on_db_def log_event_def modify_def)

lemma keeps_db_sql:
  "(\<And>d a d'. P d \<Longrightarrow> st d = Inr (a, d') \<Longrightarrow> P d') \<Longrightarrow> keeps (on_db P) (sql env st)"
  by (auto simp: keeps_def on_db_def sql_def split: prod.splits option.splits sum.splits)

lemma keeps_db_now [keeps_intros]: "keeps (on_db P) (now_utc env)"
  by (simp add: now_utc_def keeps_db_external)

lemma keeps_db_utc_now [keeps_intros]: "keeps (on_db P) (utc_now_rfc3339 env)"
  by (simp add: utc_now_rfc3339_def keeps_intros)

lemma keeps_db_uuid4 [keeps_intros]: "keeps (on_db P) (uuid4 env)"
  by (simp add: uuid4_def keeps_db_external)

lemma keeps_db_sleep [keeps_intros]: "keeps (on_db P) (sleep env t)"
  by (simp add: sleep_def keeps_db_external)

lemma keeps_db_select [keeps_intros]: "keeps (on_db P) (sql env (select_from f))"
  by (rule keeps_db_sql) (simp add: select_from_def)

definition on_trace :: "(io_entry list \<Rightarrow> bool) \<Rightarrow> 'w world \<Rightarrow> bool" where
  "on_trace P w = P (trace w)"

lemma keeps_trace_external [keeps_intros]: "keeps (on_trace P) (external f)"
  by (simp add: keeps_def on_trace_def external_def split: prod.splits)

lemma keeps_trace_log [keeps_intros]: "keeps (on_trace P) (log_event e c)"
  by (simp add: keeps_def on_trace_def log_event_def modify_def)

lemma keeps_trace_sql [keeps_intros]: "keeps (on_trace P) (sql env st)"
  by (auto simp: keeps_def on_trace_def sql_def split: prod.splits option.splits sum.splits)

lemma keeps_trace_now [keeps_intros]: "keeps (on_trace P) (now_utc env)"
  by (simp add: now_utc_def keeps_trace_external)

lemma keeps_trace_utc_now [keeps_intros]: "keeps (on_trace P) (utc_now_rfc3339 env)"
  by (simp add: utc_now_rfc3339_def keeps_intros)

lemma keeps_trace_uuid4 [keeps_intros]: "keeps (on_trace P) (uuid4 env)"
  by (simp add: uuid4_def keeps_trace_external)

lemma keeps_trace_sleep [keeps_intros]: "keeps (on_trace P) (sleep env t)"
  by (simp add: sleep_def keeps_trace_external)


subsection \<open>Actions that only touch the outside\<close>

text \<open>\<open>inert m\<close>: the database, the trace and the journal are as before, whatever the outcome.\<close>

definition inert :: "('w, 'a) action \<Rightarrow> bool" where
  "inert m \<longleftrightarrow> (\<forall>w. snd (m w) = w\<lparr>outside := outside (snd (m w))\<rparr>)"

named_theorems inert_intros \<open>introduction rules for actions that only touch the outside\<close>

lemma inertI: "(\<And>w. \<exists>r o'. m w = (r, w\<lparr>outside := o'\<rparr>)) \<Longrightarrow> inert m"
  unfolding inert_def by (metis snd_conv world.ext_inject world.surjective world.update_convs(1) world.select_convs(1))

lemma inertE:
  assumes "inert m"
  obtains r o' where "m w = (r, w\<lparr>outside := o'\<rparr>)"
  using assms unfolding inert_def by (metis prod.collapse)

lemma outside_update_same: "w\<lparr>outside := outside w\<rparr> = w"
  by (cases w) simp

lemma inert_external [inert_intros]: "inert (external f)"
  by (simp add: inert_def external_def split: prod.splits)

lemma inert_return [inert_intros]: "inert (return a)"
  by (simp add: inert_def return_def outside_update_same)

lemma inert_raise [inert_intros]: "inert (raise e)"
  by (simp add: inert_def raise_def outside_update_same)

lemma inert_lift [inert_intros]: "inert (lift r)"
  by (simp add: inert_def lift_def outside_update_same)

lemma inert_bind [inert_intros]:
  assumes "inert m" and "\<And>a. inert (k a)"
  shows "inert (bind m k)"
proof (rule inertI)
  fix w
  obtain r o1 where m: "m w = (r, w\<lparr>outside := o1\<rparr>)" by (rule inertE[OF assms(1)])
  show "\<exists>r o'. bind m k w = (r, w\<lparr>outside := o'\<rparr>)"
  proof (cases r)
    case (Inr a)
    obtain r2 o2 where "k a (w\<lparr>outside := o1\<rparr>) = (r2, w\<lparr>outside := o1\<rparr>\<lparr>outside := o2\<rparr>)"
      by (rule inertE[OF assms(2)])
    then show ?thesis using m Inr by (auto simp: bind_def)
  qed (use m in \<open>auto simp: bind_def\<close>)
qed

lemma inert_seq [inert_intros]: "inert m \<Longrightarrow> inert n \<Longrightarrow> inert (seq m n)"
  by (simp add: seq_def inert_bind)

lemma inert_try_except [inert_intros]:
  assumes "inert m" and "\<And>e k. h e = Some k \<Longrightarrow> inert k"
  shows "inert (try_except m h)"
proof (rule inertI)
  fix w
  obtain r o1 where m: "m w = (r, w\<lparr>outside := o1\<rparr>)" by (rule inertE[OF assms(1)])
  show "\<exists>r o'. try_except m h w = (r, w\<lparr>outside := o'\<rparr>)"
  proof (cases r)
    case (Inl e)
    show ?thesis
    proof (cases "h e")
      case (Some k)
      obtain r2 o2 where "k (w\<lparr>outside := o1\<rparr>) = (r2, w\<lparr>outside := o1\<rparr>\<lparr>outside := o2\<rparr>)"
        by (rule inertE[OF assms(2)[OF Some]])
      then show ?thesis using m Inl Some by (auto simp: try_except_def)
    qed (use m Inl in \<open>auto simp: try_except_def\<close>)
  qed (use m in \<open>auto simp: try_except_def\<close>)
qed

lemma inert_try_finally [inert_intros]:
  assumes "inert m" and "inert f"
  shows "inert (try_finally m f)"
proof (rule inertI)
  fix w
  obtain r o1 where m: "m w = (r, w\<lparr>outside := o1\<rparr>)" by (rule inertE[OF assms(1)])
  obtain r2 o2 where "f (w\<lparr>outside := o1\<rparr>) = (r2, w\<lparr>outside := o1\<rparr>\<lparr>outside := o2\<rparr>)"
    by (rule inertE[OF assms(2)])
  with m show "\<exists>r o'. try_finally m f w = (r, w\<lparr>outside := o'\<rparr>)"
    by (cases r2) (auto simp: try_finally_def)
qed

lemma inert_if [inert_intros]: "(b \<Longrightarrow> inert m) \<Longrightarrow> (\<not> b \<Longrightarrow> inert n) \<Longrightarrow> inert (if b then m else n)"
  by simp

lemma inert_case_option [inert_intros]:
  "(x = None \<Longrightarrow> inert m) \<Longrightarrow> (\<And>a. x = Some a \<Longrightarrow> inert (f a)) \<Longrightarrow>
     inert (case x of None \<Rightarrow> m | Some a \<Rightarrow> f a)"
  by (cases x) simp_all

lemma inert_map_prog [inert_intros]: "(\<And>x. x \<in> set xs \<Longrightarrow> inert (f x)) \<Longrightarrow> inert (map_prog f xs)"
  by (induction xs) (simp_all add: inert_return inert_bind)

lemma inert_now [inert_intros]: "inert (now_utc env)"
  by (simp add: now_utc_def inert_external)

lemma inert_sleep [inert_intros]: "inert (sleep env t)"
  by (simp add: sleep_def inert_external)

text \<open>A program on the outside alone, as an action.\<close>

definition locally :: "('w, exn, 'a) prog \<Rightarrow> ('w, 'a) action" where
  "locally m = (\<lambda>w. case m (outside w) of (r, o') \<Rightarrow> (r, w\<lparr>outside := o'\<rparr>))"

lemma inert_locally [inert_intros]: "inert (locally m)"
  by (simp add: inert_def locally_def split: prod.splits)

lemma wp_locally: "wp m (\<lambda>a o'. Q a (w\<lparr>outside := o'\<rparr>)) (\<lambda>e o'. E e (w\<lparr>outside := o'\<rparr>)) (outside w) \<Longrightarrow> wp (locally m) Q E w"
  by (simp add: wp_def locally_def split: prod.splits)

lemma wp_inert:
  assumes "inert m" and "\<And>a o'. Q a (w\<lparr>outside := o'\<rparr>)" and "\<And>e o'. E e (w\<lparr>outside := o'\<rparr>)"
  shows "wp m Q E w"
  by (rule inertE[OF assms(1), of w]) (auto simp: wp_def assms(2,3) split: sum.splits)

end
