(* ===== verification/OciRetry.thy ===== *)
theory OciRetry
  imports Runtime PyString
begin

section \<open>Bounded retries of OCI reads\<close>

text \<open>
  \<open>oci_retry.py\<close>: the retry policy, the classification of transient errors and the two
  synchronous loops. A delay is a rational number of seconds. A loop over
  \<open>range(max_attempts)\<close> is recursion over the list of the attempts still to come.
\<close>

subsection \<open>Numbers in a Retry-After header\<close>

datatype pyfloat = FNum rat | FInf | FNegInf | FNan

definition digit_value :: "char \<Rightarrow> nat" where
  "digit_value c = of_char c - 48"

text \<open>Digits, with single underscores between digits.\<close>

fun digit_part :: "string \<Rightarrow> bool" where
  "digit_part [] = False"
| "digit_part [c] = is_digit c"
| "digit_part (c # d # s) =
     (is_digit c \<and> (if d = CHR ''_'' then digit_part s else digit_part (d # s)))"

definition digits_value :: "string \<Rightarrow> nat" where
  "digits_value s = foldl (\<lambda>n c. 10 * n + digit_value c) 0 (filter is_digit s)"

definition is_digit_or_underscore :: "char \<Rightarrow> bool" where
  "is_digit_or_underscore c \<longleftrightarrow> is_digit c \<or> c = CHR ''_''"

definition sign_of :: "string \<Rightarrow> bool \<times> string" where
  "sign_of s =
     (case s of
        [] \<Rightarrow> (False, [])
      | c # cs \<Rightarrow>
          if c = CHR ''-'' then (True, cs) else if c = CHR ''+'' then (False, cs) else (False, s))"

definition exponent_of :: "string \<Rightarrow> int option" where
  "exponent_of s =
     (case s of
        [] \<Rightarrow> Some 0
      | c # cs \<Rightarrow>
          if lower_char c = CHR ''e'' then
            (case sign_of cs of (neg, ds) \<Rightarrow>
               if digit_part ds
               then Some (if neg then - int (digits_value ds) else int (digits_value ds))
               else None)
          else None)"

definition scale :: "rat \<Rightarrow> int \<Rightarrow> rat" where
  "scale x e = (if e < 0 then x / 10 ^ nat (- e) else x * 10 ^ nat e)"

definition unsigned_float :: "string \<Rightarrow> rat option" where
  "unsigned_float s =
     (let whole = takeWhile is_digit_or_underscore s;
          rest = dropWhile is_digit_or_underscore s;
          dot = (rest \<noteq> [] \<and> hd rest = CHR ''.'');
          after = (if dot then tl rest else rest);
          frac = (if dot then takeWhile is_digit_or_underscore after else []);
          tail = (if dot then dropWhile is_digit_or_underscore after else after)
      in if (whole = [] \<or> digit_part whole) \<and> (frac = [] \<or> digit_part frac) \<and>
            (whole \<noteq> [] \<or> frac \<noteq> [])
         then map_option
                (\<lambda>e. scale (of_nat (digits_value (whole @ frac)))
                        (e - int (length (filter is_digit frac))))
                (exponent_of tail)
         else None)"

text \<open>\<open>float(header)\<close>: \<open>None\<close> where it raises \<open>ValueError\<close>.\<close>

definition float_of_string :: "string \<Rightarrow> pyfloat option" where
  "float_of_string text =
     (case sign_of (strip text) of (neg, s) \<Rightarrow>
        if lower s = ''inf'' \<or> lower s = ''infinity'' then Some (if neg then FNegInf else FInf)
        else if lower s = ''nan'' then Some FNan
        else map_option (\<lambda>x. FNum (if neg then - x else x)) (unsigned_float s))"

subsection \<open>The policy\<close>

record read_retry_policy =
  max_attempts :: int
  base_delay_seconds :: rat
  maximum_delay_seconds :: rat

definition default_policy :: "int \<Rightarrow> read_retry_policy" where
  "default_policy n =
     \<lparr>max_attempts = n, base_delay_seconds = 1 / 4, maximum_delay_seconds = 10\<rparr>"

definition delay ::
  "'w env \<Rightarrow> read_retry_policy \<Rightarrow> nat \<Rightarrow> pyfloat option \<Rightarrow> ('w, rat) action" where
  "delay env policy attempt retry_after =
     (let jitter =
        external (uniform env
          (min (maximum_delay_seconds policy) (base_delay_seconds policy * 2 ^ attempt)))
      in case retry_after of
           Some (FNum t) \<Rightarrow>
             if 0 \<le> t then return (min t (maximum_delay_seconds policy)) else jitter
         | Some FInf \<Rightarrow> return (maximum_delay_seconds policy)
         | _ \<Rightarrow> jitter)"

subsection \<open>Transient errors\<close>

definition transient_status :: "int \<Rightarrow> bool" where
  "transient_status s \<longleftrightarrow> List.member [429, 500, 502, 503, 504] s"

definition retry_after_header :: "(string \<times> pyval) list option \<Rightarrow> pyfloat option" where
  "retry_after_header headers =
     (case headers of
        None \<Rightarrow> None
      | Some hs \<Rightarrow>
          (case header_get hs ''retry-after'' of
             PStr text \<Rightarrow> float_of_string text
           | _ \<Rightarrow> None))"

text \<open>The status and the Retry-After of the \<open>RetryableOciError\<close> an error is translated to.\<close>

fun retryable_exception :: "exn \<Rightarrow> (int \<times> pyfloat option) option" where
  "retryable_exception (Lib (ServiceError status code headers)) =
     (if \<not> transient_status status \<and> \<not> (status = 404 \<and> code = ''NotAuthorizedOrNotFound'')
      then None else Some (status, retry_after_header headers))"
| "retryable_exception _ = Some (0, None)"

subsection \<open>The loops\<close>

fun retry_loop ::
  "'w env \<Rightarrow> read_retry_policy \<Rightarrow> ('w, 'a) action \<Rightarrow> nat list \<Rightarrow> ('w, 'a) action" where
  "retry_loop env policy operation [] =
     raise (Lib (RuntimeError ''read retry policy has no attempts''))"
| "retry_loop env policy operation (attempt # attempts) =
     try_except operation (\<lambda>error.
       if \<not> is_transport_error error then None
       else Some
         (case retryable_exception error of
            None \<Rightarrow> raise error
          | Some (status, retry_after) \<Rightarrow>
              if int attempt + 1 \<ge> max_attempts policy then raise error
              else
                bind (delay env policy attempt retry_after) (\<lambda>d.
                seq (sleep env d)
                (retry_loop env policy operation attempts))))"

definition range_of :: "int \<Rightarrow> nat list" where
  "range_of n = [0..<nat n]"

definition retry_read_sync ::
  "'w env \<Rightarrow> read_retry_policy \<Rightarrow> ('w, 'a) action \<Rightarrow> ('w, 'a) action" where
  "retry_read_sync env policy operation =
     retry_loop env policy operation (range_of (max_attempts policy))"

text \<open>The result of one attempt of \<open>retry_read_until_sync\<close>: \<open>None\<close> where it
  continues the loop.\<close>

definition until_attempt ::
  "'w env \<Rightarrow> read_retry_policy \<Rightarrow> ('w, 'a) action \<Rightarrow> ('a \<Rightarrow> bool) \<Rightarrow> nat \<Rightarrow> ('w, 'a option) action" where
  "until_attempt env policy operation accepted attempt =
     bind
       (try_except (bind operation (\<lambda>result. return (Some result))) (\<lambda>error.
          if \<not> is_transport_error error then None
          else Some
            (case retryable_exception error of
               None \<Rightarrow> raise error
             | Some (status, retry_after) \<Rightarrow>
                 if int attempt + 1 \<ge> max_attempts policy then raise error
                 else
                   bind (delay env policy attempt retry_after) (\<lambda>d.
                   seq (sleep env d) (return None)))))
       (\<lambda>read.
          case read of
            None \<Rightarrow> return None
          | Some result \<Rightarrow>
              if accepted result \<or> int attempt + 1 \<ge> max_attempts policy
              then return (Some result)
              else
                bind (delay env policy attempt None) (\<lambda>d.
                seq (sleep env d) (return None)))"

fun until_loop ::
  "'w env \<Rightarrow> read_retry_policy \<Rightarrow> ('w, 'a) action \<Rightarrow> ('a \<Rightarrow> bool) \<Rightarrow> nat list \<Rightarrow> ('w, 'a) action" where
  "until_loop env policy operation accepted [] =
     raise (Lib (RuntimeError ''read retry policy has no attempts''))"
| "until_loop env policy operation accepted (attempt # attempts) =
     bind (until_attempt env policy operation accepted attempt) (\<lambda>done.
       case done of
         Some result \<Rightarrow> return result
       | None \<Rightarrow> until_loop env policy operation accepted attempts)"

definition retry_read_until_sync ::
  "'w env \<Rightarrow> read_retry_policy \<Rightarrow> ('w, 'a) action \<Rightarrow> ('a \<Rightarrow> bool) \<Rightarrow> ('w, 'a) action" where
  "retry_read_until_sync env policy operation accepted =
     until_loop env policy operation accepted (range_of (max_attempts policy))"

subsection \<open>What the loops keep\<close>

lemma keeps_delay:
  assumes "\<And>f :: 'w \<Rightarrow> rat \<times> 'w. keeps I (external f)"
  shows "keeps I (delay env policy attempt ra)"
  using assms by (auto simp: delay_def Let_def keeps_return split: option.splits pyfloat.splits)

lemma keeps_sleep_external:
  assumes "\<And>f :: 'w \<Rightarrow> unit \<times> 'w. keeps I (external f)"
  shows "keeps I (sleep env t)"
  using assms by (simp add: sleep_def)

lemma keeps_retry_loop:
  assumes "keeps I operation" and "\<And>f :: 'w \<Rightarrow> rat \<times> 'w. keeps I (external f)"
    and "\<And>f :: 'w \<Rightarrow> unit \<times> 'w. keeps I (external f)"
  shows "keeps I (retry_loop env policy operation attempts)"
proof (induction attempts)
  case (Cons a attempts)
  then show ?case
    using assms
    by (auto intro!: keeps_intros keeps_delay keeps_sleep_external
        split: option.splits if_splits prod.splits)
qed (simp add: keeps_raise)

lemma keeps_retry_read_sync:
  assumes "keeps I operation" and "\<And>f :: 'w \<Rightarrow> rat \<times> 'w. keeps I (external f)"
    and "\<And>f :: 'w \<Rightarrow> unit \<times> 'w. keeps I (external f)"
  shows "keeps I (retry_read_sync env policy operation)"
  unfolding retry_read_sync_def by (rule keeps_retry_loop) (use assms in auto)

lemma keeps_until_attempt:
  assumes "keeps I operation" and "\<And>f :: 'w \<Rightarrow> rat \<times> 'w. keeps I (external f)"
    and "\<And>f :: 'w \<Rightarrow> unit \<times> 'w. keeps I (external f)"
  shows "keeps I (until_attempt env policy operation accepted attempt)"
  unfolding until_attempt_def using assms
  by (auto intro!: keeps_intros keeps_delay keeps_sleep_external
      split: option.splits if_splits prod.splits)

lemma keeps_retry_read_until_sync:
  assumes "keeps I operation" and "\<And>f :: 'w \<Rightarrow> rat \<times> 'w. keeps I (external f)"
    and "\<And>f :: 'w \<Rightarrow> unit \<times> 'w. keeps I (external f)"
  shows "keeps I (retry_read_until_sync env policy operation accepted)"
proof -
  have "keeps I (until_loop env policy operation accepted attempts)" for attempts
    by (induction attempts) (auto intro!: keeps_intros keeps_until_attempt assms)
  then show ?thesis by (simp add: retry_read_until_sync_def)
qed

subsection \<open>What the loops do\<close>

lemma run_external:
  "external f w = (Inr (fst (f (outside w))), w\<lparr>outside := snd (f (outside w))\<rparr>)"
  by (simp add: external_def split: prod.splits)

lemma run_sleep: "sleep env t w = (Inr (), w\<lparr>outside := wait env t (outside w)\<rparr>)"
  by (simp add: sleep_def run_external)

lemma run_delay: "\<exists>d o'. delay env policy attempt ra w = (Inr d, w\<lparr>outside := o'\<rparr>)"
proof -
  have "\<exists>o'. (Inr t, w) = (Inr t, w\<lparr>outside := o'\<rparr>)" for t :: rat
    by (rule exI[of _ "outside w"]) simp
  then show ?thesis
    unfolding delay_def Let_def
    by (auto simp: run_external run_return split: option.splits pyfloat.splits)
qed

lemma wp_delayI: "(\<And>a o'. Q a (w\<lparr>outside := o'\<rparr>)) \<Longrightarrow> wp (delay env policy attempt ra) Q E w"
  using run_delay[of env policy attempt ra w] by (auto simp: wp_def)

lemma wp_sleepI: "(\<And>a o'. Q a (w\<lparr>outside := o'\<rparr>)) \<Longrightarrow> wp (sleep env t) Q E w"
  by (simp add: wp_def run_sleep)

text \<open>The loop rule: \<open>J\<close> holds before every attempt.\<close>

lemma wp_retry_loop:
  assumes op: "\<And>w. J w \<Longrightarrow> wp operation Q (\<lambda>e w'. E e w' \<and> (is_transport_error e \<longrightarrow> J w')) w"
    and ext: "\<And>w o'. J w \<Longrightarrow> J (w\<lparr>outside := o'\<rparr>)"
    and none: "\<And>w. J w \<Longrightarrow> E (Lib (RuntimeError ''read retry policy has no attempts'')) w"
  shows "J w \<Longrightarrow> wp (retry_loop env policy operation attempts) Q E w"
proof (induction attempts arbitrary: w)
  case Nil
  then show ?case by (simp add: wp_simps none)
next
  case (Cons a attempts)
  have "wp (retry_loop env policy operation attempts) Q E (w'\<lparr>outside := o'\<rparr>)" if "J w'" for w' o'
    using that ext by (intro Cons.IH)
  then show ?case
    unfolding retry_loop.simps wp_try_except
    by (intro wp_mono[OF op[OF Cons.prems]])
      (auto simp: wp_simps split: option.splits intro!: wp_delayI wp_sleepI)
qed

lemma wp_retry_read_sync:
  assumes "\<And>w. J w \<Longrightarrow> wp operation Q (\<lambda>e w'. E e w' \<and> (is_transport_error e \<longrightarrow> J w')) w"
    and "\<And>w o'. J w \<Longrightarrow> J (w\<lparr>outside := o'\<rparr>)"
    and "\<And>w. J w \<Longrightarrow> E (Lib (RuntimeError ''read retry policy has no attempts'')) w"
    and "J w"
  shows "wp (retry_read_sync env policy operation) Q E w"
  unfolding retry_read_sync_def by (rule wp_retry_loop[where J = J]) (use assms in blast)+

text \<open>
  The loop on one SDK request, exactly: it sends the request some number of times, all but the
  last of which failed with a transient error, and its outcome is the outcome of the last.
\<close>

definition transient :: "lib_exn \<Rightarrow> bool" where
  "transient e \<longleftrightarrow> is_transport_error (Lib e) \<and> retryable_exception (Lib e) \<noteq> None"

definition retried :: "oci_request \<Rightarrow> (lib_exn + response) list \<Rightarrow> (lib_exn + response) \<Rightarrow> io_entry list" where
  "retried req failures r = map (Pair req) (failures @ [r])"

definition all_transient :: "(lib_exn + response) list \<Rightarrow> bool" where
  "all_transient rs \<longleftrightarrow> list_all (\<lambda>r. case r of Inl e \<Rightarrow> transient e | Inr _ \<Rightarrow> False) rs"

lemma run_oci:
  "oci env req rid w =
     (let p = oci_call env req rid (outside w)
      in (map_sum Lib id (fst p), w\<lparr>outside := snd p, trace := trace w @ [(req, fst p)]\<rparr>))"
  by (simp add: oci_def split: prod.splits)

lemma retry_loop_oci:
  assumes "k < nat (max_attempts policy)"
    and "retry_loop env policy (oci env req rid) [k..<nat (max_attempts policy)] w = (out, w')"
  shows "\<exists>failures r. trace w' = trace w @ retried req failures r \<and> out = map_sum Lib id r \<and>
     all_transient failures \<and> k + length failures < nat (max_attempts policy) \<and>
     (\<forall>e. r = Inl e \<longrightarrow> transient e \<longrightarrow> Suc (k + length failures) = nat (max_attempts policy)) \<and>
     db w' = db w \<and> journal w' = journal w"
  using assms
proof (induction "nat (max_attempts policy) - k" arbitrary: k w)
  case 0
  then show ?case by simp
next
  case (Suc n)
  define r where "r = fst (oci_call env req rid (outside w))"
  define w1 where "w1 = w\<lparr>outside := snd (oci_call env req rid (outside w)), trace := trace w @ [(req, r)]\<rparr>"
  have step: "oci env req rid w = (map_sum Lib id r, w1)"
    by (simp add: run_oci Let_def r_def w1_def)
  have upt: "[k..<nat (max_attempts policy)] = k # [Suc k..<nat (max_attempts policy)]"
    using Suc.prems(1) by (simp add: upt_conv_Cons)
  show ?case
  proof (cases "\<exists>e. r = Inl e \<and> transient e \<and> Suc k < nat (max_attempts policy)")
    case False
    then have "out = map_sum Lib id r \<and> w' = w1"
      using Suc.prems unfolding upt
      by (cases r) (auto simp: try_except_def step transient_def raise_def split: option.splits if_splits)
    then show ?thesis
      using False Suc.prems(1)
      by (intro exI[of _ "[]"] exI[of _ r]) (auto simp: retried_def all_transient_def w1_def)
  next
    case True
    then obtain e where e: "r = Inl e" "transient e" "Suc k < nat (max_attempts policy)" by blast
    from e obtain st ra where ra: "retryable_exception (Lib e) = Some (st, ra)"
      by (auto simp: transient_def)
    obtain d o1 where d: "delay env policy k ra w1 = (Inr d, w1\<lparr>outside := o1\<rparr>)"
      using run_delay[of env policy k ra w1] by blast
    define w2 where "w2 = w1\<lparr>outside := wait env d o1\<rparr>"
    have "\<not> max_attempts policy \<le> int k + 1" using e(3) by linarith
    then have "retry_loop env policy (oci env req rid) [Suc k..<nat (max_attempts policy)] w2 = (out, w')"
      using Suc.prems(2) e ra unfolding upt
      by (simp add: try_except_def step transient_def run_simps d run_sleep w2_def)
    moreover have "n = nat (max_attempts policy) - Suc k" using Suc.hyps(2) by simp
    ultimately obtain failures q where IH: "trace w' = trace w2 @ retried req failures q"
       "out = map_sum Lib id q" "all_transient failures" "Suc k + length failures < nat (max_attempts policy)"
       "\<forall>e. q = Inl e \<longrightarrow> transient e \<longrightarrow> Suc (Suc k + length failures) = nat (max_attempts policy)"
       "db w' = db w2" "journal w' = journal w2"
      using Suc.hyps(1)[of "Suc k" w2] e(3) by blast
    then show ?thesis
      using e by (intro exI[of _ "r # failures"] exI[of _ q])
        (auto simp: retried_def all_transient_def w2_def w1_def)
  qed
qed

text \<open>The loop of \<open>retry_read_until_sync\<close>: a result is returned because it is accepted,
  or because it came with the last attempt.\<close>

lemma wp_until_attempt:
  assumes "wp operation (\<lambda>a w'. J w' \<and> (accepted a \<or> int attempt + 1 \<ge> max_attempts policy \<longrightarrow> Q a w'))
             (\<lambda>e w'. E e w' \<and> J w') w"
    and "\<And>w o'. J w \<Longrightarrow> J (w\<lparr>outside := o'\<rparr>)"
  shows "wp (until_attempt env policy operation accepted attempt)
           (\<lambda>r w'. J w' \<and> (\<forall>a. r = Some a \<longrightarrow> Q a w')) E w"
  unfolding until_attempt_def wp_simps
  by (rule wp_mono[OF assms(1)])
    (auto simp: wp_simps assms(2) split: option.splits intro!: wp_delayI wp_sleepI)

lemma wp_retry_read_until_sync:
  assumes op: "\<And>w. J w \<Longrightarrow> wp operation (\<lambda>a w'. J w' \<and> Q a w') (\<lambda>e w'. E e w' \<and> J w') w"
    and ext: "\<And>w o'. J w \<Longrightarrow> J (w\<lparr>outside := o'\<rparr>)"
    and none: "\<And>w. J w \<Longrightarrow> E (Lib (RuntimeError ''read retry policy has no attempts'')) w"
    and "J w"
  shows "wp (retry_read_until_sync env policy operation accepted) Q E w"
proof -
  have attempt: "wp (until_attempt env policy operation accepted k)
      (\<lambda>r w'. J w' \<and> (\<forall>a. r = Some a \<longrightarrow> Q a w')) E w" if "J w" for k w
    by (rule wp_until_attempt[where J = J], rule wp_mono[OF op[OF that]]) (auto intro: ext)
  have "J w \<Longrightarrow> wp (until_loop env policy operation accepted attempts) Q E w" for attempts w
  proof (induction attempts arbitrary: w)
    case Nil
    then show ?case by (simp add: wp_simps none)
  next
    case (Cons a attempts)
    show ?case
      unfolding until_loop.simps wp_bind
      by (rule wp_mono[OF attempt[OF Cons.prems]])
        (auto simp: wp_return Cons.IH split: option.splits)
  qed
  then show ?thesis
    unfolding retry_read_until_sync_def using assms(4) by blast
qed

text \<open>A delay never exceeds the policy's maximum, whatever the server asked for.\<close>

lemma delay_bounds:
  assumes "\<And>c o'. 0 \<le> c \<Longrightarrow> 0 \<le> fst (uniform env c o') \<and> fst (uniform env c o') \<le> c"
    and "0 \<le> base_delay_seconds policy" and "0 \<le> maximum_delay_seconds policy"
    and "delay env policy attempt ra w = (Inr d, w')"
  shows "0 \<le> d \<and> d \<le> maximum_delay_seconds policy"
proof -
  define c where "c = min (maximum_delay_seconds policy) (base_delay_seconds policy * 2 ^ attempt)"
  have "0 \<le> c" "c \<le> maximum_delay_seconds policy"
    using assms(2,3) by (simp_all add: c_def)
  then have "0 \<le> fst (uniform env c o') \<and> fst (uniform env c o') \<le> maximum_delay_seconds policy" for o'
    using assms(1)[of c o'] by simp
  then show ?thesis
    using assms(3,4) unfolding delay_def Let_def c_def[symmetric]
    by (auto simp: run_external run_return split: option.splits pyfloat.splits if_splits)
qed

end
