(* ===== verification/OciCertificates.thy ===== *)
theory OciCertificates
  imports OciRetry
begin

section \<open>The OCI Certificates adapters\<close>

text \<open>
  \<open>oci_certificates.py\<close>: the two adapters over the untyped SDK client. Each method sends one
  kind of request (reads under the retry policy, mutations once), checks the shape of what came
  back and returns a typed record. The adapters a service gets are the record \<open>adapters\<close>, one
  field per method, as the \<open>ManagementPort\<close> and \<open>RetrievalPort\<close> protocols declare them.
\<close>

subsection \<open>Records\<close>

record oci_certificate =
  oci_id :: string
  oci_etag :: "string option"
  current_version_number :: "int option"

record oci_certificate_version =
  version_number :: int
  ver_name :: "string option"
  stages :: "string list"
  time_created :: "instant option"
  time_of_deletion :: "instant option"
  ver_etag :: "string option"

record oci_public_bundle =
  certificate_pem :: string
  cert_chain_pem :: string
  bundle_version :: int
  bundle_name :: "string option"
  bundle_stages :: "string list"

subsection \<open>The idempotency name of a version\<close>

text \<open>The proleptic Gregorian date of a day number counted from the epoch.\<close>

definition civil_date :: "int \<Rightarrow> int \<times> int \<times> int" where
  "civil_date days =
     (let z = days + 719468;
          era = z div 146097;
          doe = z mod 146097;
          yoe = (doe - doe div 1460 + doe div 36524 - doe div 146096) div 365;
          doy = doe - (365 * yoe + yoe div 4 - yoe div 100);
          mp = (5 * doy + 2) div 153;
          day = doy - (153 * mp + 2) div 5 + 1;
          month = (if mp < 10 then mp + 3 else mp - 9);
          year = yoe + era * 400 + (if month \<le> 2 then 1 else 0)
      in (year, month, day))"

fun decimal :: "nat \<Rightarrow> int \<Rightarrow> string" where
  "decimal 0 n = []"
| "decimal (Suc k) n = decimal k (n div 10) @ [char_of (48 + nat (n mod 10))]"

text \<open>\<open>strftime("%Y%m%dT%H%M%SZ")\<close> of a UTC instant with a four-digit year.\<close>

definition compact_timestamp :: "instant \<Rightarrow> string" where
  "compact_timestamp t =
     (let s = t div second; d = s div 86400; r = s mod 86400
      in case civil_date d of (y, m, day) \<Rightarrow>
           decimal 4 y @ decimal 2 m @ decimal 2 day @ ''T'' @
           decimal 2 (r div 3600) @ decimal 2 (r div 60 mod 60) @ decimal 2 (r mod 60) @ ''Z'')"

definition version_name :: "instant \<Rightarrow> string \<Rightarrow> exn + string" where
  "version_name now fingerprint =
     (if length fingerprint < 12 \<or> \<not> list_all is_lower_hex fingerprint
      then Inl (Lib (ValueError ''fingerprint must be lower-case hexadecimal SHA-256''))
      else Inr (''le-'' @ compact_timestamp now @ ''-'' @ take 12 fingerprint))"

subsection \<open>Checking a response\<close>

text \<open>\<open>v is not None and not isinstance(v, ...)\<close>: absent is fine, another type is not.\<close>

definition optional_of :: "(pyval \<Rightarrow> 'a option) \<Rightarrow> exn \<Rightarrow> pyval \<Rightarrow> exn + 'a option" where
  "optional_of as_type e v =
     (if v = PNone then Inr None
      else case as_type v of None \<Rightarrow> Inl e | Some a \<Rightarrow> Inr (Some a))"

definition version_from_data :: "pyval \<Rightarrow> pyval \<Rightarrow> exn + oci_certificate_version" where
  "version_from_data data etag =
     (case as_int (getattr_or data ''version_number'' PNone) of
        None \<Rightarrow> Inl (OciCertificateError ''OCI response has no certificate version number'')
      | Some number \<Rightarrow>
     (case optional_of as_str
             (OciCertificateError ''OCI response has invalid certificate version name'')
             (getattr_or data ''version_name'' PNone) of
        Inl e \<Rightarrow> Inl e
      | Inr name \<Rightarrow>
     (case as_str_list (getattr_or data ''stages'' PNone) of
        None \<Rightarrow> Inl (OciCertificateError ''OCI response has invalid certificate stages'')
      | Some stage_names \<Rightarrow>
     (case optional_of as_time
             (OciCertificateError ''OCI response has invalid version creation time'')
             (getattr_or data ''time_created'' PNone) of
        Inl e \<Rightarrow> Inl e
      | Inr created \<Rightarrow>
     (case optional_of as_time
             (OciCertificateError ''OCI response has invalid version deletion time'')
             (getattr_or data ''time_of_deletion'' PNone) of
        Inl e \<Rightarrow> Inl e
      | Inr deletion \<Rightarrow>
     (case optional_of as_str (OciCertificateError ''OCI returned an invalid version ETag'') etag of
        Inl e \<Rightarrow> Inl e
      | Inr tag \<Rightarrow>
          Inr \<lparr>version_number = number, ver_name = name, stages = stage_names,
               time_created = created, time_of_deletion = deletion, ver_etag = tag\<rparr>))))))"

definition certificate_of_response :: "string \<Rightarrow> response \<Rightarrow> exn + oci_certificate" where
  "certificate_of_response cid response =
     (let data = resp_data response;
          current = getattr_or data ''current_version'' PNone;
          current_number =
            (if current = PNone then PNone else getattr_or current ''version_number'' PNone)
      in if getattr_or data ''id'' PNone \<noteq> PStr cid
         then Inl (OciCertificateError ''OCI returned a mismatched certificate identifier'')
         else
           case optional_of as_int (OciCertificateError ''OCI returned an invalid current version'')
                  current_number of
             Inl e \<Rightarrow> Inl e
           | Inr number \<Rightarrow>
               (case optional_of as_str (OciCertificateError ''OCI returned an invalid ETag'')
                       (header_get (resp_headers response) ''etag'') of
                  Inl e \<Rightarrow> Inl e
                | Inr tag \<Rightarrow>
                    Inr \<lparr>oci_id = cid, oci_etag = tag, current_version_number = number\<rparr>))"

fun versions_of_items :: "pyval list \<Rightarrow> exn + oci_certificate_version list" where
  "versions_of_items [] = Inr []"
| "versions_of_items (item # items) =
     (case version_from_data item PNone of
        Inl e \<Rightarrow> Inl e
      | Inr v \<Rightarrow> (case versions_of_items items of Inl e \<Rightarrow> Inl e | Inr vs \<Rightarrow> Inr (v # vs)))"

definition bundle_of_response :: "response \<Rightarrow> exn + oci_public_bundle" where
  "bundle_of_response response =
     (let data = resp_data response
      in case (as_str (getattr_or data ''certificate_pem'' PNone),
               as_str (getattr_or data ''cert_chain_pem'' PNone)) of
           (Some pem, Some chain) \<Rightarrow>
             (case as_int (getattr_or data ''version_number'' PNone) of
                None \<Rightarrow> Inl (OciCertificateError ''OCI retrieval response has invalid version metadata'')
              | Some number \<Rightarrow>
             (case optional_of as_str
                     (OciCertificateError ''OCI retrieval response has invalid version metadata'')
                     (getattr_or data ''version_name'' PNone) of
                Inl e \<Rightarrow> Inl e
              | Inr name \<Rightarrow>
             (case as_str_list (getattr_or data ''stages'' PNone) of
                None \<Rightarrow> Inl (OciCertificateError ''OCI retrieval response has invalid stages'')
              | Some stage_names \<Rightarrow>
                  Inr \<lparr>certificate_pem = pem, cert_chain_pem = chain, bundle_version = number,
                       bundle_name = name, bundle_stages = stage_names\<rparr>)))
         | _ \<Rightarrow> Inl (OciCertificateError ''OCI retrieval response does not contain a public bundle''))"

text \<open>\<open>bytes.decode("ascii")\<close>.\<close>

definition decode_ascii :: "string \<Rightarrow> exn + string" where
  "decode_ascii bytes =
     (if is_ascii bytes then Inr bytes
      else Inl (Lib (ValueError ''ascii codec cannot decode byte'')))"

subsection \<open>The management adapter\<close>

definition read :: "'w env \<Rightarrow> read_retry_policy \<Rightarrow> oci_request \<Rightarrow> string \<Rightarrow> ('w, response) action" where
  "read env policy request rid = retry_read_sync env policy (oci env request rid)"

definition get_certificate ::
  "'w env \<Rightarrow> read_retry_policy \<Rightarrow> string \<Rightarrow> string \<Rightarrow> ('w, oci_certificate) action" where
  "get_certificate env policy cid rid =
     bind (read env policy (GetCertificate cid) rid) (\<lambda>response.
       lift (certificate_of_response cid response))"

definition page_versions :: "response \<Rightarrow> exn + oci_certificate_version list" where
  "page_versions response =
     (case getattr_or (resp_data response) ''items'' (resp_data response) of
        PList values \<Rightarrow> versions_of_items values
      | _ \<Rightarrow> Inl (OciCertificateError ''OCI returned invalid certificate-version list''))"

text \<open>The token of the next page: absent at the last page, a string not seen before otherwise.\<close>

definition next_page :: "string list \<Rightarrow> response \<Rightarrow> exn + string option" where
  "next_page seen response =
     (case header_get (resp_headers response) ''opc-next-page'' of
        PNone \<Rightarrow> Inr None
      | PStr token \<Rightarrow>
          if token = [] \<or> List.member seen token
          then Inl (OciCertificateError ''OCI returned an invalid certificate-version page token'')
          else Inr (Some token)
      | _ \<Rightarrow> Inl (OciCertificateError ''OCI returned an invalid certificate-version page token''))"

text \<open>
  The page loop. \<open>seen\<close> are the page tokens already followed; the fuel is the number of pages
  the model allows, and \<open>OutOfFuel\<close> its exhaustion, which no code raises.
\<close>

fun list_pages ::
  "'w env \<Rightarrow> read_retry_policy \<Rightarrow> string \<Rightarrow> string \<Rightarrow> nat \<Rightarrow>
     oci_certificate_version list \<Rightarrow> string option \<Rightarrow> string list \<Rightarrow>
     ('w, oci_certificate_version list) action" where
  "list_pages env policy cid rid 0 versions page seen = raise OutOfFuel"
| "list_pages env policy cid rid (Suc fuel) versions page seen =
     bind (read env policy (ListCertificateVersions cid page) rid) (\<lambda>response.
     bind (lift (page_versions response)) (\<lambda>more.
     bind (lift (next_page seen response)) (\<lambda>token.
       case token of
         None \<Rightarrow> return (versions @ more)
       | Some next \<Rightarrow>
           list_pages env policy cid rid fuel (versions @ more) (Some next) (next # seen))))"

definition list_versions ::
  "'w env \<Rightarrow> read_retry_policy \<Rightarrow> string \<Rightarrow> string \<Rightarrow>
     ('w, oci_certificate_version list) action" where
  "list_versions env policy cid rid = list_pages env policy cid rid (page_budget env) [] None []"

definition get_version ::
  "'w env \<Rightarrow> read_retry_policy \<Rightarrow> string \<Rightarrow> int \<Rightarrow> string \<Rightarrow>
     ('w, oci_certificate_version) action" where
  "get_version env policy cid number rid =
     bind (read env policy (GetCertificateVersion cid number) rid) (\<lambda>response.
       lift (version_from_data (resp_data response) (header_get (resp_headers response) ''etag'')))"

record import_material =
  mat_version_name :: string
  mat_certificate_pem :: string
  mat_cert_chain_pem :: string
  mat_private_key_pem :: string

definition import_details :: "string option \<Rightarrow> import_material \<Rightarrow> exn + import_details" where
  "import_details stage m =
     (case decode_ascii (mat_certificate_pem m) of
        Inl e \<Rightarrow> Inl e
      | Inr pem \<Rightarrow>
     (case decode_ascii (mat_cert_chain_pem m) of
        Inl e \<Rightarrow> Inl e
      | Inr chain \<Rightarrow>
     (case decode_ascii (mat_private_key_pem m) of
        Inl e \<Rightarrow> Inl e
      | Inr key \<Rightarrow>
          Inr \<lparr>imp_version_name = mat_version_name m, imp_stage = stage,
               imp_certificate_pem = pem, imp_cert_chain_pem = chain,
               imp_private_key_pem = key\<rparr>)))"

definition created_ocid :: "response \<Rightarrow> exn + string" where
  "created_ocid response =
     (case as_str (getattr_or (resp_data response) ''id'' PNone) of
        None \<Rightarrow> Inl (OciCertificateError ''OCI create response lacks certificate OCID'')
      | Some cid \<Rightarrow>
          if cid = [] then Inl (OciCertificateError ''OCI create response lacks certificate OCID'')
          else Inr cid)"

definition create_imported_certificate ::
  "'w env \<Rightarrow> string \<Rightarrow> string \<Rightarrow> import_material \<Rightarrow> string \<Rightarrow> ('w, string) action" where
  "create_imported_certificate env compartment name material rid =
     bind (lift (import_details None material)) (\<lambda>details.
     bind (oci env (CreateCertificate name compartment details) rid) (\<lambda>response.
       lift (created_ocid response)))"

definition upload_pending_version ::
  "'w env \<Rightarrow> string \<Rightarrow> string option \<Rightarrow> import_material \<Rightarrow> string \<Rightarrow> ('w, unit) action" where
  "upload_pending_version env cid etag material rid =
     bind (lift (import_details (Some ''PENDING'') material)) (\<lambda>details.
     bind (oci env (UpdateByImporting cid details etag) rid) (\<lambda>_. return ()))"

definition promote_current ::
  "'w env \<Rightarrow> string \<Rightarrow> int \<Rightarrow> string option \<Rightarrow> string \<Rightarrow> ('w, unit) action" where
  "promote_current env cid number etag rid =
     bind (oci env (UpdateCurrentVersion cid number etag) rid) (\<lambda>_. return ())"

definition schedule_version_deletion ::
  "'w env \<Rightarrow> string \<Rightarrow> int \<Rightarrow> instant \<Rightarrow> string option \<Rightarrow> string \<Rightarrow> ('w, unit) action" where
  "schedule_version_deletion env cid number time etag rid =
     try_except
       (bind (oci env (ScheduleVersionDeletion cid number time etag) rid) (\<lambda>_. return ()))
       (\<lambda>error. if is_ServiceError error
                then Some (raise (OciCertificateError ''OCI version deletion scheduling failed''))
                else None)"

subsection \<open>The retrieval adapter\<close>

definition get_public_bundle ::
  "'w env \<Rightarrow> read_retry_policy \<Rightarrow> string \<Rightarrow> int option \<Rightarrow> string \<Rightarrow>
     ('w, oci_public_bundle) action" where
  "get_public_bundle env policy cid number rid =
     bind
       (try_except (retry_read_sync env policy (oci env (GetCertificateBundle cid number) rid))
         (\<lambda>error. if is_ServiceError error
                  then Some (raise (OciCertificateError ''OCI public bundle retrieval failed''))
                  else None))
       (\<lambda>response. lift (bundle_of_response response))"

subsection \<open>The adapters a service is given\<close>

record 'w adapters =
  port_get_certificate :: "string \<Rightarrow> string \<Rightarrow> ('w, oci_certificate) action"
  port_list_versions :: "string \<Rightarrow> string \<Rightarrow> ('w, oci_certificate_version list) action"
  port_get_version :: "string \<Rightarrow> int \<Rightarrow> string \<Rightarrow> ('w, oci_certificate_version) action"
  port_create_imported_certificate ::
    "string \<Rightarrow> string \<Rightarrow> import_material \<Rightarrow> string \<Rightarrow> ('w, string) action"
  port_upload_pending_version ::
    "string \<Rightarrow> string option \<Rightarrow> import_material \<Rightarrow> string \<Rightarrow> ('w, unit) action"
  port_promote_current :: "string \<Rightarrow> int \<Rightarrow> string option \<Rightarrow> string \<Rightarrow> ('w, unit) action"
  port_schedule_version_deletion ::
    "string \<Rightarrow> int \<Rightarrow> instant \<Rightarrow> string option \<Rightarrow> string \<Rightarrow> ('w, unit) action"
  port_get_public_bundle :: "string \<Rightarrow> int option \<Rightarrow> string \<Rightarrow> ('w, oci_public_bundle) action"

definition oci_adapters :: "'w env \<Rightarrow> read_retry_policy \<Rightarrow> 'w adapters" where
  "oci_adapters env policy =
     \<lparr>port_get_certificate = get_certificate env policy,
      port_list_versions = list_versions env policy,
      port_get_version = get_version env policy,
      port_create_imported_certificate = create_imported_certificate env,
      port_upload_pending_version = upload_pending_version env,
      port_promote_current = promote_current env,
      port_schedule_version_deletion = schedule_version_deletion env,
      port_get_public_bundle = get_public_bundle env policy\<rparr>"


subsection \<open>What a call of an adapter does\<close>

text \<open>
  A call touches neither the database nor the journal. A read sends one request some number of
  times and, if it returns, gives what the last response parses to; a mutation sends its
  request at most once.
\<close>

fun port_error :: "exn \<Rightarrow> bool" where
  "port_error (Lib _) = True"
| "port_error (OciCertificateError _) = True"
| "port_error OutOfFuel = True"
| "port_error _ = False"

definition asks :: "oci_request \<Rightarrow> (response \<Rightarrow> exn + 'a) \<Rightarrow> ('w, 'a) action \<Rightarrow> bool" where
  "asks req parse m \<longleftrightarrow>
     (\<forall>w. (\<exists>o' failures resp a. all_transient failures \<and> parse resp = Inr a \<and>
             m w = (Inr a, w\<lparr>outside := o', trace := trace w @ retried req failures (Inr resp)\<rparr>)) \<or>
          (\<exists>o' rs e. port_error e \<and>
             m w = (Inl e, w\<lparr>outside := o', trace := trace w @ map (Pair req) rs\<rparr>)))"

text \<open>The versions in an answered page, and those in all pages of an exchange.\<close>

definition versions_in :: "io_entry \<Rightarrow> oci_certificate_version list" where
  "versions_in entry =
     (case snd entry of
        Inl _ \<Rightarrow> []
      | Inr response \<Rightarrow> (case page_versions response of Inl _ \<Rightarrow> [] | Inr vs \<Rightarrow> vs))"

definition listed :: "io_entry list \<Rightarrow> oci_certificate_version list" where
  "listed io = concat (map versions_in io)"

definition is_listing :: "string \<Rightarrow> io_entry \<Rightarrow> bool" where
  "is_listing cid entry \<longleftrightarrow>
     (case fst entry of ListCertificateVersions c page \<Rightarrow> c = cid | _ \<Rightarrow> False)"

lemma listing_reads: "is_listing cid e \<Longrightarrow> \<not> is_mutation (fst e)"
  by (cases "fst e") (auto simp: is_listing_def)

definition lists :: "string \<Rightarrow> ('w, oci_certificate_version list) action \<Rightarrow> bool" where
  "lists cid m \<longleftrightarrow>
     (\<forall>w. \<exists>o' io r. list_all (is_listing cid) io \<and> (\<forall>a. r = Inr a \<longrightarrow> a = listed io) \<and>
        (\<forall>e. r = Inl e \<longrightarrow> port_error e) \<and> m w = (r, w\<lparr>outside := o', trace := trace w @ io\<rparr>))"

text \<open>\<open>details\<close> is \<open>Inl\<close> where building the request already fails.\<close>

definition sends_once :: "exn + oci_request \<Rightarrow> ('w, 'a) action \<Rightarrow> bool" where
  "sends_once req m \<longleftrightarrow>
     (\<forall>w. case req of
        Inl e \<Rightarrow> port_error e \<and> m w = (Inl e, w)
      | Inr q \<Rightarrow> \<exists>o' answer r. (\<forall>e. r = Inl e \<longrightarrow> port_error e) \<and>
          (\<forall>a. r = Inr a \<longrightarrow> (\<exists>resp. answer = Inr resp)) \<and>
          m w = (r, w\<lparr>outside := o', trace := trace w @ [(q, answer)]\<rparr>))"

lemma wp_asks:
  assumes "asks req parse m"
    and "\<And>a failures resp o'. all_transient failures \<Longrightarrow> parse resp = Inr a \<Longrightarrow>
           Q a (w\<lparr>outside := o', trace := trace w @ retried req failures (Inr resp)\<rparr>)"
    and "\<And>e rs o'. port_error e \<Longrightarrow> E e (w\<lparr>outside := o', trace := trace w @ map (Pair req) rs\<rparr>)"
  shows "wp m Q E w"
  using assms(1)[unfolded asks_def, rule_format, of w] by (auto simp: wp_def assms(2,3))

lemma wp_lists:
  assumes "lists cid m"
    and "\<And>io o'. list_all (is_listing cid) io \<Longrightarrow>
           Q (listed io) (w\<lparr>outside := o', trace := trace w @ io\<rparr>)"
    and "\<And>e io o'. list_all (is_listing cid) io \<Longrightarrow> port_error e \<Longrightarrow>
           E e (w\<lparr>outside := o', trace := trace w @ io\<rparr>)"
  shows "wp m Q E w"
  using assms(1)[unfolded lists_def, rule_format, of w]
  by (auto simp: wp_def assms(2,3) split: sum.splits)

lemma wp_sends_once:
  assumes "sends_once req m"
    and "\<And>a q resp o'. req = Inr q \<Longrightarrow> Q a (w\<lparr>outside := o', trace := trace w @ [(q, Inr resp)]\<rparr>)"
    and "\<And>e q answer o'. req = Inr q \<Longrightarrow> port_error e \<Longrightarrow>
           E e (w\<lparr>outside := o', trace := trace w @ [(q, answer)]\<rparr>)"
    and "\<And>e. req = Inl e \<Longrightarrow> port_error e \<Longrightarrow> E e w"
  shows "wp m Q E w"
  using assms(1)[unfolded sends_once_def, rule_format, of w]
  by (cases req) (auto simp: wp_def assms(2,3,4) split: sum.splits)

subsection \<open>The interface of the adapters\<close>

definition upload_request :: "string \<Rightarrow> string option \<Rightarrow> import_material \<Rightarrow> exn + oci_request" where
  "upload_request cid etag m =
     map_sum id (\<lambda>details. UpdateByImporting cid details etag) (import_details (Some ''PENDING'') m)"

definition create_request :: "string \<Rightarrow> string \<Rightarrow> import_material \<Rightarrow> exn + oci_request" where
  "create_request compartment name m =
     map_sum id (\<lambda>details. CreateCertificate name compartment details) (import_details None m)"

definition version_of_response :: "response \<Rightarrow> exn + oci_certificate_version" where
  "version_of_response response =
     version_from_data (resp_data response) (header_get (resp_headers response) ''etag'')"

locale oci_ports =
  fixes P :: "'w adapters"
  assumes get_certificate_law: "asks (GetCertificate cid) (certificate_of_response cid) (port_get_certificate P cid rid)"
    and get_version_law: "asks (GetCertificateVersion cid n) version_of_response (port_get_version P cid n rid)"
    and bundle_law: "asks (GetCertificateBundle cid k) bundle_of_response (port_get_public_bundle P cid k rid)"
    and list_law: "lists cid (port_list_versions P cid rid)"
    and upload_law: "sends_once (upload_request cid etag m) (port_upload_pending_version P cid etag m rid)"
    and create_law: "sends_once (create_request compartment name m) (port_create_imported_certificate P compartment name m rid)"
    and promote_law: "sends_once (Inr (UpdateCurrentVersion cid n etag)) (port_promote_current P cid n etag rid)"
    and deletion_law: "sends_once (Inr (ScheduleVersionDeletion cid n t etag))
                         (port_schedule_version_deletion P cid n t etag rid)"
begin

lemmas port_wps =
  wp_asks[OF get_certificate_law] wp_asks[OF get_version_law] wp_asks[OF bundle_law]
  wp_lists[OF list_law] wp_sends_once[OF upload_law] wp_sends_once[OF create_law]
  wp_sends_once[OF promote_law] wp_sends_once[OF deletion_law]

end

subsection \<open>The adapters satisfy it\<close>

lemma world_eqI:
  "db w' = db w \<Longrightarrow> journal w' = journal w \<Longrightarrow> trace w' = tr \<Longrightarrow>
     w' = w\<lparr>outside := outside w', trace := tr\<rparr>" for w w' :: "'w world"
  by simp

lemma run_read:
  "read env policy req rid w = (out, w') \<Longrightarrow>
     (\<exists>failures r. w' = w\<lparr>outside := outside w', trace := trace w @ retried req failures r\<rparr> \<and>
        out = map_sum Lib id r \<and> all_transient failures) \<or>
     (w' = w \<and> out = Inl (Lib (RuntimeError ''read retry policy has no attempts'')))"
proof (cases "nat (max_attempts policy)")
  case 0
  assume "read env policy req rid w = (out, w')"
  with 0 show ?thesis by (simp add: read_def retry_read_sync_def range_of_def run_simps)
next
  case (Suc n)
  assume "read env policy req rid w = (out, w')"
  then have "retry_loop env policy (oci env req rid) [0..<nat (max_attempts policy)] w = (out, w')"
    by (simp add: read_def retry_read_sync_def range_of_def)
  from retry_loop_oci[OF _ this] Suc
  obtain failures r where "trace w' = trace w @ retried req failures r" "out = map_sum Lib id r"
    "db w' = db w" "journal w' = journal w" "all_transient failures" by auto
  then show ?thesis using world_eqI by blast
qed

lemma import_details_error: "import_details stage m = Inl e \<Longrightarrow> port_error e"
  by (auto simp: import_details_def decode_ascii_def split: sum.splits if_splits)

lemma optional_of_error: "optional_of as_type e v = Inl e' \<Longrightarrow> e' = e"
  by (auto simp: optional_of_def split: if_splits option.splits)

lemma version_from_data_error: "version_from_data d etag = Inl e \<Longrightarrow> port_error e"
  by (auto simp: version_from_data_def split: option.splits sum.splits dest!: optional_of_error)

lemma certificate_of_response_error: "certificate_of_response cid r = Inl e \<Longrightarrow> port_error e"
  by (auto simp: certificate_of_response_def Let_def split: if_splits sum.splits dest!: optional_of_error)

lemma versions_of_items_error: "versions_of_items vs = Inl e \<Longrightarrow> port_error e"
  by (induction vs) (auto split: sum.splits dest: version_from_data_error)

lemma bundle_of_response_error: "bundle_of_response r = Inl e \<Longrightarrow> port_error e"
  by (auto simp: bundle_of_response_def Let_def split: option.splits sum.splits dest!: optional_of_error)

text \<open>A read whose response is parsed.\<close>

lemma asks_cases:
  assumes "asks req parse m"
  obtains o' failures resp a where "all_transient failures" "parse resp = Inr a"
      "m w = (Inr a, w\<lparr>outside := o', trace := trace w @ retried req failures (Inr resp)\<rparr>)"
    | o' rs e where "port_error e" "m w = (Inl e, w\<lparr>outside := o', trace := trace w @ map (Pair req) rs\<rparr>)"
  using assms unfolding asks_def by blast

lemma asks_value:
  "all_transient failures \<Longrightarrow> parse resp = Inr a \<Longrightarrow>
     m w = (Inr a, w\<lparr>outside := o', trace := trace w @ retried req failures (Inr resp)\<rparr>) \<Longrightarrow>
     (\<exists>o' failures resp a. all_transient failures \<and> parse resp = Inr a \<and>
        m w = (Inr a, w\<lparr>outside := o', trace := trace w @ retried req failures (Inr resp)\<rparr>)) \<or> R"
  by blast

lemma asks_error:
  "port_error e \<Longrightarrow> m w = (Inl e, w\<lparr>outside := o', trace := trace w @ map (Pair req) rs\<rparr>) \<Longrightarrow>
     R \<or> (\<exists>o' rs e. port_error e \<and>
        m w = (Inl e, w\<lparr>outside := o', trace := trace w @ map (Pair req) rs\<rparr>))"
  by blast

lemma asks_read: "asks req Inr (read env policy req rid)"
  unfolding asks_def
proof
  fix w
  obtain out w' where m: "read env policy req rid w = (out, w')" by fastforce
  show "(\<exists>o' failures resp a. all_transient failures \<and> Inr resp = Inr a \<and> read env policy req rid w =
        (Inr a, w\<lparr>outside := o', trace := trace w @ retried req failures (Inr resp)\<rparr>)) \<or>
    (\<exists>o' rs e. port_error e \<and> read env policy req rid w =
        (Inl e, w\<lparr>outside := o', trace := trace w @ map (Pair req) rs\<rparr>))"
    using run_read[OF m]
  proof (elim disjE exE conjE)
    fix failures r
    assume w': "w' = w\<lparr>outside := outside w', trace := trace w @ retried req failures r\<rparr>"
      and out: "out = map_sum Lib id r" and tr: "all_transient failures"
    show ?thesis
    proof (cases r)
      case (Inl e)
      then show ?thesis
        using m w' out
        by (intro asks_error[where e = "Lib e" and o' = "outside w'" and rs = "failures @ [r]"]) (simp_all add: retried_def)
    next
      case (Inr resp)
      then show ?thesis
        using m w' out tr by (intro asks_value[where resp = resp and a = resp and o' = "outside w'" and failures = failures]) simp_all
    qed
  next
    assume "w' = w" "out = Inl (Lib (RuntimeError ''read retry policy has no attempts''))"
    then show ?thesis
      using m by (intro asks_error[where o' = "outside w" and rs = "[]"]) simp_all
  qed
qed

lemma asks_parse:
  assumes "asks req Inr m" and "\<And>r e. parse r = Inl e \<Longrightarrow> port_error e"
  shows "asks req parse (bind m (\<lambda>r. lift (parse r)))"
  unfolding asks_def
proof
  fix w
  let ?goal = "(\<exists>o' failures resp a. all_transient failures \<and> parse resp = Inr a \<and> bind m (\<lambda>r. lift (parse r)) w =
        (Inr a, w\<lparr>outside := o', trace := trace w @ retried req failures (Inr resp)\<rparr>)) \<or>
    (\<exists>o' rs e. port_error e \<and> bind m (\<lambda>r. lift (parse r)) w =
        (Inl e, w\<lparr>outside := o', trace := trace w @ map (Pair req) rs\<rparr>))"
  show ?goal
  proof (cases rule: asks_cases[OF assms(1), of w])
    case (1 o' failures resp a)
    show ?thesis
    proof (cases "parse resp")
      case (Inl e)
      then show ?thesis
        using 1 assms(2)
        by (intro asks_error[where e = e and o' = o' and rs = "failures @ [Inr resp]"]) (simp_all add: run_simps retried_def)
    next
      case (Inr b)
      then show ?thesis
        using 1 by (intro asks_value[where resp = resp and a = b and o' = o' and failures = failures]) (simp_all add: run_simps)
    qed
  next
    case (2 o' rs e)
    then show ?thesis by (intro asks_error[where e = e and o' = o' and rs = rs]) (simp_all add: run_simps)
  qed
qed

lemma asks_get_certificate:
  "asks (GetCertificate cid) (certificate_of_response cid) (get_certificate env policy cid rid)"
  unfolding get_certificate_def by (rule asks_parse[OF asks_read certificate_of_response_error])

lemma asks_get_version:
  "asks (GetCertificateVersion cid n) version_of_response (get_version env policy cid n rid)"
  unfolding get_version_def version_of_response_def[symmetric]
  by (rule asks_parse[OF asks_read]) (simp add: version_of_response_def version_from_data_error)

lemma asks_translate:
  "asks req Inr m \<Longrightarrow>
     asks req Inr (try_except m (\<lambda>e. if is_ServiceError e then Some (raise (OciCertificateError t)) else None))"
  unfolding asks_def
proof
  fix w
  assume m: "\<forall>w. (\<exists>o' failures resp a. all_transient failures \<and> Inr resp = Inr a \<and>
         m w = (Inr a, w\<lparr>outside := o', trace := trace w @ retried req failures (Inr resp)\<rparr>)) \<or>
      (\<exists>o' rs e. port_error e \<and> m w = (Inl e, w\<lparr>outside := o', trace := trace w @ map (Pair req) rs\<rparr>))"
  let ?t = "try_except m (\<lambda>e. if is_ServiceError e then Some (raise (OciCertificateError t)) else None)"
  from m[rule_format, of w] show "(\<exists>o' failures resp a. all_transient failures \<and> Inr resp = Inr a \<and>
         ?t w = (Inr a, w\<lparr>outside := o', trace := trace w @ retried req failures (Inr resp)\<rparr>)) \<or>
      (\<exists>o' rs e. port_error e \<and> ?t w = (Inl e, w\<lparr>outside := o', trace := trace w @ map (Pair req) rs\<rparr>))"
  proof (elim disjE exE conjE)
    fix o' rs e
    assume "port_error e" "m w = (Inl e, w\<lparr>outside := o', trace := trace w @ map (Pair req) rs\<rparr>)"
    then show ?thesis
      by (intro asks_error[where e = "if is_ServiceError e then OciCertificateError t else e" and o' = o' and rs = rs])
        (auto simp: run_simps)
  qed (auto simp: run_simps)
qed

lemma asks_get_public_bundle:
  "asks (GetCertificateBundle cid k) bundle_of_response (get_public_bundle env policy cid k rid)"
  unfolding get_public_bundle_def
  by (rule asks_parse[OF asks_translate[OF asks_read[unfolded read_def]] bundle_of_response_error])

text \<open>The page loop.\<close>

lemma page_versions_error: "page_versions r = Inl e \<Longrightarrow> port_error e"
  by (auto simp: page_versions_def split: pyval.splits dest: versions_of_items_error)

lemma next_page_error: "next_page seen r = Inl e \<Longrightarrow> port_error e"
  by (auto simp: next_page_def split: pyval.splits if_splits)

lemma listed_append: "listed (io @ io') = listed io @ listed io'"
  by (simp add: listed_def)

lemma listed_retried:
  "all_transient failures \<Longrightarrow> page_versions resp = Inr vs \<Longrightarrow> listed (retried req failures (Inr resp)) = vs"
proof (induction failures)
  case Nil
  then show ?case by (simp add: listed_def retried_def versions_in_def)
next
  case (Cons f failures)
  then show ?case
    by (auto simp: listed_def retried_def versions_in_def all_transient_def split: sum.splits)
qed

lemma is_listing_pages: "list_all (is_listing cid) (map (Pair (ListCertificateVersions cid page)) rs)"
  by (simp add: list_all_iff is_listing_def)

lemma wp_list_pages:
  assumes "list_all (is_listing cid) io0"
  shows "wp (list_pages env policy cid rid fuel (listed io0) page seen)
     (\<lambda>a w'. \<exists>o' io. list_all (is_listing cid) io \<and> a = listed (io0 @ io) \<and>
        w' = w\<lparr>outside := o', trace := trace w @ io\<rparr>)
     (\<lambda>e w'. \<exists>o' io. list_all (is_listing cid) io \<and> port_error e \<and>
        w' = w\<lparr>outside := o', trace := trace w @ io\<rparr>) w"
  using assms
proof (induction fuel arbitrary: io0 page seen w)
  case 0
  show ?case
    unfolding list_pages.simps wp_raise by (intro exI[of _ "outside w"] exI[of _ "[]"]) simp
next
  case (Suc fuel)
  let ?req = "ListCertificateVersions cid page"
  let ?Q = "\<lambda>a w'. \<exists>o' io. list_all (is_listing cid) io \<and> a = listed (io0 @ io) \<and>
        w' = w\<lparr>outside := o', trace := trace w @ io\<rparr>"
  let ?E = "\<lambda>e w'. \<exists>o' io. list_all (is_listing cid) io \<and> port_error e \<and>
        w' = w\<lparr>outside := o', trace := trace w @ io\<rparr>"
  have err: "?E e (w\<lparr>outside := o', trace := trace w @ map (Pair ?req) rs\<rparr>)" if "port_error e" for e o' rs
    using that is_listing_pages by blast
  show ?case
    unfolding list_pages.simps wp_bind
  proof (rule wp_asks[OF asks_read])
    fix a resp failures o'
    assume tr: "all_transient failures" and "(Inr resp :: exn + response) = Inr a"
    then have a: "a = resp" by simp
    let ?io = "retried ?req failures (Inr resp)"
    let ?w = "w\<lparr>outside := o', trace := trace w @ ?io\<rparr>"
    have io: "list_all (is_listing cid) ?io" using is_listing_pages by (simp add: retried_def del: map_append)
    have err': "?E e ?w" if "port_error e" for e using err[OF that, where o' = o' and rs = "failures @ [Inr resp]"] by (simp add: retried_def)
    have more: "wp (case token of None \<Rightarrow> return (listed io0 @ more)
         | Some n \<Rightarrow> list_pages env policy cid rid fuel (listed io0 @ more) (Some n) (n # seen)) ?Q ?E ?w"
      if "page_versions resp = Inr more" for more token
    proof (cases token)
      case None
      have "listed io0 @ more = listed (io0 @ ?io)" by (simp add: listed_append listed_retried[OF tr that])
      then show ?thesis using None io by (auto simp: wp_return)
    next
      case (Some n)
      have eq: "listed io0 @ more = listed (io0 @ ?io)" by (simp add: listed_append listed_retried[OF tr that])
      have "list_all (is_listing cid) (io0 @ ?io)" using io Suc.prems by simp
      note rec = Suc.IH[OF this, of "Some n" "n # seen" ?w]
      show ?thesis
        unfolding Some option.case eq
      proof (rule wp_mono[OF rec])
        fix b w'
        assume "\<exists>o' io. list_all (is_listing cid) io \<and> b = listed ((io0 @ ?io) @ io) \<and>
            w' = ?w\<lparr>outside := o', trace := trace ?w @ io\<rparr>"
        then obtain o1 io1 where "list_all (is_listing cid) io1" "b = listed ((io0 @ ?io) @ io1)"
          "w' = ?w\<lparr>outside := o1, trace := trace ?w @ io1\<rparr>" by blast
        then show "?Q b w'" using io by (intro exI[of _ o1] exI[of _ "?io @ io1"]) simp
      next
        fix e w'
        assume "\<exists>o' io. list_all (is_listing cid) io \<and> port_error e \<and>
            w' = ?w\<lparr>outside := o', trace := trace ?w @ io\<rparr>"
        then obtain o1 io1 where "list_all (is_listing cid) io1" "port_error e"
          "w' = ?w\<lparr>outside := o1, trace := trace ?w @ io1\<rparr>" by blast
        then show "?E e w'" using io by (intro exI[of _ o1] exI[of _ "?io @ io1"]) simp
      qed
    qed
    show "wp (lift (page_versions a)) (\<lambda>more. wp (lift (next_page seen a)) (\<lambda>token.
         wp (case token of None \<Rightarrow> return (listed io0 @ more)
         | Some n \<Rightarrow> list_pages env policy cid rid fuel (listed io0 @ more) (Some n) (n # seen)) ?Q ?E) ?E) ?E ?w"
      unfolding a wp_lift
      by (auto split: sum.split intro: err' more dest: page_versions_error next_page_error)
  qed (rule err)
qed

lemma lists_list_versions: "lists cid (list_versions env policy cid rid)"
  unfolding lists_def
proof
  fix w
  have "wp (list_versions env policy cid rid)
     (\<lambda>a w'. \<exists>o' io. list_all (is_listing cid) io \<and> a = listed io \<and> w' = w\<lparr>outside := o', trace := trace w @ io\<rparr>)
     (\<lambda>e w'. \<exists>o' io. list_all (is_listing cid) io \<and> port_error e \<and> w' = w\<lparr>outside := o', trace := trace w @ io\<rparr>) w"
    using wp_list_pages[of cid "[]" env policy rid "page_budget env" None "[]" w]
    by (simp add: list_versions_def listed_def)
  then show "\<exists>o' io r. list_all (is_listing cid) io \<and> (\<forall>a. r = Inr a \<longrightarrow> a = listed io) \<and>
      (\<forall>e. r = Inl e \<longrightarrow> port_error e) \<and>
      list_versions env policy cid rid w = (r, w\<lparr>outside := o', trace := trace w @ io\<rparr>)"
    by (cases "list_versions env policy cid rid w") (force simp: wp_def split: sum.splits)
qed

text \<open>The mutations.\<close>

lemma oci_cases:
  obtains o' e where "oci env req rid w =
      (Inl (Lib e), w\<lparr>outside := o', trace := trace w @ [(req, Inl e)]\<rparr>)"
    | o' resp where "oci env req rid w =
      (Inr resp, w\<lparr>outside := o', trace := trace w @ [(req, Inr resp)]\<rparr>)"
  by (cases "fst (oci_call env req rid (outside w))") (auto simp: run_oci Let_def)

lemma sends_onceI:
  assumes "\<And>w. \<exists>o' answer r. (\<forall>e. r = Inl e \<longrightarrow> port_error e) \<and>
      (\<forall>a. r = Inr a \<longrightarrow> (\<exists>resp. answer = Inr resp)) \<and>
      m w = (r, w\<lparr>outside := o', trace := trace w @ [(q, answer)]\<rparr>)"
  shows "sends_once (Inr q) m"
  using assms by (simp add: sends_once_def)

lemma sends_once_oci:
  assumes "\<And>resp e. parse resp = Inl e \<Longrightarrow> port_error e"
  shows "sends_once (Inr req) (bind (oci env req rid) (\<lambda>resp. lift (parse resp)))"
proof (rule sends_onceI)
  fix w
  show "\<exists>o' answer r. (\<forall>e. r = Inl e \<longrightarrow> port_error e) \<and>
      (\<forall>a. r = Inr a \<longrightarrow> (\<exists>resp. answer = Inr resp)) \<and>
      bind (oci env req rid) (\<lambda>resp. lift (parse resp)) w =
        (r, w\<lparr>outside := o', trace := trace w @ [(req, answer)]\<rparr>)"
    by (cases rule: oci_cases[of env req rid w])
      (use assms in \<open>force simp: run_bind run_lift\<close>)+
qed

lemma sends_once_details:
  assumes "details = import_details stage m" and "\<And>d. sends_once (Inr (f d)) (k d)"
  shows "sends_once (map_sum id f details) (bind (lift details) k)"
proof (cases details)
  case (Inl e)
  then show ?thesis
    using assms(1) import_details_error[of stage m e] by (simp add: sends_once_def run_simps)
next
  case (Inr d)
  then show ?thesis using assms(2)[of d] by (simp add: sends_once_def run_simps)
qed

lemma lift_Inr: "lift (Inr a) = return a"
  by (simp add: lift_def return_def)

lemma sends_once_upload:
  "sends_once (upload_request cid etag m) (upload_pending_version env cid etag m rid)"
  unfolding upload_request_def upload_pending_version_def lift_Inr[symmetric]
  by (intro sends_once_details[OF refl] sends_once_oci) simp

lemma sends_once_promote:
  "sends_once (Inr (UpdateCurrentVersion cid n etag)) (promote_current env cid n etag rid)"
  unfolding promote_current_def lift_Inr[symmetric] by (rule sends_once_oci) simp

lemma created_ocid_error: "created_ocid resp = Inl e \<Longrightarrow> port_error e"
  by (auto simp: created_ocid_def split: option.splits if_splits)

lemma sends_once_create:
  "sends_once (create_request compartment name m) (create_imported_certificate env compartment name m rid)"
  unfolding create_request_def create_imported_certificate_def
  by (intro sends_once_details[OF refl] sends_once_oci created_ocid_error)

lemma sends_once_deletion:
  "sends_once (Inr (ScheduleVersionDeletion cid n t etag)) (schedule_version_deletion env cid n t etag rid)"
proof (rule sends_onceI)
  fix w
  show "\<exists>o' answer r. (\<forall>e. r = Inl e \<longrightarrow> port_error e) \<and>
      (\<forall>a. r = Inr a \<longrightarrow> (\<exists>resp. answer = Inr resp)) \<and>
      schedule_version_deletion env cid n t etag rid w =
        (r, w\<lparr>outside := o', trace := trace w @ [(ScheduleVersionDeletion cid n t etag, answer)]\<rparr>)"
    by (cases rule: oci_cases[of env "ScheduleVersionDeletion cid n t etag" rid w])
      (force simp: schedule_version_deletion_def run_simps)+
qed

interpretation sdk: oci_ports "oci_adapters env policy" for env policy
  by unfold_locales
    (simp_all add: oci_adapters_def asks_get_certificate asks_get_version asks_get_public_bundle
      lists_list_versions sends_once_upload sends_once_create sends_once_promote sends_once_deletion)

end
