(* ===== verification/StagingEvidence.thy ===== *)
theory StagingEvidence
  imports Files Config OciRetry OciCertificates
begin

section \<open>Retained staging evidence\<close>

text \<open>
  \<open>staging_evidence.py\<close>: the record that the live compatibility probe of staging writes once, and
  the gate that lets a production certificate set be published only if one of the configured
  records qualifies its profile. JSON text is parsed and printed by the standard library, which is
  a parameter here; a JSON value is the Python value \<open>json.loads\<close> gives.
\<close>

subsection \<open>JSON values\<close>

datatype json =
    JNull
  | JBool bool
  | JInt int
  | JFloat pyfloat
  | JStr string
  | JList "json list"
  | JDict "(string \<times> json) list"

text \<open>Python's \<open>==\<close>: numbers (a \<open>bool\<close> is one) by value, lists by position, dicts by key.\<close>

fun number_of :: "json \<Rightarrow> pyfloat option" where
  "number_of (JBool b) = Some (FNum (if b then 1 else 0))"
| "number_of (JInt n) = Some (FNum (of_int n))"
| "number_of (JFloat x) = Some x"
| "number_of _ = None"

definition number_eq :: "json \<Rightarrow> json \<Rightarrow> bool" where
  "number_eq v w \<longleftrightarrow> number_of v \<noteq> None \<and> number_of v = number_of w \<and> number_of v \<noteq> Some FNan"

fun json_eq :: "json \<Rightarrow> json \<Rightarrow> bool" where
  "json_eq JNull JNull = True"
| "json_eq (JStr s) (JStr t) = (s = t)"
| "json_eq (JList vs) (JList ws) = list_all2 json_eq vs ws"
| "json_eq (JDict kvs) (JDict kws) \<longleftrightarrow>
     (\<forall>(k, v)\<in>set kvs. case map_of kws k of None \<Rightarrow> False | Some w \<Rightarrow> json_eq v w) \<and>
     (\<forall>(k, w)\<in>set kws. map_of kvs k \<noteq> None)"
| "json_eq v w = number_eq v w"

definition json_get :: "(string \<times> json) list \<Rightarrow> string \<Rightarrow> json" where
  "json_get d k = (case map_of d k of None \<Rightarrow> JNull | Some v \<Rightarrow> v)"

subsection \<open>The profile of a certificate set\<close>

definition json_option :: "('a \<Rightarrow> json) \<Rightarrow> 'a option \<Rightarrow> json" where
  "json_option f x = (case x of None \<Rightarrow> JNull | Some a \<Rightarrow> f a)"

fun key_type_text :: "key_type \<Rightarrow> string" where
  "key_type_text RSA = ''rsa''"
| "key_type_text ECDSA = ''ecdsa''"

definition certificate_profile :: "certificate_config \<Rightarrow> json" where
  "certificate_profile cert =
     JDict
       [(''identifier_count'', JInt (int (length (domains cert)))),
        (''common_name_is_first_identifier'', JBool (hd (domains cert) = common_name cert)),
        (''contains_wildcard'', JBool (list_ex (\<lambda>d. startswith d ''*.'') (domains cert))),
        (''key'', JDict
           [(''type'', JStr (key_type_text (key_family (key_of cert)))),
            (''rsa_size'', json_option JInt (rsa_size (key_of cert))),
            (''ecdsa_curve'', json_option JStr (ecdsa_curve (key_of cert)))])]"

subsection \<open>Reading a record\<close>

text \<open>\<open>Path.read_bytes\<close> follows links; \<open>json_loads\<close> gets the bytes, so that it may also fail to
  decode them.\<close>

definition read_file :: "path \<Rightarrow> string syscall" where
  "read_file p f =
     (case stat_at f True p of
        Inl e \<Rightarrow> Inl e
      | Inr (_, Regular _ _ content) \<Rightarrow> Inr (content, f)
      | Inr (_, _) \<Rightarrow> Inl EISDIR)"

definition lstat_node :: "path \<Rightarrow> node syscall" where
  "lstat_node p f = (case stat_at f False p of Inl e \<Rightarrow> Inl e | Inr (_, n) \<Rightarrow> Inr (n, f))"

text \<open>\<open>try: content = path.read_bytes()\<close>, its outcome as a value.\<close>

definition file_outcome :: "'w mount \<Rightarrow> path \<Rightarrow> ('w, exn, lib_exn + string) prog" where
  "file_outcome K p =
     try_except (bind (sys K (read_file p)) (\<lambda>content. return (Inr content)))
       (\<lambda>e. case e of Lib x \<Rightarrow> Some (return (Inl x)) | _ \<Rightarrow> None)"

record json_libs =
  json_loads :: "string \<Rightarrow> lib_exn + json"
  json_dumps :: "json \<Rightarrow> string"

abbreviation max_evidence_bytes :: int where "max_evidence_bytes \<equiv> 1048576"

definition check_evidence_node :: "node \<Rightarrow> exn + unit" where
  "check_evidence_node n =
     (case n of
        Regular _ mode content \<Rightarrow>
          if mode AND 0x12 \<noteq> 0
          then Inl (ConfigurationError ''staging evidence must not be group or world writable'')
          else if max_evidence_bytes < int (length content)
          then Inl (ConfigurationError ''staging evidence exceeds maximum size'')
          else Inr ()
      | _ \<Rightarrow> Inl (ConfigurationError ''staging evidence is not a regular file''))"

definition parse_evidence :: "json_libs \<Rightarrow> string \<Rightarrow> exn + (string \<times> json) list" where
  "parse_evidence J raw =
     (case json_loads J raw of
        Inl JSONDecodeError \<Rightarrow> Inl (ConfigurationError ''staging evidence is invalid JSON'')
      | Inl e \<Rightarrow> Inl (Lib e)
      | Inr (JDict d) \<Rightarrow> Inr d
      | Inr _ \<Rightarrow> Inl (ConfigurationError ''staging evidence root must be an object''))"

definition read_evidence :: "'w mount \<Rightarrow> json_libs \<Rightarrow> string \<Rightarrow> ('w, exn, (string \<times> json) list) prog" where
  "read_evidence K J file =
     bind
       (try_except
          (bind (sys K (lstat_node (components file))) (\<lambda>n.
           seq (lift (check_evidence_node n)) (sys K (read_file (components file)))))
          (\<lambda>e. if is_OSError e then Some (raise (ConfigurationError ''unable to read staging evidence'')) else None))
       (\<lambda>raw. lift (parse_evidence J raw))"

subsection \<open>The gate\<close>

abbreviation passed_result :: string where "passed_result \<equiv> ''STAGING_COMPATIBILITY_PASSED''"

definition qualifies :: "json \<Rightarrow> (string \<times> json) list \<Rightarrow> bool" where
  "qualifies expected payload \<longleftrightarrow>
     json_eq (json_get payload ''schema_version'') (JInt 2) \<and>
     json_eq (json_get payload ''result'') (JStr passed_result) \<and>
     json_eq (json_get payload ''qualified_profile'') expected"

fun find_evidence :: "'w mount \<Rightarrow> json_libs \<Rightarrow> json \<Rightarrow> string list \<Rightarrow> ('w, exn, unit) prog" where
  "find_evidence K J expected [] =
     raise (ConfigurationError ''no retained staging evidence qualifies this certificate profile'')"
| "find_evidence K J expected (file # files) =
     bind (read_evidence K J file) (\<lambda>payload.
       if qualifies expected payload then return () else find_evidence K J expected files)"

definition require_qualified_profile ::
  "'w mount \<Rightarrow> json_libs \<Rightarrow> app_config \<Rightarrow> certificate_config \<Rightarrow> ('w, exn, unit) prog" where
  "require_qualified_profile K J config cert =
     (if \<not> live_verified (compatibility config)
      then raise (ConfigurationError ''production operation requires compatibility.live_verified'')
      else find_evidence K J (certificate_profile cert) (live_evidence_paths (compatibility config)))"

subsection \<open>Writing a record\<close>

record live_probe_evidence =
  ev_ocid :: string
  ev_initial_version :: int
  ev_promoted_version :: int
  ev_rollback_version :: int
  ev_leaf_fingerprint :: string
  ev_root_fingerprint :: string
  ev_chain_bytes :: int
  ev_country_enforced :: bool

text \<open>\<open>datetime.isoformat\<close> of a UTC instant.\<close>

definition isoformat :: "instant \<Rightarrow> string" where
  "isoformat t =
     (let s = t div second; us = t mod second; d = s div 86400; r = s mod 86400
      in case civil_date d of (y, m, day) \<Rightarrow>
           decimal 4 y @ ''-'' @ decimal 2 m @ ''-'' @ decimal 2 day @ ''T'' @
           decimal 2 (r div 3600) @ '':'' @ decimal 2 (r div 60 mod 60) @ '':'' @ decimal 2 (r mod 60) @
           (if us = 0 then [] else ''.'' @ decimal 6 us) @ ''+00:00'')"

definition evidence_payload :: "instant \<Rightarrow> certificate_config \<Rightarrow> live_probe_evidence \<Rightarrow> json" where
  "evidence_payload now cert r =
     JDict
       [(''schema_version'', JInt 2), (''result'', JStr passed_result),
        (''recorded_at'', JStr (isoformat now)), (''certificate_id'', JStr (cert_id cert)),
        (''qualified_profile'', certificate_profile cert),
        (''live_probe'', JDict
           [(''oci_certificate_ocid'', JStr (ev_ocid r)),
            (''initial_version_number'', JInt (ev_initial_version r)),
            (''promoted_version_number'', JInt (ev_promoted_version r)),
            (''rollback_version_number'', JInt (ev_rollback_version r)),
            (''leaf_fingerprint'', JStr (ev_leaf_fingerprint r)),
            (''root_fingerprint'', JStr (ev_root_fingerprint r)),
            (''chain_bytes'', JInt (ev_chain_bytes r)),
            (''documented_subject_country_enforced'', JBool (ev_country_enforced r))])]"

definition write_evidence ::
  "'w mount \<Rightarrow> json_libs \<Rightarrow> instant \<Rightarrow> string \<Rightarrow> certificate_config \<Rightarrow> live_probe_evidence \<Rightarrow> ('w, exn, unit) prog" where
  "write_evidence K J now file cert r =
     (let p = components file
      in seq (raise_if (\<not> startswith file ''/'') (ConfigurationError ''staging evidence path must be an absolute path''))
         (bind (sys K (observe (path_exists p))) (\<lambda>there.
          bind (if there then return True else sys K (observe (is_symlink p))) (\<lambda>taken.
          seq (raise_if taken (ConfigurationError ''staging evidence already exists; refusing to overwrite it''))
          (bind (sys K (observe (is_dir (butlast p)))) (\<lambda>parent.
           seq (raise_if (\<not> parent) (ConfigurationError ''staging evidence directory does not exist''))
           (bind (sys K (create_file (euid K) (created_mode K 0x1A0) p)) (\<lambda>fd.
            write_all K fd (json_dumps J (evidence_payload now cert r) @ [CHR 0x0A])))))))))"

subsection \<open>What the gate has seen\<close>

text \<open>\<open>retained f file payload\<close>: the path names a regular file itself, no other account may write
  it, it is small enough, and its text parses as the object.\<close>

definition retained :: "json_libs \<Rightarrow> fs \<Rightarrow> string \<Rightarrow> (string \<times> json) list \<Rightarrow> bool" where
  "retained J f file payload \<longleftrightarrow>
     (\<exists>q r uid mode content raw. stat_at f False (components file) = Inr (q, Regular uid mode content) \<and>
        mode AND 0x12 = 0 \<and> int (length content) \<le> max_evidence_bytes \<and>
        read_file (components file) f = Inr (raw, r) \<and> json_loads J raw = Inr (JDict payload))"

lemma check_evidence_node_Inr:
  "check_evidence_node n = Inr u \<longleftrightarrow>
     (\<exists>uid mode content. n = Regular uid mode content \<and> mode AND 0x12 = 0 \<and> int (length content) \<le> max_evidence_bytes)"
  by (auto simp: check_evidence_node_def split: node.splits if_splits)

lemma parse_evidence_Inr: "parse_evidence J raw = Inr d \<longleftrightarrow> json_loads J raw = Inr (JDict d)"
  by (auto simp: parse_evidence_def split: sum.splits lib_exn.splits json.splits)

lemma read_file_same: "read_file p f = Inr (raw, f') \<Longrightarrow> f' = f"
  by (auto simp: read_file_def split: sum.splits prod.splits node.splits)

lemma lstat_node_Inr: "lstat_node p f = Inr (n, f') \<longleftrightarrow> f' = f \<and> (\<exists>q. stat_at f False p = Inr (q, n))"
  by (auto simp: lstat_node_def split: sum.splits prod.splits)

lemma wp_read_evidence:
  assumes K: "mount_law K"
  shows "wp (read_evidence K J file)
     (\<lambda>payload w'. disk K w' = disk K w \<and> retained J (disk K w) file payload)
     (\<lambda>e w'. disk K w' = disk K w) w"
proof -
  have raw: "wp (sys K (read_file (components file)))
      (\<lambda>raw w'. wp (lift (parse_evidence J raw)) (\<lambda>payload w'. disk K w' = disk K w \<and> retained J (disk K w) file payload)
         (\<lambda>e w'. disk K w' = disk K w) w')
      (\<lambda>e w'. disk K w' = disk K w) w1"
    if "disk K w1 = disk K w" "stat_at (disk K w) False (components file) = Inr (q, n)" "check_evidence_node n = Inr ()" for w1 n q
  proof (rule wp_sys[OF K])
    fix raw f w2
    assume r: "read_file (components file) (disk K w1) = Inr (raw, f)" "disk K w2 = f"
    have "retained J (disk K w) file payload" if "parse_evidence J raw = Inr payload" for payload
      using that r(1) \<open>disk K w1 = disk K w\<close> \<open>stat_at _ _ _ = _\<close> \<open>check_evidence_node n = Inr ()\<close>
      unfolding retained_def by (auto simp: parse_evidence_Inr check_evidence_node_Inr)
    then show "wp (lift (parse_evidence J raw)) (\<lambda>payload w'. disk K w' = disk K w \<and> retained J (disk K w) file payload)
         (\<lambda>e w'. disk K w' = disk K w) w2"
      using r that(1) read_file_same by (auto simp: wp_lift split: sum.splits)
  qed (use that(1) in simp)
  have "wp (try_except
          (bind (sys K (lstat_node (components file))) (\<lambda>n.
           seq (lift (check_evidence_node n)) (sys K (read_file (components file)))))
          (\<lambda>e. if is_OSError e then Some (raise (ConfigurationError ''unable to read staging evidence'')) else None))
      (\<lambda>raw w'. wp (lift (parse_evidence J raw)) (\<lambda>payload w'. disk K w' = disk K w \<and> retained J (disk K w) file payload)
         (\<lambda>e w'. disk K w' = disk K w) w')
      (\<lambda>e w'. disk K w' = disk K w) w"
    unfolding wp_try_except wp_bind
  proof (rule wp_sys[OF K])
    fix n f w1
    assume "lstat_node (components file) (disk K w) = Inr (n, f)" "disk K w1 = f"
    then show "wp (seq (lift (check_evidence_node n)) (sys K (read_file (components file))))
       (\<lambda>raw w'. wp (lift (parse_evidence J raw)) (\<lambda>payload w'. disk K w' = disk K w \<and> retained J (disk K w) file payload)
         (\<lambda>e w'. disk K w' = disk K w) w')
       (\<lambda>e. case if is_OSError e then Some (raise (ConfigurationError ''unable to read staging evidence'')) else None of
          None \<Rightarrow> \<lambda>w'. disk K w' = disk K w
        | Some k \<Rightarrow> wp k (\<lambda>raw w'. wp (lift (parse_evidence J raw)) (\<lambda>payload w'. disk K w' = disk K w \<and> retained J (disk K w) file payload)
         (\<lambda>e w'. disk K w' = disk K w) w') (\<lambda>e w'. disk K w' = disk K w)) w1"
      by (auto simp: wp_seq wp_lift lstat_node_Inr wp_raise split: sum.splits intro!: wp_mono[OF raw])
  qed (simp add: wp_raise)
  then show ?thesis by (simp add: read_evidence_def wp_bind)
qed

lemma wp_find_evidence:
  assumes K: "mount_law K"
  shows "wp (find_evidence K J expected files)
     (\<lambda>_ w'. disk K w' = disk K w \<and>
        (\<exists>file\<in>set files. \<exists>payload. retained J (disk K w) file payload \<and> qualifies expected payload))
     (\<lambda>e w'. disk K w' = disk K w) w"
proof (induction files arbitrary: w)
  case (Cons p ps)
  have more: "wp (find_evidence K J expected ps)
     (\<lambda>_ w'. disk K w' = disk K w \<and>
        (\<exists>file\<in>set (p # ps). \<exists>payload. retained J (disk K w) file payload \<and> qualifies expected payload))
     (\<lambda>e w'. disk K w' = disk K w) w1" if "disk K w1 = disk K w" for w1
    by (rule wp_mono[OF Cons.IH[of w1]]) (use that in auto)
  show ?case
    unfolding find_evidence.simps wp_bind
    by (rule wp_mono[OF wp_read_evidence[OF K]]) (auto simp: wp_simps intro: more[simplified])
qed (simp add: wp_raise)

lemma wp_require_qualified_profile:
  assumes "mount_law K"
  shows "wp (require_qualified_profile K J config cert)
     (\<lambda>_ w'. disk K w' = disk K w \<and> live_verified (compatibility config) \<and>
        (\<exists>file\<in>set (live_evidence_paths (compatibility config)). \<exists>payload.
           retained J (disk K w) file payload \<and> qualifies (certificate_profile cert) payload))
     (\<lambda>e w'. disk K w' = disk K w) w"
  unfolding require_qualified_profile_def
  by (simp add: wp_raise wp_mono[OF wp_find_evidence[OF assms]])

subsection \<open>A written record qualifies\<close>

text \<open>A new entry is where its path leads, whether or not links are followed.\<close>

lemma walk_new_entry:
  assumes "\<not> fl" and "walk f fl k d cs = Inr q" and "node_at f q = None"
    and "same_but q f f'" and "node_at f' q = Some (Regular u m b)"
  shows "walk f' fl' k d cs = Inr q"
  using assms
proof (induction f fl k d cs rule: walk.induct)
  case (2 f fl k d c cs)
  show ?case
  proof (cases "node_at f (d @ [c])")
    case None
    then show ?thesis using 2 by (auto simp: same_but_def split: if_splits)
  next
    case (Some n)
    then have "node_at f' (d @ [c]) = Some n" using "2.prems"(3,4) by (cases "d @ [c] = q") (auto simp: same_but_def)
    then show ?thesis
      using 2 Some by (cases n) (auto split: if_splits nat.splits)
  qed
qed auto

lemma stat_new_entry:
  assumes "new_entry f p = Inr q" and "same_but q f f'" and "node_at f' q = Some (Regular u m b)"
  shows "stat_at f' fl p = Inr (q, Regular u m b)"
proof -
  have "walk f False max_links [] p = Inr q" "node_at f q = None"
    using assms(1) by (auto simp: new_entry_def resolve_def split: sum.splits if_splits)
  then have "walk f' fl max_links [] p = Inr q" by (intro walk_new_entry[OF _ _ _ assms(2,3), of False]) simp_all
  then show ?thesis using assms(3) by (simp add: stat_at_def resolve_def)
qed

lemma wp_write_evidence:
  fixes J now cert r
  assumes K: "mount_law K"
  defines "content \<equiv> json_dumps J (evidence_payload now cert r) @ [CHR 0x0A]"
  shows "wp (write_evidence K J now file cert r)
     (\<lambda>_ w'. \<exists>q. \<forall>fl. stat_at (disk K w') fl (components file) = Inr (q, Regular (euid K) (created_mode K 0x1A0) content))
     (\<lambda>_ _. True) w"
proof -
  let ?p = "components file"
  let ?Q = "\<lambda>_ w'. \<exists>q. \<forall>fl. stat_at (disk K w') fl ?p = Inr (q, Regular (euid K) (created_mode K 0x1A0) content)"
  have create: "wp (sys K (create_file (euid K) (created_mode K 0x1A0) ?p)) (\<lambda>fd. wp (write_all K fd content) ?Q (\<lambda>_ _. True)) (\<lambda>_ _. True) w1" for w1
  proof (rule wp_sys[OF K])
    fix q f w2
    assume "create_file (euid K) (created_mode K 0x1A0) ?p (disk K w1) = Inr (q, f)" and f: "disk K w2 = f"
    then have new: "new_entry (disk K w1) ?p = Inr q" and f': "f = AList.update q (Regular (euid K) (created_mode K 0x1A0) []) (disk K w1)"
      by (auto simp: create_file_def split: sum.splits)
    then have q: "q \<noteq> []" by (auto simp: new_entry_def split: sum.splits if_splits)
    have "node_at (disk K w2) q = Some (Regular (euid K) (created_mode K 0x1A0) [])" "same_but q (disk K w1) (disk K w2)"
      using q by (simp_all add: f f' node_at_update same_but_def)
    from wp_write_all[OF K q this]
    show "wp (write_all K q content) ?Q (\<lambda>_ _. True) w2"
      by (rule wp_mono) (use new stat_new_entry in fastforce, simp)
  qed simp
  show ?thesis
    unfolding write_evidence_def Let_def wp_seq wp_bind wp_raise_if
    by (auto simp: wp_simps content_def[symmetric] create intro!: wp_observe[OF K])
qed

lemma json_eq_get:
  assumes "json_eq (JDict d) (JDict e)" and "map_of e k = Some v"
  shows "json_eq (json_get d k) v"
proof -
  have "map_of d k \<noteq> None" using assms by (auto dest!: map_of_SomeD)
  then obtain w where w: "map_of d k = Some w" by blast
  then have "(k, w) \<in> set d" by (rule map_of_SomeD)
  then have "case map_of e k of None \<Rightarrow> False | Some v \<Rightarrow> json_eq w v" using assms(1) by auto
  then show ?thesis using w assms(2) by (simp add: json_get_def)
qed

lemma evidence_qualifies:
  assumes "json_eq (JDict d) (evidence_payload now cert r)"
  shows "qualifies (certificate_profile cert) d"
  unfolding qualifies_def by (intro conjI json_eq_get[OF assms[unfolded evidence_payload_def]]) simp_all

lemma created_mode_private: "created_mode K 0x1A0 AND 0x12 = 0"
proof -
  have "(0x1A0 AND NOT (umask K)) AND 0x12 = (0x1A0 AND 0x12) AND NOT (umask K)"
    by (simp only: ac_simps)
  then show ?thesis by (simp add: created_mode_def)
qed


end
