(* ===== verification/X509.thy ===== *)
theory X509
  imports Config
begin

section \<open>Certificates, their validation and the OCI chain\<close>

text \<open>
  \<open>certificate_validator.py\<close>, \<open>chain_builder.py\<close> and \<open>fingerprint.py\<close>. A parsed
  certificate is the record of what the source reads from the \<open>cryptography\<close> object; the
  library's own computations (parsing a PEM, the digest, verifying a signature, encoding a
  domain name) are the fields of \<open>libs\<close>, about which nothing is assumed.
\<close>

subsection \<open>What the library exposes\<close>

datatype public_key = RsaKey int | EcKey string | OtherKey

record x509 =
  subject_common_names :: "pyval list"
  subject_countries :: "pyval list"
  subject_name :: string
  issuer_name :: string
  issuer_rfc4514 :: string
  dns_names :: "string list option"
  basic_constraints_ca :: "bool option"
  extended_key_usage :: "string list option"
  digital_signature :: "bool option"
  public_key_of :: public_key
  public_key_der :: string
  signature_hash :: "string option"
  not_before :: instant
  not_after :: instant
  pem_bytes :: string

record libs =
  load_pem :: "string \<Rightarrow> lib_exn + x509"
  sha256_digest :: "x509 \<Rightarrow> string"
  verify_signature :: "x509 \<Rightarrow> x509 \<Rightarrow> lib_exn option"
  idna_encode :: "string \<Rightarrow> string option"

text \<open>\<open>verify_signature issuer child\<close> is the exception of \<open>public_key.verify\<close> with the
  arguments the source gives it for the issuer's key type, \<open>None\<close> if it returns.\<close>

record lineage_material =
  leaf :: x509
  mat_intermediates :: "x509 list"
  private_key_public_der :: string
  leaf_pem :: string
  chain_pem :: string
  private_key_pem :: string

subsection \<open>fingerprint.py\<close>

definition hex_of_byte :: "char \<Rightarrow> string" where
  "hex_of_byte c = [''0123456789abcdef'' ! (of_char c div 16), ''0123456789abcdef'' ! (of_char c mod 16)]"

definition certificate_sha256 :: "libs \<Rightarrow> x509 \<Rightarrow> string" where
  "certificate_sha256 L c = concat (map hex_of_byte (sha256_digest L c))"

subsection \<open>certificate\_validator.py\<close>

abbreviation invalid :: "string \<Rightarrow> exn + 'a" where
  "invalid t \<equiv> Inl (CertificateValidationError t)"

definition verify_certificate_signature :: "libs \<Rightarrow> x509 \<Rightarrow> x509 \<Rightarrow> exn + unit" where
  "verify_certificate_signature L child issuer =
     (if signature_hash child = None then invalid ''certificate signature algorithm has no hash''
      else if public_key_of issuer = OtherKey then invalid ''unsupported issuer public key algorithm''
      else
        (case verify_signature L issuer child of
           None \<Rightarrow> Inr ()
         | Some e \<Rightarrow>
             (case e of
                InvalidSignature \<Rightarrow> invalid ''certificate signature verification failed''
              | TypeError _ \<Rightarrow> invalid ''certificate signature verification failed''
              | ValueError _ \<Rightarrow> invalid ''certificate signature verification failed''
              | _ \<Rightarrow> Inl (Lib e))))"

definition dns_sans :: "libs \<Rightarrow> x509 \<Rightarrow> exn + string list" where
  "dns_sans L c =
     (case dns_names c of
        None \<Rightarrow> invalid ''certificate does not contain SAN''
      | Some names \<Rightarrow>
          (case map_result (normalize_domain (idna_encode L)) names of
             Inl e \<Rightarrow> if is_ValueError e then invalid ''certificate SAN is invalid'' else Inl e
           | Inr sans \<Rightarrow> Inr sans))"

text \<open>\<open>CertificateValidationError\<close> is a \<open>ValueError\<close>, so the last clause also catches the
  error raised for a value that is no text.\<close>

definition common_name_of :: "libs \<Rightarrow> x509 \<Rightarrow> exn + string" where
  "common_name_of L c =
     (case subject_common_names c of
        [value] \<Rightarrow>
          (case (case as_str value of
                   None \<Rightarrow> invalid ''certificate Common Name is not text''
                 | Some text \<Rightarrow> normalize_domain (idna_encode L) text) of
             Inl e \<Rightarrow> if is_ValueError e then invalid ''certificate Common Name is invalid'' else Inl e
           | Inr name \<Rightarrow> Inr name)
      | _ \<Rightarrow> invalid ''certificate must have exactly one Common Name'')"

definition validate_key :: "x509 \<Rightarrow> certificate_config \<Rightarrow> exn + unit" where
  "validate_key c expected =
     (if key_family (key_of expected) = RSA then
        (case public_key_of c of
           RsaKey bits \<Rightarrow>
             if rsa_size (key_of expected) = Some bits then Inr ()
             else invalid ''certificate RSA key does not match configuration''
         | _ \<Rightarrow> invalid ''certificate RSA key does not match configuration'')
      else
        (case public_key_of c of
           EcKey curve \<Rightarrow>
             if ecdsa_curve (key_of expected) = Some curve then Inr ()
             else invalid ''certificate ECDSA key does not match configuration''
         | _ \<Rightarrow> invalid ''certificate ECDSA key does not match configuration''))"

definition validate_extensions :: "x509 \<Rightarrow> exn + unit" where
  "validate_extensions c =
     (case basic_constraints_ca c of
        None \<Rightarrow> invalid ''leaf certificate lacks BasicConstraints''
      | Some True \<Rightarrow> invalid ''leaf certificate must not be a CA''
      | Some False \<Rightarrow>
          if (case extended_key_usage c of None \<Rightarrow> False
              | Some eku \<Rightarrow> \<not> List.member eku ''1.3.6.1.5.5.7.3.1'')
          then invalid ''leaf certificate EKU excludes server authentication''
          else if digital_signature c = Some False
          then invalid ''leaf certificate key usage excludes digital signature''
          else Inr ())"

definition iso_countries :: "string list" where
  "iso_countries = split_on (CHR '' '')
     (''AD AE AF AG AI AL AM AO AQ AR AS AT AU AW AX AZ BA BB BD BE BF BG BH BI BJ BM BN BO BQ '' @
      ''BR BS BT BV BW BY BZ CA CC CD CF CG CH CI CK CL CM CN CO CR CU CV CW CX CY CZ DE DJ DK '' @
      ''DM DO DZ EC EE EG EH ER ES ET FI FJ FK FM FO FR GA GB GD GE GF GG GH GI GL GM GN GP GQ GR '' @
      ''GS GT GU GW GY HK HM HN HR HT HU ID IE IL IM IN IO IQ IR IS IT JE JM JO JP KE KG KH KI KM '' @
      ''KN KP KR KW KY KZ LA LB LC LI LK LR LS LT LU LV LY MA MC MD ME MG MH MK ML MM MN MO MP MQ '' @
      ''MR MS MT MU MV MW MX MY MZ NA NC NE NF NG NI NL NO NP NR NU NZ OM PA PE PF PG PH PK PL PM '' @
      ''PN PR PS PT PW PY QA RE RO RS RU RW SA SB SC SD SE SG SH SI SJ SK SL SM SN SO SR SS ST SV '' @
      ''SX SY SZ TC TD TF TG TH TJ TK TL TM TN TO TR TT TV TW TZ UA UG UM US UY UZ VA VC VE VG VI '' @
      ''VN VU WF WS XK YE YT ZA ZM ZW'')"

definition validate_country :: "x509 \<Rightarrow> compatibility_config \<Rightarrow> exn + unit" where
  "validate_country c policy =
     (if \<not> enforce_documented_subject_country policy then Inr ()
      else
        (case subject_countries c of
           [PStr code] \<Rightarrow>
             if List.member iso_countries code then Inr ()
             else invalid ''certificate country code is missing or not ISO 3166-1''
         | _ \<Rightarrow> invalid ''certificate country code is missing or not ISO 3166-1''))"

definition validate_validity :: "x509 \<Rightarrow> global_config \<Rightarrow> instant \<Rightarrow> exn + unit" where
  "validate_validity c g now =
     (let skew = clock_skew_tolerance_seconds g * second
      in if now + skew < not_before c then invalid ''certificate is not yet valid''
         else if now - skew > not_after c then invalid ''certificate is expired''
         else Inr ())"

definition validate_certificate_material ::
  "libs \<Rightarrow> lineage_material \<Rightarrow> certificate_config \<Rightarrow> compatibility_config \<Rightarrow> global_config \<Rightarrow>
     instant \<Rightarrow> exn + string" where
  "validate_certificate_material L m cert policy g now =
     (case common_name_of L (leaf m) of Inl e \<Rightarrow> Inl e | Inr name \<Rightarrow>
      if name \<noteq> common_name cert
      then invalid ''certificate Common Name does not match configuration'' else
     (case dns_sans L (leaf m) of Inl e \<Rightarrow> Inl e | Inr sans \<Rightarrow>
      if sans \<noteq> domains cert
      then invalid ''certificate SAN does not exactly match configuration''
      else if public_key_der (leaf m) \<noteq> private_key_public_der m
      then invalid ''private key does not match certificate'' else
     (case validate_validity (leaf m) g now of Inl e \<Rightarrow> Inl e | Inr _ \<Rightarrow>
     (case validate_extensions (leaf m) of Inl e \<Rightarrow> Inl e | Inr _ \<Rightarrow>
     (case validate_key (leaf m) cert of Inl e \<Rightarrow> Inl e | Inr _ \<Rightarrow>
     (case validate_country (leaf m) policy of Inl e \<Rightarrow> Inl e | Inr _ \<Rightarrow>
      if environment_of g = PRODUCTION \<and> contains ''Fake LE'' (issuer_rfc4514 (leaf m))
      then invalid ''staging certificate cannot be published in production''
      else if 10240 < int (length (leaf_pem m)) \<or> 5120 < int (length (private_key_pem m))
      then invalid ''certificate or private key exceeds OCI size limit''
      else if 51200 < int (length (leaf_pem m) + length (chain_pem m))
      then invalid ''certificate bundle exceeds OCI size limit''
      else
     (case mat_intermediates m of
        [] \<Rightarrow> invalid ''certificate chain is empty''
      | issuer # _ \<Rightarrow>
          (case verify_certificate_signature L (leaf m) issuer of Inl e \<Rightarrow> Inl e
           | Inr _ \<Rightarrow> Inr (certificate_sha256 L (leaf m))))))))))"

definition validate_public_certificate ::
  "libs \<Rightarrow> string \<Rightarrow> certificate_config \<Rightarrow> global_config \<Rightarrow> instant \<Rightarrow> exn + string" where
  "validate_public_certificate L certificate_pem cert g now =
     (case (if is_ascii certificate_pem
            then (case load_pem L certificate_pem of
                    Inl (ValueError _) \<Rightarrow> invalid ''OCI public bundle leaf PEM is invalid''
                  | Inl e \<Rightarrow> Inl (Lib e)
                  | Inr c \<Rightarrow> Inr c)
            else invalid ''OCI public bundle leaf PEM is invalid'') of
        Inl e \<Rightarrow> Inl e
      | Inr c \<Rightarrow>
     (case common_name_of L c of Inl e \<Rightarrow> Inl e | Inr name \<Rightarrow>
      if name \<noteq> common_name cert
      then invalid ''OCI public bundle Common Name does not match configuration'' else
     (case dns_sans L c of Inl e \<Rightarrow> Inl e | Inr sans \<Rightarrow>
      if sans \<noteq> domains cert
      then invalid ''OCI public bundle SAN does not exactly match configuration'' else
     (case validate_validity c g now of Inl e \<Rightarrow> Inl e | Inr _ \<Rightarrow>
        Inr (certificate_sha256 L c)))))"

subsection \<open>chain\_builder.py\<close>

record oci_certificate_chain =
  chain_root :: x509
  chain_intermediates :: "x509 list"
  chain_cert_chain_pem :: string

abbreviation bad_chain :: "string \<Rightarrow> exn + 'a" where
  "bad_chain t \<equiv> Inl (ChainBuildError t)"

definition subject_common_name :: "x509 \<Rightarrow> exn + string" where
  "subject_common_name c =
     (case subject_common_names c of
        [PStr name] \<Rightarrow> Inr name
      | _ \<Rightarrow> bad_chain ''certificate subject has no single textual Common Name'')"

text \<open>\<open>content\<close> is what reading the pinned root's file gave.\<close>

definition load_pinned_root :: "libs \<Rightarrow> lib_exn + string \<Rightarrow> certificate_config \<Rightarrow> exn + x509" where
  "load_pinned_root L content cert =
     (case (case content of Inl e \<Rightarrow> Inl e | Inr bytes \<Rightarrow> load_pem L bytes) of
        Inl e \<Rightarrow>
          if is_OSError (Lib e) \<or> is_ValueError (Lib e)
          then bad_chain ''configured root certificate cannot be loaded'' else Inl (Lib e)
      | Inr root \<Rightarrow>
          if List.member (allowed_root_sha256 (chain_of cert)) (certificate_sha256 L root) then Inr root
          else bad_chain ''configured root fingerprint is not allowlisted'')"

definition algorithm_family :: "x509 \<Rightarrow> exn + string" where
  "algorithm_family c =
     (case public_key_of c of
        RsaKey _ \<Rightarrow> Inr ''rsa''
      | EcKey _ \<Rightarrow> Inr ''ecdsa''
      | OtherKey \<Rightarrow> bad_chain ''chain contains an unsupported key algorithm'')"

definition validate_ca :: "x509 \<Rightarrow> exn + unit" where
  "validate_ca c =
     (case basic_constraints_ca c of
        None \<Rightarrow> bad_chain ''issuer certificate lacks BasicConstraints''
      | Some ca \<Rightarrow> if ca then Inr () else bad_chain ''issuer certificate is not a CA'')"

text \<open>The loop over the intermediates: \<open>current\<close> is the last certificate verified.\<close>

fun walk_chain :: "libs \<Rightarrow> x509 \<Rightarrow> x509 list \<Rightarrow> exn + x509" where
  "walk_chain L current [] = Inr current"
| "walk_chain L current (issuer # rest) =
     (if issuer_name current \<noteq> subject_name issuer
      then bad_chain ''ACME certificate chain issuer order is invalid''
      else
        (case validate_ca issuer of Inl e \<Rightarrow> Inl e | Inr _ \<Rightarrow>
        (case verify_certificate_signature L current issuer of Inl e \<Rightarrow> Inl e | Inr _ \<Rightarrow>
           walk_chain L issuer rest)))"

definition build_oci_chain ::
  "libs \<Rightarrow> lib_exn + string \<Rightarrow> lineage_material \<Rightarrow> certificate_config \<Rightarrow> compatibility_config \<Rightarrow>
     exn + oci_certificate_chain" where
  "build_oci_chain L content m cert policy =
     (case load_pinned_root L content cert of Inl e \<Rightarrow> Inl e | Inr root \<Rightarrow>
     (let intermediates =
        filter (\<lambda>c. certificate_sha256 L c \<noteq> certificate_sha256 L root) (mat_intermediates m)
      in if intermediates = [] then bad_chain ''ACME certificate chain is empty''
         else if list_ex (\<lambda>c. subject_name c = subject_name root) intermediates
         then bad_chain ''ACME certificate chain must not contain the configured root''
         else
     (case walk_chain L (leaf m) intermediates of Inl e \<Rightarrow> Inl e | Inr final \<Rightarrow>
      if issuer_name final \<noteq> subject_name root
      then bad_chain ''configured root does not issue the final intermediate'' else
     (case validate_ca root of Inl e \<Rightarrow> Inl e | Inr _ \<Rightarrow>
     (case verify_certificate_signature L final root of Inl e \<Rightarrow> Inl e | Inr _ \<Rightarrow>
     (case subject_common_name (hd intermediates) of Inl e \<Rightarrow> Inl e | Inr issuer \<Rightarrow>
      if \<not> List.member (allowed_issuer_common_names (chain_of cert)) issuer
      then bad_chain ''intermediate issuer Common Name is not allowlisted'' else
     (case (if reject_mixed_algorithm_chain policy
            then map_sum id (\<lambda>fs. length (remdups fs) = 1)
                   (map_result algorithm_family (leaf m # intermediates @ [root]))
            else Inr True) of
        Inl e \<Rightarrow> Inl e
      | Inr False \<Rightarrow> bad_chain ''chain mixes RSA and ECDSA key families''
      | Inr True \<Rightarrow>
          (let pem = concat (map pem_bytes (intermediates @ [root]))
           in if 51200 < int (length pem + length (leaf_pem m))
              then bad_chain ''OCI certificate bundle exceeds size limit''
              else
                Inr \<lparr>chain_root = root, chain_intermediates = intermediates,
                     chain_cert_chain_pem = pem\<rparr>))))))))"

subsection \<open>What validation establishes\<close>

text \<open>
  The declarative counterpart: \<open>issued_by\<close> is one verified link and \<open>certified\<close> a path of
  them from a leaf to a root.
\<close>

definition issued_by :: "libs \<Rightarrow> x509 \<Rightarrow> x509 \<Rightarrow> bool" where
  "issued_by L child issuer \<longleftrightarrow>
     issuer_name child = subject_name issuer \<and> basic_constraints_ca issuer = Some True \<and>
     signature_hash child \<noteq> None \<and> public_key_of issuer \<noteq> OtherKey \<and>
     verify_signature L issuer child = None"

fun certified :: "libs \<Rightarrow> x509 list \<Rightarrow> bool" where
  "certified L (child # issuer # rest) = (issued_by L child issuer \<and> certified L (issuer # rest))"
| "certified L _ = True"

lemma verify_certificate_signature_Inr [simp]:
  "verify_certificate_signature L child issuer = Inr u \<longleftrightarrow>
     signature_hash child \<noteq> None \<and> public_key_of issuer \<noteq> OtherKey \<and>
     verify_signature L issuer child = None"
  by (simp add: verify_certificate_signature_def split: option.splits lib_exn.splits)

lemma validate_ca_Inr [simp]: "validate_ca c = Inr u \<longleftrightarrow> basic_constraints_ca c = Some True"
  by (simp add: validate_ca_def split: option.splits)

lemma certified_append: "certified L (xs @ [y, z]) \<longleftrightarrow> certified L (xs @ [y]) \<and> issued_by L y z"
  by (induction L xs rule: certified.induct) auto

lemma walk_chain_Inr:
  "walk_chain L current cs = Inr final \<longleftrightarrow> certified L (current # cs) \<and> final = last (current # cs)"
  by (induction L current cs rule: walk_chain.induct) (auto simp: issued_by_def case_result_Inr)

lemma validate_validity_Inr [simp]:
  "validate_validity c g now = Inr u \<longleftrightarrow>
     not_before c \<le> now + clock_skew_tolerance_seconds g * second \<and>
     now - clock_skew_tolerance_seconds g * second \<le> not_after c"
  by (auto simp: validate_validity_def Let_def)

text \<open>A public bundle is accepted exactly when its leaf parses, has the configured identity and
  is within its validity; the value is its fingerprint.\<close>

lemma validate_public_certificate_Inr:
  "validate_public_certificate L text cert g now = Inr fp \<longleftrightarrow>
     is_ascii text \<and>
     (\<exists>c. load_pem L text = Inr c \<and> common_name_of L c = Inr (common_name cert) \<and>
        dns_sans L c = Inr (domains cert) \<and>
        not_before c \<le> now + clock_skew_tolerance_seconds g * second \<and>
        now - clock_skew_tolerance_seconds g * second \<le> not_after c \<and>
        fp = certificate_sha256 L c)"
  unfolding validate_public_certificate_def
  by (cases "load_pem L text") (auto simp: case_result_Inr split: lib_exn.splits if_splits)

end
