(* ===== verification/Loading.thy ===== *)
theory Loading
  imports StagingEvidence X509 "HOL-Library.List_Lexorder" "HOL-Library.Char_ord"
begin

section \<open>Loading the configuration\<close>

text \<open>
  The part of \<open>config.py\<close> that reads files: the YAML loader that rejects duplicate keys, one bounded
  file, a directory of one settings file and one file per certificate set, and the validation. The
  composition of a YAML text into nodes with resolved scalars is PyYAML's, and the fields of the
  models (types, defaults, unknown names) are Pydantic's: both are parameters.
\<close>

subsection \<open>Nodes and values\<close>

datatype yaml_scalar =
    YNull
  | YBool bool
  | YInt int
  | YFloat pyfloat
  | YText string
  | YOpaque string

datatype yaml_value =
    YScalar yaml_scalar
  | YList "yaml_value list"
  | YDict "(yaml_scalar \<times> yaml_value) list"

text \<open>A node of the composer; \<open>NodeUnknown\<close> has a tag that the safe loader does not construct.\<close>

datatype yaml_node =
    NodeScalar yaml_scalar
  | NodeSequence "yaml_node list"
  | NodeMapping "(yaml_node \<times> yaml_node) list"
  | NodeUnknown

datatype yaml_error = YamlError | Raised lib_exn

text \<open>Python's \<open>==\<close> on keys: a \<open>bool\<close> is a number, and numbers are compared by value.\<close>

fun scalar_number :: "yaml_scalar \<Rightarrow> pyfloat option" where
  "scalar_number (YBool b) = Some (FNum (if b then 1 else 0))"
| "scalar_number (YInt n) = Some (FNum (of_int n))"
| "scalar_number (YFloat x) = Some x"
| "scalar_number _ = None"

definition key_eq :: "yaml_scalar \<Rightarrow> yaml_scalar \<Rightarrow> bool" where
  "key_eq a b \<longleftrightarrow>
     (case (scalar_number a, scalar_number b) of
        (Some x, Some y) \<Rightarrow> x = y \<and> x \<noteq> FNan
      | _ \<Rightarrow> a = b)"

definition has_key :: "yaml_scalar \<Rightarrow> (yaml_scalar \<times> yaml_value) list \<Rightarrow> bool" where
  "has_key k d \<longleftrightarrow> list_ex (\<lambda>(k', _). key_eq k' k) d"

text \<open>\<open>_construct_mapping\<close> and the constructors it calls: a key that is a list or a dict has no hash.\<close>

function (sequential) construct_object :: "yaml_node \<Rightarrow> yaml_error + yaml_value"
  and construct_sequence :: "yaml_node list \<Rightarrow> yaml_error + yaml_value list"
  and construct_mapping ::
    "(yaml_scalar \<times> yaml_value) list \<Rightarrow> (yaml_node \<times> yaml_node) list \<Rightarrow> yaml_error + (yaml_scalar \<times> yaml_value) list" where
  "construct_object (NodeScalar s) = Inr (YScalar s)"
| "construct_object (NodeSequence ns) = map_sum id YList (construct_sequence ns)"
| "construct_object (NodeMapping kvs) = map_sum id YDict (construct_mapping [] kvs)"
| "construct_object NodeUnknown = Inl YamlError"
| "construct_sequence [] = Inr []"
| "construct_sequence (n # ns) =
     (case construct_object n of Inl e \<Rightarrow> Inl e | Inr v \<Rightarrow>
     (case construct_sequence ns of Inl e \<Rightarrow> Inl e | Inr vs \<Rightarrow> Inr (v # vs)))"
| "construct_mapping d [] = Inr d"
| "construct_mapping d ((k, v) # kvs) =
     (case construct_object k of
        Inl e \<Rightarrow> Inl e
      | Inr (YScalar key) \<Rightarrow>
          if has_key key d then Inl YamlError
          else
            (case construct_object v of
               Inl e \<Rightarrow> Inl e
             | Inr value \<Rightarrow> construct_mapping (d @ [(key, value)]) kvs)
      | Inr _ \<Rightarrow> Inl (Raised (TypeError ''unhashable type'')))"
  by pat_completeness auto
termination
  by (relation "measure (case_sum size (case_sum (size_list size) (\<lambda>(_, kvs). size_list (size_prod size size) kvs)))") auto

subsection \<open>One file\<close>

record schema_libs =
  yaml_compose :: "string \<Rightarrow> yaml_error + yaml_node option"
  model_fields :: "(yaml_scalar \<times> yaml_value) list \<Rightarrow> app_config option"

abbreviation max_config_bytes :: int where "max_config_bytes \<equiv> 1048576"

definition yaml_load :: "schema_libs \<Rightarrow> string \<Rightarrow> yaml_error + yaml_value" where
  "yaml_load Y raw =
     (case yaml_compose Y raw of
        Inl e \<Rightarrow> Inl e
      | Inr None \<Rightarrow> Inr (YScalar YNull)
      | Inr (Some n) \<Rightarrow> construct_object n)"

definition parse_document :: "schema_libs \<Rightarrow> string \<Rightarrow> exn + (yaml_scalar \<times> yaml_value) list" where
  "parse_document Y raw =
     (if max_config_bytes < int (length raw)
      then Inl (ConfigurationError ''configuration file exceeds maximum size'')
      else
        (case yaml_load Y raw of
           Inl YamlError \<Rightarrow> Inl (ConfigurationError ''invalid YAML configuration'')
         | Inl (Raised e) \<Rightarrow> Inl (Lib e)
         | Inr (YDict d) \<Rightarrow> Inr d
         | Inr _ \<Rightarrow> Inl (ConfigurationError ''configuration root must be a mapping'')))"

definition load_yaml_file ::
  "'w mount \<Rightarrow> schema_libs \<Rightarrow> path \<Rightarrow> ('w, exn, (yaml_scalar \<times> yaml_value) list) prog" where
  "load_yaml_file K Y p =
     bind
       (try_except (sys K (read_file p))
          (\<lambda>e. if is_OSError e then Some (raise (ConfigurationError ''unable to read configuration file'')) else None))
       (\<lambda>raw. lift (parse_document Y raw))"

definition model_validate ::
  "libs \<Rightarrow> schema_libs \<Rightarrow> (yaml_scalar \<times> yaml_value) list \<Rightarrow> exn + app_config" where
  "model_validate L Y parsed =
     (case model_fields Y parsed of
        None \<Rightarrow> Inl (ConfigurationError ''invalid configuration fields'')
      | Some drafted \<Rightarrow> validate_config (idna_encode L) drafted)"

subsection \<open>A directory of files\<close>

text \<open>\<open>sorted(directory.glob("*.yaml"))\<close>; a directory that is not there has no files.\<close>

definition yaml_names :: "path \<Rightarrow> fs \<Rightarrow> string list" where
  "yaml_names p f =
     (case stat_at f True p of
        Inr (q, Directory _ _) \<Rightarrow>
          sort (remdups (map (last \<circ> fst) (filter (\<lambda>(r, _). r \<noteq> [] \<and> butlast r = q \<and> endswith (last r) ''.yaml'') f)))
      | _ \<Rightarrow> [])"

definition certificate_mapping :: "(yaml_scalar \<times> yaml_value) list \<Rightarrow> exn + yaml_value" where
  "certificate_mapping document =
     (case document of
        [(key, YDict d)] \<Rightarrow>
          if key = YText ''certificate'' then Inr (YDict d)
          else Inl (ConfigurationError ''certificate files must contain exactly one certificate mapping'')
      | _ \<Rightarrow> Inl (ConfigurationError ''certificate files must contain exactly one certificate mapping''))"

definition compose_settings ::
  "(yaml_scalar \<times> yaml_value) list \<Rightarrow> yaml_value list \<Rightarrow> (yaml_scalar \<times> yaml_value) list" where
  "compose_settings settings certs = settings @ [(YText ''certificates'', YList certs)]"

definition load_config_directory :: "'w mount \<Rightarrow> libs \<Rightarrow> schema_libs \<Rightarrow> path \<Rightarrow> ('w, exn, app_config) prog" where
  "load_config_directory K L Y d =
     bind (load_yaml_file K Y (d @ [''settings.yaml''])) (\<lambda>settings.
     seq (raise_if (has_key (YText ''certificates'') settings \<or> has_key (YText ''certificate'') settings)
            (ConfigurationError ''settings.yaml must not define certificates''))
     (bind (sys K (observe (yaml_names (d @ [''certificates''])))) (\<lambda>names.
      seq (raise_if (names = []) (ConfigurationError ''configuration directory contains no certificate files''))
      (bind (map_prog (\<lambda>name.
               bind (load_yaml_file K Y (d @ [''certificates'', name])) (\<lambda>document. lift (certificate_mapping document))) names) (\<lambda>certs.
         lift (model_validate L Y (compose_settings settings certs)))))))"

definition load_config :: "'w mount \<Rightarrow> libs \<Rightarrow> schema_libs \<Rightarrow> string \<Rightarrow> ('w, exn, app_config) prog" where
  "load_config K L Y p =
     bind (sys K (observe (is_dir (components p)))) (\<lambda>directory.
       if directory then load_config_directory K L Y (components p)
       else bind (load_yaml_file K Y (components p)) (\<lambda>parsed. lift (model_validate L Y parsed)))"

subsection \<open>No duplicate keys\<close>

text \<open>Every dict of a value has pairwise different keys.\<close>

fun keys_differ :: "yaml_scalar list \<Rightarrow> bool" where
  "keys_differ [] = True"
| "keys_differ (k # ks) = (list_all (\<lambda>k'. \<not> key_eq k k') ks \<and> keys_differ ks)"

fun unique_keys :: "yaml_value \<Rightarrow> bool" where
  "unique_keys (YScalar _) = True"
| "unique_keys (YList vs) = list_all unique_keys vs"
| "unique_keys (YDict d) = (keys_differ (map fst d) \<and> list_all (\<lambda>(_, v). unique_keys v) d)"

lemma keys_differ_snoc: "keys_differ (ks @ [k]) \<longleftrightarrow> keys_differ ks \<and> list_all (\<lambda>k'. \<not> key_eq k' k) ks"
  by (induction ks) auto

lemma map_sum_Inr: "map_sum id f r = Inr b \<longleftrightarrow> (\<exists>a. r = Inr a \<and> b = f a)"
  by (cases r) auto

lemma construct_unique:
  "construct_object n = Inr v \<Longrightarrow> unique_keys v"
  "construct_sequence ns = Inr vs \<Longrightarrow> list_all unique_keys vs"
  "construct_mapping d kvs = Inr d' \<Longrightarrow> unique_keys (YDict d) \<Longrightarrow> unique_keys (YDict d')"
proof (induction n and ns and d kvs arbitrary: v and vs and d' rule: construct_object_construct_sequence_construct_mapping.induct)
  case (8 d k v kvs)
  then show ?case
    by (auto simp: keys_differ_snoc has_key_def list_all_iff list_ex_iff case_prod_beta split: sum.splits yaml_value.splits if_splits)
qed (auto simp: map_sum_Inr split: sum.splits)

subsection \<open>What the files say\<close>

text \<open>The configuration as a function of the tree: what loading gives when no call fails.\<close>

definition document_in :: "schema_libs \<Rightarrow> fs \<Rightarrow> path \<Rightarrow> exn + (yaml_scalar \<times> yaml_value) list" where
  "document_in Y f p =
     (case read_file p f of
        Inl _ \<Rightarrow> Inl (ConfigurationError ''unable to read configuration file'')
      | Inr (raw, _) \<Rightarrow> parse_document Y raw)"

definition certificate_in :: "schema_libs \<Rightarrow> fs \<Rightarrow> path \<Rightarrow> exn + yaml_value" where
  "certificate_in Y f p = (case document_in Y f p of Inl e \<Rightarrow> Inl e | Inr document \<Rightarrow> certificate_mapping document)"

definition config_of_directory :: "libs \<Rightarrow> schema_libs \<Rightarrow> fs \<Rightarrow> path \<Rightarrow> exn + app_config" where
  "config_of_directory L Y f d =
     (case document_in Y f (d @ [''settings.yaml'']) of Inl e \<Rightarrow> Inl e | Inr settings \<Rightarrow>
        if has_key (YText ''certificates'') settings \<or> has_key (YText ''certificate'') settings
        then Inl (ConfigurationError ''settings.yaml must not define certificates'')
        else if yaml_names (d @ [''certificates'']) f = []
        then Inl (ConfigurationError ''configuration directory contains no certificate files'')
        else
          (case map_result (\<lambda>name. certificate_in Y f (d @ [''certificates'', name])) (yaml_names (d @ [''certificates'']) f) of
             Inl e \<Rightarrow> Inl e
           | Inr certs \<Rightarrow> model_validate L Y (compose_settings settings certs)))"

definition config_in :: "libs \<Rightarrow> schema_libs \<Rightarrow> fs \<Rightarrow> string \<Rightarrow> exn + app_config" where
  "config_in L Y f p =
     (if is_dir (components p) f then config_of_directory L Y f (components p)
      else (case document_in Y f (components p) of Inl e \<Rightarrow> Inl e | Inr parsed \<Rightarrow> model_validate L Y parsed))"

text \<open>\<open>reads_as K r m\<close>: whatever fails, the program leaves the tree alone and returns only the value in \<open>r\<close>; if
  nothing fails, its outcome is \<open>r\<close>.\<close>

definition reads_as :: "'w mount \<Rightarrow> fs \<Rightarrow> exn + 'a \<Rightarrow> ('w, exn, 'a) prog \<Rightarrow> bool" where
  "reads_as K f r m \<longleftrightarrow>
     (\<forall>w. disk K w = f \<longrightarrow>
        wp m (\<lambda>a w'. disk K w' = f \<and> r = Inr a) (\<lambda>e w'. disk K w' = f \<and> (reliable K \<longrightarrow> r = Inl e)) w)"

lemma reads_as_bind:
  assumes "reads_as K f r m" and "\<And>a. r = Inr a \<Longrightarrow> reads_as K f (k a) (n a)"
  shows "reads_as K f (case r of Inl e \<Rightarrow> Inl e | Inr a \<Rightarrow> k a) (bind m n)"
  unfolding reads_as_def wp_bind
  by (intro allI impI, rule wp_mono[OF assms(1)[unfolded reads_as_def, rule_format]])
    (use assms(2) in \<open>auto simp: reads_as_def\<close>)

lemma reads_as_lift: "reads_as K f r (lift r)"
  by (auto simp: reads_as_def wp_lift split: sum.splits)

lemma reads_as_observe:
  assumes "mount_law K"
  shows "reads_as K f (Inr (g f)) (sys K (observe g))"
  unfolding reads_as_def
proof (intro allI impI)
  fix w assume f: "disk K w = f"
  show "wp (sys K (observe g)) (\<lambda>a w'. disk K w' = f \<and> Inr (g f) = Inr a) (\<lambda>e w'. disk K w' = f \<and> (reliable K \<longrightarrow> Inr (g f) = Inl e)) w"
  proof (cases "reliable K")
    case True
    show ?thesis by (rule quiet_observe[OF assms True]) (simp add: f)
  next
    case False
    show ?thesis by (rule wp_observe[OF assms]) (simp_all add: f False)
  qed
qed

lemma walk_error: "walk f fl k d cs = Inl e \<Longrightarrow> is_OSError (Lib e)"
  by (induction f fl k d cs rule: walk.induct) (auto split: if_splits option.splits node.splits nat.splits)

lemma read_file_error: "read_file p f = Inl e \<Longrightarrow> is_OSError (Lib e)"
  by (auto simp: read_file_def stat_at_def resolve_def split: sum.splits option.splits node.splits dest: walk_error)

lemma reads_as_file:
  assumes K: "mount_law K"
  shows "reads_as K f (document_in Y f p) (load_yaml_file K Y p)"
proof -
  have raw: "reads_as K f (case read_file p f of Inl _ \<Rightarrow> Inl (ConfigurationError ''unable to read configuration file'') | Inr (raw, _) \<Rightarrow> Inr raw)
     (try_except (sys K (read_file p))
        (\<lambda>e. if is_OSError e then Some (raise (ConfigurationError ''unable to read configuration file'')) else None))"
    unfolding reads_as_def wp_try_except
  proof (intro allI impI)
    fix w assume f: "disk K w = f"
    show "wp (sys K (read_file p)) (\<lambda>a w'. disk K w' = f \<and> (case read_file p f of Inl _ \<Rightarrow> Inl (ConfigurationError ''unable to read configuration file'') | Inr (raw, _) \<Rightarrow> Inr raw) = Inr a)
       (\<lambda>e. case if is_OSError e then Some (raise (ConfigurationError ''unable to read configuration file'')) else None of
          None \<Rightarrow> \<lambda>w'. disk K w' = f \<and> (reliable K \<longrightarrow> (case read_file p f of Inl _ \<Rightarrow> Inl (ConfigurationError ''unable to read configuration file'') | Inr (raw, _) \<Rightarrow> Inr raw) = Inl e)
        | Some k \<Rightarrow> wp k (\<lambda>a w'. disk K w' = f \<and> (case read_file p f of Inl _ \<Rightarrow> Inl (ConfigurationError ''unable to read configuration file'') | Inr (raw, _) \<Rightarrow> Inr raw) = Inr a)
            (\<lambda>e w'. disk K w' = f \<and> (reliable K \<longrightarrow> (case read_file p f of Inl _ \<Rightarrow> Inl (ConfigurationError ''unable to read configuration file'') | Inr (raw, _) \<Rightarrow> Inr raw) = Inl e))) w"
    proof (cases "reliable K")
      case True
      show ?thesis
        by (rule wp_sys_quiet[OF K True])
          (use f in \<open>auto simp: wp_raise read_file_error dest: read_file_same split: sum.splits\<close>)
    next
      case False
      show ?thesis
        by (rule wp_sys[OF K]) (use f False in \<open>auto simp: wp_raise dest: read_file_same\<close>)
    qed
  qed
  have "document_in Y f p =
      (case (case read_file p f of Inl _ \<Rightarrow> Inl (ConfigurationError ''unable to read configuration file'') | Inr (raw, _) \<Rightarrow> Inr raw) of
         Inl e \<Rightarrow> Inl e | Inr raw \<Rightarrow> parse_document Y raw)"
    by (auto simp: document_in_def split: sum.splits)
  then show ?thesis
    unfolding load_yaml_file_def by (auto intro!: reads_as_bind[OF raw] reads_as_lift)
qed

lemma reads_as_map:
  "(\<And>x. x \<in> set xs \<Longrightarrow> reads_as K f (r x) (m x)) \<Longrightarrow> reads_as K f (map_result r xs) (map_prog m xs)"
proof (induction xs)
  case Nil
  then show ?case by (simp add: reads_as_def wp_return)
next
  case (Cons x xs)
  have "reads_as K f (case r x of Inl e \<Rightarrow> Inl e | Inr y \<Rightarrow> case map_result r xs of Inl e \<Rightarrow> Inl e | Inr ys \<Rightarrow> Inr (y # ys))
     (bind (m x) (\<lambda>y. bind (map_prog m xs) (\<lambda>ys. return (y # ys))))"
    by (intro reads_as_bind Cons) (auto simp: reads_as_def wp_return intro: Cons.prems)
  then show ?case by simp
qed

lemma reads_as_check:
  "(\<not> b \<Longrightarrow> reads_as K f r m) \<Longrightarrow> reads_as K f (if b then Inl e else r) (seq (raise_if b e) m)"
  by (auto simp: reads_as_def wp_seq wp_raise_if)

lemma reads_as_known: "reads_as K f (Inr a) m \<Longrightarrow> reads_as K f r (n a) \<Longrightarrow> reads_as K f r (bind m n)"
  using reads_as_bind[of K f "Inr a" m "\<lambda>_. r" n] by simp

text \<open>Loading implements the function.\<close>

lemma load_config_reads:
  assumes K: "mount_law K"
  shows "reads_as K f (config_in L Y f p) (load_config K L Y p)"
proof -
  have one: "reads_as K f (case document_in Y f p of Inl e \<Rightarrow> Inl e | Inr d \<Rightarrow> k d) (bind (load_yaml_file K Y p) (\<lambda>d. lift (k d)))"
    for p and k :: "(yaml_scalar \<times> yaml_value) list \<Rightarrow> exn + 'b"
    by (intro reads_as_bind reads_as_file[OF K] reads_as_lift)
  have names: "reads_as K f
      (if yaml_names q f = [] then Inl e
       else (case map_result g (yaml_names q f) of Inl e \<Rightarrow> Inl e | Inr certs \<Rightarrow> k certs))
      (bind (sys K (observe (yaml_names q))) (\<lambda>names. seq (raise_if (names = []) e) (bind (map_prog m names) (\<lambda>certs. lift (k certs)))))"
    if "\<And>x. reads_as K f (g x) (m x)" for q e g k m
    by (intro reads_as_known[OF reads_as_observe[OF K]] reads_as_check reads_as_bind reads_as_map that reads_as_lift)
  have directory: "reads_as K f (config_of_directory L Y f d) (load_config_directory K L Y d)" for d
    unfolding config_of_directory_def load_config_directory_def
    by (intro reads_as_bind reads_as_file[OF K] reads_as_check names one[folded certificate_in_def]) (simp add: certificate_in_def one)
  show ?thesis
    unfolding config_in_def load_config_def
    by (rule reads_as_known[OF reads_as_observe[OF K]]) (simp add: directory one)
qed

text \<open>A configuration that loads has been validated.\<close>

lemma model_validate_Inr:
  "model_validate L Y parsed = Inr config \<longleftrightarrow>
     (\<exists>drafted. model_fields Y parsed = Some drafted \<and> validate_config (idna_encode L) drafted = Inr config)"
  by (auto simp: model_validate_def split: option.splits)

lemma config_in_validated: "config_in L Y f p = Inr config \<Longrightarrow> \<exists>drafted. validate_config (idna_encode L) drafted = Inr config"
  by (auto simp: config_in_def config_of_directory_def model_validate_Inr split: if_splits sum.splits)

end
