(* ===== verification/StateStore.thy ===== *)
theory StateStore
  imports Runtime
begin

section \<open>The state store\<close>

text \<open>
  \<open>state_store.py\<close> and \<open>migrations.py\<close>: each method is a program that issues the SQL
  statements of the source, one \<open>sql\<close> per statement, so that a fault or a crash can happen
  between any two of them. After the methods come their contracts and the step relation
  \<open>store_step\<close>: what one statement of a running publisher may do to the database.
\<close>

subsection \<open>Migrations\<close>

definition migrations :: "(int \<times> ddl list) list" where
  "migrations =
     [(1, [CreateTableIfNotExists ''schema_meta'',
           CreateTable ''operations'',
           CreateTable ''certificate_state'',
           CreateTable ''alert_dedup'',
           CreateIndex ''operations_certificate_state''])]"

text \<open>
  The connection is opened with \<open>isolation_level=None\<close>, which is autocommit:
  \<open>with connection\<close> then opens no transaction, and every statement is committed on its own.
\<close>

definition apply_migrations :: "'w env \<Rightarrow> ('w, unit) action" where
  "apply_migrations env =
     seq (sql env (exec_ddl (CreateTableIfNotExists ''schema_meta'')))
     (bind (sql env (select_from (\<lambda>d. map fst (schema_meta d)))) (\<lambda>applied.
        for_each migrations (\<lambda>(version, statements).
          if List.member applied version then return ()
          else
            seq (for_each statements (\<lambda>statement. sql env (exec_ddl statement)))
            (bind (utc_now_rfc3339 env) (\<lambda>t.
               sql env (insert_schema_version version t))))))"

definition open_store :: "'w env \<Rightarrow> ('w, unit) action" where
  "open_store env =
     bind (external (open_database env)) (\<lambda>fault.
       case fault of
         Some e \<Rightarrow> raise (Lib e)
       | None \<Rightarrow> apply_migrations env)"

subsection \<open>Operations\<close>

record operation =
  operation_id :: string
  certificate_id :: string
  op_type :: operation_type
  op_state :: operation_state
  local_fingerprint :: "string option"
  oci_certificate_ocid :: "string option"
  oci_version_number :: "int option"

definition discovered_row ::
  "string \<Rightarrow> string \<Rightarrow> operation_type \<Rightarrow> string option \<Rightarrow> string option \<Rightarrow> seconds \<Rightarrow> op_row" where
  "discovered_row oid cid ty fingerprint ocid now =
     \<lparr>row_id = oid, row_certificate = cid, row_type = ty, row_state = DISCOVERED,
      row_fingerprint = fingerprint, row_ocid = ocid, row_version = None, row_request = None,
      row_started = now, row_updated = now, row_completed = None, row_error_code = None,
      row_error_message = None\<rparr>"

definition start_operation ::
  "'w env \<Rightarrow> string \<Rightarrow> operation_type \<Rightarrow> string option \<Rightarrow> string option \<Rightarrow>
     ('w, operation) action" where
  "start_operation env cid ty fingerprint ocid =
     bind (uuid4 env) (\<lambda>oid.
     bind (utc_now_rfc3339 env) (\<lambda>now.
     seq (sql env (insert_operation (discovered_row oid cid ty fingerprint ocid now)))
     (return
        \<lparr>operation_id = oid, certificate_id = cid, op_type = ty, op_state = DISCOVERED,
         local_fingerprint = fingerprint, oci_certificate_ocid = ocid,
         oci_version_number = None\<rparr>)))"

definition coalesce :: "'a option \<Rightarrow> 'a option \<Rightarrow> 'a option" where
  "coalesce x y = (case x of None \<Rightarrow> y | Some a \<Rightarrow> Some a)"

text \<open>The optional columns of a transition: version, OCID, request id, error code and message.\<close>

record columns =
  col_version :: "int option"
  col_ocid :: "string option"
  col_request :: "string option"
  col_error_code :: "string option"
  col_error_message :: "string option"

definition no_columns :: columns where
  "no_columns =
     \<lparr>col_version = None, col_ocid = None, col_request = None, col_error_code = None,
      col_error_message = None\<rparr>"

lemma no_columns_ocid [simp]: "col_ocid no_columns = None"
  by (simp add: no_columns_def)

definition set_transition ::
  "operation_state \<Rightarrow> columns \<Rightarrow> seconds \<Rightarrow> seconds option \<Rightarrow> op_row \<Rightarrow> op_row" where
  "set_transition st cols now completed r =
     r\<lparr>row_state := st,
       row_version := coalesce (col_version cols) (row_version r),
       row_ocid := coalesce (col_ocid cols) (row_ocid r),
       row_request := coalesce (col_request cols) (row_request r),
       row_error_code := col_error_code cols,
       row_error_message := col_error_message cols,
       row_updated := now,
       row_completed := completed\<rparr>"

definition transition :: "'w env \<Rightarrow> string \<Rightarrow> operation_state \<Rightarrow> columns \<Rightarrow> ('w, unit) action" where
  "transition env oid st cols =
     bind (if is_terminal st then bind (utc_now_rfc3339 env) (\<lambda>t. return (Some t))
           else return None) (\<lambda>completed.
     bind (utc_now_rfc3339 env) (\<lambda>now.
     bind (sql env (update_operations (\<lambda>r. row_id r = oid)
                      (set_transition st cols now completed))) (\<lambda>rowcount.
     raise_if (rowcount \<noteq> 1) (Lib (KeyError ''operation does not exist'')))))"

definition operation_of_row :: "op_row \<Rightarrow> operation" where
  "operation_of_row r =
     \<lparr>operation_id = row_id r, certificate_id = row_certificate r, op_type = row_type r,
      op_state = row_state r, local_fingerprint = row_fingerprint r,
      oci_certificate_ocid = row_ocid r, oci_version_number = row_version r\<rparr>"

definition active_rows :: "string \<Rightarrow> database \<Rightarrow> op_row list" where
  "active_rows cid d =
     sort_key row_started
       (filter (\<lambda>r. row_certificate r = cid \<and> \<not> is_terminal (row_state r)) (operations d))"

definition active_operations :: "'w env \<Rightarrow> string \<Rightarrow> ('w, operation list) action" where
  "active_operations env cid =
     sql env (select_from (\<lambda>d. map operation_of_row (active_rows cid d)))"

text \<open>\<open>ORDER BY completed_at DESC LIMIT 1\<close>: the row completed last, a null completion after
  every other.\<close>

fun later_completion :: "op_row \<Rightarrow> op_row \<Rightarrow> bool" where
  "later_completion r s =
     (case (row_completed r, row_completed s) of
        (Some a, Some b) \<Rightarrow> b < a
      | (Some _, None) \<Rightarrow> True
      | _ \<Rightarrow> False)"

fun last_completed :: "op_row list \<Rightarrow> op_row option" where
  "last_completed [] = None"
| "last_completed (r # rs) =
     (case last_completed rs of
        None \<Rightarrow> Some r
      | Some s \<Rightarrow> Some (if later_completion s r then s else r))"

definition confirmed_ocid :: "string \<Rightarrow> database \<Rightarrow> string option" where
  "confirmed_ocid cid d =
     (case last_completed
             (filter (\<lambda>r. row_certificate r = cid \<and> row_state r = COMPLETED \<and> row_ocid r \<noteq> None)
                (operations d)) of
        None \<Rightarrow> None
      | Some r \<Rightarrow> row_ocid r)"

definition confirmed_oci_certificate_ocid :: "'w env \<Rightarrow> string \<Rightarrow> ('w, string option) action" where
  "confirmed_oci_certificate_ocid env cid = sql env (select_from (confirmed_ocid cid))"

subsection \<open>Certificate facts\<close>

definition blank_cert_row :: "seconds \<Rightarrow> cert_row" where
  "blank_cert_row now =
     \<lparr>last_local_fingerprint = None, last_oci_current_fingerprint = None,
      last_oci_current_version = None, last_successful_renewal_at = None,
      last_successful_publication_at = None, last_successful_audit_at = None,
      last_error_code = None, cert_updated_at = now\<rparr>"

definition set_publication :: "string \<Rightarrow> string \<Rightarrow> int \<Rightarrow> seconds \<Rightarrow> cert_row \<Rightarrow> cert_row" where
  "set_publication local_fp current_fp version now r =
     r\<lparr>last_local_fingerprint := Some local_fp, last_oci_current_fingerprint := Some current_fp,
       last_oci_current_version := Some version, last_successful_publication_at := Some now,
       last_error_code := None, cert_updated_at := now\<rparr>"

definition record_publication_success ::
  "'w env \<Rightarrow> string \<Rightarrow> string \<Rightarrow> string \<Rightarrow> int \<Rightarrow> ('w, unit) action" where
  "record_publication_success env cid local_fp current_fp version =
     bind (utc_now_rfc3339 env) (\<lambda>now.
       sql env (upsert_certificate_state cid
         (set_publication local_fp current_fp version now (blank_cert_row now))
         (set_publication local_fp current_fp version now)))"

definition reconciled_by :: "string \<Rightarrow> string \<Rightarrow> string \<Rightarrow> op_row \<Rightarrow> bool" where
  "reconciled_by cid local_fp excluding r \<longleftrightarrow>
     row_certificate r = cid \<and> row_fingerprint r = Some local_fp \<and> row_id r \<noteq> excluding \<and>
     \<not> is_terminal (row_state r)"

definition close_reconciled :: "int \<Rightarrow> seconds \<Rightarrow> op_row \<Rightarrow> op_row" where
  "close_reconciled version now r =
     r\<lparr>row_state := COMPLETED, row_version := Some version, row_error_code := None,
       row_error_message := None, row_updated := now, row_completed := Some now\<rparr>"

definition complete_reconciled_operations ::
  "'w env \<Rightarrow> string \<Rightarrow> string \<Rightarrow> int \<Rightarrow> string \<Rightarrow> ('w, nat) action" where
  "complete_reconciled_operations env cid local_fp version excluding =
     bind (utc_now_rfc3339 env) (\<lambda>now.
       sql env (update_operations (reconciled_by cid local_fp excluding)
                  (close_reconciled version now)))"

definition set_audit :: "seconds \<Rightarrow> cert_row \<Rightarrow> cert_row" where
  "set_audit now r =
     r\<lparr>last_successful_audit_at := Some now, last_error_code := None, cert_updated_at := now\<rparr>"

definition record_audit_success :: "'w env \<Rightarrow> string \<Rightarrow> ('w, unit) action" where
  "record_audit_success env cid =
     bind (utc_now_rfc3339 env) (\<lambda>now.
       sql env (upsert_certificate_state cid (set_audit now (blank_cert_row now)) (set_audit now)))"

definition interrupted_audit :: "string \<Rightarrow> string \<Rightarrow> op_row \<Rightarrow> bool" where
  "interrupted_audit cid excluding r \<longleftrightarrow>
     row_certificate r = cid \<and> row_type r = AUDIT \<and> row_state r = AUDIT_PENDING \<and>
     row_id r \<noteq> excluding"

definition close_audit :: "seconds \<Rightarrow> op_row \<Rightarrow> op_row" where
  "close_audit now r =
     r\<lparr>row_state := COMPLETED, row_error_code := None, row_error_message := None,
       row_updated := now, row_completed := Some now\<rparr>"

definition complete_interrupted_audits :: "'w env \<Rightarrow> string \<Rightarrow> string \<Rightarrow> ('w, nat) action" where
  "complete_interrupted_audits env cid excluding =
     bind (utc_now_rfc3339 env) (\<lambda>now.
       sql env (update_operations (interrupted_audit cid excluding) (close_audit now)))"

definition set_rollback :: "string \<Rightarrow> int \<Rightarrow> seconds \<Rightarrow> cert_row \<Rightarrow> cert_row" where
  "set_rollback current_fp version now r =
     r\<lparr>last_oci_current_fingerprint := Some current_fp, last_oci_current_version := Some version,
       last_error_code := None, cert_updated_at := now\<rparr>"

definition record_rollback_success :: "'w env \<Rightarrow> string \<Rightarrow> string \<Rightarrow> int \<Rightarrow> ('w, unit) action" where
  "record_rollback_success env cid current_fp version =
     bind (utc_now_rfc3339 env) (\<lambda>now.
       sql env (upsert_certificate_state cid
         (set_rollback current_fp version now (blank_cert_row now))
         (set_rollback current_fp version now)))"

definition set_renewal :: "seconds \<Rightarrow> cert_row \<Rightarrow> cert_row" where
  "set_renewal now r =
     r\<lparr>last_successful_renewal_at := Some now, last_error_code := None, cert_updated_at := now\<rparr>"

definition record_renewal_success :: "'w env \<Rightarrow> string \<Rightarrow> ('w, unit) action" where
  "record_renewal_success env cid =
     bind (utc_now_rfc3339 env) (\<lambda>now.
       sql env (upsert_certificate_state cid (set_renewal now (blank_cert_row now))
                  (set_renewal now)))"

subsection \<open>Alert deduplication\<close>

definition should_send_alert :: "'w env \<Rightarrow> string \<Rightarrow> string \<Rightarrow> int \<Rightarrow> ('w, bool) action" where
  "should_send_alert env key status minutes =
     bind (sql env (select_from (\<lambda>d. alerts d key))) (\<lambda>row.
       case row of
         None \<Rightarrow> return True
       | Some r \<Rightarrow>
           if last_status r \<noteq> status then return True
           else
             (case last_sent_at r of
                None \<Rightarrow> return True
              | Some sent \<Rightarrow>
                  bind (now_utc env) (\<lambda>now.
                    return (sent * second < now - minutes * 60 * second))))"

definition record_alert_sent :: "'w env \<Rightarrow> string \<Rightarrow> string \<Rightarrow> ('w, unit) action" where
  "record_alert_sent env key status =
     bind (utc_now_rfc3339 env) (\<lambda>now.
       sql env (upsert_alert key \<lparr>last_sent_at = Some now, last_status = status\<rparr>))"

subsection \<open>Reports\<close>

definition certificate_state :: "'w env \<Rightarrow> string \<Rightarrow> ('w, cert_row option) action" where
  "certificate_state env cid = sql env (select_from (\<lambda>d. certificate_states d cid))"

definition rows_of :: "string \<Rightarrow> database \<Rightarrow> op_row list" where
  "rows_of cid d = filter (\<lambda>r. row_certificate r = cid) (operations d)"

definition count_groups :: "string \<Rightarrow> database \<Rightarrow> (operation_type \<times> operation_state \<times> nat) list" where
  "count_groups cid d =
     (let keys = map (\<lambda>r. (row_type r, row_state r)) (rows_of cid d)
      in map (\<lambda>(ty, st). (ty, st, count_list keys (ty, st))) (remdups keys))"

definition operation_counts ::
  "'w env \<Rightarrow> string \<Rightarrow> ('w, (operation_type \<times> operation_state \<times> nat) list) action" where
  "operation_counts env cid = sql env (select_from (count_groups cid))"

definition durations :: "operation_type \<Rightarrow> op_row list \<Rightarrow> seconds list" where
  "durations ty rs =
     concat (map (\<lambda>r. if row_type r = ty
                      then (case row_completed r of None \<Rightarrow> [] | Some t \<Rightarrow> [t - row_started r])
                      else []) rs)"

definition average_durations :: "string \<Rightarrow> database \<Rightarrow> (operation_type \<times> rat) list" where
  "average_durations cid d =
     (let rs = filter (\<lambda>r. row_completed r \<noteq> None) (rows_of cid d)
      in map (\<lambda>ty. (ty, of_int (sum_list (durations ty rs)) / of_nat (length (durations ty rs))))
           (remdups (map row_type rs)))"

definition average_completed_operation_durations ::
  "'w env \<Rightarrow> string \<Rightarrow> ('w, (operation_type \<times> rat) list) action" where
  "average_completed_operation_durations env cid = sql env (select_from (average_durations cid))"

definition distinct_versions :: "string \<Rightarrow> database \<Rightarrow> nat" where
  "distinct_versions cid d =
     length (remdups (concat (map (\<lambda>r. case row_version r of None \<Rightarrow> [] | Some v \<Rightarrow> [v])
                                (rows_of cid d))))"

definition known_oci_versions :: "'w env \<Rightarrow> string \<Rightarrow> ('w, nat) action" where
  "known_oci_versions env cid = sql env (select_from (distinct_versions cid))"

end
