(* ===== verification/Lifecycle.thy ===== *)
theory Lifecycle
  imports StateStore
begin

section \<open>The operation lifecycle\<close>

text \<open>
  The state machine the state store persists. \<open>lifecycle ty st st'\<close> is the table of the
  transitions the services make for an operation of type \<open>ty\<close>; \<open>store_step\<close> is what one
  statement may do to the database, with \<open>evolves\<close> its reflexive transitive closure. The
  services are shown to move the database by these steps only, so that every invariant of the
  steps (rule induction on \<open>store_step\<close>) holds of every database a publisher can leave,
  whether it finished, failed or died between two statements.
\<close>

subsection \<open>The table of transitions\<close>

definition bootstrap_next :: "operation_state \<Rightarrow> operation_state list" where
  "bootstrap_next st =
     (case st of
        DISCOVERED \<Rightarrow> [LOCAL_CERT_VALIDATED]
      | LOCAL_CERT_VALIDATED \<Rightarrow> [OCI_RECONCILED, OCI_UPLOAD_FAILED]
      | OCI_RECONCILED \<Rightarrow> [OCI_CURRENT_CONFIRMED, OCI_VERSION_FAILED]
      | OCI_CURRENT_CONFIRMED \<Rightarrow> [OCI_CURRENT_CONFIRMED, COMPLETED]
      | _ \<Rightarrow> [])"

definition publication_next :: "operation_state \<Rightarrow> operation_state list" where
  "publication_next st =
     (case st of
        DISCOVERED \<Rightarrow> [OCI_RECONCILED]
      | OCI_RECONCILED \<Rightarrow> [OCI_PENDING_UPLOADED, OCI_PENDING_VERIFIED, COMPLETED]
      | OCI_PENDING_UPLOADED \<Rightarrow> [OCI_PENDING_VERIFIED]
      | OCI_PENDING_VERIFIED \<Rightarrow> [OCI_CURRENT_CONFIRMED]
      | OCI_CURRENT_CONFIRMED \<Rightarrow> [COMPLETED]
      | _ \<Rightarrow> [])"

definition audit_next :: "operation_state \<Rightarrow> operation_state list" where
  "audit_next st =
     (case st of
        DISCOVERED \<Rightarrow> [AUDIT_PENDING]
      | AUDIT_PENDING \<Rightarrow> [AUDIT_SUCCESS, AUDIT_FAILED]
      | AUDIT_SUCCESS \<Rightarrow> [COMPLETED]
      | _ \<Rightarrow> [])"

definition rollback_next :: "operation_state \<Rightarrow> operation_state list" where
  "rollback_next st =
     (case st of
        DISCOVERED \<Rightarrow> [OCI_RECONCILED]
      | OCI_RECONCILED \<Rightarrow> [OCI_CURRENT_CONFIRMED]
      | OCI_CURRENT_CONFIRMED \<Rightarrow> [AUDIT_PENDING, COMPLETED]
      | AUDIT_PENDING \<Rightarrow> [AUDIT_SUCCESS, ROLLBACK_FAILED]
      | AUDIT_SUCCESS \<Rightarrow> [COMPLETED]
      | _ \<Rightarrow> [])"

fun next_states :: "operation_type \<Rightarrow> operation_state \<Rightarrow> operation_state list" where
  "next_states BOOTSTRAP st = bootstrap_next st"
| "next_states RENEW st = publication_next st"
| "next_states PUBLISH st = publication_next st"
| "next_states RECONCILE st = publication_next st"
| "next_states AUDIT st = audit_next st"
| "next_states ROLLBACK st = rollback_next st"

definition lifecycle :: "operation_type \<Rightarrow> operation_state \<Rightarrow> operation_state \<Rightarrow> bool" where
  "lifecycle ty st st' = List.member (next_states ty st) st'"

lemmas next_defs = bootstrap_next_def publication_next_def audit_next_def rollback_next_def

lemma lifecycle_from_active: "lifecycle ty st st' \<Longrightarrow> \<not> is_terminal st"
  by (cases ty; cases st) (simp_all add: lifecycle_def next_defs)

text \<open>The states an operation of each type can be in; closing an interrupted operation in bulk
  adds \<open>COMPLETED\<close>.\<close>

fun possible :: "operation_type \<Rightarrow> operation_state \<Rightarrow> bool" where
  "possible BOOTSTRAP st \<longleftrightarrow>
     st \<in> {DISCOVERED, LOCAL_CERT_VALIDATED, OCI_RECONCILED, OCI_UPLOAD_FAILED,
           OCI_VERSION_FAILED, OCI_CURRENT_CONFIRMED, COMPLETED}"
| "possible AUDIT st \<longleftrightarrow>
     st \<in> {DISCOVERED, AUDIT_PENDING, AUDIT_SUCCESS, AUDIT_FAILED, COMPLETED}"
| "possible ROLLBACK st \<longleftrightarrow>
     st \<in> {DISCOVERED, OCI_RECONCILED, OCI_CURRENT_CONFIRMED, AUDIT_PENDING, AUDIT_SUCCESS,
           ROLLBACK_FAILED, COMPLETED}"
| "possible _ st \<longleftrightarrow>
     st \<in> {DISCOVERED, OCI_RECONCILED, OCI_PENDING_UPLOADED, OCI_PENDING_VERIFIED,
           OCI_CURRENT_CONFIRMED, COMPLETED}"

lemma lifecycle_possible: "lifecycle ty st st' \<Longrightarrow> possible ty st'"
  by (cases ty; cases st) (auto simp: lifecycle_def next_defs)

lemma possible_COMPLETED: "possible ty COMPLETED"
  by (cases ty) simp_all

subsection \<open>Well-formed databases\<close>

text \<open>
  Operation ids are a key; a row has a completion time exactly when its state is terminal; its state
  is one its type can be in; and an active bootstrap that knows the OCID of its certificate has
  created it.
\<close>

definition wf_row :: "op_row \<Rightarrow> bool" where
  "wf_row r \<longleftrightarrow>
     (row_completed r \<noteq> None \<longleftrightarrow> is_terminal (row_state r)) \<and> possible (row_type r) (row_state r) \<and>
     (row_type r = BOOTSTRAP \<and> row_ocid r \<noteq> None \<longrightarrow>
        row_state r \<in> {OCI_RECONCILED, OCI_CURRENT_CONFIRMED} \<or> is_terminal (row_state r))"

definition wf_db :: "database \<Rightarrow> bool" where
  "wf_db d \<longleftrightarrow> distinct (map row_id (operations d)) \<and> list_all wf_row (operations d)"

lemma wf_empty: "wf_db empty_database"
  by (simp add: wf_db_def empty_database_def)

lemma wf_db_row: "wf_db d \<Longrightarrow> r \<in> set (operations d) \<Longrightarrow> wf_row r"
  by (simp add: wf_db_def list_all_iff)

subsection \<open>Steps\<close>

definition with_operations :: "(op_row list \<Rightarrow> op_row list) \<Rightarrow> database \<Rightarrow> database" where
  "with_operations f d = d\<lparr>operations := f (operations d)\<rparr>"

definition update_where :: "(op_row \<Rightarrow> bool) \<Rightarrow> (op_row \<Rightarrow> op_row) \<Rightarrow> database \<Rightarrow> database" where
  "update_where p f = with_operations (map (\<lambda>r. if p r then f r else r))"

inductive store_step :: "database \<Rightarrow> database \<Rightarrow> bool" where
  started: "row_id r \<notin> row_id ` set (operations d) \<Longrightarrow> row_state r = DISCOVERED \<Longrightarrow>
     row_version r = None \<Longrightarrow> row_completed r = None \<Longrightarrow> (row_type r = BOOTSTRAP \<longrightarrow> row_ocid r = None) \<Longrightarrow>
     store_step d (with_operations (\<lambda>rs. rs @ [r]) d)"
| transitioned: "r \<in> set (operations d) \<Longrightarrow> lifecycle (row_type r) (row_state r) st \<Longrightarrow>
     (completed \<noteq> None \<longleftrightarrow> is_terminal st) \<Longrightarrow>
     (row_type r = BOOTSTRAP \<longrightarrow> col_ocid cols = None \<or> st = OCI_RECONCILED) \<Longrightarrow>
     store_step d (update_where (\<lambda>x. row_id x = row_id r) (set_transition st cols now completed) d)"
| reconciled: "store_step d
     (update_where (reconciled_by cid fp excluding) (close_reconciled version now) d)"
| audits_closed: "store_step d (update_where (interrupted_audit cid excluding) (close_audit now) d)"
| facts: "operations d' = operations d \<Longrightarrow> store_step d d'"

inductive evolves :: "database \<Rightarrow> database \<Rightarrow> bool" for d0 where
  here: "evolves d0 d0"
| more: "evolves d0 d \<Longrightarrow> store_step d d' \<Longrightarrow> evolves d0 d'"

declare evolves.here [simp, intro]

lemma evolves_trans: "evolves d1 d2 \<Longrightarrow> evolves d0 d1 \<Longrightarrow> evolves d0 d2"
  by (induction rule: evolves.induct) (auto intro: evolves.more)

lemma update_where_ids [simp]:
  "(\<And>r. row_id (f r) = row_id r) \<Longrightarrow>
     map row_id (operations (update_where p f d)) = map row_id (operations d)"
  by (simp add: update_where_def with_operations_def)

lemma set_update_where:
  "set (operations (update_where p f d)) = (\<lambda>r. if p r then f r else r) ` set (operations d)"
  by (simp add: update_where_def with_operations_def)

lemma update_where_mem:
  "r \<in> set (operations d) \<Longrightarrow> (if p r then f r else r) \<in> set (operations (update_where p f d))"
  by (simp add: set_update_where)

lemma wf_update_where:
  assumes "wf_db d" and "\<And>r. row_id (f r) = row_id r"
    and "\<And>r. r \<in> set (operations d) \<Longrightarrow> p r \<Longrightarrow> wf_row r \<Longrightarrow> wf_row (f r)"
  shows "wf_db (update_where p f d)"
  unfolding wf_db_def list_all_iff set_update_where
  using assms by (auto simp: wf_db_def list_all_iff)

lemma row_fields_set_transition [simp]:
  "row_id (set_transition st cols now c r) = row_id r"
  "row_type (set_transition st cols now c r) = row_type r"
  "row_certificate (set_transition st cols now c r) = row_certificate r"
  "row_fingerprint (set_transition st cols now c r) = row_fingerprint r"
  "row_started (set_transition st cols now c r) = row_started r"
  "row_state (set_transition st cols now c r) = st"
  "row_completed (set_transition st cols now c r) = c"
  by (simp_all add: set_transition_def)

lemma row_fields_close_reconciled [simp]:
  "row_id (close_reconciled v now r) = row_id r"
  "row_type (close_reconciled v now r) = row_type r"
  "row_certificate (close_reconciled v now r) = row_certificate r"
  "row_fingerprint (close_reconciled v now r) = row_fingerprint r"
  "row_ocid (close_reconciled v now r) = row_ocid r"
  "row_state (close_reconciled v now r) = COMPLETED"
  by (simp_all add: close_reconciled_def)

lemma row_fields_close_audit [simp]:
  "row_id (close_audit now r) = row_id r"
  "row_type (close_audit now r) = row_type r"
  "row_certificate (close_audit now r) = row_certificate r"
  "row_fingerprint (close_audit now r) = row_fingerprint r"
  "row_ocid (close_audit now r) = row_ocid r"
  "row_version (close_audit now r) = row_version r"
  "row_state (close_audit now r) = COMPLETED"
  by (simp_all add: close_audit_def)

lemma wf_row_closed:
  "wf_row (close_reconciled v now r)" "wf_row (close_audit now r)"
  by (simp_all add: wf_row_def possible_COMPLETED) (simp_all add: close_reconciled_def close_audit_def)

text \<open>A bootstrap that has created its certificate can only confirm it, fail or end.\<close>

lemma bootstrap_created_next:
  "lifecycle BOOTSTRAP st st' \<Longrightarrow> st \<in> {OCI_RECONCILED, OCI_CURRENT_CONFIRMED} \<Longrightarrow>
     st' \<in> {OCI_RECONCILED, OCI_CURRENT_CONFIRMED} \<or> is_terminal st'"
  by (cases st) (auto simp: lifecycle_def next_defs is_terminal_def terminal_states_def)

lemma wf_row_transition:
  assumes "wf_row r" and "lifecycle (row_type r) (row_state r) st" and "completed \<noteq> None \<longleftrightarrow> is_terminal st"
    and "row_type r = BOOTSTRAP \<longrightarrow> col_ocid cols = None \<or> st = OCI_RECONCILED"
  shows "wf_row (set_transition st cols now completed r)"
proof -
  have "st \<in> {OCI_RECONCILED, OCI_CURRENT_CONFIRMED} \<or> is_terminal st"
    if "row_type r = BOOTSTRAP" "coalesce (col_ocid cols) (row_ocid r) \<noteq> None"
  proof (cases "st = OCI_RECONCILED")
    case False
    then have "row_ocid r \<noteq> None" using assms(4) that by (simp add: coalesce_def)
    then have "row_state r \<in> {OCI_RECONCILED, OCI_CURRENT_CONFIRMED}"
      using assms(1) that(1) lifecycle_from_active[OF assms(2)] by (auto simp: wf_row_def)
    then show ?thesis using bootstrap_created_next assms(2) that(1) by metis
  qed simp
  moreover have "row_ocid (set_transition st cols now completed r) = coalesce (col_ocid cols) (row_ocid r)"
    by (simp add: set_transition_def)
  ultimately show ?thesis using assms(2,3) lifecycle_possible[OF assms(2)] by (simp add: wf_row_def)
qed

lemma store_step_wf: "store_step d d' \<Longrightarrow> wf_db d \<Longrightarrow> wf_db d'"
proof (induction rule: store_step.induct)
  case (started r d)
  then show ?case
    by (cases "row_type r") (auto simp: wf_db_def with_operations_def wf_row_def)
next
  case (transitioned r d st completed cols now)
  show ?case
  proof (rule wf_update_where)
    fix x assume "x \<in> set (operations d)" "row_id x = row_id r"
    then have "x = r"
      using transitioned by (auto simp: wf_db_def intro: map_filter_update_distinct)
    then show "wf_row (set_transition st cols now completed x)"
      using transitioned by (intro wf_row_transition) (auto simp: wf_db_def list_all_iff)
  qed (use transitioned in simp_all)
next
  case reconciled
  then show ?case by (rule wf_update_where) (simp_all add: wf_row_closed)
next
  case audits_closed
  then show ?case by (rule wf_update_where) (simp_all add: wf_row_closed)
next
  case facts
  then show ?case by (simp add: wf_db_def)
qed

lemma evolves_wf: "evolves d0 d \<Longrightarrow> wf_db d0 \<Longrightarrow> wf_db d"
  by (induction rule: evolves.induct) (auto intro: store_step_wf)

subsection \<open>What a step never undoes\<close>

text \<open>A terminal operation is final: no step changes its row.\<close>

lemma store_step_terminal_final:
  "store_step d d' \<Longrightarrow> wf_db d \<Longrightarrow> r \<in> set (operations d) \<Longrightarrow> is_terminal (row_state r) \<Longrightarrow>
     r \<in> set (operations d')"
proof (induction rule: store_step.induct)
  case (transitioned x d st completed cols now)
  then have "row_id r \<noteq> row_id x"
    using lifecycle_from_active map_filter_update_distinct[of row_id "operations d" r x]
    by (auto simp: wf_db_def)
  with transitioned show ?case by (force simp: set_update_where)
next
  case (reconciled d cid fp excluding version now)
  then show ?case by (force simp: set_update_where reconciled_by_def)
next
  case (audits_closed d cid excluding now)
  then show ?case by (force simp: set_update_where interrupted_audit_def)
qed (auto simp: with_operations_def)

lemma evolves_terminal_final:
  "evolves d0 d \<Longrightarrow> wf_db d0 \<Longrightarrow> r \<in> set (operations d0) \<Longrightarrow> is_terminal (row_state r) \<Longrightarrow>
     r \<in> set (operations d)"
  by (induction rule: evolves.induct) (auto intro: store_step_terminal_final evolves_wf)

text \<open>
  What a row says of its operation is never lost: the identifying columns keep their values, and
  the OCID, version and request id once known stay known.
\<close>

definition continues :: "op_row \<Rightarrow> op_row \<Rightarrow> bool" where
  "continues r r' \<longleftrightarrow>
     row_id r' = row_id r \<and> row_certificate r' = row_certificate r \<and> row_type r' = row_type r \<and>
     row_fingerprint r' = row_fingerprint r \<and> row_started r' = row_started r \<and>
     (row_ocid r \<noteq> None \<longrightarrow> row_ocid r' \<noteq> None) \<and>
     (row_version r \<noteq> None \<longrightarrow> row_version r' \<noteq> None) \<and>
     (row_request r \<noteq> None \<longrightarrow> row_request r' \<noteq> None)"

lemma continues_refl [simp]: "continues r r"
  by (simp add: continues_def)

lemma continues_trans: "continues r s \<Longrightarrow> continues s t \<Longrightarrow> continues r t"
  by (simp add: continues_def)

lemma continues_transition: "continues r (set_transition st cols now c r)"
  by (simp add: continues_def set_transition_def coalesce_def split: option.splits)

lemma continues_closed: "continues r (close_reconciled v now r)" "continues r (close_audit now r)"
  by (simp_all add: continues_def close_reconciled_def close_audit_def)

lemma update_where_continues:
  "(\<And>x. continues x (f x)) \<Longrightarrow> r \<in> set (operations d) \<Longrightarrow>
     \<exists>r'\<in>set (operations (update_where p f d)). continues r r'"
  by (rule bexI[OF _ update_where_mem[of r d p f]]) simp_all

lemma store_step_continues:
  "store_step d d' \<Longrightarrow> r \<in> set (operations d) \<Longrightarrow> \<exists>r'\<in>set (operations d'). continues r r'"
proof (induction rule: store_step.induct)
  case (started x d)
  then show ?case by (intro bexI[of _ r]) (simp_all add: with_operations_def)
next
  case transitioned
  then show ?case by (intro update_where_continues continues_transition)
next
  case reconciled
  then show ?case by (intro update_where_continues continues_closed)
next
  case audits_closed
  then show ?case by (intro update_where_continues continues_closed)
next
  case facts
  then show ?case by (intro bexI[of _ r]) simp_all
qed

lemma evolves_continues:
  "evolves d0 d \<Longrightarrow> r \<in> set (operations d0) \<Longrightarrow> \<exists>r'\<in>set (operations d). continues r r'"
  by (induction rule: evolves.induct) (force, meson continues_trans store_step_continues)

subsection \<open>The methods as steps\<close>

text \<open>
  \<open>safe d0 d\<close>: \<open>d\<close> is well-formed and a publisher got there from \<open>d0\<close> by lawful
  steps. \<open>tracked d0 oid ty st d\<close> adds that the operation \<open>oid\<close> is in state \<open>st\<close>.
\<close>

definition safe :: "database \<Rightarrow> database \<Rightarrow> bool" where
  "safe d0 d \<longleftrightarrow> wf_db d \<and> evolves d0 d"

definition tracked ::
  "database \<Rightarrow> string \<Rightarrow> operation_type \<Rightarrow> operation_state \<Rightarrow> database \<Rightarrow> bool" where
  "tracked d0 oid ty st d \<longleftrightarrow>
     safe d0 d \<and> (\<exists>r\<in>set (operations d). row_id r = oid \<and> row_type r = ty \<and> row_state r = st)"

lemma tracked_safe [simp]: "tracked d0 oid ty st d \<Longrightarrow> safe d0 d"
  by (simp add: tracked_def)

lemma safe_step: "safe d0 d \<Longrightarrow> store_step d d' \<Longrightarrow> safe d0 d'"
  by (auto simp: safe_def intro: evolves.more store_step_wf)

lemma safe_refl: "wf_db d \<Longrightarrow> safe d d"
  by (simp add: safe_def)

text \<open>One SQL statement, seen from its database.\<close>

lemma wp_sql:
  "wp (sql env st) Q E w \<longleftrightarrow>
     (case sql_fault env (outside w) of
        (Some e, o') \<Rightarrow> E (Lib e) (w\<lparr>outside := o'\<rparr>)
      | (None, o') \<Rightarrow>
          (case st (db w) of
             Inl e \<Rightarrow> E (Lib e) (w\<lparr>outside := o'\<rparr>)
           | Inr (a, d) \<Rightarrow> Q a (w\<lparr>outside := o', db := d\<rparr>)))"
  by (simp add: wp_def sql_def split: prod.splits option.splits sum.splits)

lemma wp_sqlI:
  assumes "\<And>e o'. E (Lib e) (w\<lparr>outside := o'\<rparr>)"
    and "\<And>a d o'. st (db w) = Inr (a, d) \<Longrightarrow> Q a (w\<lparr>outside := o', db := d\<rparr>)"
  shows "wp (sql env st) Q E w"
  using assms by (simp add: wp_sql split: prod.splits option.splits sum.splits)

lemma wp_external: "wp (external f) Q E w \<longleftrightarrow> (case f (outside w) of (a, o') \<Rightarrow> Q a (w\<lparr>outside := o'\<rparr>))"
  by (simp add: wp_def external_def split: prod.splits)

lemma wp_externalI: "(\<And>a o'. Q a (w\<lparr>outside := o'\<rparr>)) \<Longrightarrow> wp (external f) Q E w"
  by (simp add: wp_external split: prod.splits)

lemma wp_nowI: "(\<And>a o'. Q a (w\<lparr>outside := o'\<rparr>)) \<Longrightarrow> wp (now_utc env) Q E w"
  by (simp add: now_utc_def wp_externalI)

lemma wp_utc_nowI: "(\<And>t o'. Q t (w\<lparr>outside := o'\<rparr>)) \<Longrightarrow> wp (utc_now_rfc3339 env) Q E w"
  by (simp add: utc_now_rfc3339_def wp_simps wp_nowI)

lemma wp_uuid4I: "(\<And>a o'. Q a (w\<lparr>outside := o'\<rparr>)) \<Longrightarrow> wp (uuid4 env) Q E w"
  by (simp add: uuid4_def wp_externalI)

text \<open>
  The exact effect of each method on the database. A method either fails with a library
  exception and leaves the database as it was, or takes the step named here.
\<close>

lemma wp_start_operation:
  assumes "\<And>oid now o'. oid \<notin> row_id ` set (operations (db w)) \<Longrightarrow>
     Q \<lparr>operation_id = oid, certificate_id = cid, op_type = ty, op_state = DISCOVERED,
        local_fingerprint = fp, oci_certificate_ocid = ocid, oci_version_number = None\<rparr>
       (w\<lparr>outside := o',
          db := with_operations (\<lambda>rs. rs @ [discovered_row oid cid ty fp ocid now]) (db w)\<rparr>)"
    and "\<And>e o'. E (Lib e) (w\<lparr>outside := o'\<rparr>)"
  shows "wp (start_operation env cid ty fp ocid) Q E w"
  unfolding start_operation_def wp_simps
  by (intro wp_uuid4I wp_utc_nowI wp_sqlI)
    (use assms in \<open>auto simp: insert_operation_Inr with_operations_def discovered_row_def\<close>)

definition has_row :: "string \<Rightarrow> database \<Rightarrow> bool" where
  "has_row oid d \<longleftrightarrow> length (filter (\<lambda>r. row_id r = oid) (operations d)) = 1"

lemma wp_transition:
  assumes "has_row oid (db w)"
    and "\<And>now completed o'. (completed \<noteq> None \<longleftrightarrow> is_terminal st) \<Longrightarrow>
     Q () (w\<lparr>outside := o',
             db := update_where (\<lambda>r. row_id r = oid) (set_transition st cols now completed) (db w)\<rparr>)"
    and "\<And>e o'. E (Lib e) (w\<lparr>outside := o'\<rparr>)"
  shows "wp (transition env oid st cols) Q E w"
proof -
  have stmt: "wp (bind (sql env (update_operations (\<lambda>r. row_id r = oid)
         (set_transition st cols now completed))) (\<lambda>rowcount.
       raise_if (rowcount \<noteq> 1) (Lib (KeyError ''operation does not exist'')))) Q E (w\<lparr>outside := o'\<rparr>)"
    if "completed \<noteq> None \<longleftrightarrow> is_terminal st" for now completed o'
    unfolding wp_simps
    by (rule wp_sqlI)
      (use assms that in \<open>auto simp: update_operations_def has_row_def update_where_def
         with_operations_def\<close>)
  show ?thesis
    unfolding transition_def using stmt[unfolded wp_bind]
    by (cases "is_terminal st") (auto simp: wp_bind wp_return intro!: wp_utc_nowI)
qed

lemma wp_update_rows:
  assumes "\<And>now o' n. Q n (w\<lparr>outside := o', db := update_where p (f now) (db w)\<rparr>)"
    and "\<And>e o'. E (Lib e) (w\<lparr>outside := o'\<rparr>)"
  shows "wp (bind (utc_now_rfc3339 env) (\<lambda>now. sql env (update_operations p (f now)))) Q E w"
  unfolding wp_simps
  by (intro wp_utc_nowI wp_sqlI)
    (use assms in \<open>auto simp: update_operations_def update_where_def with_operations_def\<close>)

lemma wp_complete_reconciled_operations:
  assumes "\<And>now o' n. Q n (w\<lparr>outside := o',
      db := update_where (reconciled_by cid fp excluding) (close_reconciled v now) (db w)\<rparr>)"
    and "\<And>e o'. E (Lib e) (w\<lparr>outside := o'\<rparr>)"
  shows "wp (complete_reconciled_operations env cid fp v excluding) Q E w"
  unfolding complete_reconciled_operations_def using assms by (rule wp_update_rows)

lemma wp_complete_interrupted_audits:
  assumes "\<And>now o' n. Q n (w\<lparr>outside := o',
      db := update_where (interrupted_audit cid excluding) (close_audit now) (db w)\<rparr>)"
    and "\<And>e o'. E (Lib e) (w\<lparr>outside := o'\<rparr>)"
  shows "wp (complete_interrupted_audits env cid excluding) Q E w"
  unfolding complete_interrupted_audits_def using assms by (rule wp_update_rows)

text \<open>\<open>record_fact cid f now\<close>: the row of \<open>cid\<close> updated by \<open>f\<close>, from a blank row if
  there is none.\<close>

definition record_fact :: "string \<Rightarrow> (cert_row \<Rightarrow> cert_row) \<Rightarrow> seconds \<Rightarrow> database \<Rightarrow> database" where
  "record_fact cid f now d =
     d\<lparr>certificate_states := (certificate_states d)(cid \<mapsto>
         f (case certificate_states d cid of None \<Rightarrow> blank_cert_row now | Some r \<Rightarrow> r))\<rparr>"

lemma wp_record:
  assumes "\<And>now o'. Q () (w\<lparr>outside := o', db := record_fact cid (f now) now (db w)\<rparr>)"
    and "\<And>e o'. E (Lib e) (w\<lparr>outside := o'\<rparr>)"
  shows "wp (bind (utc_now_rfc3339 env) (\<lambda>now.
     sql env (upsert_certificate_state cid (f now (blank_cert_row now)) (f now)))) Q E w"
  unfolding wp_simps
proof (intro wp_utc_nowI wp_sqlI)
  fix now o' a d o''
  assume "upsert_certificate_state cid (f now (blank_cert_row now)) (f now) (db (w\<lparr>outside := o'\<rparr>))
    = Inr (a, d)"
  then have "d = record_fact cid (f now) now (db w)"
    by (auto simp: upsert_certificate_state_def record_fact_def split: option.splits)
  then show "Q a (w\<lparr>outside := o', outside := o'', db := d\<rparr>)"
    using assms(1) by simp
qed (use assms(2) in simp)

lemma wp_record_publication_success:
  assumes "\<And>now o'. Q () (w\<lparr>outside := o', db := record_fact cid (set_publication fp cfp v now) now (db w)\<rparr>)"
    and "\<And>e o'. E (Lib e) (w\<lparr>outside := o'\<rparr>)"
  shows "wp (record_publication_success env cid fp cfp v) Q E w"
  unfolding record_publication_success_def using assms by (rule wp_record)

lemma wp_record_audit_success:
  assumes "\<And>now o'. Q () (w\<lparr>outside := o', db := record_fact cid (set_audit now) now (db w)\<rparr>)"
    and "\<And>e o'. E (Lib e) (w\<lparr>outside := o'\<rparr>)"
  shows "wp (record_audit_success env cid) Q E w"
  unfolding record_audit_success_def using assms by (rule wp_record)

lemma wp_record_rollback_success:
  assumes "\<And>now o'. Q () (w\<lparr>outside := o', db := record_fact cid (set_rollback cfp v now) now (db w)\<rparr>)"
    and "\<And>e o'. E (Lib e) (w\<lparr>outside := o'\<rparr>)"
  shows "wp (record_rollback_success env cid cfp v) Q E w"
  unfolding record_rollback_success_def using assms by (rule wp_record)

lemma wp_record_renewal_success:
  assumes "\<And>now o'. Q () (w\<lparr>outside := o', db := record_fact cid (set_renewal now) now (db w)\<rparr>)"
    and "\<And>e o'. E (Lib e) (w\<lparr>outside := o'\<rparr>)"
  shows "wp (record_renewal_success env cid) Q E w"
  unfolding record_renewal_success_def using assms by (rule wp_record)

lemma wp_select:
  "(\<And>o'. Q (f (db w)) (w\<lparr>outside := o'\<rparr>)) \<Longrightarrow> (\<And>e o'. E (Lib e) (w\<lparr>outside := o'\<rparr>)) \<Longrightarrow>
     wp (sql env (select_from f)) Q E w"
  by (rule wp_sqlI) (auto simp: select_from_def)

text \<open>The same effects, as steps of the operation that is tracked.\<close>

lemma tracked_has_row: "tracked d0 oid ty st d \<Longrightarrow> has_row oid d"
  by (auto simp: tracked_def safe_def has_row_def wf_db_def filter_id_distinct)

lemma operations_record_fact [simp]: "operations (record_fact cid f now d) = operations d"
  by (simp add: record_fact_def)

lemma tracked_started:
  "safe d0 d \<Longrightarrow> oid \<notin> row_id ` set (operations d) \<Longrightarrow> (ty = BOOTSTRAP \<longrightarrow> ocid = None) \<Longrightarrow>
     tracked d0 oid ty DISCOVERED
       (with_operations (\<lambda>rs. rs @ [discovered_row oid cid ty fp ocid now]) d)"
  using store_step.started[of "discovered_row oid cid ty fp ocid now" d]
  by (auto simp: tracked_def with_operations_def discovered_row_def intro: safe_step)

lemma tracked_transitioned:
  assumes "tracked d0 oid ty st d" and "lifecycle ty st st'" and "completed \<noteq> None \<longleftrightarrow> is_terminal st'"
    and "ty = BOOTSTRAP \<longrightarrow> col_ocid cols = None \<or> st' = OCI_RECONCILED"
  shows "tracked d0 oid ty st' (update_where (\<lambda>r. row_id r = oid) (set_transition st' cols now completed) d)"
proof -
  from assms(1) obtain r where r: "r \<in> set (operations d)" "row_id r = oid" "row_type r = ty" "row_state r = st"
    by (auto simp: tracked_def)
  then have "store_step d (update_where (\<lambda>r. row_id r = oid) (set_transition st' cols now completed) d)"
    using store_step.transitioned[of r d st' completed cols now] assms(2-4) by simp
  then have "safe d0 (update_where (\<lambda>r. row_id r = oid) (set_transition st' cols now completed) d)"
    using assms(1) by (blast intro: safe_step tracked_safe)
  then show ?thesis
    using r update_where_mem[of r d "\<lambda>r. row_id r = oid" "set_transition st' cols now completed"]
    unfolding tracked_def by (intro conjI bexI) auto
qed

lemma safe_reconciled:
  "safe d0 d \<Longrightarrow> safe d0 (update_where (reconciled_by cid fp ex) (close_reconciled v now) d)"
  by (rule safe_step) (auto intro: store_step.reconciled)

lemma tracked_reconciled:
  "tracked d0 oid ty st d \<Longrightarrow>
     tracked d0 oid ty st (update_where (reconciled_by cid fp oid) (close_reconciled v now) d)"
  by (force simp: tracked_def set_update_where reconciled_by_def intro: safe_reconciled)

lemma safe_audits_closed:
  "safe d0 d \<Longrightarrow> safe d0 (update_where (interrupted_audit cid ex) (close_audit now) d)"
  by (rule safe_step) (auto intro: store_step.audits_closed)

lemma safe_record_fact: "safe d0 d \<Longrightarrow> safe d0 (record_fact cid f now d)"
  by (rule safe_step) (auto intro: store_step.facts)

lemma tracked_record_fact: "tracked d0 oid ty st d \<Longrightarrow> tracked d0 oid ty st (record_fact cid f now d)"
  by (auto simp: tracked_def intro: safe_record_fact)

lemmas tracked_intros =
  tracked_started tracked_transitioned tracked_reconciled tracked_record_fact

lemmas store_wps =
  wp_start_operation wp_transition wp_complete_reconciled_operations
  wp_complete_interrupted_audits wp_record_publication_success wp_record_audit_success
  wp_record_rollback_success wp_record_renewal_success wp_uuid4I wp_nowI

end
