(* ===== verification/Exchange.thy ===== *)
theory Exchange
  imports Lifecycle OciCertificates
begin

section \<open>Exchanges with OCI\<close>

text \<open>
  What a service says to OCI, as a property of the trace: each mutation is justified by what was
  read before it. The rules \<open>wp_ask\<close>, \<open>wp_list\<close> and \<open>wp_send\<close> are the weakest
  preconditions of the adapters' operations in these terms, and \<open>wp_track\<close> that of a transition
  of the operation being tracked; the services are verified with them.
\<close>

subsection \<open>Justified mutations\<close>

text \<open>
  \<open>shown io req parse a\<close>: in the exchange \<open>io\<close>, a response to \<open>req\<close> parses to \<open>a\<close>.
  \<open>justified G io\<close>: each entry satisfies \<open>G\<close> of the entries before it.
\<close>

definition shown :: "io_entry list \<Rightarrow> oci_request \<Rightarrow> (response \<Rightarrow> exn + 'a) \<Rightarrow> 'a \<Rightarrow> bool" where
  "shown io req parse a \<longleftrightarrow> (\<exists>resp. (req, Inr resp) \<in> set io \<and> parse resp = Inr a)"

definition just_shown :: "io_entry list \<Rightarrow> oci_request \<Rightarrow> (response \<Rightarrow> exn + 'a) \<Rightarrow> 'a \<Rightarrow> bool" where
  "just_shown io req parse a \<longleftrightarrow> (\<exists>io' resp. io = io' @ [(req, Inr resp)] \<and> parse resp = Inr a)"

definition justified :: "(io_entry list \<Rightarrow> io_entry \<Rightarrow> bool) \<Rightarrow> io_entry list \<Rightarrow> bool" where
  "justified G io \<longleftrightarrow> (\<forall>i<length io. G (take i io) (io ! i))"

lemma justified_Nil [simp]: "justified G []"
  by (simp add: justified_def)

lemma justified_snoc: "justified G (io @ [e]) \<longleftrightarrow> justified G io \<and> G io e"
  by (auto simp: justified_def nth_append less_Suc_eq)

lemma justified_append:
  "justified G io \<Longrightarrow> (\<And>pre e. e \<in> set io' \<Longrightarrow> G pre e) \<Longrightarrow> justified G (io @ io')"
proof (induction io' rule: rev_induct)
  case (snoc e io')
  then show ?case using justified_snoc[of G "io @ io'" e] by simp
qed simp

lemma shown_append: "shown io req parse a \<Longrightarrow> shown (io @ io') req parse a"
  by (auto simp: shown_def)

lemma shown_retried: "parse resp = Inr a \<Longrightarrow> shown (io @ retried req failures (Inr resp)) req parse a"
  by (auto simp: shown_def retried_def)

lemma just_shown_retried:
  "parse resp = Inr a \<Longrightarrow> just_shown (io @ retried req failures (Inr resp)) req parse a"
  by (auto simp: just_shown_def retried_def)

text \<open>
  \<open>exchanged G t0 R w\<close>: since the trace was \<open>t0\<close>, a justified exchange took place, of which
  \<open>R\<close> holds.
\<close>

definition exchanged ::
  "(io_entry list \<Rightarrow> io_entry \<Rightarrow> bool) \<Rightarrow> io_entry list \<Rightarrow> (io_entry list \<Rightarrow> bool) \<Rightarrow> 'w world \<Rightarrow> bool" where
  "exchanged G t0 R w \<longleftrightarrow> (\<exists>io. trace w = t0 @ io \<and> justified G io \<and> R io)"

lemma exchanged_refl: "R [] \<Longrightarrow> exchanged G (trace w) R w"
  by (simp add: exchanged_def)

lemma exchanged_weaken: "exchanged G t0 R w \<Longrightarrow> (\<And>io. R io \<Longrightarrow> R' io) \<Longrightarrow> exchanged G t0 R' w"
  by (auto simp: exchanged_def)

lemma exchanged_same [simp]:
  "exchanged G t0 R (w\<lparr>outside := o'\<rparr>) = exchanged G t0 R w"
  "exchanged G t0 R (w\<lparr>db := d\<rparr>) = exchanged G t0 R w"
  "exchanged G t0 R (w\<lparr>journal := j\<rparr>) = exchanged G t0 R w"
  by (simp_all add: exchanged_def)

text \<open>Evidence that a longer exchange keeps, and guards that let every read pass.\<close>

definition lasting :: "(io_entry list \<Rightarrow> bool) \<Rightarrow> bool" where
  "lasting R \<longleftrightarrow> (\<forall>io io'. R io \<longrightarrow> R (io @ io'))"

definition lets_reads :: "(io_entry list \<Rightarrow> io_entry \<Rightarrow> bool) \<Rightarrow> bool" where
  "lets_reads G \<longleftrightarrow> (\<forall>pre e. \<not> is_mutation (fst e) \<longrightarrow> G pre e)"

named_theorems lasting_intros \<open>evidence that longer exchanges keep\<close>

lemma lasting_True [lasting_intros]: "lasting (\<lambda>_. True)"
  by (simp add: lasting_def)

lemma lasting_conj [lasting_intros]: "lasting R \<Longrightarrow> lasting R' \<Longrightarrow> lasting (\<lambda>io. R io \<and> R' io)"
  by (simp add: lasting_def)

lemma lasting_shown [lasting_intros]: "lasting (\<lambda>io. shown io req parse a)"
  by (simp add: lasting_def shown_append)

lemma just_shown_shown: "just_shown io req parse a \<Longrightarrow> shown io req parse a"
  by (auto simp: just_shown_def shown_def)

lemma exchanged_reads:
  assumes "exchanged G t0 R w" and "lets_reads G" and "list_all (\<lambda>x. \<not> is_mutation (fst x)) io'"
    and "trace w' = trace w @ io'" and "\<And>io. R io \<Longrightarrow> R' (io @ io')"
  shows "exchanged G t0 R' w'"
  using assms justified_append[of G _ io'] by (fastforce simp: exchanged_def lets_reads_def list_all_iff)

lemma exchanged_send:
  assumes "exchanged G t0 R w" and "trace w' = trace w @ [e]"
    and "\<And>io. R io \<Longrightarrow> G io e" and "\<And>io. R io \<Longrightarrow> R' (io @ [e])"
  shows "exchanged G t0 R' w'"
  using assms by (auto simp: exchanged_def justified_snoc)

lemma wp_ask:
  assumes "asks req parse m" and "exchanged G t0 R w" and "\<not> is_mutation req" and "lets_reads G" and "lasting R"
    and Q: "\<And>a w'. db w' = db w \<Longrightarrow> exchanged G t0 (\<lambda>io. R io \<and> just_shown io req parse a) w' \<Longrightarrow> Q a w'"
    and E: "\<And>e w'. port_error e \<Longrightarrow> db w' = db w \<Longrightarrow> exchanged G t0 R w' \<Longrightarrow> E e w'"
  shows "wp m Q E w"
proof (rule wp_asks[OF assms(1)])
  fix a failures resp o'
  assume "parse resp = Inr a"
  then show "Q a (w\<lparr>outside := o', trace := trace w @ retried req failures (Inr resp)\<rparr>)"
    by (intro Q exchanged_reads[OF assms(2,4), of "retried req failures (Inr resp)"])
      (use assms(3,5) just_shown_retried in \<open>auto simp: retried_def list_all_iff lasting_def\<close>)
next
  fix e rs o'
  assume "port_error e"
  then show "E e (w\<lparr>outside := o', trace := trace w @ map (Pair req) rs\<rparr>)"
    by (intro E exchanged_reads[OF assms(2,4), of "map (Pair req) rs"])
      (use assms(3,5) in \<open>auto simp: list_all_iff lasting_def\<close>)
qed

text \<open>A version that a page of the exchange listed.\<close>

definition was_listed :: "io_entry list \<Rightarrow> string \<Rightarrow> oci_certificate_version \<Rightarrow> bool" where
  "was_listed io cid v \<longleftrightarrow> list_ex (\<lambda>e. is_listing cid e \<and> List.member (versions_in e) v) io"

lemma lasting_was_listed [lasting_intros]: "lasting (\<lambda>io. was_listed io cid v)"
  by (simp add: lasting_def was_listed_def)

lemma lasting_all [lasting_intros]: "(\<And>x. x \<in> A \<Longrightarrow> lasting (\<lambda>io. R x io)) \<Longrightarrow> lasting (\<lambda>io. \<forall>x\<in>A. R x io)"
  by (auto simp: lasting_def)

lemma listed_was_listed: "list_all (is_listing cid) io \<Longrightarrow> v \<in> set (listed io) \<Longrightarrow> was_listed (io' @ io) cid v"
  by (auto simp: was_listed_def listed_def list_all_iff list_ex_iff)

lemma wp_list:
  assumes "lists cid m" and "exchanged G t0 R w" and "lets_reads G" and "lasting R"
    and Q: "\<And>vs w'. db w' = db w \<Longrightarrow> exchanged G t0 (\<lambda>io. R io \<and> (\<forall>v\<in>set vs. was_listed io cid v)) w' \<Longrightarrow> Q vs w'"
    and E: "\<And>e w'. port_error e \<Longrightarrow> db w' = db w \<Longrightarrow> exchanged G t0 R w' \<Longrightarrow> E e w'"
  shows "wp m Q E w"
proof -
  have pages: "exchanged G t0 (\<lambda>io'. R io' \<and> (\<forall>v\<in>set (listed io). was_listed io' cid v)) (w\<lparr>outside := o', trace := trace w @ io\<rparr>)"
    if "list_all (is_listing cid) io" for o' io
    using assms(2,3)
  proof (rule exchanged_reads[of _ _ _ _ io])
    show "list_all (\<lambda>x. \<not> is_mutation (fst x)) io"
      using that by (auto simp: list_all_iff dest: listing_reads)
  qed (use that assms(4) listed_was_listed in \<open>auto simp: lasting_def\<close>)
  then have "exchanged G t0 R (w\<lparr>outside := o', trace := trace w @ io\<rparr>)" if "list_all (is_listing cid) io" for o' io
    using that by (blast intro: exchanged_weaken)
  with pages show ?thesis by (intro wp_lists[OF assms(1)] Q E) auto
qed

lemma wp_send:
  assumes "sends_once req m" and "exchanged G t0 R w"
    and "\<And>q answer io. req = Inr q \<Longrightarrow> R io \<Longrightarrow> G io (q, answer)"
    and "\<And>q answer io. req = Inr q \<Longrightarrow> R io \<Longrightarrow> R' (io @ [(q, answer)])" and "\<And>io. R io \<Longrightarrow> R' io"
    and Q: "\<And>a w'. db w' = db w \<Longrightarrow> exchanged G t0 R' w' \<Longrightarrow> Q a w'"
    and E: "\<And>e w'. port_error e \<Longrightarrow> db w' = db w \<Longrightarrow> exchanged G t0 R' w' \<Longrightarrow> E e w'"
  shows "wp m Q E w"
proof -
  have sent: "exchanged G t0 R' (w\<lparr>outside := o', trace := trace w @ [(q, answer)]\<rparr>)"
    if "req = Inr q" for q answer o'
    using assms(2) by (rule exchanged_send[of _ _ _ _ _ "(q, answer)"]) (use that assms(3,4) in auto)
  show ?thesis
    by (rule wp_sends_once[OF assms(1)])
      (use assms(2,5) in \<open>auto intro: Q E sent exchanged_weaken\<close>)
qed

text \<open>What holds whenever a run stops: a lawful database and a justified exchange.\<close>

definition lawful ::
  "(io_entry list \<Rightarrow> io_entry \<Rightarrow> bool) \<Rightarrow> database \<Rightarrow> io_entry list \<Rightarrow> 'w world \<Rightarrow> bool" where
  "lawful G d0 t0 w \<longleftrightarrow> safe d0 (db w) \<and> exchanged G t0 (\<lambda>_. True) w"

lemma lawful_tracked: "tracked d0 oid ty st (db w) \<Longrightarrow> exchanged G t0 R w \<Longrightarrow> lawful G d0 t0 w"
  by (auto simp: lawful_def elim: exchanged_weaken)

lemma lawful_outside [simp]: "lawful G d0 t0 (w\<lparr>outside := o'\<rparr>) = lawful G d0 t0 w"
  by (simp add: lawful_def)

lemma wp_track:
  assumes "tracked d0 oid ty st (db w)" and "lifecycle ty st st'" and "exchanged G t0 R w"
    and "\<And>w'. tracked d0 oid ty st' (db w') \<Longrightarrow> exchanged G t0 R w' \<Longrightarrow> trace w' = trace w \<Longrightarrow> Q () w'"
    and "\<And>e w'. lawful G d0 t0 w' \<Longrightarrow> E e w'"
    and "ty = BOOTSTRAP \<longrightarrow> col_ocid cols = None \<or> st' = OCI_RECONCILED"
  shows "wp (transition env oid st' cols) Q E w"
  using assms(1)
  by (intro wp_transition tracked_has_row assms(4,5))
    (use assms(2,3,6) in \<open>auto simp: intro: tracked_transitioned lawful_tracked\<close>)

lemma wp_log_event: "Q () (w\<lparr>journal := journal w @ [(ev, cid)]\<rparr>) \<Longrightarrow> wp (log_event ev cid) Q E w"
  by (simp add: log_event_def wp_modify)

end
