(* ===== verification/Reconciler.thy ===== *)
theory Reconciler
  imports Exchange X509
begin

section \<open>The publication reconciler\<close>

text \<open>
  \<open>reconciler.py\<close>: converging one OCI certificate to validated local material. The database is
  moved by lifecycle steps only, and every mutation sent to OCI is justified by what was read
  before it; both are shown of the adapters' interface \<open>oci_ports\<close> and hold whatever the
  service answers and wherever the run stops.
\<close>

subsection \<open>The operations\<close>

record publication_result =
  pub_certificate_id :: string
  pub_version :: int
  pub_fingerprint :: string
  pub_changed :: bool

definition verify_bundle ::
  "libs \<Rightarrow> oci_public_bundle \<Rightarrow> certificate_config \<Rightarrow> app_config \<Rightarrow> instant \<Rightarrow> exn + string" where
  "verify_bundle L bundle cert config now =
     (case validate_public_certificate L (certificate_pem bundle) cert (global_of config) now of
        Inl e \<Rightarrow>
          if is_CertificateValidationError e
          then Inl (ReconciliationError ''OCI public bundle failed local identity validation'')
          else Inl e
      | Inr fp \<Rightarrow> Inr fp)"

definition awaiting :: "oci_certificate_version \<Rightarrow> bool" where
  "awaiting v \<longleftrightarrow> List.member (stages v) ''PENDING'' \<or> List.member (stages v) ''LATEST''"

fun scan_candidates ::
  "libs \<Rightarrow> 'w adapters \<Rightarrow> string \<Rightarrow> certificate_config \<Rightarrow> app_config \<Rightarrow> string \<Rightarrow> instant \<Rightarrow>
     string \<Rightarrow> oci_certificate_version list \<Rightarrow> ('w, oci_certificate_version option) action" where
  "scan_candidates L P ocid cert config fp now rid [] = return None"
| "scan_candidates L P ocid cert config fp now rid (candidate # rest) =
     (if \<not> awaiting candidate
      then scan_candidates L P ocid cert config fp now rid rest
      else
        bind (port_get_public_bundle P ocid (Some (version_number candidate)) rid) (\<lambda>bundle.
        bind (lift (verify_bundle L bundle cert config now)) (\<lambda>remote.
          if remote = fp then return (Some candidate)
          else scan_candidates L P ocid cert config fp now rid rest)))"

definition find_matching_pending ::
  "libs \<Rightarrow> 'w adapters \<Rightarrow> string \<Rightarrow> certificate_config \<Rightarrow> app_config \<Rightarrow> string \<Rightarrow> instant \<Rightarrow>
     string \<Rightarrow> ('w, oci_certificate_version option) action" where
  "find_matching_pending L P ocid cert config fp now rid =
     bind (port_list_versions P ocid rid) (scan_candidates L P ocid cert config fp now rid)"

definition promotion_policy :: "app_config \<Rightarrow> read_retry_policy" where
  "promotion_policy config =
     \<lparr>max_attempts = mutation_reconciliation_attempts (oci_settings config),
      base_delay_seconds = 1, maximum_delay_seconds = 15\<rparr>"

fun promotion_retryable :: "exn \<Rightarrow> bool" where
  "promotion_retryable (Lib (ServiceError status code headers)) =
     (transient_status status \<or> (status = 409 \<and> code = ''IncorrectState''))"
| "promotion_retryable _ = True"

fun promote_loop ::
  "'w env \<Rightarrow> 'w adapters \<Rightarrow> read_retry_policy \<Rightarrow> string \<Rightarrow> int \<Rightarrow> string \<Rightarrow> nat list \<Rightarrow>
     ('w, unit) action" where
  "promote_loop env P policy ocid n rid [] =
     raise (Lib (RuntimeError ''OCI promotion retry policy has no attempts''))"
| "promote_loop env P policy ocid n rid (attempt # attempts) =
     bind (port_get_certificate P ocid rid) (\<lambda>refreshed.
       if current_version_number refreshed = Some n then return ()
       else
         try_except (port_promote_current P ocid n (oci_etag refreshed) rid) (\<lambda>error.
           if \<not> is_transport_error error then None
           else Some
             (if \<not> promotion_retryable error \<or> int attempt + 1 \<ge> max_attempts policy
              then raise error
              else
                bind (delay env policy attempt None) (\<lambda>d.
                seq (sleep env d)
                (promote_loop env P policy ocid n rid attempts)))))"

definition promote_to_current ::
  "'w env \<Rightarrow> 'w adapters \<Rightarrow> app_config \<Rightarrow> string \<Rightarrow> int \<Rightarrow> string \<Rightarrow> ('w, unit) action" where
  "promote_to_current env P config ocid n rid =
     (let policy = promotion_policy config
      in promote_loop env P policy ocid n rid (range_of (max_attempts policy)))"

definition complete_operation ::
  "'w env \<Rightarrow> string \<Rightarrow> certificate_config \<Rightarrow> string \<Rightarrow> string \<Rightarrow> int \<Rightarrow> bool \<Rightarrow> operation_type \<Rightarrow>
     ('w, publication_result) action" where
  "complete_operation env oid cert fp remote_fp n changed ty =
     seq (record_publication_success env (cert_id cert) fp remote_fp n)
     (bind (complete_reconciled_operations env (cert_id cert) fp n oid) (\<lambda>_.
      seq (if ty = RENEW then record_renewal_success env (cert_id cert) else return ())
     (seq (transition env oid COMPLETED (no_columns\<lparr>col_version := Some n\<rparr>))
     (return \<lparr>pub_certificate_id = cert_id cert, pub_version = n, pub_fingerprint = fp,
              pub_changed = changed\<rparr>))))"

definition material_of :: "lineage_material \<Rightarrow> oci_certificate_chain \<Rightarrow> string \<Rightarrow> import_material" where
  "material_of m chain label =
     \<lparr>mat_version_name = label, mat_certificate_pem = leaf_pem m,
      mat_cert_chain_pem = chain_cert_chain_pem chain, mat_private_key_pem = private_key_pem m\<rparr>"

text \<open>Uploading the material as a new version, and the version it became.\<close>

definition upload_candidate ::
  "'w env \<Rightarrow> libs \<Rightarrow> 'w adapters \<Rightarrow> app_config \<Rightarrow> certificate_config \<Rightarrow> lineage_material \<Rightarrow>
     oci_certificate_chain \<Rightarrow> string \<Rightarrow> instant \<Rightarrow> string \<Rightarrow> string \<Rightarrow> string \<Rightarrow> oci_certificate \<Rightarrow>
     ('w, oci_certificate_version) action" where
  "upload_candidate env L P config cert m chain fp now ocid oid rid remote =
     bind (lift (version_name now fp)) (\<lambda>label.
     seq (port_upload_pending_version P ocid (oci_etag remote) (material_of m chain label) rid)
     (seq (transition env oid OCI_PENDING_UPLOADED (no_columns\<lparr>col_request := Some rid\<rparr>))
     (seq (log_event ''OCI_VERSION_UPLOADED'' (cert_id cert))
     (bind (find_matching_pending L P ocid cert config fp now rid) (\<lambda>found.
        case found of
          None \<Rightarrow>
            raise (ReconciliationError
              ''OCI upload outcome is not yet visible; reconcile before retry'')
        | Some candidate \<Rightarrow> return candidate)))))"

text \<open>The candidate to promote: a matching version that is there, or the one just uploaded.\<close>

definition settle_candidate ::
  "'w env \<Rightarrow> libs \<Rightarrow> 'w adapters \<Rightarrow> app_config \<Rightarrow> certificate_config \<Rightarrow> lineage_material \<Rightarrow>
     oci_certificate_chain \<Rightarrow> string \<Rightarrow> instant \<Rightarrow> string \<Rightarrow> string \<Rightarrow> string \<Rightarrow> oci_certificate \<Rightarrow>
     ('w, oci_certificate_version) action" where
  "settle_candidate env L P config cert m chain fp now ocid oid rid remote =
     bind (find_matching_pending L P ocid cert config fp now rid) (\<lambda>found.
       case found of
         None \<Rightarrow> upload_candidate env L P config cert m chain fp now ocid oid rid remote
       | Some candidate \<Rightarrow> return candidate)"

text \<open>Promotion of a verified candidate and its confirmation.\<close>

definition promote_and_confirm ::
  "'w env \<Rightarrow> libs \<Rightarrow> 'w adapters \<Rightarrow> app_config \<Rightarrow> certificate_config \<Rightarrow> string \<Rightarrow> instant \<Rightarrow>
     operation_type \<Rightarrow> string \<Rightarrow> string \<Rightarrow> string \<Rightarrow> int \<Rightarrow> ('w, publication_result) action" where
  "promote_and_confirm env L P config cert fp now ty ocid oid rid n =
     seq (transition env oid OCI_PENDING_VERIFIED
            (no_columns\<lparr>col_version := Some n, col_request := Some rid\<rparr>))
     (seq (log_event ''OCI_PENDING_VERIFIED'' (cert_id cert))
     (seq (promote_to_current env P config ocid n rid)
     (seq (log_event ''OCI_PROMOTED'' (cert_id cert))
     (bind (retry_read_until_sync env (default_policy (max_read_attempts (oci_settings config)))
              (port_get_public_bundle P ocid None rid) (\<lambda>b. bundle_version b = n)) (\<lambda>confirmed.
      bind (lift (verify_bundle L confirmed cert config now)) (\<lambda>confirmed_fp.
      seq (raise_if (confirmed_fp \<noteq> fp)
             (ReconciliationError ''OCI CURRENT fingerprint does not match local certificate''))
     (seq (transition env oid OCI_CURRENT_CONFIRMED
             (no_columns\<lparr>col_version := Some (bundle_version confirmed), col_request := Some rid\<rparr>))
     (seq (log_event ''OCI_CURRENT_CONFIRMED'' (cert_id cert))
     (complete_operation env oid cert fp confirmed_fp (bundle_version confirmed) True ty)))))))))"

text \<open>The reads that decide, once the operation is started.\<close>

definition converge ::
  "'w env \<Rightarrow> libs \<Rightarrow> 'w adapters \<Rightarrow> app_config \<Rightarrow> certificate_config \<Rightarrow> lineage_material \<Rightarrow>
     oci_certificate_chain \<Rightarrow> string \<Rightarrow> instant \<Rightarrow> operation_type \<Rightarrow> string \<Rightarrow> string \<Rightarrow>
     ('w, publication_result) action" where
  "converge env L P config cert m chain fp now ty ocid oid =
     bind (uuid4 env) (\<lambda>rid.
     bind (port_get_certificate P ocid rid) (\<lambda>remote.
     bind (port_get_public_bundle P ocid None rid) (\<lambda>current.
     bind (lift (verify_bundle L current cert config now)) (\<lambda>current_fp.
     seq (transition env oid OCI_RECONCILED
            (no_columns\<lparr>col_version := Some (bundle_version current), col_request := Some rid\<rparr>))
     (if current_fp = fp then
        seq (log_event ''OCI_VERSION_REUSED'' (cert_id cert))
          (complete_operation env oid cert fp current_fp (bundle_version current) False ty)
      else
        bind (settle_candidate env L P config cert m chain fp now ocid oid rid remote) (\<lambda>candidate.
          promote_and_confirm env L P config cert fp now ty ocid oid rid
            (version_number candidate)))))))"

definition reconcile ::
  "'w env \<Rightarrow> libs \<Rightarrow> 'w adapters \<Rightarrow> app_config \<Rightarrow> certificate_config \<Rightarrow> lineage_material \<Rightarrow>
     oci_certificate_chain \<Rightarrow> string \<Rightarrow> instant \<Rightarrow> operation_type \<Rightarrow>
     ('w, publication_result) action" where
  "reconcile env L P config cert m chain fp now ty =
     (case certificate_ocid (oci_of cert) of
        None \<Rightarrow> raise (ReconciliationError ''publish requires a configured OCI certificate OCID'')
      | Some ocid \<Rightarrow>
          bind (start_operation env (cert_id cert) ty (Some fp) (Some ocid)) (\<lambda>operation.
            converge env L P config cert m chain fp now ty ocid (operation_id operation)))"

subsection \<open>What justifies the mutations of a publication\<close>

text \<open>Version \<open>n\<close> was listed as PENDING or LATEST, and its bundle was read and has the wanted
  identity and fingerprint.\<close>

definition verified ::
  "libs \<Rightarrow> app_config \<Rightarrow> certificate_config \<Rightarrow> instant \<Rightarrow> string \<Rightarrow> string \<Rightarrow> int \<Rightarrow>
     io_entry list \<Rightarrow> bool" where
  "verified L config cert now fp ocid n io \<longleftrightarrow>
     (\<exists>v. was_listed io ocid v \<and> version_number v = n \<and> awaiting v) \<and>
     (\<exists>bundle. shown io (GetCertificateBundle ocid (Some n)) bundle_of_response bundle \<and>
        verify_bundle L bundle cert config now = Inr fp)"

lemma verified_append: "verified L config cert now fp ocid n io \<Longrightarrow> verified L config cert now fp ocid n (io @ io')"
  by (auto simp: verified_def was_listed_def intro: shown_append)

text \<open>What justifies a mutation of a publication.\<close>

definition publication_guard ::
  "libs \<Rightarrow> app_config \<Rightarrow> certificate_config \<Rightarrow> lineage_material \<Rightarrow> oci_certificate_chain \<Rightarrow> string \<Rightarrow>
     instant \<Rightarrow> string \<Rightarrow> io_entry list \<Rightarrow> io_entry \<Rightarrow> bool" where
  "publication_guard L config cert m chain fp now ocid before entry =
     (case fst entry of
        UpdateByImporting c details etag \<Rightarrow>
          c = ocid \<and> imp_stage details = Some ''PENDING'' \<and>
          imp_certificate_pem details = leaf_pem m \<and>
          imp_cert_chain_pem details = chain_cert_chain_pem chain \<and>
          imp_private_key_pem details = private_key_pem m \<and>
          version_name now fp = Inr (imp_version_name details) \<and>
          (\<exists>remote. shown before (GetCertificate ocid) (certificate_of_response ocid) remote \<and>
             etag = oci_etag remote)
      | UpdateCurrentVersion c n etag \<Rightarrow>
          c = ocid \<and>
          verified L config cert now fp ocid n before \<and>
          (\<exists>remote. just_shown before (GetCertificate ocid) (certificate_of_response ocid) remote \<and>
             etag = oci_etag remote \<and> current_version_number remote \<noteq> Some n)
      | CreateCertificate _ _ _ \<Rightarrow> False
      | ScheduleVersionDeletion _ _ _ _ \<Rightarrow> False
      | _ \<Rightarrow> True)"


lemma guard_reads: "\<not> is_mutation (fst e) \<Longrightarrow> publication_guard L config cert m chain fp now ocid pre e"
  by (cases "fst e") (simp_all add: publication_guard_def)

lemma lasting_verified [lasting_intros]: "lasting (verified L config cert now fp ocid n)"
  by (simp add: lasting_def verified_append)

lemma lets_reads_publication: "lets_reads (publication_guard L config cert m chain fp now ocid)"
  by (simp add: lets_reads_def guard_reads)

subsection \<open>The steps of a publication\<close>

context oci_ports
begin

lemmas exchange_wps =
  wp_ask[OF get_certificate_law] wp_ask[OF get_version_law] wp_ask[OF bundle_law]
  wp_list[OF list_law]

lemma wp_scan_candidates:
  assumes "lasting R" and "lets_reads G" and "P0 (db w)"
    and "exchanged G t0 (\<lambda>io. R io \<and> (\<forall>v\<in>set vs. was_listed io ocid v)) w"
  shows "wp (scan_candidates L P ocid cert config fp now rid vs)
       (\<lambda>r w'. P0 (db w') \<and> exchanged G t0 (\<lambda>io. R io \<and>
          (\<forall>v. r = Some v \<longrightarrow> verified L config cert now fp ocid (version_number v) io)) w')
       (\<lambda>e w'. P0 (db w') \<and> exchanged G t0 R w') w"
  using assms(3,4)
proof (induction vs arbitrary: w)
  case Nil
  then show ?case by (simp add: wp_simps)
next
  case (Cons v vs)
  let ?R = "\<lambda>io. R io \<and> (\<forall>v\<in>set (v # vs). was_listed io ocid v)"
  have R: "lasting ?R" using assms(1) by (intro lasting_intros)
  have skip: "exchanged G t0 (\<lambda>io. R io \<and> (\<forall>v\<in>set vs. was_listed io ocid v)) w'" if "exchanged G t0 ?R w'" for w'
    using that by (auto simp: exchanged_def)
  show ?case
  proof (cases "awaiting v")
    case False
    then show ?thesis using Cons.IH[OF Cons.prems(1) skip[OF Cons.prems(2)]] by simp
  next
    case True
    have ex: "exchanged G t0 ?R w'" "exchanged G t0 R w'"
      "verify_bundle L b cert config now = Inr fp \<Longrightarrow> exchanged G t0 (\<lambda>io. R io \<and>
         verified L config cert now fp ocid (version_number v) io) w'"
      if "exchanged G t0 (\<lambda>io. ?R io \<and>
        just_shown io (GetCertificateBundle ocid (Some (version_number v))) bundle_of_response b) w'" for b w'
      using that True by (auto simp: exchanged_def verified_def dest: just_shown_shown)
    have stop: "exchanged G t0 R w'" if "exchanged G t0 ?R w'" for w'
      using that by (auto simp: exchanged_def)
    have body: "wp (lift (verify_bundle L b cert config now))
         (\<lambda>remote. wp (if remote = fp then return (Some v) else scan_candidates L P ocid cert config fp now rid vs)
            (\<lambda>r w'. P0 (db w') \<and> exchanged G t0 (\<lambda>io. R io \<and>
               (\<forall>v. r = Some v \<longrightarrow> verified L config cert now fp ocid (version_number v) io)) w')
            (\<lambda>e w'. P0 (db w') \<and> exchanged G t0 R w'))
         (\<lambda>e w'. P0 (db w') \<and> exchanged G t0 R w') w'"
      if "db w' = db w" and w': "exchanged G t0 (\<lambda>io. ?R io \<and>
        just_shown io (GetCertificateBundle ocid (Some (version_number v))) bundle_of_response b) w'"
      for b and w' :: "'w world"
      using that(1) Cons.prems(1) ex(2,3)[OF w'] Cons.IH[OF _ skip[OF ex(1)[OF w']]]
      by (simp add: wp_lift wp_if wp_return split: sum.splits)
    show ?thesis
      unfolding scan_candidates.simps if_not_P[OF not_not[THEN iffD2, OF True]] wp_bind
      by (rule wp_ask[OF bundle_law Cons.prems(2) _ assms(2) R])
        (use Cons.prems(1) stop in \<open>simp_all add: body\<close>)
  qed
qed

end

context oci_ports
begin

lemma wp_find_matching_pending:
  assumes "lasting R" and "lets_reads G" and "P0 (db w)" and "exchanged G t0 R w"
  shows "wp (find_matching_pending L P ocid cert config fp now rid)
       (\<lambda>r w'. P0 (db w') \<and> exchanged G t0 (\<lambda>io. R io \<and>
          (\<forall>v. r = Some v \<longrightarrow> verified L config cert now fp ocid (version_number v) io)) w')
       (\<lambda>e w'. P0 (db w') \<and> exchanged G t0 R w') w"
  unfolding find_matching_pending_def wp_bind
  by (rule wp_list[OF list_law assms(4)]) (use assms in \<open>auto intro!: wp_scan_candidates\<close>)

lemma wp_promote_loop:
  fixes L config cert m chain fp now ocid
  defines "G \<equiv> publication_guard L config cert m chain fp now ocid"
  assumes R: "lasting R" "\<And>io. R io \<Longrightarrow> verified L config cert now fp ocid n io"
  shows "P0 (db w) \<Longrightarrow> exchanged G t0 R w \<Longrightarrow>
     wp (promote_loop env P policy ocid n rid attempts)
       (\<lambda>_ w'. P0 (db w') \<and> exchanged G t0 R w') (\<lambda>_ w'. P0 (db w') \<and> exchanged G t0 R w') w"
proof (induction attempts arbitrary: w)
  case Nil
  then show ?case by (simp add: wp_simps)
next
  case (Cons a attempts)
  note IH = Cons.IH
  have send: "wp (port_promote_current P ocid n (oci_etag remote) rid)
      (\<lambda>_ w'. P0 (db w') \<and> exchanged G t0 R w') (\<lambda>_ w'. P0 (db w') \<and> exchanged G t0 R w') w'"
    if "P0 (db w')" "current_version_number remote \<noteq> Some n"
      "exchanged G t0 (\<lambda>io. R io \<and> just_shown io (GetCertificate ocid) (certificate_of_response ocid) remote) w'"
    for remote w'
  proof (rule wp_send[OF promote_law that(3)])
    fix q answer io
    assume "Inr (UpdateCurrentVersion ocid n (oci_etag remote)) = (Inr q :: exn + oci_request)"
      "R io \<and> just_shown io (GetCertificate ocid) (certificate_of_response ocid) remote"
    then show "G io (q, answer)" "R (io @ [(q, answer)])"
      using R that(2) by (auto simp: G_def publication_guard_def lasting_def)
  qed (use that(1) in auto)
  have reads: "lets_reads G" by (simp add: G_def lets_reads_publication)
  have weaken: "exchanged G t0 R w'"
    if "exchanged G t0 (\<lambda>io. R io \<and> just_shown io (GetCertificate ocid) (certificate_of_response ocid) remote) w'"
    for remote and w' :: "'w world"
    using that by (rule exchanged_weaken) simp
  show ?case
    unfolding promote_loop.simps wp_bind
    by (rule wp_ask[OF get_certificate_law Cons.prems(2)])
      (use Cons.prems R reads in \<open>auto simp: wp_simps weaken intro!: wp_mono[OF send] wp_delayI wp_sleepI IH\<close>)
qed

end

subsection \<open>Completion\<close>

text \<open>
  \<open>agreed\<close>: the recorded certificate facts say that local and remote agree on \<open>fp\<close> at version
  \<open>n\<close>. \<open>settled\<close>: no operation but \<open>oid\<close> is still active for that material.
\<close>

definition agreed :: "string \<Rightarrow> string \<Rightarrow> int \<Rightarrow> database \<Rightarrow> bool" where
  "agreed cid fp n d \<longleftrightarrow>
     (case certificate_states d cid of
        None \<Rightarrow> False
      | Some c \<Rightarrow> last_local_fingerprint c = Some fp \<and> last_oci_current_fingerprint c = Some fp \<and>
          last_oci_current_version c = Some n)"

definition settled :: "string \<Rightarrow> string \<Rightarrow> string \<Rightarrow> database \<Rightarrow> bool" where
  "settled oid cid fp d \<longleftrightarrow>
     list_all (\<lambda>r. row_certificate r = cid \<and> row_fingerprint r = Some fp \<and> row_id r \<noteq> oid \<longrightarrow>
       is_terminal (row_state r)) (operations d)"

definition completed_at :: "string \<Rightarrow> int \<Rightarrow> database \<Rightarrow> bool" where
  "completed_at oid n d \<longleftrightarrow>
     list_ex (\<lambda>r. row_id r = oid \<and> row_state r = COMPLETED \<and> row_version r = Some n) (operations d)"

text \<open>A publication that returned: its operation is closed at version \<open>n\<close>, the facts agree, and
  no operation for the material is active.\<close>

definition published :: "string \<Rightarrow> string \<Rightarrow> string \<Rightarrow> int \<Rightarrow> database \<Rightarrow> bool" where
  "published oid cid fp n d \<longleftrightarrow>
     completed_at oid n d \<and> agreed cid fp n d \<and>
     list_all (\<lambda>r. row_certificate r = cid \<and> row_fingerprint r = Some fp \<longrightarrow> is_terminal (row_state r))
       (operations d)"

lemma certificate_states_update_where [simp]:
  "certificate_states (update_where p f d) = certificate_states d"
  by (simp add: update_where_def with_operations_def)

lemma agreed_update_where [simp]: "agreed cid fp n (update_where p f d) = agreed cid fp n d"
  by (simp add: agreed_def)

lemma agreed_publication: "agreed cid fp n (record_fact cid (set_publication fp fp n now) now' d)"
  by (simp add: agreed_def record_fact_def set_publication_def)

lemma agreed_renewal: "agreed cid fp n d \<Longrightarrow> agreed cid fp n (record_fact cid (set_renewal now) now' d)"
  by (auto simp: agreed_def record_fact_def set_renewal_def split: option.splits)

lemma settled_record_fact [simp]: "settled oid cid fp (record_fact c f now d) = settled oid cid fp d"
  by (simp add: settled_def)

lemma settled_reconciled: "settled oid cid fp (update_where (reconciled_by cid fp oid) (close_reconciled n now) d)"
proof -
  have "is_terminal (row_state (if reconciled_by cid fp oid r then close_reconciled n now r else r))"
    if "row_certificate r = cid \<and> row_fingerprint r = Some fp \<and> row_id r \<noteq> oid" for r
    using that by (simp add: reconciled_by_def)
  moreover have "row_certificate (if reconciled_by cid fp oid r then close_reconciled n now r else r) = row_certificate r"
      "row_fingerprint (if reconciled_by cid fp oid r then close_reconciled n now r else r) = row_fingerprint r"
      "row_id (if reconciled_by cid fp oid r then close_reconciled n now r else r) = row_id r" for r
    by simp_all
  ultimately show ?thesis
    unfolding settled_def list_all_iff set_update_where by (auto simp only: ball_simps)
qed

lemma settled_transition:
  "settled oid cid fp d \<Longrightarrow>
     list_all (\<lambda>r. row_certificate r = cid \<and> row_fingerprint r = Some fp \<longrightarrow> is_terminal (row_state r))
       (operations (update_where (\<lambda>r. row_id r = oid) (set_transition COMPLETED cols now c) d))"
  by (auto simp: settled_def list_all_iff set_update_where)

lemma has_row_mem: "has_row oid d \<Longrightarrow> \<exists>r\<in>set (operations d). row_id r = oid"
  by (cases "filter (\<lambda>r. row_id r = oid) (operations d)") (auto simp: has_row_def dest: filter_eq_ConsD)

lemma completed_transition:
  assumes "has_row oid d" and "col_version cols = Some n"
  shows "completed_at oid n (update_where (\<lambda>r. row_id r = oid) (set_transition COMPLETED cols now c) d)"
proof -
  from has_row_mem[OF assms(1)] obtain r where "r \<in> set (operations d)" "row_id r = oid" by blast
  then show ?thesis
    using assms(2) update_where_mem[of r d "\<lambda>r. row_id r = oid" "set_transition COMPLETED cols now c"]
    unfolding completed_at_def list_ex_iff
    by (intro bexI[of _ "set_transition COMPLETED cols now c r"]) (simp_all add: set_transition_def coalesce_def)
qed

lemma wp_complete_operation:
  fixes w :: "'w world"
  assumes "tracked d0 oid ty st (db w)" and "lifecycle ty st COMPLETED"
  shows "wp (complete_operation env oid cert fp fp n changed ty)
     (\<lambda>r w'. safe d0 (db w') \<and> published oid (cert_id cert) fp n (db w') \<and> trace w' = trace w \<and>
        r = \<lparr>pub_certificate_id = cert_id cert, pub_version = n, pub_fingerprint = fp, pub_changed = changed\<rparr>)
     (\<lambda>e w'. safe d0 (db w') \<and> trace w' = trace w) w"
proof -
  define ready where "ready w' \<longleftrightarrow> tracked d0 oid ty st (db w') \<and> agreed (cert_id cert) fp n (db w') \<and>
     settled oid (cert_id cert) fp (db w') \<and> trace w' = trace w" for w' :: "'w world"
  have finish: "wp (transition env oid COMPLETED (no_columns\<lparr>col_version := Some n\<rparr>))
      (\<lambda>_ w'. safe d0 (db w') \<and> published oid (cert_id cert) fp n (db w') \<and> trace w' = trace w)
      (\<lambda>e w'. safe d0 (db w') \<and> trace w' = trace w) w'" if "ready w'" for w' :: "'w world"
    using that assms(2) unfolding ready_def
    by (intro wp_transition)
      (auto simp: published_def tracked_has_row settled_transition completed_transition
        intro: tracked_safe[OF tracked_transitioned])
  show ?thesis
    unfolding complete_operation_def wp_simps
    by (intro wp_record_publication_success wp_complete_reconciled_operations)
      (use assms in \<open>auto simp: wp_simps ready_def agreed_publication agreed_renewal settled_reconciled
         safe_record_fact safe_reconciled
         intro!: wp_mono[OF finish] wp_record_renewal_success tracked_reconciled tracked_record_fact
         intro: tracked_safe\<close>)
qed


subsection \<open>The whole publication\<close>

definition publishes :: "operation_type \<Rightarrow> bool" where
  "publishes ty \<longleftrightarrow> List.member [PUBLISH, RENEW, RECONCILE] ty"

lemma publishes_cases: "publishes ty \<Longrightarrow> (ty = PUBLISH \<Longrightarrow> Q) \<Longrightarrow> (ty = RENEW \<Longrightarrow> Q) \<Longrightarrow> (ty = RECONCILE \<Longrightarrow> Q) \<Longrightarrow> Q"
  by (auto simp: publishes_def)

lemma publishes_not_bootstrap: "publishes ty \<Longrightarrow> ty \<noteq> BOOTSTRAP"
  by (auto simp: publishes_def)

lemma publishes_lifecycle:
  assumes "publishes ty"
  shows "lifecycle ty DISCOVERED OCI_RECONCILED" "lifecycle ty OCI_RECONCILED COMPLETED"
    "lifecycle ty OCI_RECONCILED OCI_PENDING_UPLOADED" "lifecycle ty OCI_RECONCILED OCI_PENDING_VERIFIED"
    "lifecycle ty OCI_PENDING_UPLOADED OCI_PENDING_VERIFIED"
    "lifecycle ty OCI_PENDING_VERIFIED OCI_CURRENT_CONFIRMED" "lifecycle ty OCI_CURRENT_CONFIRMED COMPLETED"
  using assms by (auto simp: lifecycle_def next_defs elim!: publishes_cases)

text \<open>The current bundle was read and has the wanted identity, fingerprint and version.\<close>

definition confirmed_current ::
  "libs \<Rightarrow> app_config \<Rightarrow> certificate_config \<Rightarrow> instant \<Rightarrow> string \<Rightarrow> string \<Rightarrow> int \<Rightarrow>
     io_entry list \<Rightarrow> bool" where
  "confirmed_current L config cert now fp ocid n io \<longleftrightarrow>
     (\<exists>b. shown io (GetCertificateBundle ocid None) bundle_of_response b \<and>
        verify_bundle L b cert config now = Inr fp \<and> bundle_version b = n)"

context oci_ports
begin

lemma wp_upload_candidate:
  fixes L config cert m chain fp now ocid and w :: "'w world"
  defines "G \<equiv> publication_guard L config cert m chain fp now ocid"
  assumes ty: "publishes ty" and tracked: "tracked d0 oid ty OCI_RECONCILED (db w)"
    and ex: "exchanged G t0 (\<lambda>io. shown io (GetCertificate ocid) (certificate_of_response ocid) remote) w"
  shows "wp (upload_candidate env L P config cert m chain fp now ocid oid rid remote)
     (\<lambda>v w'. tracked d0 oid ty OCI_PENDING_UPLOADED (db w') \<and>
        exchanged G t0 (verified L config cert now fp ocid (version_number v)) w')
     (\<lambda>e w'. lawful G d0 t0 w') w"
proof -
  let ?R = "\<lambda>io. shown io (GetCertificate ocid) (certificate_of_response ocid) remote"
  let ?Q = "\<lambda>v w'. tracked d0 oid ty OCI_PENDING_UPLOADED (db w') \<and>
        exchanged G t0 (verified L config cert now fp ocid (version_number v)) w'"
  let ?E = "\<lambda>(e :: exn) w'. lawful G d0 t0 w'"
  have reads: "lets_reads G" by (simp add: G_def lets_reads_publication)
  have find: "wp (find_matching_pending L P ocid cert config fp now rid)
       (\<lambda>r w'. tracked d0 oid ty st (db w') \<and> exchanged G t0 (\<lambda>io. shown io (GetCertificate ocid) (certificate_of_response ocid) remote \<and>
          (\<forall>v. r = Some v \<longrightarrow> verified L config cert now fp ocid (version_number v) io)) w')
       (\<lambda>e w'. tracked d0 oid ty st (db w') \<and> exchanged G t0 (\<lambda>io. shown io (GetCertificate ocid) (certificate_of_response ocid) remote) w') w'"
    if "tracked d0 oid ty st (db w')" "exchanged G t0 (\<lambda>io. shown io (GetCertificate ocid) (certificate_of_response ocid) remote) w'" for st and w' :: "'w world"
    using that by (intro wp_find_matching_pending reads lasting_intros)
  have again: "wp (find_matching_pending L P ocid cert config fp now rid)
       (\<lambda>found. wp (case found of None \<Rightarrow> raise (ReconciliationError t) | Some v \<Rightarrow> return v) ?Q ?E) ?E w'"
    if "tracked d0 oid ty OCI_PENDING_UPLOADED (db w')" "exchanged G t0 ?R w'" for t and w' :: "'w world"
    by (rule wp_mono[OF find[OF that]])
      (auto simp: wp_simps split: option.splits intro: lawful_tracked elim: exchanged_weaken)
  have after: "wp (transition env oid OCI_PENDING_UPLOADED cols) (\<lambda>_.
       wp (log_event ev cid) (\<lambda>_. wp (find_matching_pending L P ocid cert config fp now rid)
         (\<lambda>found. wp (case found of None \<Rightarrow> raise (ReconciliationError t) | Some v \<Rightarrow> return v) ?Q ?E) ?E) ?E) ?E w'"
    if "tracked d0 oid ty OCI_RECONCILED (db w')" "exchanged G t0 ?R w'" for cols ev cid t and w' :: "'w world"
    by (rule wp_track[OF that(1) publishes_lifecycle(3)[OF ty] that(2)])
      (auto simp: publishes_not_bootstrap[OF ty] intro!: wp_log_event again)
  have send: "wp (port_upload_pending_version P ocid (oci_etag remote) (material_of m chain label) rid)
      (\<lambda>_ w'. tracked d0 oid ty OCI_RECONCILED (db w') \<and> exchanged G t0 ?R w') ?E w"
    if "version_name now fp = Inr label" for label
  proof (rule wp_send[OF upload_law ex])
    fix q answer io
    assume "upload_request ocid (oci_etag remote) (material_of m chain label) = Inr q" "?R io"
    then show "G io (q, answer)"
      using that
      by (auto simp: G_def publication_guard_def upload_request_def import_details_def decode_ascii_def
          material_of_def split: sum.splits if_splits)
  qed (use tracked in \<open>auto simp: shown_append intro: lawful_tracked\<close>)
  have stop: "lawful G d0 t0 w" using tracked ex by (rule lawful_tracked)
  show ?thesis
    unfolding upload_candidate_def wp_bind wp_seq wp_lift
    by (auto split: sum.splits intro: stop wp_mono[OF send] after)
qed

lemma wp_settle_candidate:
  fixes L config cert m chain fp now ocid and w :: "'w world"
  defines "G \<equiv> publication_guard L config cert m chain fp now ocid"
  assumes ty: "publishes ty" and tracked: "tracked d0 oid ty OCI_RECONCILED (db w)"
    and ex: "exchanged G t0 (\<lambda>io. shown io (GetCertificate ocid) (certificate_of_response ocid) remote) w"
  shows "wp (settle_candidate env L P config cert m chain fp now ocid oid rid remote)
     (\<lambda>v w'. (\<exists>st. lifecycle ty st OCI_PENDING_VERIFIED \<and> tracked d0 oid ty st (db w')) \<and>
        exchanged G t0 (verified L config cert now fp ocid (version_number v)) w')
     (\<lambda>e w'. lawful G d0 t0 w') w"
proof -
  have reads: "lets_reads G" by (simp add: G_def lets_reads_publication)
  have find: "wp (find_matching_pending L P ocid cert config fp now rid)
       (\<lambda>r w'. tracked d0 oid ty st (db w') \<and> exchanged G t0 (\<lambda>io. shown io (GetCertificate ocid) (certificate_of_response ocid) remote \<and>
          (\<forall>v. r = Some v \<longrightarrow> verified L config cert now fp ocid (version_number v) io)) w')
       (\<lambda>e w'. tracked d0 oid ty st (db w') \<and> exchanged G t0 (\<lambda>io. shown io (GetCertificate ocid) (certificate_of_response ocid) remote) w') w'"
    if "tracked d0 oid ty st (db w')" "exchanged G t0 (\<lambda>io. shown io (GetCertificate ocid) (certificate_of_response ocid) remote) w'" for st and w' :: "'w world"
    using that by (intro wp_find_matching_pending reads lasting_intros)
  have upload: "wp (upload_candidate env L P config cert m chain fp now ocid oid rid remote)
     (\<lambda>v w'. (\<exists>st. lifecycle ty st OCI_PENDING_VERIFIED \<and> tracked d0 oid ty st (db w')) \<and>
        exchanged G t0 (verified L config cert now fp ocid (version_number v)) w')
     (\<lambda>e w'. lawful G d0 t0 w') w'"
    if "tracked d0 oid ty OCI_RECONCILED (db w')" "exchanged G t0 (\<lambda>io. shown io (GetCertificate ocid) (certificate_of_response ocid) remote) w'"
    for w' :: "'w world"
    using that unfolding G_def
    by (intro wp_mono[OF wp_upload_candidate[OF ty]]) (auto intro: publishes_lifecycle[OF ty])
  show ?thesis
    unfolding settle_candidate_def wp_bind
    by (rule wp_mono[OF find[OF tracked ex]])
      (auto simp: wp_simps split: option.splits
        intro: lawful_tracked publishes_lifecycle[OF ty] upload elim: exchanged_weaken)
qed

lemma wp_promote_and_confirm:
  fixes L config cert m chain fp now ocid and w :: "'w world"
  defines "G \<equiv> publication_guard L config cert m chain fp now ocid"
  assumes ty: "publishes ty" and st: "lifecycle ty st OCI_PENDING_VERIFIED"
    and tracked: "tracked d0 oid ty st (db w)"
    and ex: "exchanged G t0 (verified L config cert now fp ocid n) w"
  shows "wp (promote_and_confirm env L P config cert fp now ty ocid oid rid n)
     (\<lambda>r w'. safe d0 (db w') \<and> published oid (cert_id cert) fp (pub_version r) (db w') \<and>
        pub_certificate_id r = cert_id cert \<and> pub_fingerprint r = fp \<and>
        exchanged G t0 (confirmed_current L config cert now fp ocid (pub_version r)) w')
     (\<lambda>e w'. lawful G d0 t0 w') w"
proof -
  let ?R = "verified L config cert now fp ocid n"
  let ?C = "confirmed_current L config cert now fp ocid"
  let ?Q = "\<lambda>r w'. safe d0 (db w') \<and> published oid (cert_id cert) fp (pub_version r) (db w') \<and>
        pub_certificate_id r = cert_id cert \<and> pub_fingerprint r = fp \<and> exchanged G t0 (?C (pub_version r)) w'"
  let ?E = "\<lambda>(e :: exn) w'. lawful G d0 t0 w'"
  have reads: "lets_reads G" by (simp add: G_def lets_reads_publication)
  have finish: "wp (complete_operation env oid cert fp fp k True ty) ?Q ?E w'"
    if "tracked d0 oid ty OCI_CURRENT_CONFIRMED (db w')" "exchanged G t0 (?C k) w'" for k and w' :: "'w world"
    by (rule wp_mono[OF wp_complete_operation[OF that(1) publishes_lifecycle(7)[OF ty]]])
      (use that(2) in \<open>auto simp: lawful_def exchanged_def\<close>)
  have confirm: "wp (seq (raise_if (v \<noteq> fp) err)
        (seq (transition env oid OCI_CURRENT_CONFIRMED cols) (seq (log_event ev cid)
          (complete_operation env oid cert fp v (bundle_version b) True ty)))) ?Q ?E w'"
    if "tracked d0 oid ty OCI_PENDING_VERIFIED (db w')" "verify_bundle L b cert config now = Inr v"
      "exchanged G t0 (\<lambda>io. ?R io \<and> shown io (GetCertificateBundle ocid None) bundle_of_response b) w'"
    for v err cols ev cid b and w' :: "'w world"
  proof (cases "v = fp")
    case True
    then have "exchanged G t0 (?C (bundle_version b)) w'"
      using that(2,3) by (auto simp: exchanged_def confirmed_current_def)
    then show ?thesis
      using True unfolding wp_seq wp_raise_if
      by (auto simp: publishes_not_bootstrap[OF ty] intro!: wp_track[OF that(1) publishes_lifecycle(6)[OF ty]] wp_log_event finish)
  next
    case False
    then show ?thesis using that(1,3) by (auto simp: wp_simps intro: lawful_tracked)
  qed
  have await: "wp (retry_read_until_sync env pol (port_get_public_bundle P ocid None rid) acc)
      (\<lambda>b w'. tracked d0 oid ty OCI_PENDING_VERIFIED (db w') \<and>
         exchanged G t0 (\<lambda>io. ?R io \<and> shown io (GetCertificateBundle ocid None) bundle_of_response b) w') ?E w'"
    if "tracked d0 oid ty OCI_PENDING_VERIFIED (db w')" "exchanged G t0 ?R w'" for pol acc and w' :: "'w world"
  proof (rule wp_retry_read_until_sync[where J = "\<lambda>w'. tracked d0 oid ty OCI_PENDING_VERIFIED (db w') \<and> exchanged G t0 ?R w'"])
    fix w' :: "'w world"
    assume "tracked d0 oid ty OCI_PENDING_VERIFIED (db w') \<and> exchanged G t0 ?R w'"
    then show "wp (port_get_public_bundle P ocid None rid)
       (\<lambda>b w'. (tracked d0 oid ty OCI_PENDING_VERIFIED (db w') \<and> exchanged G t0 ?R w') \<and>
         tracked d0 oid ty OCI_PENDING_VERIFIED (db w') \<and>
         exchanged G t0 (\<lambda>io. ?R io \<and> shown io (GetCertificateBundle ocid None) bundle_of_response b) w')
       (\<lambda>e w'. lawful G d0 t0 w' \<and> tracked d0 oid ty OCI_PENDING_VERIFIED (db w') \<and> exchanged G t0 ?R w') w'"
      by (intro wp_ask[OF bundle_law _ _ reads lasting_verified])
        (auto intro: lawful_tracked just_shown_shown elim: exchanged_weaken)
  qed (use that in \<open>auto intro: lawful_tracked\<close>)
  have promote: "wp (promote_to_current env P config ocid n rid)
      (\<lambda>_ w'. tracked d0 oid ty OCI_PENDING_VERIFIED (db w') \<and> exchanged G t0 ?R w') ?E w'"
    if "tracked d0 oid ty OCI_PENDING_VERIFIED (db w')" "exchanged G t0 ?R w'" for w' :: "'w world"
    unfolding promote_to_current_def Let_def G_def
    by (rule wp_mono[OF wp_promote_loop[where R = ?R and ?P0.0 = "tracked d0 oid ty OCI_PENDING_VERIFIED"]])
      (use that in \<open>auto simp: G_def intro: lasting_intros lawful_tracked\<close>)
  show ?thesis
    unfolding promote_and_confirm_def wp_seq[of "transition env oid OCI_PENDING_VERIFIED c" for c] wp_seq[of "log_event e c" for e c]
      wp_seq[of "promote_to_current env P config ocid n rid"] wp_bind wp_lift
    by (rule wp_track[OF tracked st ex])
      (auto intro!: wp_log_event wp_mono[OF promote] wp_mono[OF await] confirm split: sum.splits intro: lawful_tracked)
qed

lemma wp_converge:
  fixes L config cert m chain fp now ocid and w :: "'w world"
  defines "G \<equiv> publication_guard L config cert m chain fp now ocid"
  assumes ty: "publishes ty" and tracked: "tracked d0 oid ty DISCOVERED (db w)"
    and ex: "exchanged G t0 (\<lambda>_. True) w"
  shows "wp (converge env L P config cert m chain fp now ty ocid oid)
     (\<lambda>r w'. safe d0 (db w') \<and> published oid (cert_id cert) fp (pub_version r) (db w') \<and>
        pub_certificate_id r = cert_id cert \<and> pub_fingerprint r = fp \<and>
        exchanged G t0 (confirmed_current L config cert now fp ocid (pub_version r)) w')
     (\<lambda>e w'. lawful G d0 t0 w') w"
proof -
  let ?Q = "\<lambda>r w'. safe d0 (db w') \<and> published oid (cert_id cert) fp (pub_version r) (db w') \<and>
        pub_certificate_id r = cert_id cert \<and> pub_fingerprint r = fp \<and>
        exchanged G t0 (confirmed_current L config cert now fp ocid (pub_version r)) w'"
  let ?E = "\<lambda>(e :: exn) w'. lawful G d0 t0 w'"
  let ?T = "\<lambda>remote io. True \<and> shown io (GetCertificate ocid) (certificate_of_response ocid) remote"
  let ?B = "\<lambda>remote b io. ?T remote io \<and> shown io (GetCertificateBundle ocid None) bundle_of_response b"
  have reads: "lets_reads G" by (simp add: G_def lets_reads_publication)
  have reused: "wp (complete_operation env oid cert fp fp (bundle_version b) False ty) ?Q ?E w'"
    if "tracked d0 oid ty OCI_RECONCILED (db w')" "verify_bundle L b cert config now = Inr fp"
      "exchanged G t0 (?B remote b) w'" for b remote and w' :: "'w world"
    by (rule wp_mono[OF wp_complete_operation[OF that(1) publishes_lifecycle(2)[OF ty]]])
      (use that(2,3) in \<open>auto simp: lawful_def exchanged_def confirmed_current_def\<close>)
  have changed: "wp (settle_candidate env L P config cert m chain fp now ocid oid rid remote)
      (\<lambda>v. wp (promote_and_confirm env L P config cert fp now ty ocid oid rid (version_number v)) ?Q ?E) ?E w'"
    if "tracked d0 oid ty OCI_RECONCILED (db w')" "exchanged G t0 (?B remote b) w'"
    for rid remote b and w' :: "'w world"
    unfolding G_def
    by (rule wp_mono[OF wp_settle_candidate[OF ty that(1)]])
      (use that(2) in \<open>auto simp: G_def intro: wp_promote_and_confirm[OF ty] elim: exchanged_weaken\<close>)
  have decide: "wp (bind (lift (verify_bundle L b cert config now)) (\<lambda>current_fp.
     seq (transition env oid OCI_RECONCILED (no_columns\<lparr>col_version := Some (bundle_version b), col_request := Some rid\<rparr>))
     (if current_fp = fp then
        seq (log_event ''OCI_VERSION_REUSED'' (cert_id cert))
          (complete_operation env oid cert fp current_fp (bundle_version b) False ty)
      else
        bind (settle_candidate env L P config cert m chain fp now ocid oid rid remote) (\<lambda>candidate.
          promote_and_confirm env L P config cert fp now ty ocid oid rid (version_number candidate)))))
       ?Q ?E w'"
    if "tracked d0 oid ty DISCOVERED (db w')" "exchanged G t0 (?B remote b) w'"
    for b rid remote and w' :: "'w world"
  proof (cases "verify_bundle L b cert config now")
    case (Inl e)
    then show ?thesis using that by (auto simp: wp_simps intro: lawful_tracked)
  next
    case (Inr v)
    then show ?thesis
      unfolding wp_bind wp_seq wp_lift wp_if
      by (auto intro!: wp_track[OF that(1) publishes_lifecycle(1)[OF ty] that(2)] wp_log_event
          intro: reused changed)
  qed
  have fetch: "wp (port_get_public_bundle P ocid None rid) K ?E w'"
    if "tracked d0 oid ty DISCOVERED (db w')" "exchanged G t0 (?T remote) w'"
      "\<And>b w'. tracked d0 oid ty DISCOVERED (db w') \<Longrightarrow> exchanged G t0 (?B remote b) w' \<Longrightarrow> K b w'"
    for K rid remote and w' :: "'w world"
    by (rule wp_ask[OF bundle_law that(2) _ reads])
      (use that(1) in \<open>auto intro!: that(3) lasting_intros intro: lawful_tracked just_shown_shown elim: exchanged_weaken\<close>)
  have look: "wp (port_get_certificate P ocid rid) K ?E w'"
    if "tracked d0 oid ty DISCOVERED (db w')" "exchanged G t0 (\<lambda>_. True) w'"
      "\<And>remote w'. tracked d0 oid ty DISCOVERED (db w') \<Longrightarrow> exchanged G t0 (?T remote) w' \<Longrightarrow> K remote w'"
    for K rid and w' :: "'w world"
    by (rule wp_ask[OF get_certificate_law that(2) _ reads])
      (use that(1) in \<open>auto intro!: that(3) lasting_intros intro: lawful_tracked just_shown_shown elim: exchanged_weaken\<close>)
  show ?thesis
    unfolding converge_def wp_bind[of "uuid4 env"] wp_bind[of "port_get_certificate P ocid rid" for rid]
      wp_bind[of "port_get_public_bundle P ocid None rid" for rid]
    by (intro wp_uuid4I look fetch decide) (use tracked ex in simp_all)
qed

lemma wp_reconcile:
  fixes L config cert m chain fp now and w :: "'w world"
  assumes ty: "publishes ty" and wf: "wf_db (db w)" and ocid: "certificate_ocid (oci_of cert) = Some ocid"
  shows "wp (reconcile env L P config cert m chain fp now ty)
     (\<lambda>r w'. safe (db w) (db w') \<and>
        (\<exists>oid. oid \<notin> row_id ` set (operations (db w)) \<and> published oid (cert_id cert) fp (pub_version r) (db w')) \<and>
        pub_certificate_id r = cert_id cert \<and> pub_fingerprint r = fp \<and>
        exchanged (publication_guard L config cert m chain fp now ocid) (trace w)
          (confirmed_current L config cert now fp ocid (pub_version r)) w')
     (\<lambda>e w'. lawful (publication_guard L config cert m chain fp now ocid) (db w) (trace w) w') w"
  unfolding reconcile_def ocid option.case wp_bind
proof (rule wp_start_operation)
  fix oid now' o'
  assume new: "oid \<notin> row_id ` set (operations (db w))"
  let ?w = "w\<lparr>outside := o', db := with_operations (\<lambda>rs. rs @ [discovered_row oid (cert_id cert) ty (Some fp) (Some ocid) now']) (db w)\<rparr>"
  have tr: "tracked (db w) oid ty DISCOVERED (db ?w)"
    using tracked_started[OF safe_refl[OF wf] new, of ty "Some ocid"] publishes_not_bootstrap[OF ty] by simp
  have ex: "exchanged (publication_guard L config cert m chain fp now ocid) (trace w) (\<lambda>_. True) ?w"
    by (simp add: exchanged_def)
  show "wp (converge env L P config cert m chain fp now ty ocid
       (operation_id \<lparr>operation_id = oid, certificate_id = cert_id cert, op_type = ty, op_state = DISCOVERED,
          local_fingerprint = Some fp, oci_certificate_ocid = Some ocid, oci_version_number = None\<rparr>))
     (\<lambda>r w'. safe (db w) (db w') \<and>
        (\<exists>oid. oid \<notin> row_id ` set (operations (db w)) \<and> published oid (cert_id cert) fp (pub_version r) (db w')) \<and>
        pub_certificate_id r = cert_id cert \<and> pub_fingerprint r = fp \<and>
        exchanged (publication_guard L config cert m chain fp now ocid) (trace w)
          (confirmed_current L config cert now fp ocid (pub_version r)) w')
     (\<lambda>e w'. lawful (publication_guard L config cert m chain fp now ocid) (db w) (trace w) w') ?w"
    unfolding operation.select_convs
    by (rule wp_mono[OF wp_converge[OF ty tr ex]]) (use new in auto)
qed (simp add: lawful_def safe_refl wf exchanged_def)

end

end
