(* ===== verification/TlsAudit.thy ===== *)
theory TlsAudit
  imports Runtime X509 "HOL-Library.List_Lexorder" "HOL-Library.Char_ord"
begin

section \<open>The TLS audit\<close>

text \<open>
  \<open>audit_service.py\<close>: every configured endpoint is resolved and probed at each of its
  addresses until all present the expected certificate or the propagation timeout has passed.
  The network is the record \<open>network\<close>: name resolution, a TLS connection with the trust it is
  verified against, the monotonic clock. Probes of one endpoint are independent requests, run
  here one after the other; their results are in the order of the addresses either way.
\<close>

subsection \<open>The network\<close>

record tls_connection =
  has_ssl_object :: bool
  peer_certificate :: string
  close_error :: "lib_exn option"

record 'w network =
  getaddrinfo :: "string \<Rightarrow> 'w \<Rightarrow> (lib_exn + string list) \<times> 'w"
  tls_connect :: "string option \<Rightarrow> string \<Rightarrow> string \<Rightarrow> int \<Rightarrow> rat \<Rightarrow> 'w \<Rightarrow> (lib_exn + tls_connection) \<times> 'w"
  load_der :: "string \<Rightarrow> lib_exn + x509"
  monotonic :: "'w \<Rightarrow> rat \<times> 'w"
  audit_budget :: nat

text \<open>An external call that may raise.\<close>

definition fallible :: "('w \<Rightarrow> (lib_exn + 'a) \<times> 'w) \<Rightarrow> ('w, 'a) action" where
  "fallible f = bind (external f) (\<lambda>r. lift (map_sum Lib id r))"

subsection \<open>Addresses\<close>

definition resolve_endpoint_addresses :: "'w network \<Rightarrow> string \<Rightarrow> ('w, string list) action" where
  "resolve_endpoint_addresses N hostname =
     bind (fallible (getaddrinfo N hostname)) (\<lambda>results.
       let addresses = sort (remdups results)
       in if addresses = [] then raise (AuditError ''endpoint DNS returned no addresses'')
          else return addresses)"

definition fixed_address_resolver :: "string list \<Rightarrow> exn + (string \<Rightarrow> ('w, string list) action)" where
  "fixed_address_resolver addresses =
     (if addresses = []
      then Inl (Lib (ValueError ''fixed audit resolver requires at least one address''))
      else Inr (\<lambda>_. return addresses))"

fun validate_addresses :: "string list \<Rightarrow> bool \<Rightarrow> exn + unit" where
  "validate_addresses [] reject_non_global = Inr ()"
| "validate_addresses (a # rest) reject_non_global =
     (case ip_address a of
        None \<Rightarrow> Inl (AuditError ''endpoint DNS returned an invalid address'')
      | Some ip \<Rightarrow>
          if reject_non_global \<and> \<not> is_global ip
          then Inl (AuditError ''endpoint DNS returned a non-global address'')
          else validate_addresses rest reject_non_global)"

subsection \<open>Probing\<close>

definition peer_fingerprint :: "'w network \<Rightarrow> libs \<Rightarrow> tls_connection \<Rightarrow> exn + string" where
  "peer_fingerprint N L c =
     (if \<not> has_ssl_object c then Inl (AuditError ''TLS endpoint did not provide an SSL object'')
      else if peer_certificate c = []
      then Inl (AuditError ''TLS endpoint did not provide a leaf certificate'')
      else
        (case load_der N (peer_certificate c) of
           Inr cert \<Rightarrow> Inr (certificate_sha256 L cert)
         | Inl e \<Rightarrow>
             if is_ValueError (Lib e)
             then Inl (AuditError ''TLS endpoint leaf certificate is malformed'') else Inl (Lib e)))"

text \<open>\<open>trust\<close> is the pinned root's path, \<open>None\<close> for the system's trust.\<close>

definition probe_tls_fingerprint ::
  "'w network \<Rightarrow> libs \<Rightarrow> string option \<Rightarrow> string \<Rightarrow> string \<Rightarrow> int \<Rightarrow> rat \<Rightarrow> ('w, string) action" where
  "probe_tls_fingerprint N L trust address hostname port timeout =
     bind
       (try_except (fallible (tls_connect N trust address hostname port timeout))
         (\<lambda>e. if is_OSError e
              then Some (raise (AuditError ''TLS endpoint connection or validation failed'')) else None))
       (\<lambda>connection.
          try_finally (lift (peer_fingerprint N L connection))
            (case close_error connection of None \<Rightarrow> return () | Some e \<Rightarrow> raise (Lib e)))"

text \<open>\<open>gather(..., return_exceptions=True)\<close>: an exception is a result; what is not an
  \<open>Exception\<close> still propagates.\<close>

definition catch_result :: "('w, 'a) action \<Rightarrow> ('w, exn + 'a) action" where
  "catch_result m =
     try_except (bind m (\<lambda>a. return (Inr a)))
       (\<lambda>e. if e = Lib Interrupted then None else Some (return (Inl e)))"

definition gather :: "('w, 'a) action list \<Rightarrow> ('w, (exn + 'a) list) action" where
  "gather ms = map_prog catch_result ms"

fun comparisons :: "string \<Rightarrow> (exn + string) list \<Rightarrow> bool list" where
  "comparisons expected [] = []"
| "comparisons expected (Inl e # results) = comparisons expected results"
| "comparisons expected (Inr fp # results) = (fp = expected) # comparisons expected results"

definition results_match :: "bool \<Rightarrow> string list \<Rightarrow> (exn + string) list \<Rightarrow> string \<Rightarrow> bool" where
  "results_match require_all addresses results expected =
     (let matches = comparisons expected results
      in if require_all then length matches = length addresses \<and> list_all id matches
         else list_ex id matches)"

type_synonym 'w resolver = "string \<Rightarrow> ('w, string list) action"
type_synonym 'w probe = "string \<Rightarrow> string \<Rightarrow> int \<Rightarrow> rat \<Rightarrow> ('w, string) action"

record 'w audit_service =
  audit_configuration :: audit_config
  audit_resolver :: "'w resolver"
  audit_probe :: "'w probe"

definition endpoint_matches :: "'w audit_service \<Rightarrow> audit_endpoint \<Rightarrow> string \<Rightarrow> ('w, bool) action" where
  "endpoint_matches A endpoint expected =
     (let c = audit_configuration A
      in try_except
           (bind (audit_resolver A (endpoint_hostname endpoint)) (\<lambda>addresses.
            seq (lift (validate_addresses addresses (audit_reject_non_global c)))
            (bind (gather (map (\<lambda>address. audit_probe A address (endpoint_hostname endpoint)
                                  (endpoint_port endpoint) (of_int (retry_interval_seconds c))) addresses))
               (\<lambda>results. return (results_match (audit_require_all_addresses c) addresses results expected)))))
           (\<lambda>e. if is_AuditError e then Some (return False) else None))"

definition endpoint_label :: "audit_endpoint \<Rightarrow> string" where
  "endpoint_label e = endpoint_hostname e @ '':'' @ digits_of (nat (endpoint_port e))"

primrec check_endpoints :: "'w audit_service \<Rightarrow> string \<Rightarrow> audit_endpoint list \<Rightarrow> ('w, string list) action" where
  "check_endpoints A expected [] = return []"
| "check_endpoints A expected (e # es) =
     bind (endpoint_matches A e expected) (\<lambda>matched.
     bind (check_endpoints A expected es) (\<lambda>failures.
       return (if matched then failures else endpoint_label e # failures)))"

definition audit_once :: "'w audit_service \<Rightarrow> string \<Rightarrow> ('w, string list) action" where
  "audit_once A expected = check_endpoints A expected (endpoints (audit_configuration A))"

record audit_result =
  successful :: bool
  audit_attempts :: nat
  failed_endpoints :: "string list"

text \<open>The loop; the fuel bounds the attempts, and \<open>OutOfFuel\<close> is its exhaustion.\<close>

fun audit_loop ::
  "'w env \<Rightarrow> 'w network \<Rightarrow> 'w audit_service \<Rightarrow> string \<Rightarrow> rat \<Rightarrow> nat \<Rightarrow> nat \<Rightarrow> ('w, audit_result) action" where
  "audit_loop env N A expected deadline 0 attempts = raise OutOfFuel"
| "audit_loop env N A expected deadline (Suc fuel) attempts =
     bind (audit_once A expected) (\<lambda>failures.
       if failures = []
       then return \<lparr>successful = True, audit_attempts = attempts + 1, failed_endpoints = []\<rparr>
       else
         bind (external (monotonic N)) (\<lambda>t.
           if deadline \<le> t then
             (if audit_mode_of (audit_configuration A) = ENFORCE
              then raise (AuditError ''TLS audit did not converge before propagation timeout'')
              else return \<lparr>successful = False, audit_attempts = attempts + 1,
                           failed_endpoints = failures\<rparr>)
           else
             seq (sleep env (of_int (retry_interval_seconds (audit_configuration A))))
             (audit_loop env N A expected deadline fuel (attempts + 1))))"

definition run_audit :: "'w env \<Rightarrow> 'w network \<Rightarrow> 'w audit_service \<Rightarrow> string \<Rightarrow> ('w, audit_result) action" where
  "run_audit env N A expected =
     (let c = audit_configuration A
      in if audit_mode_of c = DISABLED
         then return \<lparr>successful = True, audit_attempts = 0, failed_endpoints = []\<rparr>
         else
           bind (external (monotonic N)) (\<lambda>start.
             audit_loop env N A expected (start + of_int (propagation_timeout_seconds c))
               (audit_budget N) 0))"

text \<open>The service the program builds: real resolution and probes, with a trust store.\<close>

definition tls_audit_service :: "'w network \<Rightarrow> libs \<Rightarrow> string option \<Rightarrow> audit_config \<Rightarrow> 'w audit_service" where
  "tls_audit_service N L trust c =
     \<lparr>audit_configuration = c, audit_resolver = resolve_endpoint_addresses N,
      audit_probe = probe_tls_fingerprint N L trust\<rparr>"


subsection \<open>What an audit decides\<close>

lemma comparisons_length: "length (comparisons expected results) \<le> length results"
  by (induction expected results rule: comparisons.induct) auto

lemma comparisons_all:
  "length (comparisons expected results) = length results \<and> list_all id (comparisons expected results) \<longleftrightarrow>
     (\<forall>r\<in>set results. r = Inr expected)"
proof (induction expected results rule: comparisons.induct)
  case (2 expected e results)
  then show ?case using comparisons_length[of expected results] by auto
qed auto

text \<open>Under \<open>require_all_addresses\<close> an endpoint matches exactly when every address presented
  the expected certificate; otherwise one is enough.\<close>

lemma results_match_all:
  assumes "length results = length addresses"
  shows "results_match True addresses results expected \<longleftrightarrow> (\<forall>r\<in>set results. r = Inr expected)"
  by (simp add: results_match_def Let_def assms[symmetric] comparisons_all)

lemma results_match_any:
  "results_match False addresses results expected \<longleftrightarrow> Inr expected \<in> set results"
  by (induction expected results rule: comparisons.induct) (auto simp: results_match_def)

lemma validate_addresses_Inr:
  "validate_addresses as strict = Inr () \<longleftrightarrow>
     (\<forall>a\<in>set as. \<exists>ip. ip_address a = Some ip \<and> (strict \<longrightarrow> is_global ip))"
  by (induction as) (auto split: option.splits if_splits)

subsection \<open>What an audit touches\<close>

text \<open>
  The interface an audit relies on: a resolver and a probe that use the network and nothing of
  the publisher's own state.
\<close>

locale audit_ports =
  fixes A :: "'w audit_service"
  assumes resolver_inert: "inert (audit_resolver A hostname)"
    and probe_inert: "inert (audit_probe A address hostname port timeout)"
begin

lemma inert_endpoint_matches: "inert (endpoint_matches A e expected)"
proof -
  have "inert (catch_result m)" if "inert m" for m :: "('w, string) action"
    unfolding catch_result_def
    by (intro inert_intros that) (auto intro: inert_intros split: if_splits)
  then show ?thesis
    unfolding endpoint_matches_def Let_def gather_def
    by (intro inert_intros resolver_inert) (auto intro: probe_inert inert_intros split: if_splits)
qed

lemma inert_audit_once: "inert (audit_once A expected)"
proof -
  have "inert (check_endpoints A expected es)" for es
    by (induction es) (auto intro!: inert_intros inert_endpoint_matches)
  then show ?thesis by (simp add: audit_once_def)
qed

lemma inert_audit_loop: "inert (audit_loop env N A expected deadline fuel attempts)"
  by (induction fuel arbitrary: attempts) (auto intro!: inert_intros inert_audit_once)

lemma inert_run_audit: "inert (run_audit env N A expected)"
  unfolding run_audit_def Let_def by (intro inert_intros inert_audit_loop)

end

lemma inert_fallible [inert_intros]: "inert (fallible f)"
  unfolding fallible_def by (intro inert_intros)

interpretation tls: audit_ports "tls_audit_service N L trust c" for N L trust c
proof
  show "inert (audit_resolver (tls_audit_service N L trust c) h)" for h
    unfolding tls_audit_service_def audit_service.select_convs resolve_endpoint_addresses_def Let_def
    by (intro inert_intros)
  show "inert (audit_probe (tls_audit_service N L trust c) a h p t)" for a h p t
    unfolding tls_audit_service_def audit_service.select_convs probe_tls_fingerprint_def
    by (intro inert_intros) (auto intro: inert_intros split: if_splits)
qed

subsection \<open>Outcomes\<close>

lemma audit_loop_outcome:
  "audit_loop env N A expected deadline fuel attempts w = (Inr r, w') \<Longrightarrow>
     (successful r \<longleftrightarrow> failed_endpoints r = []) \<and>
     (audit_mode_of (audit_configuration A) = ENFORCE \<longrightarrow> successful r)"
proof (induction fuel arbitrary: attempts w)
  case (Suc fuel)
  then show ?case
    by (auto simp: run_simps split: sum.splits prod.splits if_splits)
qed (simp add: run_simps)

text \<open>In enforce mode an audit that returns has succeeded; a failure names its endpoints.\<close>

lemma run_audit_outcome:
  "run_audit env N A expected w = (Inr r, w') \<Longrightarrow>
     (successful r \<longleftrightarrow> failed_endpoints r = []) \<and>
     (audit_mode_of (audit_configuration A) = ENFORCE \<longrightarrow> successful r)"
  by (auto simp: run_audit_def Let_def run_simps split: sum.splits prod.splits if_splits
      dest: audit_loop_outcome)

lemma check_endpoints_no_AuditError: "check_endpoints A expected es w = (Inl e, w') \<Longrightarrow> \<not> is_AuditError e"
proof (induction es arbitrary: w w')
  case (Cons x es)
  have "\<not> is_AuditError e" if "endpoint_matches A x expected w = (Inl e, w')" for w w'
    using that by (auto simp: endpoint_matches_def Let_def run_try_except run_return split: sum.splits prod.splits if_splits)
  with Cons show ?case by (fastforce simp: run_simps split: sum.splits prod.splits)
qed (simp add: run_simps)

lemma audit_loop_no_AuditError:
  "audit_loop env N A expected deadline fuel attempts w = (Inl e, w') \<Longrightarrow>
     audit_mode_of (audit_configuration A) \<noteq> ENFORCE \<Longrightarrow> \<not> is_AuditError e"
proof (induction fuel arbitrary: attempts w)
  case (Suc fuel)
  have once: "\<not> is_AuditError e" if "audit_once A expected w = (Inl e, w')" for e w w'
    using that by (simp add: audit_once_def check_endpoints_no_AuditError)
  show ?case
  proof (cases "audit_once A expected w")
    case (Pair out w1)
    show ?thesis
    proof (cases out)
      case (Inl e1)
      with Pair Suc.prems(1) once show ?thesis by (simp add: run_simps)
    next
      case (Inr failures)
      with Pair Suc show ?thesis
        by (auto simp: run_simps sleep_def external_def split: sum.splits prod.splits if_splits)
    qed
  qed
qed (auto simp: run_simps)

text \<open>In observe mode an audit never raises \<open>AuditError\<close>.\<close>

lemma run_audit_no_AuditError:
  "run_audit env N A expected w = (Inl e, w') \<Longrightarrow>
     audit_mode_of (audit_configuration A) \<noteq> ENFORCE \<Longrightarrow> \<not> is_AuditError e"
  by (auto simp: run_audit_def Let_def run_simps external_def split: sum.splits prod.splits if_splits
      dest: audit_loop_no_AuditError)

subsection \<open>Termination\<close>

text \<open>
  \<open>T\<close> is the elapsed time of the outside world: reading the clock gives a time within the
  reading, and sleeping takes at least the time slept.
\<close>

definition clock_law :: "('w \<Rightarrow> rat) \<Rightarrow> 'w env \<Rightarrow> 'w network \<Rightarrow> bool" where
  "clock_law T env N \<longleftrightarrow>
     (\<forall>w. T w \<le> fst (monotonic N w) \<and> fst (monotonic N w) \<le> T (snd (monotonic N w))) \<and>
     (\<forall>t w. 0 \<le> t \<longrightarrow> T w + t \<le> T (wait env t w))"

definition takes_time :: "('w \<Rightarrow> rat) \<Rightarrow> ('w, 'a) action \<Rightarrow> bool" where
  "takes_time T m \<longleftrightarrow> (\<forall>w. T (outside w) \<le> T (outside (snd (m w))) \<and> fst (m w) \<noteq> Inl OutOfFuel)"

lemma takes_timeD: "takes_time T m \<Longrightarrow> m w = (r, w') \<Longrightarrow> T (outside w) \<le> T (outside w') \<and> r \<noteq> Inl OutOfFuel"
  by (metis takes_time_def fst_conv snd_conv)

lemma takes_time_return: "takes_time T (return a)"
  by (simp add: takes_time_def return_def)

lemma takes_time_lift: "r \<noteq> Inl OutOfFuel \<Longrightarrow> takes_time T (lift r)"
  by (simp add: takes_time_def lift_def)

lemma takes_time_bind:
  assumes "takes_time T m" and "\<And>a. takes_time T (k a)"
  shows "takes_time T (bind m k)"
proof -
  have "T (outside w) \<le> T (outside (snd (bind m k w))) \<and> fst (bind m k w) \<noteq> Inl OutOfFuel" for w
  proof (cases "m w")
    case (Pair r w1)
    note m = takes_timeD[OF assms(1) Pair]
    show ?thesis
    proof (cases r)
      case (Inr a)
      obtain r2 w2 where k: "k a w1 = (r2, w2)" by fastforce
      with Pair Inr m takes_timeD[OF assms(2) k] show ?thesis by (simp add: bind_def)
    qed (use Pair m in \<open>simp add: bind_def\<close>)
  qed
  then show ?thesis by (simp add: takes_time_def)
qed

lemma takes_time_try_except:
  assumes "takes_time T m" and "\<And>e k. h e = Some k \<Longrightarrow> takes_time T k"
  shows "takes_time T (try_except m h)"
proof -
  have "T (outside w) \<le> T (outside (snd (try_except m h w))) \<and> fst (try_except m h w) \<noteq> Inl OutOfFuel" for w
  proof (cases "m w")
    case (Pair r w1)
    note m = takes_timeD[OF assms(1) Pair]
    show ?thesis
    proof (cases r)
      case (Inl e)
      show ?thesis
      proof (cases "h e")
        case (Some k)
        obtain r2 w2 where k: "k w1 = (r2, w2)" by fastforce
        with Pair Inl Some m takes_timeD[OF assms(2)[OF Some] k] show ?thesis by (simp add: try_except_def)
      qed (use Pair Inl m in \<open>simp add: try_except_def\<close>)
    qed (use Pair m in \<open>simp add: try_except_def\<close>)
  qed
  then show ?thesis by (simp add: takes_time_def)
qed

lemma takes_time_map_prog: "(\<And>x. x \<in> set xs \<Longrightarrow> takes_time T (f x)) \<Longrightarrow> takes_time T (map_prog f xs)"
  by (induction xs) (auto intro!: takes_time_return takes_time_bind)

lemmas takes_time_intros = takes_time_return takes_time_lift takes_time_bind takes_time_try_except takes_time_map_prog

lemma validate_addresses_fuel: "validate_addresses as strict \<noteq> Inl OutOfFuel"
  by (induction as) (auto split: option.splits)

lemma takes_time_catch: "takes_time T m \<Longrightarrow> takes_time T (catch_result m)"
  unfolding catch_result_def by (intro takes_time_intros) (auto intro: takes_time_return split: if_splits)

lemma takes_time_audit_once:
  assumes "\<And>h. takes_time T (audit_resolver A h)" and "\<And>a h p t. takes_time T (audit_probe A a h p t)"
  shows "takes_time T (audit_once A expected)"
proof -
  have "takes_time T (endpoint_matches A e expected)" for e
    unfolding endpoint_matches_def Let_def seq_def gather_def
    by (intro takes_time_intros takes_time_catch assms validate_addresses_fuel)
      (auto intro: assms takes_time_return takes_time_catch split: if_splits)
  then have "takes_time T (check_endpoints A expected es)" for es
    by (induction es) (auto intro!: takes_time_return takes_time_bind)
  then show ?thesis by (simp add: audit_once_def)
qed

lemma audit_loop_terminates:
  fixes T :: "'w \<Rightarrow> rat"
  assumes clock: "clock_law T env N" and "0 < i" and i: "i = of_int (retry_interval_seconds (audit_configuration A))"
    and once: "takes_time T (audit_once A expected)"
  shows "deadline - T (outside w) \<le> of_nat fuel * i \<Longrightarrow>
     fst (audit_loop env N A expected deadline (Suc fuel) attempts w) \<noteq> Inl OutOfFuel"
proof (induction fuel arbitrary: attempts w)
  case 0
  obtain r w1 where r: "audit_once A expected w = (r, w1)" by fastforce
  note o = takes_timeD[OF once r]
  obtain t o2 where t: "monotonic N (outside w1) = (t, o2)" by fastforce
  have "T (outside w1) \<le> t" using clock t by (metis clock_law_def fst_conv)
  with 0 o have "deadline \<le> t" by simp
  then show ?case using r o t by (cases r) (simp_all add: run_simps external_def)
next
  case (Suc fuel)
  obtain r w1 where r: "audit_once A expected w = (r, w1)" by fastforce
  note o = takes_timeD[OF once r]
  obtain t o2 where t: "monotonic N (outside w1) = (t, o2)" by fastforce
  have "T (outside w1) \<le> t \<and> t \<le> T o2" using clock t by (metis clock_law_def fst_conv snd_conv)
  moreover have "T o2 + i \<le> T (wait env i o2)" using clock assms(2) by (simp add: clock_law_def)
  ultimately have "deadline - T (wait env i o2) \<le> of_nat fuel * i"
    using Suc.prems o by (simp add: algebra_simps)
  then have "fst (audit_loop env N A expected deadline (Suc fuel) (attempts + 1) (w1\<lparr>outside := wait env i o2\<rparr>)) \<noteq> Inl OutOfFuel"
    by (intro Suc.IH) simp
  then show ?case
    using r o t i
    by (cases r) (simp_all add: run_bind run_seq run_if run_return run_raise external_def sleep_def
        del: audit_loop.simps add: audit_loop.simps(2)[of _ _ _ _ _ "Suc fuel"])
qed

lemma run_audit_terminates:
  fixes T :: "'w \<Rightarrow> rat"
  assumes clock: "clock_law T env N" and "0 < retry_interval_seconds (audit_configuration A)"
    and "\<And>h. takes_time T (audit_resolver A h)" and "\<And>a h p t. takes_time T (audit_probe A a h p t)"
    and "propagation_timeout_seconds (audit_configuration A) \<le> int fuel * retry_interval_seconds (audit_configuration A)"
    and "audit_budget N = Suc fuel"
  shows "fst (run_audit env N A expected w) \<noteq> Inl OutOfFuel"
proof -
  let ?i = "of_int (retry_interval_seconds (audit_configuration A)) :: rat"
  let ?t = "of_int (propagation_timeout_seconds (audit_configuration A)) :: rat"
  obtain t o2 where t: "monotonic N (outside w) = (t, o2)" by fastforce
  have "t \<le> T o2" using clock t by (metis clock_law_def fst_conv snd_conv)
  moreover have "?t \<le> of_nat fuel * ?i"
    using assms(5) by (metis of_int_le_iff of_int_mult of_int_of_nat_eq)
  ultimately have "t + ?t - T (outside (w\<lparr>outside := o2\<rparr>)) \<le> of_nat fuel * ?i" by simp
  from audit_loop_terminates[OF clock _ refl takes_time_audit_once[OF assms(3,4)] this] assms(2)
  show ?thesis
    by (simp add: run_audit_def Let_def run_simps external_def t assms(6) del: audit_loop.simps)
qed

subsection \<open>Properties\<close>

text \<open>An endpoint is accepted as a person would say it: with \<open>require_all_addresses\<close>, when the probe
  of every address presented the expected certificate; without, when one of them did. Probes that
  raised never count as a match.\<close>

theorem results_match_meaning:
  assumes "length results = length addresses"
  shows "results_match all_required addresses results expected \<longleftrightarrow>
     (if all_required then \<forall>r\<in>set results. r = Inr expected else \<exists>r\<in>set results. r = Inr expected)"
  using results_match_all[OF assms] results_match_any[of addresses results expected] by auto

theorem results_match_meaning_witness:
  "\<not> results_match True [''1.1.1.1'', ''8.8.8.8''] [Inr ''fp'', Inl OutOfFuel] ''fp''"
  using results_match_meaning[of "[Inr ''fp'', Inl OutOfFuel]" "[''1.1.1.1'', ''8.8.8.8'']" True "''fp''"] by simp

text \<open>Time of the outside as the network sees it.\<close>

definition network_time :: "('w \<Rightarrow> rat) \<Rightarrow> 'w network \<Rightarrow> bool" where
  "network_time T N \<longleftrightarrow>
     (\<forall>h w. T w \<le> T (snd (getaddrinfo N h w))) \<and>
     (\<forall>trust a h p t w. T w \<le> T (snd (tls_connect N trust a h p t w)))"

lemma takes_time_fallible:
  assumes "\<And>w. T w \<le> T (snd (f w))"
  shows "takes_time T (fallible f)"
proof -
  have "map_sum Lib id r \<noteq> Inl OutOfFuel" for r :: "lib_exn + 'b" by (cases r) simp_all
  then show ?thesis
    using assms
    by (auto simp: takes_time_def fallible_def external_def run_simps split: prod.splits) (metis snd_conv)
qed

lemma takes_time_tls:
  fixes T :: "'w \<Rightarrow> rat"
  assumes "network_time T N"
  shows "takes_time T (audit_resolver (tls_audit_service N L trust c) h)"
    and "takes_time T (audit_probe (tls_audit_service N L trust c) a h p t)"
proof -
  have raises: "takes_time T (raise e)" if "e \<noteq> OutOfFuel" for e :: exn
    using that by (simp add: takes_time_def raise_def)
  have connect: "takes_time T (fallible (tls_connect N trust a h p t))"
    and lookup: "takes_time T (fallible (getaddrinfo N h))"
    using assms by (auto simp: network_time_def intro!: takes_time_fallible)
  have closing: "takes_time T (try_finally m f)" if "takes_time T m" "takes_time T f" for m :: "('w, string) action" and f
  proof -
    have "T (outside w) \<le> T (outside (snd (try_finally m f w))) \<and> fst (try_finally m f w) \<noteq> Inl OutOfFuel" for w
    proof -
      obtain r w1 where m: "m w = (r, w1)" by fastforce
      obtain q w2 where f: "f w1 = (q, w2)" by fastforce
      show ?thesis
        using takes_timeD[OF that(1) m] takes_timeD[OF that(2) f] m f
        by (auto simp: try_finally_def split: sum.splits)
    qed
    then show ?thesis by (simp add: takes_time_def)
  qed
  have peer: "peer_fingerprint N L k \<noteq> Inl OutOfFuel" for k
    by (simp add: peer_fingerprint_def split: sum.splits)
  show "takes_time T (audit_resolver (tls_audit_service N L trust c) h)"
    unfolding tls_audit_service_def audit_service.select_convs resolve_endpoint_addresses_def Let_def
    by (intro takes_time_bind lookup) (simp add: raises takes_time_return)
  show "takes_time T (audit_probe (tls_audit_service N L trust c) a h p t)"
    unfolding tls_audit_service_def audit_service.select_convs probe_tls_fingerprint_def
    by (intro takes_time_bind takes_time_try_except connect closing takes_time_lift peer)
      (auto intro!: raises takes_time_return split: if_splits option.splits)
qed

text \<open>A world whose state is its time, in which nothing answers.\<close>

definition ticking_env :: "rat env" where
  "ticking_env =
     \<lparr>oci_call = (\<lambda>req rid w. (Inl (OSError ''no route''), w)), read_clock = (\<lambda>w. (0, w)),
      new_uuid = (\<lambda>w. (''u'', w)), wait = (\<lambda>t w. w + t), uniform = (\<lambda>c w. (0, w)),
      sql_fault = (\<lambda>w. (None, w)), open_database = (\<lambda>w. (None, w)), page_budget = 1\<rparr>"

definition ticking_network :: "rat network" where
  "ticking_network =
     \<lparr>getaddrinfo = (\<lambda>h w. (Inr [''8.8.8.8''], w)),
      tls_connect = (\<lambda>trust a h p t w. (Inl TimeoutError, w + 1)),
      load_der = (\<lambda>s. Inl (ValueError s)), monotonic = (\<lambda>w. (w, w)), audit_budget = 3601\<rparr>"

lemma ticking_laws: "clock_law id ticking_env ticking_network" "network_time id ticking_network"
  by (simp_all add: clock_law_def network_time_def ticking_env_def ticking_network_def)

definition observing :: audit_config where
  "observing =
     \<lparr>audit_mode_of = OBSERVE, automatic_rollback_on_failure = False, propagation_timeout_seconds = 30,
      retry_interval_seconds = 15, audit_require_all_addresses = True, audit_reject_non_global = True,
      endpoints = [\<lparr>endpoint_hostname = ''a.example'', endpoint_port = 443\<rparr>]\<rparr>"

definition silent_libs :: libs where
  "silent_libs = \<lparr>load_pem = (\<lambda>s. Inl (ValueError s)), sha256_digest = pem_bytes,
     verify_signature = (\<lambda>i c. None), idna_encode = Some\<rparr>"

abbreviation observed :: "(exn + audit_result) \<times> rat world" where
  "observed \<equiv> run_audit ticking_env ticking_network (tls_audit_service ticking_network silent_libs None observing)
     ''fp'' \<lparr>outside = 0, db = empty_database, trace = [], journal = []\<rparr>"

text \<open>C28
  An audit reports success exactly when it names no failed endpoint; in enforce mode every audit
  that returns has succeeded; in observe mode none raises \<open>AuditError\<close>, whatever the resolver and
  the probes raise.\<close>

theorem audit_outcome:
  "(\<forall>r w'. run_audit env N A expected w = (Inr r, w') \<longrightarrow>
      (successful r \<longleftrightarrow> failed_endpoints r = []) \<and>
      (audit_mode_of (audit_configuration A) = ENFORCE \<longrightarrow> successful r)) \<and>
   (\<forall>e w'. run_audit env N A expected w = (Inl e, w') \<longrightarrow>
      audit_mode_of (audit_configuration A) \<noteq> ENFORCE \<longrightarrow> \<not> is_AuditError e)"
  using run_audit_outcome run_audit_no_AuditError by metis

lemma observed_result:
  "fst observed = Inr \<lparr>successful = False, audit_attempts = 3, failed_endpoints = [''a.example:443'']\<rparr>"
  by code_simp

theorem audit_outcome_witness:
  "\<exists>r. fst observed = Inr r \<and> \<not> successful r \<and> (successful r \<longleftrightarrow> failed_endpoints r = [])"
proof -
  obtain out w' where w: "observed = (out, w')" by fastforce
  then have "out = Inr \<lparr>successful = False, audit_attempts = 3, failed_endpoints = [''a.example:443'']\<rparr>"
    using observed_result by (metis fst_conv)
  then obtain r where "observed = (Inr r, w')" and "\<not> successful r" using w by simp
  then show ?thesis using conjunct1[OF audit_outcome, rule_format, of ticking_env ticking_network
      "tls_audit_service ticking_network silent_libs None observing"] by (metis fst_conv)
qed

text \<open>C29
  An audit of a valid configuration ends: when the clock is a clock, sleeping takes the time
  slept, and resolution and connections take no time back, 3601 attempts are enough for every
  propagation time-out and retry interval the configuration allows.\<close>

theorem audit_terminates:
  fixes T :: "'w \<Rightarrow> rat"
  assumes "clock_law T env N" and "network_time T N" and "audit_checks c = Inr ()" and "audit_budget N = 3601"
  shows "fst (run_audit env N (tls_audit_service N L trust c) expected w) \<noteq> Inl OutOfFuel"
proof (rule run_audit_terminates[OF assms(1) _ takes_time_tls[OF assms(2)] _, where fuel = 3600])
  have c: "audit_configuration (tls_audit_service N L trust c) = c" by (simp add: tls_audit_service_def)
  have "1 \<le> retry_interval_seconds c" "propagation_timeout_seconds c \<le> 3600"
    using assms(3) by (auto simp: audit_checks_def all_of_Inr ensure_def between_def split: if_splits)
  then show "0 < retry_interval_seconds (audit_configuration (tls_audit_service N L trust c))"
    and "propagation_timeout_seconds (audit_configuration (tls_audit_service N L trust c)) \<le>
      int 3600 * retry_interval_seconds (audit_configuration (tls_audit_service N L trust c))"
    unfolding c by simp_all
qed (simp add: assms(4))

theorem audit_terminates_witness: "fst observed \<noteq> Inl OutOfFuel"
proof (rule audit_terminates[OF ticking_laws])
  show "audit_checks observing = Inr ()" by code_simp
  show "audit_budget ticking_network = 3601" by (simp add: ticking_network_def)
qed

end
