(* ===== verification/Rollback.thy ===== *)
theory Rollback
  imports Reconciler TlsAudit
begin

section \<open>Verified rollback\<close>

text \<open>
  \<open>rollback_service.py\<close>: restoring the one eligible PREVIOUS version, confirming that it is
  CURRENT, and auditing the endpoints. As for a publication, the database moves by lifecycle
  steps and the promotion sent to OCI is justified by what was read before it.
\<close>

subsection \<open>The operations\<close>

record rollback_result =
  rolled_certificate_id :: string
  rolled_version :: int
  rolled_fingerprint :: string

definition restorable :: "oci_certificate_version \<Rightarrow> bool" where
  "restorable v \<longleftrightarrow> List.member (stages v) ''PREVIOUS'' \<and> time_of_deletion v = None"

definition the_restorable :: "oci_certificate_version list \<Rightarrow> exn + oci_certificate_version" where
  "the_restorable vs =
     (case filter restorable vs of
        [v] \<Rightarrow> Inr v
      | _ \<Rightarrow> Inl (RollbackError ''OCI does not expose exactly one eligible PREVIOUS version''))"

definition previous_version :: "'w adapters \<Rightarrow> string \<Rightarrow> string \<Rightarrow> ('w, oci_certificate_version) action" where
  "previous_version P ocid rid = bind (port_list_versions P ocid rid) (\<lambda>vs. lift (the_restorable vs))"

definition validate_bundle ::
  "libs \<Rightarrow> oci_public_bundle \<Rightarrow> certificate_config \<Rightarrow> app_config \<Rightarrow> instant \<Rightarrow> exn + string" where
  "validate_bundle L bundle cert config now =
     (case validate_public_certificate L (certificate_pem bundle) cert (global_of config) now of
        Inl e \<Rightarrow>
          if is_CertificateValidationError e
          then Inl (RollbackError ''OCI rollback bundle failed local validation'') else Inl e
      | Inr fp \<Rightarrow> Inr fp)"

text \<open>The endpoint audit after a confirmed rollback.\<close>

definition audit_rollback ::
  "'w env \<Rightarrow> 'w network \<Rightarrow> 'w audit_service option \<Rightarrow> certificate_config \<Rightarrow> string \<Rightarrow> string \<Rightarrow>
     ('w, unit) action" where
  "audit_rollback env N audit cert oid fp =
     (case audit of
        None \<Rightarrow> return ()
      | Some A \<Rightarrow>
          seq (transition env oid AUDIT_PENDING no_columns)
          (bind
             (try_except (run_audit env N A fp) (\<lambda>e.
                if \<not> is_AuditError e then None
                else Some
                  (seq (transition env oid ROLLBACK_FAILED no_columns)
                  (seq (log_event ''OCI_ROLLBACK_FAILED'' (cert_id cert))
                  (raise (RollbackError ''rollback completed but endpoint audit did not converge''))))))
             (\<lambda>result.
                if \<not> successful result then
                  seq (transition env oid ROLLBACK_FAILED no_columns)
                  (seq (log_event ''OCI_ROLLBACK_FAILED'' (cert_id cert))
                  (raise (RollbackError ''rollback completed but endpoint audit did not converge'')))
                else transition env oid AUDIT_SUCCESS no_columns)))"

definition finish_rollback ::
  "'w env \<Rightarrow> certificate_config \<Rightarrow> string \<Rightarrow> int \<Rightarrow> string \<Rightarrow> ('w, rollback_result) action" where
  "finish_rollback env cert oid n fp =
     seq (transition env oid COMPLETED (no_columns\<lparr>col_version := Some n\<rparr>))
     (seq (log_event ''OCI_ROLLBACK_SUCCESS'' (cert_id cert))
     (return \<lparr>rolled_certificate_id = cert_id cert, rolled_version = n, rolled_fingerprint = fp\<rparr>))"

text \<open>Confirmation of the promotion, and what follows it.\<close>

definition confirm_rollback ::
  "'w env \<Rightarrow> libs \<Rightarrow> 'w network \<Rightarrow> 'w adapters \<Rightarrow> app_config \<Rightarrow> certificate_config \<Rightarrow> instant \<Rightarrow>
     'w audit_service option \<Rightarrow> string \<Rightarrow> string \<Rightarrow> string \<Rightarrow> int \<Rightarrow> string \<Rightarrow>
     ('w, rollback_result) action" where
  "confirm_rollback env L N P config cert now audit ocid oid rid n fp =
     bind (retry_read_until_sync env (default_policy (max_read_attempts (oci_settings config)))
             (port_get_public_bundle P ocid None rid) (\<lambda>b. bundle_version b = n)) (\<lambda>confirmed.
     bind (lift (validate_bundle L confirmed cert config now)) (\<lambda>confirmed_fp.
     seq (raise_if (bundle_version confirmed \<noteq> n \<or> confirmed_fp \<noteq> fp)
            (RollbackError ''OCI rollback promotion was not confirmed''))
     (seq (transition env oid OCI_CURRENT_CONFIRMED
             (no_columns\<lparr>col_version := Some (bundle_version confirmed), col_request := Some rid\<rparr>))
     (seq (record_rollback_success env (cert_id cert) confirmed_fp (bundle_version confirmed))
     (seq (audit_rollback env N audit cert oid confirmed_fp)
     (finish_rollback env cert oid (bundle_version confirmed) confirmed_fp))))))"

text \<open>From the started operation to the promotion.\<close>

definition restore ::
  "'w env \<Rightarrow> libs \<Rightarrow> 'w network \<Rightarrow> 'w adapters \<Rightarrow> app_config \<Rightarrow> certificate_config \<Rightarrow> instant \<Rightarrow>
     'w audit_service option \<Rightarrow> string \<Rightarrow> string \<Rightarrow> ('w, rollback_result) action" where
  "restore env L N P config cert now audit ocid oid =
     seq (log_event ''OCI_ROLLBACK_STARTED'' (cert_id cert))
     (bind (uuid4 env) (\<lambda>rid.
      bind (previous_version P ocid rid) (\<lambda>candidate.
      bind (port_get_public_bundle P ocid (Some (version_number candidate)) rid) (\<lambda>bundle.
      bind (lift (validate_bundle L bundle cert config now)) (\<lambda>fp.
      bind (port_get_certificate P ocid rid) (\<lambda>remote.
      seq (transition env oid OCI_RECONCILED
             (no_columns\<lparr>col_version := Some (version_number candidate), col_request := Some rid\<rparr>))
      (seq (port_promote_current P ocid (version_number candidate) (oci_etag remote) rid)
      (confirm_rollback env L N P config cert now audit ocid oid rid (version_number candidate) fp))))))))"

definition rollback ::
  "'w env \<Rightarrow> libs \<Rightarrow> 'w network \<Rightarrow> 'w adapters \<Rightarrow> app_config \<Rightarrow> certificate_config \<Rightarrow> instant \<Rightarrow>
     'w audit_service option \<Rightarrow> ('w, rollback_result) action" where
  "rollback env L N P config cert now audit =
     (case certificate_ocid (oci_of cert) of
        None \<Rightarrow> raise (RollbackError ''rollback requires a configured OCI certificate OCID'')
      | Some ocid \<Rightarrow>
          bind (start_operation env (cert_id cert) ROLLBACK None (Some ocid)) (\<lambda>operation.
            restore env L N P config cert now audit ocid (operation_id operation)))"

subsection \<open>What justifies the promotion of a rollback\<close>

definition rollback_target ::
  "libs \<Rightarrow> app_config \<Rightarrow> certificate_config \<Rightarrow> instant \<Rightarrow> string \<Rightarrow> int \<Rightarrow> string \<Rightarrow> io_entry list \<Rightarrow> bool" where
  "rollback_target L config cert now ocid n fp io \<longleftrightarrow>
     (\<exists>v. was_listed io ocid v \<and> version_number v = n \<and> restorable v) \<and>
     (\<exists>b. shown io (GetCertificateBundle ocid (Some n)) bundle_of_response b \<and>
        validate_bundle L b cert config now = Inr fp)"

definition rollback_guard ::
  "libs \<Rightarrow> app_config \<Rightarrow> certificate_config \<Rightarrow> instant \<Rightarrow> string \<Rightarrow> io_entry list \<Rightarrow> io_entry \<Rightarrow> bool" where
  "rollback_guard L config cert now ocid before entry =
     (case fst entry of
        UpdateCurrentVersion c n etag \<Rightarrow>
          c = ocid \<and> (\<exists>fp. rollback_target L config cert now ocid n fp before) \<and>
          (\<exists>remote. just_shown before (GetCertificate ocid) (certificate_of_response ocid) remote \<and>
             etag = oci_etag remote)
      | UpdateByImporting _ _ _ \<Rightarrow> False
      | CreateCertificate _ _ _ \<Rightarrow> False
      | ScheduleVersionDeletion _ _ _ _ \<Rightarrow> False
      | _ \<Rightarrow> True)"

lemma rollback_reads: "lets_reads (rollback_guard L config cert now ocid)"
  unfolding lets_reads_def
proof (intro allI impI)
  fix pre and e :: io_entry
  assume "\<not> is_mutation (fst e)"
  then show "rollback_guard L config cert now ocid pre e"
    by (cases "fst e") (simp_all add: rollback_guard_def)
qed

lemma lasting_rollback_target [lasting_intros]: "lasting (rollback_target L config cert now ocid n fp)"
  by (auto simp: lasting_def rollback_target_def was_listed_def intro: shown_append)

lemma the_restorable_Inr: "the_restorable vs = Inr v \<longleftrightarrow> filter restorable vs = [v]"
  by (auto simp: the_restorable_def split: list.splits)

lemma the_restorable_mem: "the_restorable vs = Inr v \<Longrightarrow> v \<in> set vs \<and> restorable v"
  by (auto simp: the_restorable_Inr filter_eq_Cons_iff)

text \<open>The current bundle was read and is the version and certificate that were wanted.\<close>

definition restored ::
  "libs \<Rightarrow> app_config \<Rightarrow> certificate_config \<Rightarrow> instant \<Rightarrow> string \<Rightarrow> int \<Rightarrow> string \<Rightarrow> io_entry list \<Rightarrow> bool" where
  "restored L config cert now ocid n fp io \<longleftrightarrow>
     (\<exists>b. shown io (GetCertificateBundle ocid None) bundle_of_response b \<and> bundle_version b = n \<and>
        validate_bundle L b cert config now = Inr fp)"

lemma lasting_restored [lasting_intros]: "lasting (restored L config cert now ocid n fp)"
  by (auto simp: lasting_def restored_def intro: shown_append)

lemma rollback_lifecycle:
  "lifecycle ROLLBACK DISCOVERED OCI_RECONCILED" "lifecycle ROLLBACK OCI_RECONCILED OCI_CURRENT_CONFIRMED"
  "lifecycle ROLLBACK OCI_CURRENT_CONFIRMED AUDIT_PENDING" "lifecycle ROLLBACK OCI_CURRENT_CONFIRMED COMPLETED"
  "lifecycle ROLLBACK AUDIT_PENDING AUDIT_SUCCESS" "lifecycle ROLLBACK AUDIT_PENDING ROLLBACK_FAILED"
  "lifecycle ROLLBACK AUDIT_SUCCESS COMPLETED"
  by (simp_all add: lifecycle_def next_defs)

subsection \<open>The steps of a rollback\<close>

text \<open>
  The facts a completed rollback leaves: OCI's current version, and the local lineage \<open>lin\<close> as
  it was.
\<close>

definition local_lineage :: "string \<Rightarrow> database \<Rightarrow> string option" where
  "local_lineage cid d = Option.bind (certificate_states d cid) last_local_fingerprint"

definition rollback_facts :: "string \<Rightarrow> string option \<Rightarrow> string \<Rightarrow> int \<Rightarrow> database \<Rightarrow> bool" where
  "rollback_facts cid lin fp n d \<longleftrightarrow>
     (case certificate_states d cid of
        None \<Rightarrow> False
      | Some c \<Rightarrow> last_oci_current_fingerprint c = Some fp \<and> last_oci_current_version c = Some n \<and>
          last_local_fingerprint c = lin)"

lemma rollback_facts_update [simp]:
  "local_lineage cid (update_where p f d) = local_lineage cid d"
  "rollback_facts cid lin fp n (update_where p f d) = rollback_facts cid lin fp n d"
  by (simp_all add: local_lineage_def rollback_facts_def)

lemma rollback_facts_record:
  "rollback_facts cid (local_lineage cid d) fp n (record_fact cid (set_rollback fp n now) now' d)"
  by (simp add: rollback_facts_def local_lineage_def record_fact_def set_rollback_def blank_cert_row_def
      split: option.splits)

text \<open>\<open>stands d0 oid st F G t0 R w\<close>: operation \<open>oid\<close> is in state \<open>st\<close>, the facts satisfy \<open>F\<close>, and the
  exchange since \<open>t0\<close> is justified with evidence \<open>R\<close>.\<close>

definition stands ::
  "database \<Rightarrow> string \<Rightarrow> operation_state \<Rightarrow> (database \<Rightarrow> bool) \<Rightarrow>
     (io_entry list \<Rightarrow> io_entry \<Rightarrow> bool) \<Rightarrow> io_entry list \<Rightarrow> (io_entry list \<Rightarrow> bool) \<Rightarrow> 'w world \<Rightarrow> bool" where
  "stands d0 oid st F G t0 R w \<longleftrightarrow> tracked d0 oid ROLLBACK st (db w) \<and> F (db w) \<and> exchanged G t0 R w"

lemma stands_lawful: "stands d0 oid st F G t0 R w \<Longrightarrow> lawful G d0 t0 w"
  by (auto simp: stands_def intro: lawful_tracked)

lemma lawful_journal [simp]: "lawful G d0 t0 (w\<lparr>journal := j\<rparr>) = lawful G d0 t0 w"
  by (simp add: lawful_def)

lemma stands_outside [simp]: "stands d0 oid st F G t0 R (w\<lparr>outside := o'\<rparr>) = stands d0 oid st F G t0 R w"
  by (simp add: stands_def)

lemma stands_journal [simp]: "stands d0 oid st F G t0 R (w\<lparr>journal := j\<rparr>) = stands d0 oid st F G t0 R w"
  by (simp add: stands_def)

lemma wp_stands_transition:
  assumes "stands d0 oid st F G t0 R w" and "lifecycle ROLLBACK st st'"
    and F: "\<And>p f d. F d \<Longrightarrow> F (update_where p f d)"
    and Q: "\<And>w'. stands d0 oid st' F G t0 R w' \<Longrightarrow> Q () w'" and E: "\<And>e w'. lawful G d0 t0 w' \<Longrightarrow> E e w'"
  shows "wp (transition env oid st' cols) Q E w"
proof (rule wp_transition)
  show "has_row oid (db w)" using assms(1) tracked_has_row by (auto simp: stands_def)
  show "Q () (w\<lparr>outside := o', db := update_where (\<lambda>r. row_id r = oid) (set_transition st' cols now completed) (db w)\<rparr>)"
    if "completed \<noteq> None \<longleftrightarrow> is_terminal st'" for now completed o'
    using assms(1,2) that F by (intro Q) (auto simp: stands_def intro: tracked_transitioned)
  show "E (Lib e) (w\<lparr>outside := o'\<rparr>)" for e o'
    using assms(1) by (intro E) (simp add: stands_lawful)
qed

lemma stands_weaken: "stands d0 oid st F G t0 R w \<Longrightarrow> (\<And>d. F d \<Longrightarrow> F' d) \<Longrightarrow> (\<And>io. R io \<Longrightarrow> R' io) \<Longrightarrow> stands d0 oid st F' G t0 R' w"
  by (auto simp: stands_def elim: exchanged_weaken)

lemma wp_stands_ask:
  assumes "asks req parse m" and "stands d0 oid st F G t0 R w" and "\<not> is_mutation req" and "lets_reads G" and "lasting R"
    and Q: "\<And>a w'. stands d0 oid st F G t0 (\<lambda>io. R io \<and> just_shown io req parse a) w' \<Longrightarrow> Q a w'"
    and E: "\<And>e w'. stands d0 oid st F G t0 R w' \<Longrightarrow> E e w'"
  shows "wp m Q E w"
  by (rule wp_ask[OF assms(1) _ assms(3-5)]) (use assms(2) in \<open>auto simp: stands_def intro!: Q E\<close>)

lemma wp_stands_list:
  assumes "lists cid m" and "stands d0 oid st F G t0 R w" and "lets_reads G" and "lasting R"
    and Q: "\<And>vs w'. stands d0 oid st F G t0 (\<lambda>io. R io \<and> (\<forall>v\<in>set vs. was_listed io cid v)) w' \<Longrightarrow> Q vs w'"
    and E: "\<And>e w'. stands d0 oid st F G t0 R w' \<Longrightarrow> E e w'"
  shows "wp m Q E w"
  by (rule wp_list[OF assms(1) _ assms(3,4)]) (use assms(2) in \<open>auto simp: stands_def intro!: Q E\<close>)

lemma wp_stands_send:
  assumes "sends_once req m" and "stands d0 oid st F G t0 R w"
    and "\<And>q answer io. req = Inr q \<Longrightarrow> R io \<Longrightarrow> G io (q, answer) \<and> R' (io @ [(q, answer)])" and "\<And>io. R io \<Longrightarrow> R' io"
    and Q: "\<And>a w'. stands d0 oid st F G t0 R' w' \<Longrightarrow> Q a w'"
    and E: "\<And>e w'. stands d0 oid st F G t0 R' w' \<Longrightarrow> E e w'"
  shows "wp m Q E w"
  by (rule wp_send[OF assms(1), where R = R and R' = R' and G = G and ?t0.0 = t0]) (use assms(2-4) in \<open>auto simp: stands_def intro!: Q E\<close>)

lemma wp_audit_rollback:
  fixes w :: "'w world"
  assumes audit: "\<And>A. audit = Some A \<Longrightarrow> audit_ports A"
    and st: "stands d0 oid OCI_CURRENT_CONFIRMED F G t0 R w" and F: "\<And>p f d. F d \<Longrightarrow> F (update_where p f d)"
  shows "wp (audit_rollback env N audit cert oid fp)
     (\<lambda>_ w'. \<exists>st. lifecycle ROLLBACK st COMPLETED \<and> stands d0 oid st F G t0 R w')
     (\<lambda>e w'. lawful G d0 t0 w') w"
proof (cases audit)
  case None
  then show ?thesis using st by (auto simp: audit_rollback_def wp_simps intro: rollback_lifecycle)
next
  case (Some A)
  note inert = audit_ports.inert_run_audit[OF audit[OF Some]]
  have step: "wp (transition env oid st' cols) Q (\<lambda>e w'. lawful G d0 t0 w') w'"
    if "stands d0 oid st F G t0 R w'" "lifecycle ROLLBACK st st'" "\<And>w'. stands d0 oid st' F G t0 R w' \<Longrightarrow> Q () w'"
    for st st' cols Q and w' :: "'w world"
    using that F by (intro wp_stands_transition)
  have failing: "wp (seq (transition env oid ROLLBACK_FAILED cols) (seq (log_event ev cid) (raise e))) Q
      (\<lambda>e w'. lawful G d0 t0 w') w'"
    if "stands d0 oid AUDIT_PENDING F G t0 R w'" for ev cid e cols Q and w' :: "'w world"
    unfolding wp_seq
    by (rule step[OF that rollback_lifecycle(6)])
      (auto intro!: wp_log_event simp: wp_raise intro: stands_lawful)
  have passing: "wp (transition env oid AUDIT_SUCCESS cols)
      (\<lambda>_ w'. \<exists>st. lifecycle ROLLBACK st COMPLETED \<and> stands d0 oid st F G t0 R w')
      (\<lambda>e w'. lawful G d0 t0 w') w'"
    if "stands d0 oid AUDIT_PENDING F G t0 R w'" for cols and w' :: "'w world"
    by (rule step[OF that rollback_lifecycle(5)]) (use rollback_lifecycle(7) in auto)
  show ?thesis
    unfolding audit_rollback_def Some option.case wp_seq[of "transition env oid AUDIT_PENDING c" for c]
      wp_bind wp_try_except
    by (rule step[OF st rollback_lifecycle(3)], rule wp_inert[OF inert])
      (auto simp: wp_if intro: failing passing stands_lawful)
qed

context oci_ports
begin

lemma wp_finish_rollback:
  assumes "stands d0 oid st F G t0 R w" and "lifecycle ROLLBACK st COMPLETED"
    and F: "\<And>p f d. F d \<Longrightarrow> F (update_where p f d)"
  shows "wp (finish_rollback env cert oid n fp)
     (\<lambda>r w'. rolled_version r = n \<and> rolled_fingerprint r = fp \<and> rolled_certificate_id r = cert_id cert \<and>
        completed_at oid n (db w') \<and> stands d0 oid COMPLETED F G t0 R w')
     (\<lambda>e w'. lawful G d0 t0 w') w"
  unfolding finish_rollback_def wp_seq
proof (rule wp_transition)
  show "has_row oid (db w)" using assms(1) tracked_has_row by (auto simp: stands_def)
  show "lawful G d0 t0 (w\<lparr>outside := o'\<rparr>)" for o'
    using assms(1) by (simp add: stands_lawful)
  fix now and completed :: "int option" and o'
  assume "completed \<noteq> None \<longleftrightarrow> is_terminal COMPLETED"
  let ?w = "w\<lparr>outside := o', db := update_where (\<lambda>r. row_id r = oid)
     (set_transition COMPLETED (no_columns\<lparr>col_version := Some n\<rparr>) now completed) (db w)\<rparr>"
  have "stands d0 oid COMPLETED F G t0 R ?w"
    using assms(1,2) F \<open>completed \<noteq> None \<longleftrightarrow> is_terminal COMPLETED\<close>
    by (auto simp: stands_def intro: tracked_transitioned)
  moreover have "completed_at oid n (db ?w)"
    using assms(1) tracked_has_row by (auto simp: stands_def intro!: completed_transition)
  ultimately show "wp (log_event ''OCI_ROLLBACK_SUCCESS'' (cert_id cert)) (\<lambda>_. wp (return
      \<lparr>rolled_certificate_id = cert_id cert, rolled_version = n, rolled_fingerprint = fp\<rparr>)
     (\<lambda>r w'. rolled_version r = n \<and> rolled_fingerprint r = fp \<and> rolled_certificate_id r = cert_id cert \<and>
        completed_at oid n (db w') \<and> stands d0 oid COMPLETED F G t0 R w')
     (\<lambda>e w'. lawful G d0 t0 w')) (\<lambda>e w'. lawful G d0 t0 w') ?w"
    by (intro wp_log_event) (simp add: wp_return)
qed

text \<open>Confirmation: what a completed rollback knows, whatever was asked before.\<close>

lemma wp_confirm_rollback:
  fixes L config cert now ocid and w :: "'w world"
  defines "G \<equiv> rollback_guard L config cert now ocid"
  assumes audit: "\<And>A. audit = Some A \<Longrightarrow> audit_ports A" and R: "lasting R"
    and st: "stands d0 oid OCI_RECONCILED (\<lambda>d. local_lineage (cert_id cert) d = lin) G t0 R w"
  shows "wp (confirm_rollback env L N P config cert now audit ocid oid rid n fp)
     (\<lambda>r w'. rolled_version r = n \<and> rolled_fingerprint r = fp \<and> rolled_certificate_id r = cert_id cert \<and>
        completed_at oid n (db w') \<and>
        stands d0 oid COMPLETED (rollback_facts (cert_id cert) lin fp n) G t0
          (\<lambda>io. R io \<and> restored L config cert now ocid n fp io) w')
     (\<lambda>e w'. lawful G d0 t0 w') w"
proof -
  let ?Q = "\<lambda>r w'. rolled_version r = n \<and> rolled_fingerprint r = fp \<and> rolled_certificate_id r = cert_id cert \<and>
        completed_at oid n (db w') \<and>
        stands d0 oid COMPLETED (rollback_facts (cert_id cert) lin fp n) G t0
          (\<lambda>io. R io \<and> restored L config cert now ocid n fp io) w'"
  let ?E = "\<lambda>(e :: exn) w'. lawful G d0 t0 w'"
  let ?S = "\<lambda>st F R w'. stands d0 oid st F G t0 R w'"
  let ?L = "\<lambda>d. local_lineage (cert_id cert) d = lin"
  let ?F = "rollback_facts (cert_id cert) lin fp n"
  let ?R = "\<lambda>io. R io \<and> restored L config cert now ocid n fp io"
  have reads: "lets_reads G" by (simp add: G_def rollback_reads)
  have finish: "wp (seq (audit_rollback env N audit cert oid fp) (finish_rollback env cert oid n fp)) ?Q ?E w'"
    if "?S OCI_CURRENT_CONFIRMED ?F ?R w'" for w' :: "'w world"
    unfolding wp_seq
    by (rule wp_mono[OF wp_audit_rollback[OF audit that]]) (auto intro: wp_finish_rollback)
  have recorded: "wp (record_rollback_success env (cert_id cert) fp n)
      (\<lambda>_. wp (seq (audit_rollback env N audit cert oid fp) (finish_rollback env cert oid n fp)) ?Q ?E) ?E w'"
    if "?S OCI_CURRENT_CONFIRMED ?L ?R w'" for w' :: "'w world"
  proof (rule wp_record_rollback_success)
    fix now' o'
    show "wp (seq (audit_rollback env N audit cert oid fp) (finish_rollback env cert oid n fp)) ?Q ?E
        (w'\<lparr>outside := o', db := record_fact (cert_id cert) (set_rollback fp n now') now' (db w')\<rparr>)"
      by (rule finish) (use that rollback_facts_record in \<open>auto simp: stands_def intro: tracked_record_fact\<close>)
  qed (use that stands_lawful in simp)
  have confirm: "wp (seq (raise_if (bundle_version b \<noteq> n \<or> v \<noteq> fp) err)
        (seq (transition env oid OCI_CURRENT_CONFIRMED cols)
        (seq (record_rollback_success env (cert_id cert) v (bundle_version b))
        (seq (audit_rollback env N audit cert oid v) (finish_rollback env cert oid (bundle_version b) v))))) ?Q ?E w'"
    if "?S OCI_RECONCILED ?L (\<lambda>io. R io \<and> shown io (GetCertificateBundle ocid None) bundle_of_response b) w'"
      "validate_bundle L b cert config now = Inr v" for b v err cols and w' :: "'w world"
  proof (cases "bundle_version b \<noteq> n \<or> v \<noteq> fp")
    case True
    then show ?thesis using that(1) by (simp add: wp_simps stands_lawful)
  next
    case False
    then have same: "bundle_version b = n" "v = fp" by simp_all
    have "?S OCI_RECONCILED ?L ?R w'"
      using that same by (auto simp: restored_def elim: stands_weaken)
    then show ?thesis
      unfolding same by (auto simp: wp_seq[of "raise_if c e" for c e] wp_seq[of "transition env oid s c" for s c]
          wp_seq[of "record_rollback_success env i f v" for i f v] wp_raise_if
        intro!: wp_stands_transition[OF _ rollback_lifecycle(2)] recorded)
  qed
  have ask: "wp (port_get_public_bundle P ocid None rid)
      (\<lambda>b w'. ?S OCI_RECONCILED ?L R w' \<and>
         ?S OCI_RECONCILED ?L (\<lambda>io. R io \<and> shown io (GetCertificateBundle ocid None) bundle_of_response b) w')
      (\<lambda>e w'. lawful G d0 t0 w' \<and> ?S OCI_RECONCILED ?L R w') w'"
    if "?S OCI_RECONCILED ?L R w'" for w' :: "'w world"
    by (rule wp_ask[OF bundle_law _ _ reads R])
      (use that in \<open>auto simp: stands_def intro: lawful_tracked just_shown_shown elim: exchanged_weaken\<close>)
  have await: "wp (retry_read_until_sync env pol (port_get_public_bundle P ocid None rid) acc)
      (\<lambda>b w'. ?S OCI_RECONCILED ?L (\<lambda>io. R io \<and> shown io (GetCertificateBundle ocid None) bundle_of_response b) w') ?E w"
    for pol acc
    by (rule wp_retry_read_until_sync[where J = "?S OCI_RECONCILED ?L R"])
      (use st ask in \<open>auto intro: stands_lawful\<close>)
  show ?thesis
    unfolding confirm_rollback_def wp_bind[of "retry_read_until_sync e p m a" for e p m a] wp_bind[of "lift r" for r] wp_lift
    by (rule wp_mono[OF await]) (auto simp del: disj_not1 split: sum.splits intro: confirm stands_lawful)
qed

lemma wp_restore:
  fixes L config cert now ocid and w :: "'w world"
  defines "G \<equiv> rollback_guard L config cert now ocid"
  assumes audit: "\<And>A. audit = Some A \<Longrightarrow> audit_ports A"
    and st: "stands d0 oid DISCOVERED (\<lambda>d. local_lineage (cert_id cert) d = lin) G t0 (\<lambda>_. True) w"
  shows "wp (restore env L N P config cert now audit ocid oid)
     (\<lambda>r w'. rolled_certificate_id r = cert_id cert \<and> completed_at oid (rolled_version r) (db w') \<and>
        stands d0 oid COMPLETED (rollback_facts (cert_id cert) lin (rolled_fingerprint r) (rolled_version r)) G t0
          (\<lambda>io. rollback_target L config cert now ocid (rolled_version r) (rolled_fingerprint r) io \<and>
             restored L config cert now ocid (rolled_version r) (rolled_fingerprint r) io) w')
     (\<lambda>e w'. lawful G d0 t0 w') w"
proof -
  let ?Q = "\<lambda>r w'. rolled_certificate_id r = cert_id cert \<and> completed_at oid (rolled_version r) (db w') \<and>
        stands d0 oid COMPLETED (rollback_facts (cert_id cert) lin (rolled_fingerprint r) (rolled_version r)) G t0
          (\<lambda>io. rollback_target L config cert now ocid (rolled_version r) (rolled_fingerprint r) io \<and>
             restored L config cert now ocid (rolled_version r) (rolled_fingerprint r) io) w'"
  let ?E = "\<lambda>(e :: exn) w'. lawful G d0 t0 w'"
  let ?S = "\<lambda>st R w'. stands d0 oid st (\<lambda>d. local_lineage (cert_id cert) d = lin) G t0 R w'"
  let ?T = "\<lambda>n fp. rollback_target L config cert now ocid n fp"
  let ?V = "\<lambda>v io. was_listed io ocid v \<and> restorable v"
  have reads: "lets_reads G" by (simp add: G_def rollback_reads)
  have confirm: "wp (confirm_rollback env L N P config cert now audit ocid oid rid n fp) ?Q ?E w'"
    if "?S OCI_RECONCILED (?T n fp) w'" for rid n fp and w' :: "'w world"
    unfolding G_def
    by (rule wp_mono[OF wp_confirm_rollback[OF audit lasting_rollback_target that[unfolded G_def]]]) auto
  have promote: "wp (port_promote_current P ocid n (oci_etag remote) rid)
      (\<lambda>_. wp (confirm_rollback env L N P config cert now audit ocid oid rid n fp) ?Q ?E) ?E w'"
    if "?S OCI_RECONCILED (\<lambda>io. ?T n fp io \<and> just_shown io (GetCertificate ocid) (certificate_of_response ocid) remote) w'"
    for rid n fp remote and w' :: "'w world"
  proof (rule wp_stands_send[OF promote_law that, where R' = "?T n fp"])
    fix q answer io
    assume "Inr (UpdateCurrentVersion ocid n (oci_etag remote)) = (Inr q :: exn + oci_request)"
      "?T n fp io \<and> just_shown io (GetCertificate ocid) (certificate_of_response ocid) remote"
    then show "G io (q, answer) \<and> ?T n fp (io @ [(q, answer)])"
      using lasting_rollback_target[of L config cert now ocid n fp]
      by (auto simp: G_def rollback_guard_def lasting_def)
  qed (auto intro: confirm stands_lawful)
  have look: "wp (port_get_certificate P ocid rid) (\<lambda>remote.
        wp (seq (transition env oid OCI_RECONCILED cols) (seq (port_promote_current P ocid n (oci_etag remote) rid)
          (confirm_rollback env L N P config cert now audit ocid oid rid n fp))) ?Q ?E) ?E w'"
    if "?S DISCOVERED (?T n fp) w'" for rid n fp cols and w' :: "'w world"
    by (rule wp_stands_ask[OF get_certificate_law that _ reads lasting_rollback_target])
      (auto simp: wp_seq intro!: wp_stands_transition[OF _ rollback_lifecycle(1)] promote intro: stands_lawful)
  have target: "?T (version_number v) fp io"
    if "validate_bundle L b cert config now = Inr fp" "?V v io"
      "just_shown io (GetCertificateBundle ocid (Some (version_number v))) bundle_of_response b" for v b fp io
    using that just_shown_shown by (metis rollback_target_def)
  have validated: "wp (bind (lift (validate_bundle L b cert config now)) (\<lambda>fp. bind (port_get_certificate P ocid rid) (\<lambda>remote.
          seq (transition env oid OCI_RECONCILED cols) (seq (port_promote_current P ocid (version_number v) (oci_etag remote) rid)
          (confirm_rollback env L N P config cert now audit ocid oid rid (version_number v) fp))))) ?Q ?E w'"
    if "?S DISCOVERED (\<lambda>io. ?V v io \<and> just_shown io (GetCertificateBundle ocid (Some (version_number v))) bundle_of_response b) w'"
    for rid v b cols and w' :: "'w world"
  proof -
    have "?S DISCOVERED (?T (version_number v) fp) w'" if "validate_bundle L b cert config now = Inr fp" for fp
      using that \<open>?S DISCOVERED _ w'\<close>
      by (auto intro: target elim!: stands_weaken)
    then show ?thesis
      using stands_lawful[OF that] unfolding wp_bind wp_lift by (auto split: sum.splits intro: look)
  qed
  have fetch: "wp (port_get_public_bundle P ocid (Some (version_number v)) rid) (\<lambda>b.
        wp (bind (lift (validate_bundle L b cert config now)) (\<lambda>fp. bind (port_get_certificate P ocid rid) (\<lambda>remote.
          seq (transition env oid OCI_RECONCILED cols) (seq (port_promote_current P ocid (version_number v) (oci_etag remote) rid)
          (confirm_rollback env L N P config cert now audit ocid oid rid (version_number v) fp))))) ?Q ?E) ?E w'"
    if "?S DISCOVERED (?V v) w'" for rid v cols and w' :: "'w world"
    by (rule wp_stands_ask[OF bundle_law that _ reads])
      (auto intro: validated stands_lawful simp: lasting_def was_listed_def)
  have choose: "wp (previous_version P ocid rid) (\<lambda>v. wp (bind (port_get_public_bundle P ocid (Some (version_number v)) rid) (\<lambda>b.
        bind (lift (validate_bundle L b cert config now)) (\<lambda>fp. bind (port_get_certificate P ocid rid) (\<lambda>remote.
          seq (transition env oid OCI_RECONCILED (cols v)) (seq (port_promote_current P ocid (version_number v) (oci_etag remote) rid)
          (confirm_rollback env L N P config cert now audit ocid oid rid (version_number v) fp)))))) ?Q ?E) ?E w'"
    if "?S DISCOVERED (\<lambda>_. True) w'" for rid cols and w' :: "'w world"
    unfolding previous_version_def wp_bind[of "port_list_versions P ocid rid"] wp_lift
    by (rule wp_stands_list[OF list_law that reads lasting_True])
      (auto split: sum.splits simp: wp_bind[of "port_get_public_bundle P ocid k rid" for k]
        intro!: fetch intro: stands_lawful dest!: the_restorable_mem elim!: stands_weaken)
  show ?thesis
    unfolding restore_def wp_seq[of "log_event e c" for e c] wp_bind[of "uuid4 env"] wp_bind[of "previous_version P ocid rid" for rid]
    by (intro wp_log_event wp_uuid4I choose) (use st in simp)
qed

lemma wp_rollback:
  fixes L config cert now and w :: "'w world"
  assumes audit: "\<And>A. audit = Some A \<Longrightarrow> audit_ports A"
    and wf: "wf_db (db w)" and ocid: "certificate_ocid (oci_of cert) = Some ocid"
  shows "wp (rollback env L N P config cert now audit)
     (\<lambda>r w'. safe (db w) (db w') \<and> rolled_certificate_id r = cert_id cert \<and>
        (\<exists>oid. oid \<notin> row_id ` set (operations (db w)) \<and> completed_at oid (rolled_version r) (db w')) \<and>
        rollback_facts (cert_id cert) (local_lineage (cert_id cert) (db w)) (rolled_fingerprint r) (rolled_version r) (db w') \<and>
        exchanged (rollback_guard L config cert now ocid) (trace w)
          (\<lambda>io. rollback_target L config cert now ocid (rolled_version r) (rolled_fingerprint r) io \<and>
             restored L config cert now ocid (rolled_version r) (rolled_fingerprint r) io) w')
     (\<lambda>e w'. lawful (rollback_guard L config cert now ocid) (db w) (trace w) w') w"
  unfolding rollback_def ocid option.case wp_bind
proof (rule wp_start_operation)
  fix oid now' o'
  assume new: "oid \<notin> row_id ` set (operations (db w))"
  let ?w = "w\<lparr>outside := o', db := with_operations (\<lambda>rs. rs @ [discovered_row oid (cert_id cert) ROLLBACK None (Some ocid) now']) (db w)\<rparr>"
  have "stands (db w) oid DISCOVERED (\<lambda>d. local_lineage (cert_id cert) d = local_lineage (cert_id cert) (db w))
      (rollback_guard L config cert now ocid) (trace w) (\<lambda>_. True) ?w"
    using tracked_started[OF safe_refl[OF wf] new]
    by (simp add: stands_def exchanged_def local_lineage_def with_operations_def)
  from wp_restore[OF audit this]
  show "wp (restore env L N P config cert now audit ocid
       (operation_id \<lparr>operation_id = oid, certificate_id = cert_id cert, op_type = ROLLBACK, op_state = DISCOVERED,
          local_fingerprint = None, oci_certificate_ocid = Some ocid, oci_version_number = None\<rparr>))
     (\<lambda>r w'. safe (db w) (db w') \<and> rolled_certificate_id r = cert_id cert \<and>
        (\<exists>oid. oid \<notin> row_id ` set (operations (db w)) \<and> completed_at oid (rolled_version r) (db w')) \<and>
        rollback_facts (cert_id cert) (local_lineage (cert_id cert) (db w)) (rolled_fingerprint r) (rolled_version r) (db w') \<and>
        exchanged (rollback_guard L config cert now ocid) (trace w)
          (\<lambda>io. rollback_target L config cert now ocid (rolled_version r) (rolled_fingerprint r) io \<and>
             restored L config cert now ocid (rolled_version r) (rolled_fingerprint r) io) w')
     (\<lambda>e w'. lawful (rollback_guard L config cert now ocid) (db w) (trace w) w') ?w"
    unfolding operation.select_convs
    by (rule wp_mono) (use new in \<open>auto simp: stands_def\<close>)
qed (simp add: lawful_def safe_refl wf exchanged_def)

end

end
