(* ===== verification/Notification.thy ===== *)
theory Notification
  imports Config Ipaddress Exchange
begin

section \<open>Notifications\<close>

text \<open>
  \<open>notification_service.py\<close>: one small event, delivered over HTTPS to a webhook whose URL comes
  from a systemd credential and whose host is on an allowlist, with a durable cooldown. Reading
  the credential and the HTTP request are operations of the outside. The cooldown is an interface,
  the locale \<open>alert_cooldown\<close>; the state store provides it.
\<close>

subsection \<open>Credentials and webhook URLs\<close>

definition credential_path :: "string \<Rightarrow> exn + string" where
  "credential_path reference =
     (let prefix = ''systemd-credential:''; name = removeprefix prefix reference
      in if \<not> startswith reference prefix
         then Inl (NotificationError ''notification credential reference is invalid'')
         else if name = [] \<or> contains ''/'' name \<or> contains ''..'' name
         then Inl (NotificationError ''notification credential name is invalid'')
         else Inr (''/run/credentials/oci-acme-renew.service/'' @ name))"

text \<open>What \<open>urllib.parse.urlparse\<close> gives of a URL, as far as the source reads it.\<close>

record url_parts =
  url_scheme :: string
  url_username :: "string option"
  url_password :: "string option"
  url_hostname :: "string option"

definition is_alpha :: "char \<Rightarrow> bool" where
  "is_alpha c \<longleftrightarrow> is_lower_letter (lower_char c)"

definition scheme_char :: "char \<Rightarrow> bool" where
  "scheme_char c \<longleftrightarrow> is_alpha c \<or> is_digit c \<or> List.member ''+-.'' c"

text \<open>The scheme, in lower case, and what follows the colon.\<close>

definition split_scheme :: "string \<Rightarrow> string \<times> string" where
  "split_scheme url =
     (case partition_at (CHR '':'') url of
        (s, found, rest) \<Rightarrow>
          if found \<and> s \<noteq> [] \<and> is_alpha (hd s) \<and> list_all scheme_char s
          then (lower s, rest) else ([], url))"

definition netloc_of :: "string \<Rightarrow> string" where
  "netloc_of rest =
     (if startswith rest ''//'' then takeWhile (\<lambda>c. \<not> List.member ''/?#'' c) (drop 2 rest) else [])"

text \<open>\<open>v<hex>+.<any>+\<close>, the future address form of RFC 3986.\<close>

definition is_ip_future :: "string \<Rightarrow> bool" where
  "is_ip_future h \<longleftrightarrow>
     (case partition_at (CHR ''.'') (drop 1 h) of
        (v, found, a) \<Rightarrow> found \<and> v \<noteq> [] \<and> list_all (\<lambda>c. is_lower_hex (lower_char c)) v \<and> a \<noteq> [] \<and>
          \<not> List.member a (CHR 0x0A))"

definition bracketed_ok :: "string \<Rightarrow> bool" where
  "bracketed_ok h \<longleftrightarrow>
     (if startswith h ''v'' then is_ip_future h
      else (case ip_address h of Some (V6 _) \<Rightarrow> True | _ \<Rightarrow> False))"

text \<open>
  The checks of \<open>urlsplit\<close> that raise \<open>ValueError\<close>; \<open>nfkc_ok\<close> is the Unicode
  normalisation check of an authority outside ASCII.
\<close>

definition netloc_ok :: "(string \<Rightarrow> bool) \<Rightarrow> string \<Rightarrow> bool" where
  "netloc_ok nfkc_ok netloc \<longleftrightarrow>
     (contains ''['' netloc \<longleftrightarrow> contains '']'' netloc) \<and>
     (contains ''['' netloc \<longrightarrow>
        bracketed_ok (fst (partition_at (CHR '']'') (snd (snd (partition_at (CHR ''['') netloc)))))) \<and>
     (is_ascii netloc \<or> nfkc_ok netloc)"

definition userinfo_of :: "string \<Rightarrow> string option \<times> string option" where
  "userinfo_of netloc =
     (case rpartition_at (CHR ''@'') netloc of
        (info, found, _) \<Rightarrow>
          if \<not> found then (None, None)
          else (case partition_at (CHR '':'') info of
                  (user, has_password, password) \<Rightarrow> (Some user, if has_password then Some password else None)))"

definition hostname_of :: "string \<Rightarrow> string option" where
  "hostname_of netloc =
     (let hostinfo = snd (snd (rpartition_at (CHR ''@'') netloc));
          (before, bracket, bracketed) = partition_at (CHR ''['') hostinfo;
          host = (if bracket then fst (partition_at (CHR '']'') bracketed)
                  else fst (partition_at (CHR '':'') hostinfo));
          (name, percent, zone) = partition_at (CHR ''%'') host
      in if host = [] then None
         else Some (lower name @ (if percent then ''%'' @ zone else [])))"

definition clean_url :: "string \<Rightarrow> string" where
  "clean_url url =
     filter (\<lambda>c. \<not> List.member [CHR 0x09, CHR 0x0D, CHR 0x0A] c)
       (dropWhile (\<lambda>c. (of_char c :: nat) \<le> 32) url)"

definition urlparse :: "(string \<Rightarrow> bool) \<Rightarrow> string \<Rightarrow> exn + url_parts" where
  "urlparse nfkc_ok url =
     (let (scheme, rest) = split_scheme (clean_url url); netloc = netloc_of rest
      in if \<not> netloc_ok nfkc_ok netloc then Inl (Lib (ValueError ''invalid URL''))
         else Inr \<lparr>url_scheme = scheme, url_username = fst (userinfo_of netloc),
                url_password = snd (userinfo_of netloc), url_hostname = hostname_of netloc\<rparr>)"

text \<open>A Python string is false when it is empty or \<open>None\<close>.\<close>

definition falsy :: "string option \<Rightarrow> bool" where
  "falsy x \<longleftrightarrow> (case x of None \<Rightarrow> True | Some s \<Rightarrow> s = [])"

definition webhook_url :: "(string \<Rightarrow> bool) \<Rightarrow> notifications_config \<Rightarrow> string \<Rightarrow> exn + string" where
  "webhook_url nfkc_ok c secret =
     (case urlparse nfkc_ok secret of
        Inl e \<Rightarrow> Inl e
      | Inr parsed \<Rightarrow>
          if url_scheme parsed \<noteq> ''https'' \<or> falsy (url_hostname parsed) \<or>
             \<not> falsy (url_username parsed) \<or> \<not> falsy (url_password parsed)
          then Inl (NotificationError ''notification webhook must be a credential-provided HTTPS URL'')
          else if \<not> List.member (map Some (allowed_hosts c)) (url_hostname parsed)
          then Inl (NotificationError ''notification webhook host is not allowlisted'')
          else Inr secret)"

subsection \<open>Delivery\<close>

text \<open>
  The outside of a delivery: reading a credential file, one POST (its timeouts, URL and JSON
  body) with the status of the response, and the normalisation check above.
\<close>

record 'w mailer =
  read_credential :: "string \<Rightarrow> 'w \<Rightarrow> (lib_exn + string) \<times> 'w"
  http_post :: "int \<times> int \<Rightarrow> string \<Rightarrow> pyval \<Rightarrow> 'w \<Rightarrow> (lib_exn + int) \<times> 'w"
  nfkc :: "string \<Rightarrow> bool"

record 'w cooldown =
  should_send :: "string \<Rightarrow> string \<Rightarrow> int \<Rightarrow> ('w, bool) action"
  record_sent :: "string \<Rightarrow> string \<Rightarrow> ('w, unit) action"

definition try_outside :: "('w \<Rightarrow> (lib_exn + 'a) \<times> 'w) \<Rightarrow> ('w, 'a) action" where
  "try_outside f = bind (external f) (\<lambda>r. lift (map_sum Lib id r))"

definition payload_of :: "notifications_config \<Rightarrow> string \<Rightarrow> (string \<times> string) list \<Rightarrow> pyval" where
  "payload_of c event entries =
     (let obj = PObj (map (\<lambda>(k, v). (k, PStr v)) entries)
      in if provider c = ''slack''
         then PObj [(''text'', PStr event), (''attachments'', PList [PObj [(''fields'', obj)]])]
         else PObj [(''event'', PStr event), (''fields'', obj)])"

definition note_sent :: "'w cooldown option \<Rightarrow> string \<Rightarrow> string \<Rightarrow> ('w, unit) action" where
  "note_sent D key status = (case D of None \<Rightarrow> return () | Some d \<Rightarrow> record_sent d key status)"

fun is_ClientError :: "exn \<Rightarrow> bool" where
  "is_ClientError (Lib ClientError) = True"
| "is_ClientError _ = False"

fun is_NotificationError :: "exn \<Rightarrow> bool" where
  "is_NotificationError (NotificationError _) = True"
| "is_NotificationError _ = False"

text \<open>One attempt of the loop: whether it delivered.\<close>

definition deliver_attempt ::
  "'w mailer \<Rightarrow> 'w cooldown option \<Rightarrow> notifications_config \<Rightarrow> string \<Rightarrow> pyval \<Rightarrow> string \<Rightarrow> string \<Rightarrow>
     nat \<Rightarrow> ('w, bool) action" where
  "deliver_attempt M D c url payload key status k =
     try_except
       (bind (try_outside (http_post M (notify_connect_timeout_seconds c, notify_total_timeout_seconds c) url payload))
          (\<lambda>code.
             if 200 \<le> code \<and> code < 300 then seq (note_sent D key status) (return True)
             else if code < 500 \<and> code \<noteq> 429
             then raise (NotificationError ''notification endpoint returned non-success status'')
             else return False))
       (\<lambda>e. if \<not> is_ClientError e then None
            else Some (if k = 1 then raise (NotificationError ''notification delivery failed'') else return False))"

fun deliver_loop ::
  "'w env \<Rightarrow> 'w mailer \<Rightarrow> 'w cooldown option \<Rightarrow> notifications_config \<Rightarrow> string \<Rightarrow> pyval \<Rightarrow> string \<Rightarrow> string \<Rightarrow>
     nat list \<Rightarrow> ('w, bool) action" where
  "deliver_loop env M D c url payload key status [] =
     raise (NotificationError ''notification endpoint returned non-success status'')"
| "deliver_loop env M D c url payload key status (k # ks) =
     bind (deliver_attempt M D c url payload key status k) (\<lambda>done.
       if done then return True
       else
         seq (if k = 0 then sleep env (1 / 4) else return ())
           (deliver_loop env M D c url payload key status ks))"

definition deliver ::
  "'w env \<Rightarrow> 'w mailer \<Rightarrow> 'w cooldown option \<Rightarrow> notifications_config \<Rightarrow> string \<Rightarrow> (string \<times> string) list \<Rightarrow>
     string \<Rightarrow> string \<Rightarrow> ('w, bool) action" where
  "deliver env M D c event entries key status =
     (case credential_ref c of
        None \<Rightarrow> raise (NotificationError ''enabled notifier has no credential reference'')
      | Some reference \<Rightarrow>
          bind
            (try_except
               (bind (lift (credential_path reference)) (\<lambda>path. try_outside (read_credential M path)))
               (\<lambda>e. if is_OSError e
                    then Some (raise (NotificationError ''notification credential cannot be read'')) else None))
            (\<lambda>secret. bind (lift (webhook_url (nfkc M) c (strip secret))) (\<lambda>url.
               deliver_loop env M D c url (payload_of c event entries) key status [0, 1])))"

definition field_or :: "(string \<times> string) list \<Rightarrow> string \<Rightarrow> string \<Rightarrow> string" where
  "field_or entries name dflt = (case map_of entries name of Some v \<Rightarrow> v | None \<Rightarrow> dflt)"

definition notify ::
  "'w env \<Rightarrow> 'w mailer \<Rightarrow> notifications_config \<Rightarrow> string \<Rightarrow> (string \<times> string) list \<Rightarrow> 'w cooldown option \<Rightarrow>
     ('w, bool) action" where
  "notify env M c event entries D =
     (if \<not> notifications_enabled c then return False
      else
        let key = event @ '':'' @ field_or entries ''certificate_id'' [];
            status = field_or entries ''status'' event
        in bind
             (case D of
                None \<Rightarrow> return True
              | Some d \<Rightarrow> should_send d key status (minimum_repeat_interval_minutes c))
             (\<lambda>send. if \<not> send then return False else deliver env M D c event entries key status))"

subsection \<open>The interface of the cooldown\<close>

text \<open>
  \<open>sent d key\<close> is the last alert the database remembers for \<open>key\<close>: when, and with which
  status. Asking changes nothing but the outside, and says no only to a status that is remembered;
  recording remembers the alert and changes no operation.
\<close>

definition sent :: "database \<Rightarrow> string \<Rightarrow> (seconds option \<times> string) option" where
  "sent d key = map_option (\<lambda>r. (last_sent_at r, last_status r)) (alerts d key)"

text \<open>The operations, the certificate facts and the exchange with OCI are those of \<open>w0\<close>.\<close>

definition unmoved :: "'w world \<Rightarrow> 'w world \<Rightarrow> bool" where
  "unmoved w0 w \<longleftrightarrow>
     operations (db w) = operations (db w0) \<and> certificate_states (db w) = certificate_states (db w0) \<and>
     trace w = trace w0"

lemma unmoved_refl: "unmoved w w"
  by (simp add: unmoved_def)

lemma unmoved_outside [simp]: "unmoved w0 (w\<lparr>outside := o'\<rparr>) = unmoved w0 w"
  by (simp add: unmoved_def)

lemma keeps_unmoved_inert: "inert m \<Longrightarrow> keeps (unmoved w0) m"
  by (metis keeps_def inert_def unmoved_outside)

locale alert_cooldown =
  fixes D :: "'w cooldown"
  assumes should_send_law: "inert (should_send D key status minutes)"
    and silence_law: "wp (should_send D key status minutes)
      (\<lambda>b _. \<not> b \<longrightarrow> (\<exists>t. sent (db w) key = Some (Some t, status))) (\<lambda>_ _. True) w"
    and record_sent_law: "keeps (unmoved w0) (record_sent D key status)"
    and remembers_law: "wp (record_sent D key status)
      (\<lambda>_ w'. \<exists>t. sent (db w') key = Some (Some t, status)) (\<lambda>_ _. True) w"
begin

lemma keeps_deliver: "keeps (unmoved w0) (deliver env M (Some D) c event entries key status)"
proof -
  have outside: "keeps (unmoved w0) (try_outside f)" for f :: "'w \<Rightarrow> (lib_exn + 'a) \<times> 'w"
    unfolding try_outside_def by (intro keeps_unmoved_inert inert_intros)
  have attempt: "keeps (unmoved w0) (deliver_attempt M (Some D) c url p key status k)" for url p k
    unfolding deliver_attempt_def note_sent_def option.case
    by (intro keeps_intros outside record_sent_law) (auto intro: keeps_intros split: if_splits)
  have loop: "keeps (unmoved w0) (deliver_loop env M (Some D) c url p key status ks)" for url p ks
    by (induction ks) (auto intro!: keeps_intros attempt keeps_unmoved_inert[OF inert_sleep])
  show ?thesis
    unfolding deliver_def
    by (intro keeps_intros outside loop) (auto intro: keeps_intros split: if_splits)
qed

lemma keeps_notify: "keeps (unmoved w0) (notify env M c event entries (Some D))"
  unfolding notify_def Let_def option.case
  by (intro keeps_intros keeps_deliver keeps_unmoved_inert should_send_law)

text \<open>A delivery reported as done is remembered with its status.\<close>

lemma wp_deliver:
  "wp (deliver env M (Some D) c event entries key status)
     (\<lambda>b w'. b \<and> (\<exists>t. sent (db w') key = Some (Some t, status))) (\<lambda>_ _. True) w"
proof -
  let ?done = "\<lambda>w'. \<exists>t. sent (db w') key = Some (Some t, status)"
  have attempt: "wp (deliver_attempt M (Some D) c url p key status k) (\<lambda>b w'. b \<longrightarrow> ?done w') (\<lambda>_ _. True) w"
    for url p k w
    unfolding deliver_attempt_def note_sent_def option.case try_outside_def
    by (auto simp: wp_simps wp_external split: prod.splits sum.splits option.splits if_splits
        intro!: wp_mono[OF remembers_law])
  have loop: "wp (deliver_loop env M (Some D) c url p key status ks) (\<lambda>b w'. b \<and> ?done w') (\<lambda>_ _. True) w"
    for url p ks w
  proof (induction ks arbitrary: w)
    case (Cons k ks)
    show ?case
      unfolding deliver_loop.simps wp_bind
      by (rule wp_mono[OF attempt]) (auto simp: wp_simps sleep_def wp_external Cons split: prod.splits)
  qed (simp add: wp_simps)
  show ?thesis
    unfolding deliver_def try_outside_def
    by (auto simp: wp_simps wp_external loop simp del: deliver_loop.simps
        split: prod.splits sum.splits option.splits if_splits)
qed

lemma wp_notify:
  "wp (notify env M c event entries (Some D))
     (\<lambda>b w'. b \<longrightarrow> notifications_enabled c \<and>
        (\<exists>t. sent (db w') (event @ '':'' @ field_or entries ''certificate_id'' []) =
           Some (Some t, field_or entries ''status'' event))) (\<lambda>_ _. True) w"
proof -
  have "wp (deliver env M (Some D) c event entries key status)
      (\<lambda>b w'. b \<longrightarrow> (\<exists>t. sent (db w') key = Some (Some t, status))) (\<lambda>_ _. True) w" for key status w
    by (rule wp_mono[OF wp_deliver]) auto
  then show ?thesis
    unfolding notify_def Let_def option.case wp_if wp_bind
    by (auto simp: wp_return intro!: wp_mono[where m = "should_send D k s m" for k s m, OF wp_True])
qed

end

subsection \<open>The state store provides it\<close>

definition store_cooldown :: "'w env \<Rightarrow> 'w cooldown" where
  "store_cooldown env = \<lparr>should_send = should_send_alert env, record_sent = record_alert_sent env\<rparr>"

lemma inert_select [inert_intros]: "inert (sql env (select_from f))"
  by (simp add: inert_def sql_def select_from_def split: prod.splits option.splits)

interpretation store: alert_cooldown "store_cooldown env" for env
proof
  show "inert (should_send (store_cooldown env) key status minutes)" for key status minutes
    unfolding store_cooldown_def cooldown.select_convs should_send_alert_def
    by (intro inert_intros)
  show "wp (should_send (store_cooldown env) key status minutes)
      (\<lambda>b _. \<not> b \<longrightarrow> (\<exists>t. sent (db w) key = Some (Some t, status))) (\<lambda>_ _. True) w" for key status minutes w
    unfolding store_cooldown_def cooldown.select_convs should_send_alert_def wp_bind
    by (rule wp_select) (auto simp: wp_simps sent_def split: option.splits intro!: wp_nowI)
  show "keeps (unmoved w0) (record_sent (store_cooldown env) key status)" for w0 key status
    by (auto simp: store_cooldown_def record_alert_sent_def unmoved_def upsert_alert_def keeps_wp wp_simps
        intro!: wp_utc_nowI wp_sqlI)
  show "wp (record_sent (store_cooldown env) key status)
      (\<lambda>_ w'. \<exists>t. sent (db w') key = Some (Some t, status)) (\<lambda>_ _. True) w" for key status w
    by (auto simp: store_cooldown_def record_alert_sent_def sent_def upsert_alert_def wp_simps
        intro!: wp_utc_nowI wp_sqlI split: option.splits)
qed

text \<open>An alert of the remembered status, within the interval, is not sent: nothing is read or
  posted, only the clock is consulted.\<close>

lemma notify_suppressed:
  assumes "notifications_enabled c"
    and "alerts (db w) (event @ '':'' @ field_or entries ''certificate_id'' []) =
       Some \<lparr>last_sent_at = Some t, last_status = field_or entries ''status'' event\<rparr>"
    and "sql_fault env (outside w) = (None, o1)" and "read_clock env o1 = (now, o2)"
    and "now \<le> (t + minimum_repeat_interval_minutes c * 60) * second"
  shows "notify env M c event entries (Some (store_cooldown env)) w = (Inr False, w\<lparr>outside := o2\<rparr>)"
  using assms unfolding notify_def Let_def
  by (simp add: store_cooldown_def should_send_alert_def run_simps sql_def select_from_def now_utc_def
      external_def algebra_simps)

end
