(* ===== verification/Retention.thy ===== *)
theory Retention
  imports Config OciCertificates "HOL-Library.Product_Lexorder" "HOL-Library.Multiset"
begin

section \<open>Retention planning\<close>

text \<open>
  \<open>retention_service.py\<close>: which certificate versions may have their deletion scheduled. The plan
  is a pure function of the configuration, the listed versions, the versions that active
  operations refer to, and the time.
\<close>

subsection \<open>Python lists\<close>

text \<open>\<open>xs[:n]\<close>, where a negative bound counts from the end, and \<open>sorted(xs, key=k, reverse=True)\<close>,
  which keeps equal elements in their order.\<close>

definition slice_to :: "int \<Rightarrow> 'a list \<Rightarrow> 'a list" where
  "slice_to n xs = (if 0 \<le> n then take (nat n) xs else take (length xs - nat (- n)) xs)"

definition sorted_reverse :: "('a \<Rightarrow> 'k :: linorder) \<Rightarrow> 'a list \<Rightarrow> 'a list" where
  "sorted_reverse k xs = rev (sort_key k (rev xs))"

lemma set_sorted_reverse [simp]: "set (sorted_reverse k xs) = set xs"
  by (simp add: sorted_reverse_def)

lemma length_sorted_reverse [simp]: "length (sorted_reverse k xs) = length xs"
  by (simp add: sorted_reverse_def)

lemma distinct_sorted_reverse [simp]: "distinct (map f (sorted_reverse k xs)) \<longleftrightarrow> distinct (map f xs)"
  by (simp add: distinct_map sorted_reverse_def)

lemma sorted_reverse_descending: "sorted_wrt (\<lambda>x y. k y \<le> k x) (sorted_reverse k xs)"
  using sorted_sort_key[of k "rev xs"] unfolding sorted_reverse_def sorted_wrt_rev sorted_map .

lemma slice_to_prefix: "slice_to n xs @ drop (length (slice_to n xs)) xs = xs"
proof -
  have "take m xs @ drop (min (length xs) m) xs = xs" for m
    by (cases "m \<le> length xs") (simp_all add: min_def)
  then show ?thesis by (simp add: slice_to_def)
qed

text \<open>Whatever is in the prefix is at least as great as whatever is not.\<close>

lemma slice_descending:
  assumes "sorted_wrt (\<lambda>x y. k y \<le> k x) xs" and "x \<in> set (slice_to n xs)" and "y \<in> set xs" "y \<notin> set (slice_to n xs)"
  shows "k y \<le> k x"
proof -
  have "sorted_wrt (\<lambda>x y. k y \<le> k x) (slice_to n xs @ drop (length (slice_to n xs)) xs)"
    using assms(1) by (simp add: slice_to_prefix)
  moreover have "y \<in> set (drop (length (slice_to n xs)) xs)"
    using assms(3,4) by (metis UnE set_append slice_to_prefix)
  ultimately show ?thesis
    using assms(2) by (auto simp: sorted_wrt_append)
qed

subsection \<open>The plan\<close>

record retention_plan =
  plan_versions :: "int list"
  plan_deletion_time :: instant

definition protected_stages :: "string list" where
  "protected_stages = [''CURRENT'', ''PENDING'', ''PREVIOUS'', ''LATEST'', ''PENDING_ACTIVATION'']"

abbreviation day :: int where
  "day \<equiv> 86400 * second"

definition eligible_version ::
  "retention_config \<Rightarrow> int list \<Rightarrow> instant \<Rightarrow> oci_certificate_version \<Rightarrow> bool" where
  "eligible_version c referenced now v \<longleftrightarrow>
     List.member (stages v) ''DEPRECATED'' \<and>
     \<not> list_ex (List.member (stages v)) protected_stages \<and>
     \<not> List.member referenced (version_number v) \<and>
     time_of_deletion v = None \<and>
     (case time_created v of None \<Rightarrow> False | Some t \<Rightarrow> t \<le> now - minimum_age_days c * day)"

text \<open>The sort key \<open>(version.time_created, version.version_number)\<close>.\<close>

definition age_key :: "oci_certificate_version \<Rightarrow> instant \<times> int" where
  "age_key v = (case time_created v of None \<Rightarrow> 0 | Some t \<Rightarrow> t, version_number v)"

definition eligible_versions ::
  "retention_config \<Rightarrow> oci_certificate_version list \<Rightarrow> int list \<Rightarrow> instant \<Rightarrow> oci_certificate_version list" where
  "eligible_versions c versions referenced now =
     sorted_reverse age_key (filter (eligible_version c referenced now) versions)"

definition retained_versions ::
  "retention_config \<Rightarrow> oci_certificate_version list \<Rightarrow> int list \<Rightarrow> instant \<Rightarrow> oci_certificate_version list" where
  "retained_versions c versions referenced now =
     slice_to (keep_deprecated_versions c) (eligible_versions c versions referenced now)"

definition plan_retention ::
  "retention_config \<Rightarrow> oci_certificate_version list \<Rightarrow> int list \<Rightarrow> instant \<Rightarrow> retention_plan" where
  "plan_retention c versions referenced now =
     (let deletion_time = now + deletion_delay_days c * day;
          eligible = eligible_versions c versions referenced now;
          retained_numbers = map version_number (retained_versions c versions referenced now)
      in if \<not> retention_enabled c
         then \<lparr>plan_versions = [], plan_deletion_time = deletion_time\<rparr>
         else
           \<lparr>plan_versions =
              map version_number (filter (\<lambda>v. \<not> List.member retained_numbers (version_number v)) eligible),
            plan_deletion_time = deletion_time\<rparr>)"

subsection \<open>What a plan schedules\<close>

lemma planned_mem:
  "n \<in> set (plan_versions (plan_retention c versions referenced now)) \<longleftrightarrow>
     retention_enabled c \<and>
     (\<exists>v\<in>set versions. version_number v = n \<and> eligible_version c referenced now v) \<and>
     n \<notin> version_number ` set (retained_versions c versions referenced now)"
  by (auto simp: plan_retention_def Let_def eligible_versions_def)

lemma retained_mem:
  "v \<in> set (retained_versions c versions referenced now) \<Longrightarrow> v \<in> set versions \<and> eligible_version c referenced now v"
  by (auto simp: retained_versions_def eligible_versions_def slice_to_def dest!: in_set_takeD split: if_splits)

lemma retained_newest:
  assumes "v \<in> set (retained_versions c versions referenced now)"
    and "v' \<in> set versions" "eligible_version c referenced now v'" "v' \<notin> set (retained_versions c versions referenced now)"
  shows "age_key v' \<le> age_key v"
  using assms sorted_reverse_descending unfolding retained_versions_def eligible_versions_def
  by (intro slice_descending[of age_key]) auto

text \<open>With distinct version numbers, everything eligible but the newest \<open>keep\<close> is scheduled, once.\<close>

lemma planned_count:
  assumes "retention_enabled c" and "0 \<le> keep_deprecated_versions c" and "distinct (map version_number versions)"
  shows "distinct (plan_versions (plan_retention c versions referenced now))"
    and "length (plan_versions (plan_retention c versions referenced now)) =
       length (filter (eligible_version c referenced now) versions) - nat (keep_deprecated_versions c)"
proof -
  let ?e = "eligible_versions c versions referenced now"
  let ?k = "nat (keep_deprecated_versions c)"
  have d: "distinct (map version_number ?e)"
    using assms(3) by (simp add: eligible_versions_def distinct_map_filter)
  have "filter (\<lambda>v. version_number v \<notin> version_number ` set (take ?k ?e)) ?e = drop ?k ?e"
  proof -
    have "distinct (map version_number (take ?k ?e @ drop ?k ?e))" using d by simp
    then have "version_number ` set (take ?k ?e) \<inter> version_number ` set (drop ?k ?e) = {}"
      unfolding map_append distinct_append set_map by blast
    then have "filter (\<lambda>v. version_number v \<notin> version_number ` set (take ?k ?e)) (take ?k ?e @ drop ?k ?e) = drop ?k ?e"
      unfolding filter_append by (auto simp: filter_empty_conv filter_id_conv)
    then show ?thesis by simp
  qed
  then have plan: "plan_versions (plan_retention c versions referenced now) = map version_number (drop ?k ?e)"
    using assms(1,2) by (simp add: plan_retention_def Let_def retained_versions_def slice_to_def)
  show "distinct (plan_versions (plan_retention c versions referenced now))"
    using d by (simp add: plan flip: drop_map)
  show "length (plan_versions (plan_retention c versions referenced now)) =
       length (filter (eligible_version c referenced now) versions) - ?k"
    by (simp add: plan eligible_versions_def)
qed

subsection \<open>Properties\<close>

text \<open>C27
  Only versions of the list are scheduled for deletion, and only ones OCI has deprecated and put
  in no protected stage, which nothing refers to, whose deletion is not under way and which are
  at least the minimum age old; with retention disabled none is.\<close>

theorem retention_safe:
  assumes "n \<in> set (plan_versions (plan_retention c versions referenced now))"
  shows "retention_enabled c \<and> n \<notin> set referenced \<and>
     (\<exists>v\<in>set versions. version_number v = n \<and> ''DEPRECATED'' \<in> set (stages v) \<and>
        set (stages v) \<inter> {''CURRENT'', ''PENDING'', ''PREVIOUS'', ''LATEST'', ''PENDING_ACTIVATION''} = {} \<and>
        time_of_deletion v = None \<and>
        (\<exists>t. time_created v = Some t \<and> t + minimum_age_days c * (86400 * second) \<le> now))"
proof -
  from assms obtain v where "retention_enabled c" and v: "v \<in> set versions" "version_number v = n"
      "eligible_version c referenced now v"
    unfolding planned_mem by blast
  moreover from v(2,3) obtain t where "time_created v = Some t" "t + minimum_age_days c * (86400 * second) \<le> now"
    by (auto simp: eligible_version_def split: option.splits)
  ultimately show ?thesis
    by (auto simp: eligible_version_def protected_stages_def)
qed

definition dated_version :: "int \<Rightarrow> string list \<Rightarrow> instant \<Rightarrow> oci_certificate_version" where
  "dated_version n names t =
     \<lparr>version_number = n, ver_name = None, stages = names, time_created = Some t, time_of_deletion = None, ver_etag = None\<rparr>"

definition old_versions :: "oci_certificate_version list" where
  "old_versions =
     [dated_version 1 [''DEPRECATED''] 0, dated_version 2 [''DEPRECATED''] 5, dated_version 3 [''PREVIOUS''] 6,
      dated_version 4 [''CURRENT'', ''LATEST''] 7]"

definition keep_one :: retention_config where
  "keep_one = \<lparr>retention_enabled = True, keep_deprecated_versions = 1, minimum_age_days = 30, deletion_delay_days = 30\<rparr>"

lemma old_versions_plan: "plan_versions (plan_retention keep_one old_versions [] (31 * day)) = [1]"
  by code_simp

theorem retention_safe_witness: "\<exists>v\<in>set old_versions. version_number v = 1 \<and> ''DEPRECATED'' \<in> set (stages v)"
  using retention_safe[of 1 keep_one old_versions "[]" "31 * day"] old_versions_plan by auto

text \<open>The versions a plan keeps for rollback are the most recent of the eligible ones: none that is
  scheduled was created after one that is kept.\<close>

theorem retention_keeps_newest:
  assumes "n \<in> set (plan_versions (plan_retention c versions referenced now))"
    and "v \<in> set versions" and "version_number v = n" and "eligible_version c referenced now v"
    and "kept \<in> set (retained_versions c versions referenced now)"
  shows "kept \<in> set versions \<and> eligible_version c referenced now kept \<and> age_key v \<le> age_key kept"
  using assms retained_mem[OF assms(5)] retained_newest[OF assms(5,2,4)] by (auto simp: planned_mem)

theorem retention_keeps_newest_witness:
  "age_key (dated_version 1 [''DEPRECATED''] 0) \<le> age_key (dated_version 2 [''DEPRECATED''] 5)"
proof -
  have "retained_versions keep_one old_versions [] (31 * day) = [dated_version 2 [''DEPRECATED''] 5]" by code_simp
  moreover have "eligible_version keep_one [] (31 * day) (dated_version 1 [''DEPRECATED''] 0)" by code_simp
  ultimately show ?thesis
    using retention_keeps_newest[of 1 keep_one old_versions "[]" "31 * day" "dated_version 1 [''DEPRECATED''] 0"
        "dated_version 2 [''DEPRECATED''] 5"] old_versions_plan
    by (auto simp: old_versions_def dated_version_def)
qed

text \<open>With distinct version numbers a plan schedules everything that is eligible except the
  configured number of versions, each of them once.\<close>

theorem retention_count:
  assumes "retention_enabled c" and "0 \<le> keep_deprecated_versions c" and "distinct (map version_number versions)"
  shows "distinct (plan_versions (plan_retention c versions referenced now)) \<and>
     length (plan_versions (plan_retention c versions referenced now)) =
       length (filter (eligible_version c referenced now) versions) - nat (keep_deprecated_versions c)"
  using planned_count[OF assms] by blast

theorem retention_count_witness:
  "distinct (plan_versions (plan_retention keep_one old_versions [] (31 * day)))"
  by (rule conjunct1[OF retention_count])
    (simp_all add: keep_one_def old_versions_def dated_version_def)

end
