(* ===== verification/Challenge.thy ===== *)
theory Challenge
  imports Files
begin

section \<open>Challenge files\<close>

text \<open>
  The files of the HTTP-01 challenge: the reader of \<open>http01_paths.py\<close>, which the responder uses,
  and the two functions of \<open>http01_preflight.py\<close> that write and remove a token, which the
  preflight and the ACME service use. The reader goes from directory to directory by descriptor
  and never follows a link below the web root.
\<close>

subsection \<open>Reading\<close>

text \<open>\<open>os.open(name, flags | O_NOFOLLOW, dir_fd=d)\<close>.\<close>

definition open_at :: "fs \<Rightarrow> path \<Rightarrow> string \<Rightarrow> lib_exn + (path \<times> node)" where
  "open_at f d name =
     (if name = [] then Inl ENOENT
      else
        (case walk f False max_links (if startswith name ''/'' then [] else d) (components name) of
           Inl e \<Rightarrow> Inl e
         | Inr q \<Rightarrow>
             (case node_at f q of
                None \<Rightarrow> Inl ENOENT
              | Some (Symlink _ _) \<Rightarrow> Inl ELOOP
              | Some n \<Rightarrow> Inr (q, n))))"

text \<open>With \<open>O_DIRECTORY\<close> as well.\<close>

definition as_directory :: "lib_exn + (path \<times> node) \<Rightarrow> lib_exn + path" where
  "as_directory r =
     (case r of
        Inl e \<Rightarrow> Inl e
      | Inr (q, Directory _ _) \<Rightarrow> Inr q
      | Inr (q, _) \<Rightarrow> Inl ENOTDIR)"

definition open_dir_at :: "path \<Rightarrow> string \<Rightarrow> path syscall" where
  "open_dir_at d name f = (case as_directory (open_at f d name) of Inl e \<Rightarrow> Inl e | Inr q \<Rightarrow> Inr (q, f))"

definition open_root :: "path \<Rightarrow> path syscall" where
  "open_root p f =
     (case stat_at f False p of
        Inl e \<Rightarrow> Inl e
      | Inr (_, Symlink _ _) \<Rightarrow> Inl ELOOP
      | Inr r \<Rightarrow> (case as_directory (Inr r) of Inl e \<Rightarrow> Inl e | Inr q \<Rightarrow> Inr (q, f)))"

definition open_file_at :: "path \<Rightarrow> string \<Rightarrow> node syscall" where
  "open_file_at d name f = (case open_at f d name of Inl e \<Rightarrow> Inl e | Inr (_, n) \<Rightarrow> Inr (n, f))"

record challenge_reader =
  reader_base :: path
  max_file_bytes :: int
  reader_owner :: int

primrec descend :: "'w mount \<Rightarrow> path \<Rightarrow> string list \<Rightarrow> ('w, exn, path) prog" where
  "descend K d [] = return d"
| "descend K d (c # cs) = bind (sys K (open_dir_at d c)) (\<lambda>d'. descend K d' cs)"

definition open_challenge_directory :: "'w mount \<Rightarrow> challenge_reader \<Rightarrow> string \<Rightarrow> ('w, exn, path) prog" where
  "open_challenge_directory K R webroot =
     bind (sys K (open_root (reader_base R))) (\<lambda>d.
       try_except (descend K d [webroot, ''.well-known'', ''acme-challenge'']) (\<lambda>e.
         if is_OSError e then Some (raise (ChallengeFileError ''challenge directory is unavailable'')) else None))"

definition challenge_content :: "challenge_reader \<Rightarrow> node \<Rightarrow> exn + string" where
  "challenge_content R n =
     (case n of
        Regular uid mode content \<Rightarrow>
          if uid \<noteq> reader_owner R then Inl (ChallengeFileError ''challenge file ownership is invalid'')
          else if mode AND 0x12 \<noteq> 0 then Inl (ChallengeFileError ''challenge file permissions are unsafe'')
          else if max_file_bytes R < int (length content)
          then Inl (ChallengeFileError ''challenge file exceeds maximum size'')
          else Inr content
      | _ \<Rightarrow> Inl (ChallengeFileError ''challenge file is not regular''))"

definition read_token :: "'w mount \<Rightarrow> challenge_reader \<Rightarrow> path \<Rightarrow> string \<Rightarrow> ('w, exn, string) prog" where
  "read_token K R d token =
     bind
       (try_except (sys K (open_file_at d token)) (\<lambda>e.
          if is_OSError e then Some (raise (ChallengeFileError ''challenge file is unavailable'')) else None))
       (\<lambda>n. lift (challenge_content R n))"

definition read_challenge :: "'w mount \<Rightarrow> challenge_reader \<Rightarrow> string \<Rightarrow> string \<Rightarrow> ('w, exn, string) prog" where
  "read_challenge K R webroot token =
     bind (open_challenge_directory K R webroot) (\<lambda>d. read_token K R d token)"

subsection \<open>Writing and removing\<close>

text \<open>\<open>path.mkdir(mode, parents=True, exist_ok=True)\<close>: missing parents first, with the default mode.\<close>

function mkdir_parents :: "'w mount \<Rightarrow> 32 word \<Rightarrow> path \<Rightarrow> ('w, exn, unit) prog" where
  "mkdir_parents K mode p =
     (let here = sys K (make_dir (euid K) (created_mode K mode) p);
          tolerate = (\<lambda>e. bind (sys K (observe (is_dir p))) (\<lambda>d. if d then return () else raise e))
      in try_except here (\<lambda>e.
           if \<not> is_OSError e then None
           else if e = Lib ENOENT then
             (if p = [] then None
              else Some
                (seq (mkdir_parents K 0x1FF (butlast p))
                (try_except here (\<lambda>e'.
                   if \<not> is_OSError e' \<or> e' = Lib ENOENT then None else Some (tolerate e')))))
           else Some (tolerate e)))"
  by pat_completeness auto
termination by (relation "measure (\<lambda>(K, mode, p). length p)") auto

declare mkdir_parents.simps [simp del]

text \<open>Root gives the file to the account of the publisher, which \<open>publisher_uid\<close> looks up, and may not find, then.\<close>

definition give_to_publisher :: "'w mount \<Rightarrow> exn + int \<Rightarrow> path \<Rightarrow> ('w, exn, unit) prog" where
  "give_to_publisher K publisher fd =
     (if euid K = 0 then bind (lift publisher) (\<lambda>uid. sys K (alter False (with_owner uid) fd)) else return ())"

definition write_challenge :: "'w mount \<Rightarrow> exn + int \<Rightarrow> path \<Rightarrow> string \<Rightarrow> string \<Rightarrow> ('w, exn, unit) prog" where
  "write_challenge K publisher d name content =
     seq (mkdir_parents K 0x5E8 d)
     (bind (token_hex K 12) (\<lambda>hex.
      let temporary = d @ [''.'' @ name @ ''.'' @ hex]
      in bind (sys K (create_file (euid K) (created_mode K 0x1A0) temporary)) (\<lambda>fd.
         seq (bind (write_count K) (\<lambda>n. sys K (append_bytes fd (take (Suc n) content))))
         (seq (give_to_publisher K publisher fd)
         (seq (sys K (observe (\<lambda>_. ())))
         (sys K (replace_entry temporary (d @ [name]))))))))"

definition remove_challenge :: "'w mount \<Rightarrow> path \<Rightarrow> ('w, exn, unit) prog" where
  "remove_challenge K p =
     try_except (sys K (unlink_entry p)) (\<lambda>e. if e = Lib ENOENT then Some (return ()) else None)"

definition challenge_directory :: "string \<Rightarrow> string \<Rightarrow> path" where
  "challenge_directory base webroot = components base @ [webroot, ''.well-known'', ''acme-challenge'']"

subsection \<open>Confinement\<close>

text \<open>
  \<open>served f d webroot token content\<close>: below the directory \<open>d\<close>, through directories that are
  no links, the entry \<open>token\<close> is a regular file with that content, safe owner and mode.
\<close>

definition served :: "challenge_reader \<Rightarrow> fs \<Rightarrow> path \<Rightarrow> string \<Rightarrow> string \<Rightarrow> string \<Rightarrow> bool" where
  "served R f d webroot token content \<longleftrightarrow>
     is_directory (node_at f d) \<and> is_directory (node_at f (d @ [webroot])) \<and>
     is_directory (node_at f (d @ [webroot, ''.well-known''])) \<and>
     is_directory (node_at f (d @ [webroot, ''.well-known'', ''acme-challenge''])) \<and>
     (\<exists>mode. node_at f (d @ [webroot, ''.well-known'', ''acme-challenge'', token]) =
        Some (Regular (reader_owner R) mode content) \<and> mode AND 0x12 = 0) \<and>
     int (length content) \<le> max_file_bytes R"

definition one_component :: "string \<Rightarrow> bool" where
  "one_component c \<longleftrightarrow> c \<noteq> [] \<and> c \<noteq> ''.'' \<and> c \<noteq> ''..'' \<and> CHR ''/'' \<notin> set c"

lemma split_on_none: "c \<notin> set s \<Longrightarrow> split_on c s = [s]"
  by (induction s) auto

lemma components_one: "one_component c \<Longrightarrow> components c = [c]"
  by (simp add: components_def one_component_def split_on_none)

lemma one_component_relative: "one_component c \<Longrightarrow> \<not> startswith c ''/''"
  by (cases c) (auto simp: one_component_def startswith_def)

lemma open_at_one:
  assumes "one_component c"
  shows "open_at f d c =
     (case node_at f (d @ [c]) of
        None \<Rightarrow> Inl ENOENT | Some (Symlink _ _) \<Rightarrow> Inl ELOOP | Some n \<Rightarrow> Inr (d @ [c], n))"
  using assms one_component_relative[OF assms]
  by (auto simp: open_at_def components_one one_component_def split: option.splits node.splits)

lemma open_dir_at_one:
  "one_component c \<Longrightarrow> open_dir_at d c f = Inr (q, f') \<longleftrightarrow> q = d @ [c] \<and> f' = f \<and> is_directory (node_at f (d @ [c]))"
  by (auto simp: open_dir_at_def as_directory_def open_at_one split: option.splits node.splits)

lemma open_root_directory: "open_root p f = Inr (q, f') \<Longrightarrow> f' = f \<and> resolve f False p = Inr q \<and> is_directory (node_at f q)"
  by (auto simp: open_root_def as_directory_def stat_at_def split: option.splits node.splits sum.splits prod.splits)

lemma well_known_components: "one_component ''.well-known''" "one_component ''acme-challenge''"
  by (simp_all add: one_component_def)

text \<open>The reader changes nothing, and returns only what is served from under the web root.\<close>

lemma wp_read_challenge:
  assumes K: "mount_law K" and "one_component webroot" and "one_component token"
  shows "wp (read_challenge K R webroot token)
     (\<lambda>content w'. disk K w' = disk K w \<and>
        (\<exists>d. resolve (disk K w) False (reader_base R) = Inr d \<and> served R (disk K w) d webroot token content))
     (\<lambda>_ w'. disk K w' = disk K w) w"
proof -
  let ?f = "disk K w"
  have step: "wp (sys K (open_dir_at d c)) Q E w'"
    if "disk K w' = ?f" "one_component c"
      "\<And>w''. disk K w'' = ?f \<Longrightarrow> is_directory (node_at ?f (d @ [c])) \<Longrightarrow> Q (d @ [c]) w''" "\<And>e w''. disk K w'' = ?f \<Longrightarrow> E e w''"
    for d c Q E w'
    by (rule wp_sys[OF K]) (use that in \<open>auto simp: open_dir_at_one\<close>)
  let ?found = "\<lambda>d d'. d' = d @ [webroot, ''.well-known'', ''acme-challenge''] \<and> is_directory (node_at ?f (d @ [webroot])) \<and>
     is_directory (node_at ?f (d @ [webroot, ''.well-known''])) \<and> is_directory (node_at ?f d')"
  have descend: "wp (descend K d [webroot, ''.well-known'', ''acme-challenge''])
     (\<lambda>d' w'. disk K w' = ?f \<and> ?found d d') (\<lambda>_ w'. disk K w' = ?f) w'" if "disk K w' = ?f" for d w'
    unfolding descend.simps wp_bind
    by (intro step) (use that assms(2) well_known_components in \<open>auto simp: wp_return\<close>)
  have opened: "wp (open_challenge_directory K R webroot)
     (\<lambda>d' w'. disk K w' = ?f \<and> (\<exists>d. resolve ?f False (reader_base R) = Inr d \<and> is_directory (node_at ?f d) \<and> ?found d d'))
     (\<lambda>_ w'. disk K w' = ?f) w"
    unfolding open_challenge_directory_def wp_bind wp_try_except
  proof (rule wp_sys[OF K])
    fix d f w'
    assume "open_root (reader_base R) ?f = Inr (d, f)" "disk K w' = f"
    then have "disk K w' = ?f" "resolve ?f False (reader_base R) = Inr d" "is_directory (node_at ?f d)"
      by (auto dest: open_root_directory)
    then show "wp (descend K d [webroot, ''.well-known'', ''acme-challenge''])
       (\<lambda>d' w'. disk K w' = ?f \<and> (\<exists>d. resolve ?f False (reader_base R) = Inr d \<and> is_directory (node_at ?f d) \<and> ?found d d'))
       (\<lambda>e. case if is_OSError e then Some (raise (ChallengeFileError ''challenge directory is unavailable'')) else None of
          None \<Rightarrow> \<lambda>w'. disk K w' = ?f
        | Some k \<Rightarrow> wp k (\<lambda>d' w'. disk K w' = ?f \<and> (\<exists>d. resolve ?f False (reader_base R) = Inr d \<and> is_directory (node_at ?f d) \<and> ?found d d'))
            (\<lambda>_ w'. disk K w' = ?f)) w'"
      by (intro wp_mono[OF descend]) (auto simp: wp_raise)
  qed simp
  have token: "wp (read_token K R d token)
     (\<lambda>content w'. disk K w' = ?f \<and> (\<exists>mode. node_at ?f (d @ [token]) = Some (Regular (reader_owner R) mode content) \<and> mode AND 0x12 = 0) \<and>
        int (length content) \<le> max_file_bytes R)
     (\<lambda>_ w'. disk K w' = ?f) w'" if "disk K w' = ?f" for d w'
    unfolding read_token_def wp_bind wp_try_except
    by (rule wp_sys[OF K])
      (use that assms(3) in \<open>auto simp: open_file_at_def open_at_one challenge_content_def wp_lift wp_raise
         split: option.splits node.splits sum.splits\<close>)
  show ?thesis
    unfolding read_challenge_def wp_bind
    by (rule wp_mono[OF opened]) (auto simp: served_def intro!: wp_mono[OF token])
qed

subsection \<open>What is written is served\<close>

lemma make_dir_taken: "plain f d \<Longrightarrow> make_dir uid m d f = Inl EEXIST"
  using plain_node[of f d] by (auto simp: make_dir_def new_entry_def resolve_plain elim: is_directoryE)

lemma wp_mkdir_parents_plain:
  assumes K: "mount_law K"
  shows "plain (disk K w) d \<Longrightarrow>
     wp (mkdir_parents K mode d) (\<lambda>_ w'. disk K w' = disk K w) (\<lambda>_ w'. disk K w' = disk K w) w"
proof (induction d arbitrary: mode w rule: rev_induct)
  case Nil
  have here: "wp (sys K (make_dir u m [])) Q E w'" if "\<And>e w''. disk K w'' = disk K w' \<Longrightarrow> E e w''" for u m Q E w'
    by (rule wp_sys[OF K]) (use that in \<open>auto simp: make_dir_taken\<close>)
  show ?case
    unfolding mkdir_parents.simps[of K mode "[]"] Let_def wp_try_except
    by (rule here) (auto simp: wp_simps intro!: wp_observe[OF K])
next
  case (snoc c d)
  have here: "wp (sys K (make_dir u m (d @ [c]))) Q E w'"
    if "disk K w' = disk K w" "\<And>e w''. disk K w'' = disk K w' \<Longrightarrow> E e w''" for u m Q E w'
    by (rule wp_sys[OF K]) (use that snoc.prems in \<open>auto simp: make_dir_taken\<close>)
  have tolerate: "wp (bind (sys K (observe (is_dir (d @ [c])))) (\<lambda>d. if d then return () else raise e))
     (\<lambda>_ w'. disk K w' = disk K w) (\<lambda>_ w'. disk K w' = disk K w) w'" if "disk K w' = disk K w" for e w'
    using that by (auto simp: wp_simps intro!: wp_observe[OF K])
  have parent: "wp (mkdir_parents K m d) (\<lambda>_ w'. disk K w' = disk K w) (\<lambda>_ w'. disk K w' = disk K w) w'"
    if "disk K w' = disk K w" for m w'
    using snoc.IH[of w' m] snoc.prems that by (simp add: plain_snoc)
  show ?case
    unfolding mkdir_parents.simps[of K mode "d @ [c]"] Let_def wp_try_except
    by (rule here)
      (auto simp: wp_seq wp_try_except split: option.splits intro!: tolerate wp_mono[OF parent] here)
qed

text \<open>A write takes the whole of a short content, as on a regular file.\<close>

definition writes_whole :: "'w mount \<Rightarrow> string \<Rightarrow> bool" where
  "writes_whole K content \<longleftrightarrow> (\<forall>w. length content \<le> Suc (fst (chunk K w)))"

definition writer_uid :: "'w mount \<Rightarrow> int \<Rightarrow> int" where
  "writer_uid K publisher = (if euid K = 0 then publisher else euid K)"

lemma safe_challenge_mode: "created_mode K 0x1A0 AND 0x12 = 0"
proof -
  have "created_mode K 0x1A0 AND 0x12 = (0x1A0 AND 0x12) AND NOT (umask K)"
    by (simp add: created_mode_def ac_simps)
  then show ?thesis by simp
qed

lemma wp_write_challenge:
  assumes K: "mount_law K" and d: "plain (disk K w) d" and name: "one_component name" and all: "writes_whole K content"
  shows "wp (write_challenge K (Inr publisher) d name content)
     (\<lambda>_ w'. plain (disk K w') d \<and>
        node_at (disk K w') (d @ [name]) = Some (Regular (writer_uid K publisher) (created_mode K 0x1A0) content))
     (\<lambda>_ w'. plain (disk K w') d) w"
proof -
  let ?t = "\<lambda>hex. ''.'' @ name @ ''.'' @ hex"
  let ?J = "\<lambda>hex uid text f. plain f d \<and> node_at f (d @ [?t hex]) = Some (Regular uid (created_mode K 0x1A0) text)"
  have t: "?t hex \<noteq> ''..''" for hex using name by (cases name) (simp_all add: one_component_def)
  have upd: "?J hex uid text (AList.update (d @ [?t hex]) (Regular uid (created_mode K 0x1A0) text) f)" if "plain f d" for hex uid "text" f
    using that by (simp add: node_at_update plain_update)
  have created: "a = d @ [?t hex] \<and> ?J hex (euid K) [] f'"
    if "create_file (euid K) (created_mode K 0x1A0) (d @ [?t hex]) f = Inr (a, f')" "plain f d" for hex a f f'
    using that t[of hex] upd[OF that(2), of hex "euid K" "[]"] by (auto simp: create_file_def new_entry_plain split: if_splits)
  have written: "wp (bind (write_count K) (\<lambda>n. sys K (append_bytes (d @ [?t hex]) (take (Suc n) content)))) Q E w'"
    if "?J hex (euid K) [] (disk K w')" "\<And>w''. ?J hex (euid K) content (disk K w'') \<Longrightarrow> Q () w''"
      "\<And>e w''. plain (disk K w'') d \<Longrightarrow> E e w''" for hex Q E w'
  proof -
    obtain n o' where n: "chunk K w' = (n, o')" by fastforce
    then have len: "length content \<le> Suc n" and same: "disk K o' = disk K w'"
      using all K by (auto simp: writes_whole_def mount_law_def dest: spec[of _ w'])
    have "wp (sys K (append_bytes (d @ [?t hex]) content)) Q E o'"
      by (rule wp_sys[OF K]) (use that same upd in \<open>auto simp: append_bytes_def\<close>)
    then show ?thesis using n len by (simp add: wp_def write_count_def bind_def)
  qed
  have owned: "wp (give_to_publisher K (Inr publisher) (d @ [?t hex])) Q E w'"
    if "?J hex (euid K) content (disk K w')" "\<And>w''. ?J hex (writer_uid K publisher) content (disk K w'') \<Longrightarrow> Q () w''"
      "\<And>e w''. plain (disk K w'') d \<Longrightarrow> E e w''" for hex Q E w'
  proof -
    have "alter False (with_owner publisher) (d @ [?t hex]) (disk K w') =
        Inr ((), AList.update (d @ [?t hex]) (Regular publisher (created_mode K 0x1A0) content) (disk K w'))"
      using that(1) t[of hex] by (simp add: alter_def stat_entry)
    then show ?thesis
      using that upd[of "disk K w'" hex publisher content]
      by (auto simp: give_to_publisher_def wp_if wp_return wp_bind wp_lift writer_uid_def intro!: wp_sys[OF K])
  qed
  have moved: "plain f' d \<and> node_at f' (d @ [name]) = Some (Regular (writer_uid K publisher) (created_mode K 0x1A0) content)"
    if "replace_entry (d @ [?t hex]) (d @ [name]) f = Inr (a, f')" "?J hex (writer_uid K publisher) content f" for hex a f f'
  proof -
    have "length (?t hex) \<noteq> length name" by simp
    then have "?t hex \<noteq> name" by metis
    then have "f' = AList.update (d @ [name]) (Regular (writer_uid K publisher) (created_mode K 0x1A0) content) (AList.delete (d @ [?t hex]) f)"
      using that t[of hex] name by (auto simp: replace_entry_def stat_entry resolve_entry one_component_def split: if_splits)
    then show ?thesis using that by (simp add: node_at_update plain_update plain_delete)
  qed
  let ?Q = "\<lambda>_ w'. plain (disk K w') d \<and>
     node_at (disk K w') (d @ [name]) = Some (Regular (writer_uid K publisher) (created_mode K 0x1A0) content)"
  let ?E = "\<lambda>_ w'. plain (disk K w') d"
  have finished: "wp (sys K (observe (\<lambda>_. ()))) (\<lambda>_. wp (sys K (replace_entry (d @ [?t hex]) (d @ [name]))) ?Q ?E) ?E w'"
    if "?J hex (writer_uid K publisher) content (disk K w')" for hex w'
    by (rule wp_observe[OF K]) (use that moved[of hex] in \<open>auto intro!: wp_sys[OF K]\<close>)
  have filled: "wp (sys K (create_file (euid K) (created_mode K 0x1A0) (d @ [?t hex])))
     (\<lambda>fd. wp (seq (bind (write_count K) (\<lambda>n. sys K (append_bytes fd (take (Suc n) content))))
         (seq (give_to_publisher K (Inr publisher) fd)
         (seq (sys K (observe (\<lambda>_. ()))) (sys K (replace_entry (d @ [?t hex]) (d @ [name])))))) ?Q ?E) ?E w'"
    if "plain (disk K w') d" for hex w'
  proof (rule wp_sys[OF K])
    fix a f w1
    assume "create_file (euid K) (created_mode K 0x1A0) (d @ [?t hex]) (disk K w') = Inr (a, f)" "disk K w1 = f"
    with created[OF _ that] have a: "a = d @ [?t hex]" and J: "?J hex (euid K) [] (disk K w1)" by blast+
    show "wp (seq (bind (write_count K) (\<lambda>n. sys K (append_bytes a (take (Suc n) content))))
         (seq (give_to_publisher K (Inr publisher) a)
         (seq (sys K (observe (\<lambda>_. ()))) (sys K (replace_entry (d @ [?t hex]) (d @ [name])))))) ?Q ?E w1"
      unfolding a wp_seq by (intro written[OF J] owned finished) simp_all
  qed (use that in simp)
  show ?thesis
    unfolding write_challenge_def Let_def wp_seq[of "mkdir_parents K m p" for m p] wp_bind[of "token_hex K 12"] wp_bind[of "sys K c" for c]
    by (rule wp_mono[OF wp_mkdir_parents_plain[OF K d]], rule wp_token_hex[OF K], rule filled) (use d in simp_all)
qed

text \<open>A token written into the challenge directory of a web root is served from there.\<close>

lemma served_written:
  assumes "plain f (base @ [webroot, ''.well-known'', ''acme-challenge''])"
    and "node_at f (base @ [webroot, ''.well-known'', ''acme-challenge''] @ [token]) = Some (Regular uid (created_mode K 0x1A0) content)"
    and "reader_owner R = uid" and "int (length content) \<le> max_file_bytes R"
  shows "served R f base webroot token content"
proof -
  have dirs: "is_directory (node_at f p)" if "prefix p (base @ [webroot, ''.well-known'', ''acme-challenge''])" for p
    using plain_prefix[OF assms(1) that] by (rule plain_node)
  show ?thesis
    using assms(2-4) dirs[of base] dirs[of "base @ [webroot]"] dirs[of "base @ [webroot, ''.well-known'']"]
      dirs[of "base @ [webroot, ''.well-known'', ''acme-challenge'']"]
    by (auto simp: served_def safe_challenge_mode prefix_def)
qed

text \<open>Without faults, what is served is what a reader gets.\<close>
lemma wp_read_served:
  assumes K: "mount_law K" "reliable K" and names: "one_component webroot" "one_component token"
    and base: "resolve (disk K w) False (reader_base R) = Inr d" and served: "served R (disk K w) d webroot token content"
  shows "wp (read_challenge K R webroot token) (\<lambda>c w'. c = content \<and> disk K w' = disk K w) (\<lambda>_ _. False) w"
proof -
  let ?f = "disk K w"
  note step = wp_sys_reliable[OF K]
  have root: "open_root (reader_base R) ?f = Inr (d, ?f)"
    using base served by (auto simp: open_root_def stat_at_def as_directory_def served_def elim: is_directoryE)
  have dir: "open_dir_at d' c ?f = Inr (d' @ [c], ?f)" if "one_component c" "is_directory (node_at ?f (d' @ [c]))" for d' c
    using that open_dir_at_one by blast
  obtain mode where token: "node_at ?f (d @ [webroot, ''.well-known'', ''acme-challenge''] @ [token]) = Some (Regular (reader_owner R) mode content)"
      "mode AND 0x12 = 0" "int (length content) \<le> max_file_bytes R"
    using served by (auto simp: served_def)
  then have entry: "open_file_at (d @ [webroot, ''.well-known'', ''acme-challenge'']) token ?f = Inr (Regular (reader_owner R) mode content, ?f)"
    using names(2) by (simp add: open_file_at_def open_at_one)
  have read: "wp (read_token K R (d @ [webroot, ''.well-known'', ''acme-challenge'']) token) (\<lambda>c w'. c = content \<and> disk K w' = ?f) E w'"
    if "disk K w' = ?f" for E w'
    unfolding read_token_def wp_bind wp_try_except
    by (rule step) (use that entry token in \<open>auto simp: wp_lift challenge_content_def\<close>)
  have into: "wp (sys K (open_dir_at d' c)) Q E w'"
    if "disk K w' = ?f" "one_component c" "is_directory (node_at ?f (d' @ [c]))" "\<And>w''. disk K w'' = ?f \<Longrightarrow> Q (d' @ [c]) w''"
    for d' c Q E w'
    by (rule step[where a = "d' @ [c]" and f = ?f]) (use that dir in auto)
  have down: "wp (descend K d [webroot, ''.well-known'', ''acme-challenge''])
      (\<lambda>d'. wp (read_token K R d' token) (\<lambda>c w'. c = content \<and> disk K w' = ?f) (\<lambda>_ _. False)) E w'"
    if "disk K w' = ?f" for E w'
    unfolding descend.simps wp_bind
    by (intro into) (use that served names well_known_components read in \<open>auto simp: served_def wp_return\<close>)
  show ?thesis
    unfolding read_challenge_def open_challenge_directory_def wp_bind wp_try_except
    by (rule step[where a = d and f = ?f]) (simp_all only: root down)
qed

subsection \<open>Properties\<close>

text \<open>C23
  A challenge file written for a web root is what the reader of that web root returns: the writer's
  name, owner and mode are ones the reader accepts.\<close>

theorem challenge_written_is_read:
  assumes "mount_law K" and "reliable K" and "writes_whole K content"
    and "plain (disk K w) (base @ [webroot, ''.well-known'', ''acme-challenge''])"
    and "one_component webroot" and "one_component token"
    and "write_challenge K (Inr publisher) (base @ [webroot, ''.well-known'', ''acme-challenge'']) token content w = (Inr u, w1)"
    and "reader_base R = base" and "reader_owner R = writer_uid K publisher" and "int (length content) \<le> max_file_bytes R"
  shows "fst (read_challenge K R webroot token w1) = Inr content"
proof -
  let ?d = "base @ [webroot, ''.well-known'', ''acme-challenge'']"
  have w1: "plain (disk K w1) ?d"
    "node_at (disk K w1) (?d @ [token]) = Some (Regular (writer_uid K publisher) (created_mode K 0x1A0) content)"
    using wp_Inr[OF wp_write_challenge[OF assms(1,4,6,3)] assms(7)] by simp_all
  have "plain (disk K w1) base" using plain_prefix[OF w1(1)] by simp
  then have "resolve (disk K w1) False (reader_base R) = Inr base" using assms(8) by (simp add: resolve_plain)
  moreover have "served R (disk K w1) base webroot token content"
    by (rule served_written[OF w1(1) _ assms(9,10)]) (use w1(2) in simp)
  ultimately show ?thesis
    using wp_read_served[OF assms(1,2,5,6), of w1 R base content] by (auto simp: wp_def split: prod.splits sum.splits)
qed

text \<open>A disk without faults, whose writes take a few bytes.\<close>

definition web_mount :: "fs mount" where
  "web_mount = \<lparr>disk = id, set_disk = (\<lambda>f w. f), io_fault = (\<lambda>w. (None, w)), token_bytes = (\<lambda>n w. (''t'', w)),
     chunk = (\<lambda>w. (5, w)), euid = 7, umask = 0x12\<rparr>"

definition web_tree :: fs where
  "web_tree =
     [([''web''], Directory 7 0x1ED), ([''web'', ''web''], Directory 7 0x1ED),
      ([''web'', ''web'', ''.well-known''], Directory 7 0x1ED),
      ([''web'', ''web'', ''.well-known'', ''acme-challenge''], Directory 7 0x1ED)]"

definition web_reader :: challenge_reader where
  "web_reader = \<lparr>reader_base = [''web''], max_file_bytes = 4096, reader_owner = 7\<rparr>"

lemma web_mount_laws: "mount_law web_mount" "reliable web_mount" "writes_whole web_mount ''abc''"
  by (simp_all add: mount_law_def reliable_def writes_whole_def web_mount_def)

lemma web_tree_plain: "plain web_tree [''web'', ''web'', ''.well-known'', ''acme-challenge'']"
proof -
  have "plain web_tree ((([] @ [''web'']) @ [''web'']) @ [''.well-known''] @ [''acme-challenge''])"
    unfolding append_assoc[symmetric] plain_snoc by (simp add: web_tree_def node_at_def)
  then show ?thesis by simp
qed

abbreviation web_written :: "(exn + unit) \<times> fs" where
  "web_written \<equiv> write_challenge web_mount (Inr 9) [''web'', ''web'', ''.well-known'', ''acme-challenge''] ''token'' ''abc'' web_tree"

theorem challenge_written_is_read_witness:
  "fst web_written = Inr () \<and> fst (read_challenge web_mount web_reader ''web'' ''token'' (snd web_written)) = Inr ''abc''"
proof -
  have run: "fst web_written = Inr ()" by code_simp
  then have "web_written = (Inr (), snd web_written)" by (simp add: prod_eq_iff)
  moreover have "plain (disk web_mount web_tree) ([''web''] @ [''web'', ''.well-known'', ''acme-challenge''])"
    using web_tree_plain by (simp add: web_mount_def)
  moreover have "one_component ''web''" "one_component ''token''" by (simp_all add: one_component_def)
  moreover have "reader_owner web_reader = writer_uid web_mount 9" "int (length ''abc'') \<le> max_file_bytes web_reader"
      "reader_base web_reader = [''web'']"
    by (simp_all add: web_reader_def writer_uid_def web_mount_def)
  ultimately show ?thesis
    using challenge_written_is_read[OF web_mount_laws, of web_tree "[''web'']" "''web''" "''token''" 9 "()" "snd web_written" web_reader] run
    by simp
qed

end
