(* ===== verification/Preflight.thy ===== *)
theory Preflight
  imports Challenge Config Runtime TlsAudit
begin

section \<open>The HTTP-01 preflight\<close>

text \<open>
  \<open>http01_preflight.py\<close>: a synthetic token is written, requested from every address of every
  domain, and removed. The network is a parameter: resolution, one connection per address, the
  bytes that arrive. Domains and addresses are checked one after the other; the source starts them
  together, and succeeds exactly when all do.
\<close>

subsection \<open>The response\<close>

text \<open>The bytes that arrived, and what a further read gives: the end of the stream or an error.\<close>

type_synonym stream = "string \<times> lib_exn option"

definition crlf :: string where "crlf = [CHR 0x0D, CHR 0x0A]"

text \<open>The text up to and including the first blank line, and the rest.\<close>

fun split_header :: "string \<Rightarrow> (string \<times> string) option" where
  "split_header [] = None"
| "split_header (c # s) =
     (if startswith (c # s) (crlf @ crlf) then Some (crlf @ crlf, drop 4 (c # s))
      else map_option (\<lambda>(h, rest). (c # h, rest)) (split_header s))"

fun split_crlf :: "string \<Rightarrow> string list" where
  "split_crlf [] = [[]]"
| "split_crlf [c] = [[c]]"
| "split_crlf (c # d # s) =
     (if [c, d] = crlf then [] # split_crlf s
      else (case split_crlf (d # s) of [] \<Rightarrow> [[c]] | l # ls \<Rightarrow> (c # l) # ls))"

text \<open>\<open>str.lower\<close> and \<open>str.strip\<close> on text decoded from Latin-1.\<close>

definition lower_latin1 :: "string \<Rightarrow> string" where
  "lower_latin1 s =
     map (\<lambda>c. let n = of_char c :: nat
              in if 0xC0 \<le> n \<and> n \<le> 0xDE \<and> n \<noteq> 0xD7 then char_of (n + 32) else lower_char c) s"

definition space_latin1 :: "char \<Rightarrow> bool" where
  "space_latin1 c \<longleftrightarrow> is_space c \<or> c = CHR 0x85 \<or> c = CHR 0xA0"

definition strip_latin1 :: "string \<Rightarrow> string" where
  "strip_latin1 s = rev (dropWhile space_latin1 (rev (dropWhile space_latin1 s)))"

fun parse_headers :: "(string \<times> string) list \<Rightarrow> string list \<Rightarrow> exn + (string \<times> string) list" where
  "parse_headers seen [] = Inr seen"
| "parse_headers seen (line # lines) =
     (if line = [] then parse_headers seen lines
      else
        (case partition_at (CHR '':'') line of
           (name, found, content) \<Rightarrow>
             if \<not> found then Inl (PreflightError ''HTTP-01 preflight response has malformed header'')
             else if map_of seen (lower_latin1 name) \<noteq> None
             then Inl (PreflightError ''HTTP-01 preflight response repeats a header'')
             else parse_headers ((lower_latin1 name, strip_latin1 content) # seen) lines))"

definition check_head :: "string \<Rightarrow> nat \<Rightarrow> exn + unit" where
  "check_head head n =
     (case split_crlf head of
        [] \<Rightarrow> Inl (PreflightError ''HTTP-01 preflight response was not 200'')
      | first # lines \<Rightarrow>
          if first \<noteq> ''HTTP/1.1 200 OK''
          then Inl (PreflightError ''HTTP-01 preflight response was not 200'')
          else
            (case parse_headers [] lines of
               Inl e \<Rightarrow> Inl e
             | Inr headers \<Rightarrow>
                 if map_of headers ''transfer-encoding'' \<noteq> None
                 then Inl (PreflightError ''HTTP-01 preflight response must not be chunked'')
                 else if map_of headers ''content-length'' \<noteq> Some (digits_of n)
                 then Inl (PreflightError ''HTTP-01 preflight response has unexpected content length'')
                 else Inr ()))"

abbreviation malformed_response :: "exn + 'a" where
  "malformed_response \<equiv> Inl (PreflightError ''HTTP-01 preflight response is malformed'')"

text \<open>The limit of \<open>StreamReader\<close>: the separator must start within it.\<close>

definition stream_limit :: int where "stream_limit = 65536"

definition short_read :: "lib_exn option \<Rightarrow> exn + 'a" where
  "short_read e = (case e of None \<Rightarrow> malformed_response | Some e \<Rightarrow> Inl (Lib e))"

definition check_response :: "stream \<Rightarrow> string \<Rightarrow> exn + unit" where
  "check_response r expected =
     (case split_header (fst r) of
        None \<Rightarrow> if stream_limit < int (length (fst r)) then malformed_response else short_read (snd r)
      | Some (head, rest) \<Rightarrow>
          if stream_limit < int (length head) - 4 then malformed_response
          else
            (case check_head head (length expected) of
               Inl e \<Rightarrow> Inl e
             | Inr _ \<Rightarrow>
                 if length rest < length expected then short_read (snd r)
                 else if take (length expected) rest \<noteq> expected
                 then Inl (PreflightError ''HTTP-01 preflight response body does not match'')
                 else Inr ()))"

subsection \<open>The checks\<close>

record 'w http_network =
  resolve_host :: "string \<Rightarrow> 'w \<Rightarrow> (lib_exn + string list) \<times> 'w"
  http_connect :: "string \<Rightarrow> int \<Rightarrow> int \<Rightarrow> 'w \<Rightarrow> lib_exn option \<times> 'w"
  http_exchange :: "string \<Rightarrow> int \<Rightarrow> 'w \<Rightarrow> (lib_exn + stream) \<times> 'w"
  http_close :: "'w \<Rightarrow> lib_exn option \<times> 'w"
  url_token :: "nat \<Rightarrow> 'w \<Rightarrow> string \<times> 'w"
  total_deadline :: "int \<Rightarrow> 'w \<Rightarrow> bool \<times> 'w"

definition ext :: "('w \<Rightarrow> 'a \<times> 'w) \<Rightarrow> ('w, exn, 'a) prog" where
  "ext f = (\<lambda>w. case f w of (a, w') \<Rightarrow> (Inr a, w'))"

definition ext_try :: "('w \<Rightarrow> (lib_exn + 'a) \<times> 'w) \<Rightarrow> ('w, exn, 'a) prog" where
  "ext_try f = bind (ext f) (\<lambda>r. lift (map_sum Lib id r))"

definition ext_fail :: "('w \<Rightarrow> lib_exn option \<times> 'w) \<Rightarrow> ('w, exn, unit) prog" where
  "ext_fail f = bind (ext f) (\<lambda>r. case r of None \<Rightarrow> return () | Some e \<Rightarrow> raise (Lib e))"

definition resolve_all_addresses :: "'w http_network \<Rightarrow> string \<Rightarrow> ('w, exn, string list) prog" where
  "resolve_all_addresses H hostname =
     bind (ext_try (resolve_host H hostname)) (\<lambda>records.
       let addresses = sort (remdups records)
       in if addresses = [] then raise (PreflightError ''DNS did not return an address'') else return addresses)"

fun preflight_addresses :: "string list \<Rightarrow> bool \<Rightarrow> exn + unit" where
  "preflight_addresses [] reject_non_global = Inr ()"
| "preflight_addresses (a # rest) reject_non_global =
     (case ip_address a of
        None \<Rightarrow> Inl (PreflightError ''DNS returned an invalid IP address'')
      | Some ip \<Rightarrow>
          if reject_non_global \<and> \<not> is_global ip then Inl (PreflightError ''DNS returned a non-global address'')
          else preflight_addresses rest reject_non_global)"

definition request_text :: "string \<Rightarrow> string \<Rightarrow> string" where
  "request_text hostname token =
     ''GET /.well-known/acme-challenge/'' @ token @ '' HTTP/1.1'' @ crlf @ ''Host: '' @ hostname @ crlf @
     ''Connection: close'' @ crlf @ crlf"

definition request_address ::
  "'w http_network \<Rightarrow> self_check_config \<Rightarrow> string \<Rightarrow> string \<Rightarrow> string \<Rightarrow> string \<Rightarrow> ('w, exn, unit) prog" where
  "request_address H c address hostname token expected =
     seq
       (try_except (ext_fail (http_connect H address 80 (connect_timeout_seconds c))) (\<lambda>e.
          if is_OSError e then Some (raise (PreflightError ''unable to connect to resolved address'')) else None))
       (try_finally
          (bind (ext_try (http_exchange H (request_text hostname token) (response_timeout_seconds c))) (\<lambda>r.
             lift (check_response r expected)))
          (ext_fail (http_close H)))"

text \<open>\<open>gather(..., return_exceptions=True)\<close>: the exceptions of the checks, which the caller inspects.\<close>

primrec collect_errors :: "('w, exn, unit) prog list \<Rightarrow> ('w, exn, exn list) prog" where
  "collect_errors [] = return []"
| "collect_errors (m # ms) =
     bind
       (try_except (seq m (return [])) (\<lambda>e. if e = Lib Interrupted then None else Some (return [e])))
       (\<lambda>errors. bind (collect_errors ms) (\<lambda>rest. return (errors @ rest)))"

definition check_domain ::
  "'w http_network \<Rightarrow> self_check_config \<Rightarrow> string \<Rightarrow> string \<Rightarrow> string \<Rightarrow> ('w, exn, unit) prog" where
  "check_domain H c token content domain =
     bind (resolve_all_addresses H domain) (\<lambda>addresses.
     seq (lift (preflight_addresses addresses (self_reject_non_global c)))
     (bind (collect_errors (map (\<lambda>a. request_address H c a domain token content) addresses)) (\<lambda>errors.
       raise_if (errors \<noteq> [] \<and> self_require_all_addresses c)
         (PreflightError ''one or more HTTP-01 addresses failed preflight''))))"

text \<open>The total timeout cancels the checks; whether it passes is up to the outside.\<close>

definition within_total :: "'w http_network \<Rightarrow> int \<Rightarrow> ('w, exn, unit) prog \<Rightarrow> ('w, exn, unit) prog" where
  "within_total H limit m =
     (\<lambda>w. case m w of (r, w1) \<Rightarrow>
        (case total_deadline H limit w1 of (passed, w2) \<Rightarrow>
           if passed then (Inl (Lib TimeoutError), w2) else (r, w2)))"

definition preflight_checks ::
  "'w http_network \<Rightarrow> self_check_config \<Rightarrow> certificate_config \<Rightarrow> string \<Rightarrow> string \<Rightarrow> ('w, exn, unit) prog" where
  "preflight_checks H c cert token content =
     try_except
       (within_total H (total_timeout_seconds c)
          (for_each (domains cert) (check_domain H c token content)))
       (\<lambda>e. if e = Lib TimeoutError
            then Some (raise (PreflightError ''HTTP-01 preflight exceeded its total timeout'')) else None)"

definition run_preflight ::
  "'w mount \<Rightarrow> exn + int \<Rightarrow> 'w http_network \<Rightarrow> http01_config \<Rightarrow> certificate_config \<Rightarrow> ('w, exn, unit) prog" where
  "run_preflight K publisher H c cert =
     (if \<not> self_check_enabled (self_check c) then return ()
      else
        bind (ext (url_token H 32)) (\<lambda>token.
        bind (ext (url_token H 48)) (\<lambda>content.
        let d = challenge_directory (webroot_base c) (webroot_id cert)
        in seq (write_challenge K publisher d token content)
           (try_finally (preflight_checks H (self_check c) cert token content)
              (remove_challenge K (d @ [token]))))))"

subsection \<open>What the response check accepts\<close>

lemma parse_headers_distinct:
  "parse_headers seen lines = Inr hs \<Longrightarrow> distinct (map fst seen) \<Longrightarrow> distinct (map fst hs)"
proof (induction seen lines rule: parse_headers.induct)
  case (2 seen line lines)
  then show ?case
    by (auto simp: map_of_eq_None_iff split: if_splits prod.splits)
qed simp

lemma split_header_append: "split_header s = Some (head, rest) \<Longrightarrow> s = head @ rest"
proof (induction s arbitrary: head rest)
  case (Cons c s)
  show ?case
  proof (cases "startswith (c # s) (crlf @ crlf)")
    case True
    then obtain r where "c # s = (crlf @ crlf) @ r"
      unfolding startswith_prefix prefix_def by blast
    moreover have "head = crlf @ crlf" and "rest = drop 4 (c # s)"
      using True Cons.prems by (simp_all del: append_assoc)
    moreover have "length (crlf @ crlf) = 4" by (simp add: crlf_def)
    ultimately show ?thesis by (metis append_eq_conv_conj)
  qed (use Cons in auto)
qed simp

text \<open>Accepted: one 200 response whose headers are unique and give exactly the expected length, with
  the expected body, unchunked.\<close>

lemma check_head_Inr:
  "check_head head n = Inr u \<longleftrightarrow>
     (\<exists>lines headers. split_crlf head = ''HTTP/1.1 200 OK'' # lines \<and> parse_headers [] lines = Inr headers \<and>
        map_of headers ''transfer-encoding'' = None \<and> map_of headers ''content-length'' = Some (digits_of n))"
  unfolding check_head_def by (auto split: list.splits sum.splits if_splits)

lemma check_response_Inr:
  "check_response r expected = Inr u \<longleftrightarrow>
     (\<exists>head rest. split_header (fst r) = Some (head, rest) \<and> int (length head) \<le> stream_limit + 4 \<and>
        check_head head (length expected) = Inr () \<and> prefix expected rest)"
  unfolding check_response_def short_read_def
  by (auto simp: prefix_def split: option.splits sum.splits if_splits prod.splits)
    (metis append_take_drop_id)+

subsection \<open>What a successful preflight has seen\<close>

text \<open>Domain \<open>d\<close> was answered: its name resolved to at least one address, every address is
  well formed (and global where the configuration asks for it), and at every one of them a request
  for the token got a response with the content.\<close>

definition address_answered ::
  "'w http_network \<Rightarrow> self_check_config \<Rightarrow> string \<Rightarrow> string \<Rightarrow> string \<Rightarrow> string \<Rightarrow> bool" where
  "address_answered H c token content d a \<longleftrightarrow>
     (\<exists>w r w'. http_exchange H (request_text d token) (response_timeout_seconds c) w = (Inr r, w') \<and>
        check_response r content = Inr ())"

definition domain_answered ::
  "'w http_network \<Rightarrow> self_check_config \<Rightarrow> string \<Rightarrow> string \<Rightarrow> string \<Rightarrow> bool" where
  "domain_answered H c token content d \<longleftrightarrow>
     (\<exists>w records w'. resolve_host H d w = (Inr records, w') \<and> records \<noteq> [] \<and>
        (\<forall>a\<in>set records.
           (\<exists>ip. ip_address a = Some ip \<and> (self_reject_non_global c \<longrightarrow> is_global ip)) \<and>
           (self_require_all_addresses c \<longrightarrow> address_answered H c token content d a)))"

lemma ext_try_Inr: "ext_try f w = (Inr a, w') \<longleftrightarrow> f w = (Inr a, w')"
  by (auto simp: ext_try_def ext_def bind_def lift_def split: prod.splits sum.splits)
    (metis map_sum.simps sum.exhaust sum.inject(2) sum.distinct(1) id_apply)+

lemma preflight_addresses_Inr:
  "preflight_addresses as g = Inr u \<longleftrightarrow>
     (\<forall>a\<in>set as. \<exists>ip. ip_address a = Some ip \<and> (g \<longrightarrow> is_global ip))"
  by (induction as) (auto split: option.splits)

lemma try_finally_Inr: "try_finally m f w = (Inr a, w') \<Longrightarrow> \<exists>w1. m w = (Inr a, w1)"
  by (auto simp: try_finally_def split: prod.splits sum.splits)

lemma request_address_Inr:
  assumes "request_address H c a d token content w = (Inr u, w')"
  shows "address_answered H c token content d a"
proof -
  let ?m = "bind (ext_try (http_exchange H (request_text d token) (response_timeout_seconds c)))
              (\<lambda>r. lift (check_response r content))"
  obtain w1 where "try_finally ?m (ext_fail (http_close H)) w1 = (Inr u, w')"
    using assms by (auto simp: request_address_def seq_Inr_iff)
  then obtain w2 where "?m w1 = (Inr u, w2)" using try_finally_Inr by metis
  then show ?thesis
    by (auto simp: address_answered_def bind_Inr_iff ext_try_Inr lift_def)
qed

lemma collect_errors_Nil:
  "collect_errors ms w = (Inr [], w') \<Longrightarrow> m \<in> set ms \<Longrightarrow> \<exists>w1 w2. m w1 = (Inr (), w2)"
proof (induction ms arbitrary: w)
  case (Cons n ms)
  then obtain w1 where n: "try_except (seq n (return [])) (\<lambda>e. if e = Lib Interrupted then None else Some (return [e])) w = (Inr [], w1)"
    and rest: "collect_errors ms w1 = (Inr [], w')"
    by (auto simp: bind_Inr_iff return_def)
  have "\<exists>w2. n w = (Inr (), w2)"
    using n by (auto simp: try_except_def seq_def bind_def return_def split: prod.splits sum.splits if_splits)
  then show ?case using Cons.IH[OF rest] Cons.prems(2) by auto
qed simp

lemma check_domain_Inr:
  assumes "check_domain H c token content d w = (Inr u, w')"
  shows "domain_answered H c token content d"
proof -
  obtain addresses w1 w2 w3 errors where r: "resolve_all_addresses H d w = (Inr addresses, w1)"
    and p: "lift (preflight_addresses addresses (self_reject_non_global c)) w1 = (Inr (), w2)"
    and q: "collect_errors (map (\<lambda>a. request_address H c a d token content) addresses) w2 = (Inr errors, w3)"
    and e: "\<not> (errors \<noteq> [] \<and> self_require_all_addresses c)"
    using assms by (auto simp: check_domain_def bind_Inr_iff seq_Inr_iff raise_if_Inr_iff)
  obtain records where "resolve_host H d w = (Inr records, w1)"
    and a: "addresses = sort (remdups records)" "addresses \<noteq> []"
    using r by (auto simp: resolve_all_addresses_def bind_Inr_iff ext_try_Inr Let_def return_def raise_def split: if_splits)
  moreover have "self_require_all_addresses c \<longrightarrow> (\<forall>x\<in>set addresses. address_answered H c token content d x)"
  proof (intro impI ballI)
    fix x assume "self_require_all_addresses c" and x: "x \<in> set addresses"
    then have "collect_errors (map (\<lambda>a. request_address H c a d token content) addresses) w2 = (Inr [], w3)"
      using q e by simp
    then show "address_answered H c token content d x"
      using collect_errors_Nil[of _ w2 w3 "request_address H c x d token content"] x
      by (force intro: request_address_Inr)
  qed
  ultimately show ?thesis
    using p unfolding domain_answered_def lift_def by (force simp: preflight_addresses_Inr)
qed

lemma for_each_Inr: "for_each xs f w = (Inr u, w') \<Longrightarrow> x \<in> set xs \<Longrightarrow> \<exists>w1 w2. f x w1 = (Inr (), w2)"
  by (induction xs arbitrary: w) (auto simp: bind_Inr_iff)

lemma preflight_checks_Inr:
  assumes "preflight_checks H c cert token content w = (Inr u, w')" and "d \<in> set (domains cert)"
  shows "domain_answered H c token content d"
proof -
  have "\<exists>w1. for_each (domains cert) (check_domain H c token content) w = (Inr u, w1)"
    using assms(1)
    by (auto simp: preflight_checks_def try_except_def within_total_def raise_def split: prod.splits sum.splits option.splits if_splits)
  then show ?thesis using for_each_Inr[OF _ assms(2)] check_domain_Inr by metis
qed

text \<open>Without \<open>require_all_addresses\<close>, a domain passes whatever its addresses answer.\<close>

lemma collect_errors_returns:
  assumes "\<And>m w e w'. m \<in> set ms \<Longrightarrow> m w = (Inl e, w') \<Longrightarrow> e \<noteq> Lib Interrupted"
  shows "\<exists>errors w'. collect_errors ms w = (Inr errors, w')"
  using assms
proof (induction ms arbitrary: w)
  case (Cons m ms)
  obtain r w1 where m: "m w = (r, w1)" by (cases "m w")
  obtain errors w2 where "collect_errors ms w1 = (Inr errors, w2)" using Cons by (meson list.set_intros(2))
  then show ?case
    using m Cons.prems[of m w] by (cases r) (auto simp: bind_def try_except_def seq_def return_def)
qed (simp add: return_def)

subsection \<open>The synthetic token does not stay\<close>

text \<open>The network leaves the files alone.\<close>

definition network_apart :: "'w mount \<Rightarrow> 'w http_network \<Rightarrow> bool" where
  "network_apart K H \<longleftrightarrow>
     (\<forall>h w. disk K (snd (resolve_host H h w)) = disk K w) \<and>
     (\<forall>a p t w. disk K (snd (http_connect H a p t w)) = disk K w) \<and>
     (\<forall>r t w. disk K (snd (http_exchange H r t w)) = disk K w) \<and>
     (\<forall>w. disk K (snd (http_close H w)) = disk K w) \<and>
     (\<forall>n w. disk K (snd (url_token H n w)) = disk K w) \<and>
     (\<forall>t w. disk K (snd (total_deadline H t w)) = disk K w)"

lemma keeps_ext: "(\<And>w. disk K (snd (f w)) = disk K w) \<Longrightarrow> keeps (\<lambda>w. disk K w = g) (ext f)"
  by (auto simp: keeps_def ext_def split: prod.splits) (metis snd_conv)

lemma keeps_ext_try: "(\<And>w. disk K (snd (f w)) = disk K w) \<Longrightarrow> keeps (\<lambda>w. disk K w = g) (ext_try f)"
  unfolding ext_try_def by (intro keeps_intros keeps_ext)

lemma keeps_ext_fail: "(\<And>w. disk K (snd (f w)) = disk K w) \<Longrightarrow> keeps (\<lambda>w. disk K w = g) (ext_fail f)"
  unfolding ext_fail_def by (intro keeps_intros keeps_ext)

lemma keeps_checks:
  assumes "network_apart K H"
  shows "keeps (\<lambda>w. disk K w = g) (preflight_checks H c cert token content)"
proof -
  let ?I = "\<lambda>w. disk K w = g"
  have request: "keeps ?I (request_address H c a d token content)" for a d
    unfolding request_address_def
    by (intro keeps_intros keeps_ext_try keeps_ext_fail)
      (use assms in \<open>auto simp: network_apart_def intro: keeps_raise split: if_splits\<close>)
  have collect: "keeps ?I (collect_errors ms)" if "\<forall>m\<in>set ms. keeps ?I m" for ms
    using that by (induction ms) (auto intro!: keeps_intros split: if_splits)
  have addresses: "keeps ?I (resolve_all_addresses H d)" for d
    unfolding resolve_all_addresses_def Let_def
    by (intro keeps_intros keeps_ext_try) (use assms in \<open>simp add: network_apart_def\<close>)
  have domain: "keeps ?I (check_domain H c token content d)" for d
    unfolding check_domain_def by (intro keeps_intros addresses collect) (auto intro: request)
  have total: "keeps ?I (within_total H t m)" if "keeps ?I m" for t and m :: "('a, exn, unit) prog"
    using that assms unfolding keeps_def within_total_def network_apart_def
    by (auto split: prod.splits) (metis snd_conv)+
  show ?thesis
    unfolding preflight_checks_def
    by (intro keeps_try_except total keeps_for_each domain) (auto intro: keeps_raise split: if_splits)
qed

text \<open>Without faults, removing a token leaves no file of that name, or fails in the system call.\<close>

lemma wp_remove_challenge:
  assumes K: "mount_law K" "reliable K" and d: "plain (disk K w) d" and c: "c \<noteq> ''..''"
  shows "wp (remove_challenge K (d @ [c])) (\<lambda>_ w'. node_at (disk K w') (d @ [c]) = None) (\<lambda>e _. \<exists>l. e = Lib l) w"
  unfolding remove_challenge_def wp_try_except
  by (rule wp_sys_quiet[OF K])
    (use stat_entry[OF d c, of False] in \<open>auto simp: unlink_entry_def wp_return node_at_delete split: option.splits node.splits\<close>)

text \<open>Writing a token raises only what its system calls raise.\<close>

definition raises_lib :: "('w, exn, 'a) prog \<Rightarrow> bool" where
  "raises_lib m \<longleftrightarrow> (\<forall>w. wp m (\<lambda>_ _. True) (\<lambda>e _. \<exists>l. e = Lib l) w)"

lemma raises_lib_sys: "raises_lib (sys K call)"
  by (auto simp: raises_lib_def wp_def sys_def split: prod.splits option.splits sum.splits)

lemma raises_lib_bind: "raises_lib m \<Longrightarrow> (\<And>a. raises_lib (k a)) \<Longrightarrow> raises_lib (bind m k)"
  unfolding raises_lib_def wp_bind by (blast intro: wp_mono)

lemma raises_lib_seq: "raises_lib m \<Longrightarrow> raises_lib n \<Longrightarrow> raises_lib (seq m n)"
  unfolding seq_def by (rule raises_lib_bind)

lemma raises_lib_except:
  assumes "raises_lib m" and "\<And>l k. h (Lib l) = Some k \<Longrightarrow> raises_lib k"
  shows "raises_lib (try_except m h)"
  unfolding raises_lib_def wp_try_except
proof
  fix w
  show "wp m (\<lambda>_ _. True) (\<lambda>e. case h e of None \<Rightarrow> \<lambda>_. \<exists>l. e = Lib l | Some k \<Rightarrow> wp k (\<lambda>_ _. True) (\<lambda>e _. \<exists>l. e = Lib l)) w"
    by (rule wp_mono[OF assms(1)[unfolded raises_lib_def, rule_format]])
      (use assms(2) in \<open>auto simp: raises_lib_def split: option.splits\<close>)
qed

lemma raises_lib_pure: "raises_lib (return a)" "raises_lib (lift (Inr a))" "raises_lib (raise (Lib l))" "raises_lib (token_hex K n)" "raises_lib (write_count K)"
  by (auto simp: raises_lib_def wp_simps) (auto simp: wp_def token_hex_def write_count_def split: prod.splits)

lemma raises_lib_mkdir: "raises_lib (mkdir_parents K mode p)"
proof (induction K mode p rule: mkdir_parents.induct)
  case (1 K mode p)
  show ?case
    unfolding mkdir_parents.simps[of K mode p] Let_def
    by (intro raises_lib_except raises_lib_sys)
      (auto split: if_splits intro!: raises_lib_seq raises_lib_except raises_lib_bind raises_lib_sys raises_lib_pure 1)
qed

lemma raises_lib_write: "raises_lib (write_challenge K (Inr publisher) d name content)"
  unfolding write_challenge_def give_to_publisher_def Let_def
  by (intro raises_lib_seq raises_lib_bind raises_lib_mkdir raises_lib_sys raises_lib_pure)
    (auto intro!: raises_lib_bind raises_lib_sys raises_lib_pure)

lemma wp_try_finally_I:
  assumes "wp m (\<lambda>_. I) (\<lambda>_. I) w" and "\<And>w. I w \<Longrightarrow> wp f (\<lambda>_. J) E w" and "\<And>e w. J w \<Longrightarrow> E e w"
  shows "wp (try_finally m f) (\<lambda>_. J) E w"
  unfolding wp_try_finally
  by (rule wp_mono[OF assms(1)]) (auto intro!: wp_mono[OF assms(2)] assms(3))

lemma wp_run_preflight:
  fixes w :: "'w"
  assumes K: "mount_law K" "reliable K" and H: "network_apart K H" and on: "self_check_enabled (self_check c)"
    and d: "plain (disk K w) (challenge_directory (webroot_base c) (webroot_id cert))"
    and token: "url_token H 32 w = (token, w1)" "one_component token"
    and content: "url_token H 48 w1 = (content, w2)" "writes_whole K content"
  shows "wp (run_preflight K (Inr publisher) H c cert)
     (\<lambda>_ w'. node_at (disk K w') (challenge_directory (webroot_base c) (webroot_id cert) @ [token]) = None)
     (\<lambda>e w'. (\<exists>l. e = Lib l) \<or> node_at (disk K w') (challenge_directory (webroot_base c) (webroot_id cert) @ [token]) = None) w"
proof -
  let ?d = "challenge_directory (webroot_base c) (webroot_id cert)"
  let ?J = "\<lambda>w'. node_at (disk K w') (?d @ [token]) = None"
  have same: "disk K w2 = disk K w"
    using H token(1) content(1) unfolding network_apart_def by (metis snd_conv)
  have dots: "token \<noteq> ''..''" using token(2) by (simp add: one_component_def)
  have checked: "wp (try_finally (preflight_checks H (self_check c) cert token content) (remove_challenge K (?d @ [token])))
      (\<lambda>_. ?J) (\<lambda>e w'. (\<exists>l. e = Lib l) \<or> ?J w') w'" if "plain (disk K w') ?d" for w'
    by (rule wp_try_finally_I[where I = "\<lambda>w''. disk K w'' = disk K w'"])
      (use that in \<open>auto intro!: keeps_wpD[OF keeps_checks[OF H]] wp_mono[OF wp_remove_challenge[OF K _ dots]]\<close>)
  have written: "wp (write_challenge K (Inr publisher) ?d token content)
      (\<lambda>_ w'. plain (disk K w') ?d) (\<lambda>e _. \<exists>l. e = Lib l) w2"
    by (rule wp_mono[OF wp_conj[OF wp_write_challenge[OF K(1) _ token(2) content(2)] raises_lib_write[unfolded raises_lib_def, rule_format]]])
      (use d same in auto)
  have "wp (seq (write_challenge K (Inr publisher) ?d token content)
        (try_finally (preflight_checks H (self_check c) cert token content) (remove_challenge K (?d @ [token]))))
      (\<lambda>_. ?J) (\<lambda>e w'. (\<exists>l. e = Lib l) \<or> ?J w') w2"
    unfolding wp_seq by (rule wp_mono[OF written]) (auto intro: checked)
  moreover have "run_preflight K (Inr publisher) H c cert w =
      seq (write_challenge K (Inr publisher) ?d token content)
        (try_finally (preflight_checks H (self_check c) cert token content) (remove_challenge K (?d @ [token]))) w2"
    using on token(1) content(1) by (simp add: run_preflight_def bind_def ext_def Let_def)
  ultimately show ?thesis by (simp add: wp_def)
qed

lemma collect_all_errors:
  assumes "\<And>m w. m \<in> set ms \<Longrightarrow> \<exists>w'. m w = (Inl (PreflightError t), w')"
  shows "\<exists>errors w'. collect_errors ms w = (Inr errors, w') \<and> length errors = length ms"
  using assms
proof (induction ms arbitrary: w)
  case (Cons m ms)
  obtain w1 where m: "m w = (Inl (PreflightError t), w1)" using Cons.prems by fastforce
  obtain errors w2 where "collect_errors ms w1 = (Inr errors, w2)" "length errors = length ms"
    using Cons.IH[of w1] Cons.prems by (meson list.set_intros(2))
  then show ?case using m by (simp add: run_simps)
qed (simp add: run_return)

subsection \<open>Properties\<close>

text \<open>A network of one host, on the disk of the challenge files: the addresses it resolves to,
  whether it can be reached, and the answer to a request.\<close>

definition one_host :: "string list \<Rightarrow> lib_exn option \<Rightarrow> (string \<Rightarrow> stream) \<Rightarrow> fs http_network" where
  "one_host addresses connection answer =
     \<lparr>resolve_host = (\<lambda>h w. (Inr addresses, w)), http_connect = (\<lambda>a p t w. (connection, w)),
      http_exchange = (\<lambda>r t w. (Inr (answer r), w)), http_close = (\<lambda>w. (None, w)),
      url_token = (\<lambda>n w. (if n = 32 then ''token'' else ''abc'', w)), total_deadline = (\<lambda>t w. (False, w))\<rparr>"

definition good_answer :: "string \<Rightarrow> stream" where
  "good_answer r = (''HTTP/1.1 200 OK'' @ crlf @ ''Content-Length: 3'' @ crlf @ crlf @ ''abc'', None)"

definition web_http :: http01_config where
  "web_http =
     \<lparr>webroot_base = ''/web'',
      responder = \<lparr>bind_address = ''0.0.0.0'', bind_port = 80, health_path = ''/healthz'',
                   readiness_path = ''/readyz'', max_request_body_bytes = 1024,
                   max_challenge_file_bytes = 4096, max_concurrent_requests = 128,
                   request_timeout_seconds = 5, keepalive_timeout_seconds = 5, backlog = 128\<rparr>,
      self_check = \<lparr>self_check_enabled = True, require_all_domains = True,
                    self_require_all_addresses = True, allow_redirects = False,
                    self_reject_non_global = True, connect_timeout_seconds = 3,
                    response_timeout_seconds = 5, total_timeout_seconds = 90\<rparr>\<rparr>"

definition web_certificate :: certificate_config where
  "web_certificate =
     \<lparr>cert_id = ''web'', webroot_id = ''web'', common_name = ''a.example'', domains = [''a.example''],
      key_of = \<lparr>key_family = RSA, rsa_size = Some 2048, ecdsa_curve = None\<rparr>,
      chain_of = \<lparr>root_pem_path = ''/root.pem'', allowed_root_sha256 = [], allowed_issuer_common_names = []\<rparr>,
      oci_of = \<lparr>region = ''r'', compartment_ocid = ''c'', certificate_ocid = None, certificate_name = ''n''\<rparr>,
      audit_of = \<lparr>audit_mode_of = DISABLED, automatic_rollback_on_failure = False,
                  propagation_timeout_seconds = 600, retry_interval_seconds = 15,
                  audit_require_all_addresses = True, audit_reject_non_global = True, endpoints = []\<rparr>,
      retention_of = \<lparr>retention_enabled = True, keep_deprecated_versions = 1, minimum_age_days = 30,
                      deletion_delay_days = 30\<rparr>\<rparr>"

definition preflight_example :: "(exn + unit) \<times> fs" where
  "preflight_example = run_preflight web_mount (Inr 9) (one_host [''8.8.8.8''] None good_answer) web_http web_certificate web_tree"

lemma preflight_example_runs: "preflight_example = (Inr (), web_tree)"
  by code_simp

lemma run_preflight_answered:
  assumes "run_preflight K publisher H c cert w = (Inr u, w')" and "self_check_enabled (self_check c)"
  shows "\<exists>token content. \<forall>d\<in>set (domains cert). domain_answered H (self_check c) token content d"
proof -
  obtain token content w1 w2 where "try_finally (preflight_checks H (self_check c) cert token content)
      (remove_challenge K (challenge_directory (webroot_base c) (webroot_id cert) @ [token])) w1 = (Inr u, w2)"
    using assms by (auto simp: run_preflight_def Let_def bind_Inr_iff seq_Inr_iff)
  then obtain w3 where "preflight_checks H (self_check c) cert token content w1 = (Inr u, w3)"
    using try_finally_Inr by metis
  then show ?thesis using preflight_checks_Inr by metis
qed



text \<open>C26
  The synthetic token does not outlive the preflight: on a disk without faults and with an account of
  the publisher, when the preflight
  returns or is refused by one of its checks, there is no file of that name.\<close>

theorem preflight_leaves_no_token:
  assumes "mount_law K" and "reliable K" and "network_apart K H" and "self_check_enabled (self_check c)"
    and "plain (disk K w) (challenge_directory (webroot_base c) (webroot_id cert))"
    and "url_token H 32 w = (token, w1)" and "one_component token"
    and "url_token H 48 w1 = (content, w2)" and "writes_whole K content"
    and "run_preflight K (Inr publisher) H c cert w = (out, w')" and "\<And>l. out \<noteq> Inl (Lib l)"
  shows "node_at (disk K w') (challenge_directory (webroot_base c) (webroot_id cert) @ [token]) = None"
  using wp_run_preflight[OF assms(1-9), of publisher] assms(10,11) by (auto simp: wp_def split: sum.splits)

theorem preflight_leaves_no_token_witness:
  "node_at (snd preflight_example) [''web'', ''web'', ''.well-known'', ''acme-challenge'', ''token''] = None"
proof -
  let ?H = "one_host [''8.8.8.8''] None good_answer"
  have dir: "challenge_directory (webroot_base web_http) (webroot_id web_certificate) = [''web'', ''web'', ''.well-known'', ''acme-challenge'']"
    by code_simp
  have "network_apart web_mount ?H" by (simp add: network_apart_def one_host_def)
  moreover have "url_token ?H 32 web_tree = (''token'', web_tree)" "url_token ?H 48 web_tree = (''abc'', web_tree)"
    by (simp_all add: one_host_def)
  moreover have "one_component ''token''" "self_check_enabled (self_check web_http)"
    by (simp_all add: one_component_def web_http_def)
  moreover have "plain (disk web_mount web_tree) (challenge_directory (webroot_base web_http) (webroot_id web_certificate))"
    using web_tree_plain unfolding dir by (simp add: web_mount_def)
  moreover have "run_preflight web_mount (Inr 9) ?H web_http web_certificate web_tree = (Inr (), web_tree)"
    using preflight_example_runs by (simp add: preflight_example_def)
  ultimately have "node_at (disk web_mount web_tree) (challenge_directory (webroot_base web_http) (webroot_id web_certificate) @ [''token'']) = None"
    using preflight_leaves_no_token[OF web_mount_laws(1,2), of ?H web_http web_tree web_certificate "''token''" web_tree "''abc''" web_tree
        9 "Inr ()" web_tree] web_mount_laws(3) by simp
  then show ?thesis unfolding dir preflight_example_runs by (simp add: web_mount_def)
qed


text \<open>When no address of a domain can be reached, the domain fails its preflight if all addresses are
  required, and passes otherwise: without \<open>require_all_addresses\<close> not even one has to answer.\<close>

theorem unreachable_addresses:
  assumes "\<And>a p t w. is_OSError (Lib e) \<and> fst (http_connect H a p t w) = Some e"
    and "resolve_host H d w = (Inr records, w1)" and "records \<noteq> []"
    and "\<forall>a\<in>set records. \<exists>ip. ip_address a = Some ip \<and> (self_reject_non_global c \<longrightarrow> is_global ip)"
  shows "fst (check_domain H c token content d w) =
     (if self_require_all_addresses c then Inl (PreflightError ''one or more HTTP-01 addresses failed preflight'') else Inr ())"
proof -
  let ?as = "sort (remdups records)"
  have "\<exists>w'. request_address H c a d token content w = (Inl (PreflightError ''unable to connect to resolved address''), w')" for a w
    using assms(1)[of a 80 "connect_timeout_seconds c" w]
    by (auto simp: request_address_def run_simps ext_fail_def ext_def split: prod.splits)
  then obtain errors w2 where errors: "collect_errors (map (\<lambda>a. request_address H c a d token content) ?as) w1 = (Inr errors, w2)"
      "length errors = length ?as"
    using collect_all_errors[of "map (\<lambda>a. request_address H c a d token content) ?as"
        "''unable to connect to resolved address''" w1] by fastforce
  have some: "?as \<noteq> []" using assms(3) by (metis set_empty set_remdups set_sort)
  have "resolve_all_addresses H d w = (Inr ?as, w1)"
    using assms(2) some by (auto simp: resolve_all_addresses_def ext_try_def ext_def run_simps Let_def)
  moreover have "preflight_addresses ?as (self_reject_non_global c) = Inr ()"
    using assms(4) by (simp add: preflight_addresses_Inr)
  moreover have "errors \<noteq> []" using errors(2) assms(3) by (metis length_0_conv set_empty set_remdups set_sort)
  ultimately show ?thesis using errors(1) by (simp add: check_domain_def run_simps)
qed

theorem unreachable_addresses_witness:
  "fst (check_domain (one_host [''8.8.8.8''] (Some TimeoutError) good_answer) ((self_check web_http)\<lparr>self_require_all_addresses := False\<rparr>)
     ''token'' ''abc'' ''a.example'' web_tree) = Inr ()"
proof -
  let ?H = "one_host [''8.8.8.8''] (Some TimeoutError) good_answer"
  have "case ip_address ''8.8.8.8'' of Some ip \<Rightarrow> is_global ip | None \<Rightarrow> False" by code_simp
  then have good: "\<forall>a\<in>set [''8.8.8.8'']. \<exists>ip. ip_address a = Some ip \<and> (strict \<longrightarrow> is_global ip)" for strict
    by (simp split: option.splits)
  have resolved: "resolve_host ?H ''a.example'' web_tree = (Inr [''8.8.8.8''], web_tree)" by (simp add: one_host_def)
  have refused: "is_OSError (Lib TimeoutError) \<and> fst (http_connect ?H a p t w) = Some TimeoutError" for a p t w
    by (simp add: one_host_def)
  show ?thesis using unreachable_addresses[OF refused resolved _ good] by simp
qed

end
