(* ===== verification/CertificateStore.thy ===== *)
theory CertificateStore
  imports Files X509
begin

section \<open>The store of certificate generations\<close>

text \<open>
  \<open>certificate_store.py\<close>: material is committed as a complete generation directory, and the link
  \<open>current\<close> is then moved to it in one rename. Loading reads through the link, refusing what
  leaves the archive and files with unsafe owners or modes.
\<close>

subsection \<open>Reading\<close>

record pem_libs =
  load_pems :: "string \<Rightarrow> lib_exn + x509 list"
  load_private_key :: "string \<Rightarrow> lib_exn + string"

text \<open>\<open>load_private_key\<close> gives the public key of a PEM private key, which is all that the source
  looks at here.\<close>

abbreviation max_certificate_bytes :: int where "max_certificate_bytes \<equiv> 10240"
abbreviation max_private_key_bytes :: int where "max_private_key_bytes \<equiv> 5120"
abbreviation max_chain_bytes :: int where "max_chain_bytes \<equiv> 51200"

definition checked_content :: "int \<Rightarrow> int \<Rightarrow> bool \<Rightarrow> node \<Rightarrow> exn + string" where
  "checked_content owner limit private n =
     (case n of
        Regular uid mode content \<Rightarrow>
          if uid \<noteq> owner then Inl (CertificateStoreError ''certificate generation file ownership is invalid'')
          else if mode AND 0x12 \<noteq> 0
          then Inl (CertificateStoreError ''certificate generation file permissions are unsafe'')
          else if private \<and> mode AND 0x24 \<noteq> 0
          then Inl (CertificateStoreError ''private key is readable outside publisher account'')
          else if limit < int (length content)
          then Inl (CertificateStoreError ''certificate generation file exceeds size limit'')
          else Inr content
      | _ \<Rightarrow> Inl (CertificateStoreError ''certificate generation file ownership is invalid''))"

definition read_generation_file ::
  "'w mount \<Rightarrow> int \<Rightarrow> path \<Rightarrow> int \<Rightarrow> bool \<Rightarrow> ('w, exn, string) prog" where
  "read_generation_file K owner p limit private =
     bind
       (try_except (sys K (open_nofollow p)) (\<lambda>e.
          if is_OSError e
          then Some (raise (CertificateStoreError ''certificate generation file is unavailable'')) else None))
       (\<lambda>n. lift (checked_content owner limit private n))"

fun is_TypeError :: "exn \<Rightarrow> bool" where
  "is_TypeError (Lib (TypeError _)) = True"
| "is_TypeError _ = False"

definition parse_material ::
  "libs \<Rightarrow> pem_libs \<Rightarrow> string \<Rightarrow> string \<Rightarrow> string \<Rightarrow> exn + lineage_material" where
  "parse_material L X leaf_text chain_text key_text =
     (let parsed =
        (case load_pems X chain_text of
           Inl e \<Rightarrow> Inl (Lib e)
         | Inr inters \<Rightarrow>
             (case load_pem L leaf_text of
                Inl e \<Rightarrow> Inl (Lib e)
              | Inr cert \<Rightarrow>
                  (case load_private_key X key_text of
                     Inl e \<Rightarrow> Inl (Lib e)
                   | Inr public \<Rightarrow>
                       Inr \<lparr>leaf = cert, mat_intermediates = inters, private_key_public_der = public,
                          leaf_pem = leaf_text, chain_pem = chain_text, private_key_pem = key_text\<rparr>)))
      in case parsed of
           Inl e \<Rightarrow>
             if is_TypeError e \<or> is_ValueError e
             then Inl (CertificateStoreError ''native ACME certificate parsing failed'') else Inl e
         | Inr m \<Rightarrow> Inr m)"

record native_store =
  store_root :: path
  expected_owner :: int

definition certificate_store :: "acme_config \<Rightarrow> int \<Rightarrow> native_store" where
  "certificate_store c uid = \<lparr>store_root = components (certificates_dir c), expected_owner = uid\<rparr>"

definition lineage_path :: "native_store \<Rightarrow> string \<Rightarrow> path" where
  "lineage_path S cid = store_root S @ [cid]"

definition current_path :: "native_store \<Rightarrow> string \<Rightarrow> path" where
  "current_path S cid = lineage_path S cid @ [''current'']"

definition generations_path :: "native_store \<Rightarrow> string \<Rightarrow> path" where
  "generations_path S cid = lineage_path S cid @ [''generations'']"

definition lineage_exists :: "'w mount \<Rightarrow> native_store \<Rightarrow> string \<Rightarrow> ('w, exn, bool) prog" where
  "lineage_exists K S cid = sys K (observe (is_symlink (current_path S cid)))"

definition read_generation ::
  "'w mount \<Rightarrow> libs \<Rightarrow> pem_libs \<Rightarrow> native_store \<Rightarrow> path \<Rightarrow> ('w, exn, lineage_material) prog" where
  "read_generation K L X S g =
     bind (read_generation_file K (expected_owner S) (g @ [''cert.pem'']) max_certificate_bytes False) (\<lambda>leaf_text.
     bind (read_generation_file K (expected_owner S) (g @ [''chain.pem'']) max_chain_bytes False) (\<lambda>chain_text.
     bind (read_generation_file K (expected_owner S) (g @ [''privkey.pem'']) max_private_key_bytes True) (\<lambda>key_text.
       lift (parse_material L X leaf_text chain_text key_text))))"

definition load_lineage ::
  "'w mount \<Rightarrow> libs \<Rightarrow> pem_libs \<Rightarrow> native_store \<Rightarrow> string \<Rightarrow> ('w, exn, lineage_material) prog" where
  "load_lineage K L X S cid =
     bind (lineage_exists K S cid) (\<lambda>linked.
     seq (raise_if (\<not> linked) (CertificateStoreError ''native ACME certificate generation is unavailable''))
     (bind (sys K (observe (\<lambda>f. realpath f (current_path S cid)))) (\<lambda>g.
      bind (sys K (observe (\<lambda>f. realpath f (generations_path S cid)))) (\<lambda>archive.
      seq (raise_if (\<not> prefix archive g)
             (CertificateStoreError ''current certificate generation escapes its archive''))
      (bind (sys K (observe (is_dir g))) (\<lambda>found.
       seq (raise_if (\<not> found) (CertificateStoreError ''current certificate generation is unavailable''))
         (read_generation K L X S g)))))))"

subsection \<open>Committing\<close>

definition set_owner_if_root :: "'w mount \<Rightarrow> native_store \<Rightarrow> path \<Rightarrow> ('w, exn, unit) prog" where
  "set_owner_if_root K S p =
     (if euid K = 0 then sys K (alter True (with_owner (expected_owner S)) p) else return ())"

text \<open>\<open>path.mkdir(mode, exist_ok=True)\<close>.\<close>

definition mkdir_exist_ok :: "'w mount \<Rightarrow> 32 word \<Rightarrow> path \<Rightarrow> ('w, exn, unit) prog" where
  "mkdir_exist_ok K mode p =
     try_except (sys K (make_dir (euid K) (created_mode K mode) p)) (\<lambda>e.
       if \<not> is_OSError e \<or> e = Lib ENOENT then None
       else Some (bind (sys K (observe (is_dir p))) (\<lambda>d. if d then return () else raise e)))"

definition ensure_directory :: "'w mount \<Rightarrow> native_store \<Rightarrow> path \<Rightarrow> ('w, exn, unit) prog" where
  "ensure_directory K S p =
     seq (mkdir_exist_ok K 0x1C0 p)
     (seq (sys K (alter True (with_mode 0x1C0) p))
     (set_owner_if_root K S p))"

definition write_new :: "'w mount \<Rightarrow> native_store \<Rightarrow> path \<Rightarrow> string \<Rightarrow> 32 word \<Rightarrow> ('w, exn, unit) prog" where
  "write_new K S p content mode =
     bind (sys K (create_file (euid K) (created_mode K mode) p)) (\<lambda>fd.
     seq (if euid K = 0 then sys K (alter False (with_owner (expected_owner S)) fd) else return ())
     (seq (write_all K fd content)
     (sys K (observe (\<lambda>_. ())))))"

text \<open>The last statement is \<open>os.fsync\<close>, which may fail.\<close>

definition unlink_missing_ok :: "'w mount \<Rightarrow> path \<Rightarrow> ('w, exn, unit) prog" where
  "unlink_missing_ok K p =
     try_except (sys K (unlink_entry p)) (\<lambda>e. if e = Lib ENOENT then Some (return ()) else None)"

definition discard_generation :: "'w mount \<Rightarrow> path \<Rightarrow> ('w, exn, unit) prog" where
  "discard_generation K g =
     seq (for_each [''cert.pem'', ''chain.pem'', ''privkey.pem''] (\<lambda>name. unlink_missing_ok K (g @ [name])))
     (try_except (sys K (remove_dir g)) (\<lambda>e. if is_OSError e then Some (return ()) else None))"

definition write_generation ::
  "'w mount \<Rightarrow> native_store \<Rightarrow> path \<Rightarrow> string \<Rightarrow> string \<Rightarrow> string \<Rightarrow> ('w, exn, unit) prog" where
  "write_generation K S g leaf_text chain_text key_text =
     seq (write_new K S (g @ [''cert.pem'']) leaf_text 0x1A0)
     (seq (write_new K S (g @ [''chain.pem'']) chain_text 0x1A0)
     (write_new K S (g @ [''privkey.pem'']) key_text 0x180))"

text \<open>\<open>generation.relative_to(lineage)\<close>.\<close>

definition generation_link :: "string \<Rightarrow> string" where
  "generation_link name = ''generations/'' @ name"

definition point_current :: "'w mount \<Rightarrow> native_store \<Rightarrow> string \<Rightarrow> string \<Rightarrow> ('w, exn, unit) prog" where
  "point_current K S cid name =
     bind (token_hex K 12) (\<lambda>token.
     let temporary = lineage_path S cid @ [''.current-'' @ token]
     in seq (sys K (make_symlink (euid K) (generation_link name) temporary))
        (seq (sys K (replace_entry temporary (current_path S cid)))
        (if euid K = 0 then sys K (alter False (with_owner (expected_owner S)) (current_path S cid))
         else return ())))"

definition commit_generation ::
  "'w mount \<Rightarrow> libs \<Rightarrow> pem_libs \<Rightarrow> native_store \<Rightarrow> string \<Rightarrow> string \<Rightarrow> string \<Rightarrow> string \<Rightarrow> string \<Rightarrow>
     ('w, exn, lineage_material) prog" where
  "commit_generation K L X S cid leaf_text chain_text key_text name =
     (let g = generations_path S cid @ [name]
      in seq (ensure_directory K S (lineage_path S cid))
         (seq (ensure_directory K S (generations_path S cid))
         (bind (sys K (observe (path_exists g))) (\<lambda>taken.
          seq (raise_if taken (CertificateStoreError ''certificate generation already exists''))
          (seq (sys K (make_dir (euid K) (created_mode K 0x1C0) g))
          (seq (set_owner_if_root K S g)
          (seq (try_except
                  (seq (write_generation K S g leaf_text chain_text key_text) (point_current K S cid name))
                  (\<lambda>e. Some (seq (discard_generation K g) (raise e))))
          (load_lineage K L X S cid))))))))"

subsection \<open>What a commit may touch\<close>

text \<open>
  \<open>workspace\<close>: the directories of the lineage, everything of the new generation, and temporary
  links. \<open>untouched\<close>: the rest of the tree, \<open>current\<close> and the other generations included, is as
  it was. \<open>committed\<close>: the link names the new generation, whose files are complete.
\<close>

definition workspace :: "native_store \<Rightarrow> string \<Rightarrow> string \<Rightarrow> path \<Rightarrow> bool" where
  "workspace S cid name p \<longleftrightarrow>
     p = lineage_path S cid \<or> p = generations_path S cid \<or> prefix (generations_path S cid @ [name]) p \<or>
     (\<exists>t. p = lineage_path S cid @ [''.current-'' @ t])"

definition untouched :: "native_store \<Rightarrow> string \<Rightarrow> string \<Rightarrow> fs \<Rightarrow> fs \<Rightarrow> bool" where
  "untouched S cid name f0 f \<longleftrightarrow> (\<forall>p. \<not> workspace S cid name p \<longrightarrow> node_at f p = node_at f0 p)"

definition holds_text :: "fs \<Rightarrow> path \<Rightarrow> string \<Rightarrow> bool" where
  "holds_text f p text \<longleftrightarrow> (\<exists>u m. node_at f p = Some (Regular u m text))"

definition complete_generation :: "path \<Rightarrow> string \<Rightarrow> string \<Rightarrow> string \<Rightarrow> fs \<Rightarrow> bool" where
  "complete_generation g leaf_text chain_text key_text f \<longleftrightarrow>
     plain f g \<and> holds_text f (g @ [''cert.pem'']) leaf_text \<and> holds_text f (g @ [''chain.pem'']) chain_text \<and>
     holds_text f (g @ [''privkey.pem'']) key_text"

definition committed ::
  "native_store \<Rightarrow> string \<Rightarrow> string \<Rightarrow> string \<Rightarrow> string \<Rightarrow> string \<Rightarrow> fs \<Rightarrow> fs \<Rightarrow> bool" where
  "committed S cid name leaf_text chain_text key_text f0 f \<longleftrightarrow>
     (\<forall>p. \<not> workspace S cid name p \<and> p \<noteq> current_path S cid \<longrightarrow> node_at f p = node_at f0 p) \<and>
     (\<exists>u. node_at f (current_path S cid) = Some (Symlink u (generation_link name))) \<and>
     complete_generation (generations_path S cid @ [name]) leaf_text chain_text key_text f"

text \<open>Names that are one component, and stores without links in the way.\<close>

definition plain_name :: "string \<Rightarrow> bool" where
  "plain_name n \<longleftrightarrow> n \<noteq> [] \<and> n \<noteq> ''.'' \<and> n \<noteq> ''..'' \<and> CHR ''/'' \<notin> set n"

definition dir_or_free :: "node option \<Rightarrow> bool" where
  "dir_or_free n \<longleftrightarrow> n = None \<or> is_directory n"

definition plain_store :: "native_store \<Rightarrow> string \<Rightarrow> fs \<Rightarrow> bool" where
  "plain_store S cid f \<longleftrightarrow>
     plain f (store_root S) \<and> dir_or_free (node_at f (lineage_path S cid)) \<and> dir_or_free (node_at f (generations_path S cid))"

lemmas store_paths = lineage_path_def generations_path_def current_path_def

lemma workspace_paths [simp]:
  "workspace S cid name (lineage_path S cid)" "workspace S cid name (generations_path S cid)"
  "workspace S cid name (generations_path S cid @ name # q)" "workspace S cid name (lineage_path S cid @ [''.current-'' @ t])"
  "\<not> workspace S cid name (current_path S cid)" "workspace S cid name (store_root S @ [cid])"
  by (auto simp: workspace_def store_paths)

lemma root_not_workspace: "prefix p (store_root S) \<Longrightarrow> \<not> workspace S cid name p"
proof -
  assume "prefix p (store_root S)"
  then have "length p \<le> length (store_root S)" by (rule prefix_length_le)
  then show ?thesis by (auto simp: workspace_def store_paths dest: prefix_length_le)
qed

lemma untouched_refl: "untouched S cid name f f"
  by (simp add: untouched_def)

lemma untouched_update: "untouched S cid name f0 f \<Longrightarrow> workspace S cid name p \<Longrightarrow> p \<noteq> [] \<Longrightarrow>
    untouched S cid name f0 (AList.update p n f)"
  by (auto simp: untouched_def node_at_update)

lemma untouched_delete: "untouched S cid name f0 f \<Longrightarrow> workspace S cid name p \<Longrightarrow> p \<noteq> [] \<Longrightarrow>
    untouched S cid name f0 (AList.delete p f)"
  by (auto simp: untouched_def node_at_delete)

lemma untouched_same_but: "untouched S cid name f0 f \<Longrightarrow> same_but p f f' \<Longrightarrow> workspace S cid name p \<Longrightarrow> untouched S cid name f0 f'"
  by (auto simp: untouched_def same_but_def)

subsection \<open>Reading leaves the tree as it is\<close>

lemma wp_read_generation_file:
  assumes "mount_law K" and "plain (disk K w) g" and "c \<noteq> ''..''" and "holds_text (disk K w) (g @ [c]) text"
    and "\<And>w'. disk K w' = disk K w \<Longrightarrow> Q text w'" and E: "\<And>e w'. disk K w' = disk K w \<Longrightarrow> E e w'"
  shows "wp (read_generation_file K owner (g @ [c]) limit private) Q E w"
proof -
  obtain u m where "node_at (disk K w) (g @ [c]) = Some (Regular u m text)"
    using assms(4) by (auto simp: holds_text_def)
  then have "open_nofollow (g @ [c]) (disk K w) = Inr (Regular u m text, disk K w)"
    using assms(2,3) by (simp add: open_nofollow_def stat_entry)
  then show ?thesis
    unfolding read_generation_file_def wp_bind wp_try_except
    by (intro wp_sys[OF assms(1)])
      (auto simp: wp_lift wp_raise checked_content_def split: sum.splits option.splits intro!: assms(5) E)
qed

lemma components_relative:
  assumes "plain_name name"
  shows "components (generation_link name) = [''generations'', name]"
proof -
  have "split_on (CHR ''/'') name = [name]" if "CHR ''/'' \<notin> set name" for name
    using that by (induction name) auto
  then show ?thesis using assms by (simp add: components_def plain_name_def generation_link_def)
qed

lemma relative_link: "\<not> startswith (generation_link name) ''/''"
  by (simp add: generation_link_def startswith_def)

lemma max_links_Suc: "max_links = Suc 39"
  by (simp add: max_links_def)

lemma realpath_committed:
  assumes "committed S cid name leaf_text chain_text key_text f0 f" and "plain_name name"
  shows "realpath f (current_path S cid) = generations_path S cid @ [name]"
    and "realpath f (generations_path S cid) = generations_path S cid"
    and "is_symlink (current_path S cid) f" and "is_dir (generations_path S cid @ [name]) f"
proof -
  from assms(1) obtain u where link: "node_at f (current_path S cid) = Some (Symlink u (generation_link name))"
    and plain: "plain f (generations_path S cid @ [name])"
    by (auto simp: committed_def complete_generation_def)
  have lineage: "plain f (lineage_path S cid)" "is_directory (node_at f (lineage_path S cid @ [''generations'']))"
    "is_directory (node_at f (lineage_path S cid @ [''generations'', name]))"
    using plain[unfolded generations_path_def plain_snoc] by simp_all
  show "realpath f (current_path S cid) = generations_path S cid @ [name]"
    using link lineage assms(2)
    by (auto simp: realpath_def current_path_def generations_path_def real_walk_plain max_links_Suc
        components_relative plain_name_def relative_link
        elim!: is_directoryE)
  show "realpath f (generations_path S cid) = generations_path S cid"
    using lineage by (auto simp: realpath_def generations_path_def real_walk_plain elim!: is_directoryE)
  show "is_symlink (current_path S cid) f"
    using link lineage(1) by (simp add: is_symlink_def current_path_def stat_entry)
  show "is_dir (generations_path S cid @ [name]) f"
    using plain by (auto simp: plain_snoc is_dir_def stat_entry elim!: is_directoryE)
qed

lemma wp_load_committed:
  fixes S cid f0
  assumes K: "mount_law K" and c: "committed S cid name leaf_text chain_text key_text f0 (disk K w)" and n: "plain_name name"
  shows "wp (load_lineage K L X S cid)
     (\<lambda>m w'. parse_material L X leaf_text chain_text key_text = Inr m \<and> disk K w' = disk K w)
     (\<lambda>e w'. disk K w' = disk K w) w"
proof -
  let ?g = "generations_path S cid @ [name]"
  note real = realpath_committed[OF c n]
  have g: "complete_generation ?g leaf_text chain_text key_text (disk K w)" using c by (simp add: committed_def)
  have read: "wp (read_generation K L X S ?g)
     (\<lambda>m w'. parse_material L X leaf_text chain_text key_text = Inr m \<and> disk K w' = disk K w)
     (\<lambda>e w'. disk K w' = disk K w) w1" if "disk K w1 = disk K w" for w1
    unfolding read_generation_def wp_bind using g that
    by (intro wp_read_generation_file[OF K]) (auto simp: complete_generation_def wp_lift split: sum.splits)
  show ?thesis
    unfolding load_lineage_def lineage_exists_def wp_bind wp_seq wp_raise_if
    by (intro wp_observe[OF K]) (auto simp: real intro!: wp_observe[OF K] read)
qed

subsection \<open>The steps of a commit\<close>

lemma wp_alter_directory:
  assumes K: "mount_law K" and "plain (disk K w) (d @ [c])" and "\<And>u m. is_directory (Some (h (Directory u m)))"
    and "same_but (d @ [c]) f0 (disk K w)"
  shows "wp (sys K (alter True h (d @ [c])))
     (\<lambda>_ w'. same_but (d @ [c]) f0 (disk K w') \<and> plain (disk K w') (d @ [c]))
     (\<lambda>_ w'. same_but (d @ [c]) f0 (disk K w')) w"
proof (rule wp_sys[OF K])
  fix a f w'
  assume "alter True h (d @ [c]) (disk K w) = Inr (a, f)" "disk K w' = f"
  moreover obtain u m where "node_at (disk K w) (d @ [c]) = Some (Directory u m)" "plain (disk K w) d" "c \<noteq> ''..''"
    using assms(2) by (auto simp: plain_snoc elim: is_directoryE)
  ultimately have "disk K w' = AList.update (d @ [c]) (h (Directory u m)) (disk K w)"
    by (simp add: alter_def stat_entry)
  then show "same_but (d @ [c]) f0 (disk K w') \<and> plain (disk K w') (d @ [c])"
    using assms(2,3,4) by (auto simp: same_but_def node_at_update intro!: plain_update)
qed (use assms(4) in simp)

lemma wp_mkdir_exist_ok:
  assumes K: "mount_law K" and d: "plain (disk K w) d" and c: "c \<noteq> ''..''" and free: "dir_or_free (node_at (disk K w) (d @ [c]))"
  shows "wp (mkdir_exist_ok K mode (d @ [c]))
     (\<lambda>_ w'. same_but (d @ [c]) (disk K w) (disk K w') \<and> plain (disk K w') (d @ [c]))
     (\<lambda>_ w'. same_but (d @ [c]) (disk K w) (disk K w')) w"
  unfolding mkdir_exist_ok_def wp_try_except
proof (rule wp_sys[OF K])
  fix a f w'
  assume "make_dir (euid K) (created_mode K mode) (d @ [c]) (disk K w) = Inr (a, f)" "disk K w' = f"
  then have "disk K w' = AList.update (d @ [c]) (Directory (euid K) (created_mode K mode)) (disk K w)"
    using d c by (auto simp: make_dir_def new_entry_plain split: if_splits)
  then show "same_but (d @ [c]) (disk K w) (disk K w') \<and> plain (disk K w') (d @ [c])"
    using d c by (auto simp: same_but_def node_at_update plain_snoc intro!: plain_update)
next
  fix e w'
  assume same: "disk K w' = disk K w"
  have "plain (disk K w) (d @ [c])" if "is_dir (d @ [c]) (disk K w)"
    using that d c free by (auto simp: plain_snoc is_dir_def stat_entry dir_or_free_def)
  then show "(case if \<not> is_OSError e \<or> e = Lib ENOENT then None
      else Some (bind (sys K (observe (is_dir (d @ [c])))) (\<lambda>d. if d then return () else raise e)) of
        None \<Rightarrow> (\<lambda>w'. same_but (d @ [c]) (disk K w) (disk K w'))
      | Some k \<Rightarrow> wp k (\<lambda>_ w'. same_but (d @ [c]) (disk K w) (disk K w') \<and> plain (disk K w') (d @ [c]))
          (\<lambda>_ w'. same_but (d @ [c]) (disk K w) (disk K w'))) w'"
    using same by (auto simp: wp_simps same_but_refl intro!: wp_observe[OF K])
qed

lemma wp_ensure_directory:
  assumes K: "mount_law K" and d: "plain (disk K w) d" and c: "c \<noteq> ''..''" and free: "dir_or_free (node_at (disk K w) (d @ [c]))"
  shows "wp (ensure_directory K S (d @ [c]))
     (\<lambda>_ w'. same_but (d @ [c]) (disk K w) (disk K w') \<and> plain (disk K w') (d @ [c]))
     (\<lambda>_ w'. same_but (d @ [c]) (disk K w) (disk K w')) w"
  unfolding ensure_directory_def set_owner_if_root_def wp_seq
  by (rule wp_mono[OF wp_mkdir_exist_ok[OF K d c free]])
    (auto simp: wp_if wp_return intro!: wp_mono[OF wp_alter_directory[OF K, of _ d c _ "disk K w"]])

text \<open>What holds while the generation directory is being filled.\<close>

definition filling :: "native_store \<Rightarrow> string \<Rightarrow> string \<Rightarrow> fs \<Rightarrow> fs \<Rightarrow> bool" where
  "filling S cid name f0 f \<longleftrightarrow> untouched S cid name f0 f \<and> plain f (generations_path S cid @ [name])"

lemma filling_same_but:
  "filling S cid name f0 f \<Longrightarrow> same_but (generations_path S cid @ [name, c]) f f' \<Longrightarrow> filling S cid name f0 f'"
  unfolding filling_def
  by (auto elim!: untouched_same_but plain_same_but dest: prefix_length_le)

lemma holds_text_same_but: "holds_text f p text \<Longrightarrow> same_but q f f' \<Longrightarrow> p \<noteq> q \<Longrightarrow> holds_text f' p text"
  by (auto simp: holds_text_def same_but_def)

lemma wp_write_new:
  assumes K: "mount_law K" and d: "plain (disk K w) d" and c: "c \<noteq> ''..''"
  shows "wp (write_new K S (d @ [c]) text mode)
     (\<lambda>_ w'. same_but (d @ [c]) (disk K w) (disk K w') \<and> holds_text (disk K w') (d @ [c]) text)
     (\<lambda>_ w'. same_but (d @ [c]) (disk K w) (disk K w')) w"
proof -
  let ?p = "d @ [c]"
  let ?created = "\<lambda>w'. same_but ?p (disk K w) (disk K w') \<and> plain (disk K w') d \<and> holds_text (disk K w') ?p []"
  have written: "wp (seq (write_all K ?p text) (sys K (observe (\<lambda>_. ()))))
     (\<lambda>_ w'. same_but ?p (disk K w) (disk K w') \<and> holds_text (disk K w') ?p text)
     (\<lambda>_ w'. same_but ?p (disk K w) (disk K w')) w'" if "?created w'" for w'
  proof -
    from that obtain u m where "node_at (disk K w') ?p = Some (Regular u m [])" by (auto simp: holds_text_def)
    note all = wp_write_all[OF K _ this, of "disk K w" "text"]
    show ?thesis
      unfolding wp_seq
      by (rule wp_mono[OF all]) (use that in \<open>auto simp: holds_text_def intro!: wp_observe[OF K]\<close>)
  qed
  have owned: "wp (if euid K = 0 then sys K (alter False (with_owner (expected_owner S)) ?p) else return ())
     (\<lambda>_. ?created) (\<lambda>_ w'. same_but ?p (disk K w) (disk K w')) w'" if "?created w'" for w'
  proof -
    from that obtain u m where node: "node_at (disk K w') ?p = Some (Regular u m [])" by (auto simp: holds_text_def)
    then have "alter False (with_owner (expected_owner S)) ?p (disk K w') =
        Inr ((), AList.update ?p (Regular (expected_owner S) m []) (disk K w'))"
      using that c by (simp add: alter_def stat_entry)
    then show ?thesis
      using that by (auto simp: wp_if wp_return holds_text_def same_but_def node_at_update
          intro!: wp_sys[OF K] plain_update)
  qed
  show ?thesis
    unfolding write_new_def wp_bind
  proof (rule wp_sys[OF K])
    fix a f w'
    assume "create_file (euid K) (created_mode K mode) ?p (disk K w) = Inr (a, f)" "disk K w' = f"
    then have "a = ?p" and "disk K w' = AList.update ?p (Regular (euid K) (created_mode K mode) []) (disk K w)"
      using d c by (auto simp: create_file_def new_entry_plain split: if_splits)
    then have a: "a = ?p" and created: "?created w'"
      using d by (auto simp: same_but_def holds_text_def node_at_update intro!: plain_update)
    show "wp (seq (if euid K = 0 then sys K (alter False (with_owner (expected_owner S)) a) else return ())
        (seq (write_all K a text) (sys K (observe (\<lambda>_. ())))))
     (\<lambda>_ w'. same_but ?p (disk K w) (disk K w') \<and> holds_text (disk K w') ?p text)
     (\<lambda>_ w'. same_but ?p (disk K w) (disk K w')) w'"
      unfolding a wp_seq[of "if b then m else n" for b m n]
      by (rule wp_mono[OF owned[OF created]]) (simp_all add: written)
  qed (simp add: same_but_refl)
qed

lemma generation_entry: "generations_path S cid @ [name, c] = (generations_path S cid @ [name]) @ [c]"
  by simp

lemma wp_write_generation:
  assumes K: "mount_law K" and fill: "filling S cid name f0 (disk K w)"
  shows "wp (write_generation K S (generations_path S cid @ [name]) leaf_text chain_text key_text)
     (\<lambda>_ w'. untouched S cid name f0 (disk K w') \<and>
        complete_generation (generations_path S cid @ [name]) leaf_text chain_text key_text (disk K w'))
     (\<lambda>_ w'. filling S cid name f0 (disk K w')) w"
proof -
  let ?g = "generations_path S cid @ [name]"
  have one: "wp (write_new K S (?g @ [c]) content mode) Q E w'"
    if "filling S cid name f0 (disk K w')" "c \<noteq> ''..''"
      "\<And>w''. filling S cid name f0 (disk K w'') \<Longrightarrow> same_but (?g @ [c]) (disk K w') (disk K w'') \<Longrightarrow> holds_text (disk K w'') (?g @ [c]) content \<Longrightarrow> Q () w''"
      "\<And>e w''. filling S cid name f0 (disk K w'') \<Longrightarrow> E e w''" for c content mode Q E w'
    by (rule wp_mono[OF wp_write_new[OF K _ that(2)]])
      (use that(1) filling_same_but[OF that(1)] in \<open>auto simp: filling_def intro!: that(3,4)\<close>)
  show ?thesis
    unfolding write_generation_def wp_seq
  proof (rule one)
    fix w1
    assume w1: "filling S cid name f0 (disk K w1)" "holds_text (disk K w1) (?g @ [''cert.pem'']) leaf_text"
    show "wp (write_new K S (?g @ [''chain.pem'']) chain_text 0x1A0)
       (\<lambda>_. wp (write_new K S (?g @ [''privkey.pem'']) key_text 0x180)
          (\<lambda>_ w'. untouched S cid name f0 (disk K w') \<and> complete_generation ?g leaf_text chain_text key_text (disk K w'))
          (\<lambda>_ w'. filling S cid name f0 (disk K w')))
       (\<lambda>_ w'. filling S cid name f0 (disk K w')) w1"
    proof (rule one)
      fix w2
      assume w2: "filling S cid name f0 (disk K w2)" "same_but (?g @ [''chain.pem'']) (disk K w1) (disk K w2)"
        "holds_text (disk K w2) (?g @ [''chain.pem'']) chain_text"
      then have "holds_text (disk K w2) (?g @ [''cert.pem'']) leaf_text"
        using w1 by (auto elim: holds_text_same_but)
      with w2 show "wp (write_new K S (?g @ [''privkey.pem'']) key_text 0x180)
          (\<lambda>_ w'. untouched S cid name f0 (disk K w') \<and> complete_generation ?g leaf_text chain_text key_text (disk K w'))
          (\<lambda>_ w'. filling S cid name f0 (disk K w')) w2"
        by (intro one) (auto simp: complete_generation_def filling_def elim: holds_text_same_but)
    qed (use w1 in simp_all)
  qed (use fill in simp_all)
qed

text \<open>
  Moving the link is the last step: it either fails with the old link in place, or is done. That
  is so unless the publisher runs as root, where a change of owner follows.
\<close>

lemma wp_point_current:
  fixes w :: 'a
  assumes K: "mount_law K" and user: "euid K \<noteq> 0"
    and u: "untouched S cid name f0 (disk K w)"
    and g: "complete_generation (generations_path S cid @ [name]) leaf_text chain_text key_text (disk K w)"
  shows "wp (point_current K S cid name)
     (\<lambda>_ w'. committed S cid name leaf_text chain_text key_text f0 (disk K w'))
     (\<lambda>_ w'. filling S cid name f0 (disk K w')) w"
proof -
  let ?tmp = "\<lambda>t. lineage_path S cid @ [''.current-'' @ t]"
  have fill: "filling S cid name f0 f" if "untouched S cid name f0 f" "complete_generation (generations_path S cid @ [name]) leaf_text chain_text key_text f" for f
    using that by (simp add: filling_def complete_generation_def)
  have plain: "plain f (lineage_path S cid)" if "complete_generation (generations_path S cid @ [name]) leaf_text chain_text key_text f" for f
    using that by (auto simp: complete_generation_def generations_path_def intro: plain_prefix)
  have kept: "complete_generation (generations_path S cid @ [name]) leaf_text chain_text key_text f'"
    if "complete_generation (generations_path S cid @ [name]) leaf_text chain_text key_text f"
      "\<And>p. prefix (generations_path S cid) p \<or> prefix p (generations_path S cid) \<Longrightarrow> node_at f' p = node_at f p" for f f'
  proof -
    have "node_at f' p = node_at f p" if "prefix p (generations_path S cid @ [name])" for p
      using that \<open>\<And>p. prefix (generations_path S cid) p \<or> _ \<Longrightarrow> _\<close> by (auto simp: prefix_snoc)
    then show ?thesis
      using that unfolding complete_generation_def plain_def holds_text_def by (metis prefixI append_assoc)
  qed
  let ?C = "complete_generation (generations_path S cid @ [name]) leaf_text chain_text key_text"
  have moved: "committed S cid name leaf_text chain_text key_text f0 f'"
    if "replace_entry (?tmp t) (current_path S cid) f = Inr (a, f')" "untouched S cid name f0 f" "?C f"
      "node_at f (?tmp t) = Some (Symlink (euid K) (generation_link name))" for t a f f'
  proof -
    have "f' = AList.update (current_path S cid) (Symlink (euid K) (generation_link name)) (AList.delete (?tmp t) f)"
      using that plain[OF that(3)]
      by (auto simp: replace_entry_def stat_entry current_path_def resolve_entry split: if_splits)
    then have node: "node_at f' p = (if p = current_path S cid then Some (Symlink (euid K) (generation_link name))
        else if p = ?tmp t then None else node_at f p)" for p
      by (auto simp: node_at_update node_at_delete current_path_def)
    have "?C f'"
      by (rule kept[OF that(3)]) (auto simp: node store_paths prefix_def)
    moreover have "workspace S cid name (?tmp t)" by (auto simp: workspace_def)
    ultimately show ?thesis using that(2) node by (auto simp: committed_def untouched_def)
  qed
  have replaced: "wp (sys K (replace_entry (?tmp t) (current_path S cid)))
     (\<lambda>_ w'. committed S cid name leaf_text chain_text key_text f0 (disk K w'))
     (\<lambda>_ w'. filling S cid name f0 (disk K w')) w'"
    if "untouched S cid name f0 (disk K w')" "?C (disk K w')"
      "node_at (disk K w') (?tmp t) = Some (Symlink (euid K) (generation_link name))" for t w'
    by (rule wp_sys[OF K]) (use that fill moved in auto)
  have linked: "untouched S cid name f0 f' \<and> ?C f' \<and> node_at f' (?tmp t) = Some (Symlink (euid K) (generation_link name))"
    if "make_symlink (euid K) (generation_link name) (?tmp t) f = Inr (a, f')" "untouched S cid name f0 f" "?C f" for t a f f'
  proof -
    have f': "f' = AList.update (?tmp t) (Symlink (euid K) (generation_link name)) f"
      using that plain[OF that(3)] by (auto simp: make_symlink_def new_entry_plain split: if_splits)
    have "?C f'"
      by (rule kept[OF that(3)]) (auto simp: f' node_at_update store_paths prefix_def)
    moreover have "untouched S cid name f0 f'"
      unfolding f' using that(2) by (rule untouched_update) (auto simp: workspace_def)
    ultimately show ?thesis by (simp add: f' node_at_update)
  qed
  have symlinked: "wp (sys K (make_symlink (euid K) (generation_link name) (?tmp t)))
     (\<lambda>_. wp (sys K (replace_entry (?tmp t) (current_path S cid)))
        (\<lambda>_ w'. committed S cid name leaf_text chain_text key_text f0 (disk K w')) (\<lambda>_ w'. filling S cid name f0 (disk K w')))
     (\<lambda>_ w'. filling S cid name f0 (disk K w')) w'" if "disk K w' = disk K w" for t w'
  proof (rule wp_sys[OF K])
    fix a f w1
    assume "make_symlink (euid K) (generation_link name) (?tmp t) (disk K w') = Inr (a, f)" "disk K w1 = f"
    then show "wp (sys K (replace_entry (?tmp t) (current_path S cid)))
        (\<lambda>_ w'. committed S cid name leaf_text chain_text key_text f0 (disk K w')) (\<lambda>_ w'. filling S cid name f0 (disk K w')) w1"
      using linked[of t "disk K w'" a f] u g that by (intro replaced) simp_all
  qed (use u g that fill in simp)
  have returned: "wp (return ()) Q E = Q ()" for Q :: "unit \<Rightarrow> 'a \<Rightarrow> bool" and E :: "exn \<Rightarrow> 'a \<Rightarrow> bool"
    by (rule ext) (rule wp_return)
  show ?thesis
    unfolding point_current_def Let_def wp_bind wp_seq
    by (rule wp_token_hex[OF K]) (use user symlinked in \<open>simp add: returned\<close>)
qed

lemma wp_discard_generation:
  assumes K: "mount_law K" and "filling S cid name f0 (disk K w)"
  shows "wp (discard_generation K (generations_path S cid @ [name]))
     (\<lambda>_ w'. untouched S cid name f0 (disk K w')) (\<lambda>_ w'. untouched S cid name f0 (disk K w')) w"
proof -
  let ?g = "generations_path S cid @ [name]"
  have delete: "filling S cid name f0 f'"
    if "unlink_entry (?g @ [c]) f = Inr (a, f')" "filling S cid name f0 f" "c \<noteq> ''..''" for c a f f'
  proof -
    have st: "stat_at f False (?g @ [c]) = (case node_at f (?g @ [c]) of None \<Rightarrow> Inl ENOENT | Some n \<Rightarrow> Inr (?g @ [c], n))"
      by (rule stat_entry) (use that in \<open>auto simp: filling_def\<close>)
    have "f' = AList.delete (?g @ [c]) f"
      using that(1) unfolding unlink_entry_def st by (auto split: option.splits node.splits)
    then show ?thesis
      using that(2) untouched_delete[of S cid name f0 f "?g @ [c]"] plain_delete[of f ?g "?g @ [c]"]
      by (auto simp: filling_def)
  qed
  have unlink: "wp (unlink_missing_ok K (?g @ [c])) (\<lambda>_ w'. filling S cid name f0 (disk K w')) (\<lambda>_ w'. filling S cid name f0 (disk K w')) w'"
    if "filling S cid name f0 (disk K w')" "c \<noteq> ''..''" for c w'
    unfolding unlink_missing_ok_def wp_try_except
    by (rule wp_sys[OF K]) (use that delete in \<open>auto simp: wp_simps\<close>)
  have unlinks: "filling S cid name f0 (disk K w') \<Longrightarrow> ''..'' \<notin> set cs \<Longrightarrow>
     wp (for_each cs (\<lambda>c. unlink_missing_ok K (?g @ [c]))) (\<lambda>_ w'. filling S cid name f0 (disk K w')) (\<lambda>_ w'. filling S cid name f0 (disk K w')) w'"
    for cs w'
  proof (induction cs arbitrary: w')
    case (Cons c cs)
    then show ?case unfolding for_each.simps wp_bind by (intro wp_mono[OF unlink]) auto
  qed (simp add: wp_simps)
  have rmdir: "untouched S cid name f0 f'" if "remove_dir ?g f = Inr (a, f')" "filling S cid name f0 f" for a f f'
    using that by (auto simp: remove_dir_def filling_def plain_snoc stat_entry untouched_delete
        split: option.splits node.splits if_splits)
  have removed: "wp (try_except (sys K (remove_dir ?g)) (\<lambda>e. if is_OSError e then Some (return ()) else None))
     (\<lambda>_ w'. untouched S cid name f0 (disk K w')) (\<lambda>_ w'. untouched S cid name f0 (disk K w')) w'"
    if "filling S cid name f0 (disk K w')" for w'
    unfolding wp_try_except
    by (rule wp_sys[OF K]) (use that rmdir in \<open>auto simp: filling_def wp_return\<close>)
  show ?thesis
    unfolding discard_generation_def wp_seq
    by (rule wp_mono[OF unlinks[OF assms(2)]]) (auto simp: removed, simp add: filling_def)
qed

text \<open>The commit as a whole: whatever fails, and wherever the run stops, either the link and
  everything it leads to are as before, or the new generation is complete behind it.\<close>

lemma wp_commit_generation:
  assumes K: "mount_law K" and user: "euid K \<noteq> 0" and store: "plain_store S cid (disk K w)"
    and names: "cid \<noteq> ''..''" "plain_name name"
  shows "wp (commit_generation K L X S cid leaf_text chain_text key_text name)
     (\<lambda>m w'. committed S cid name leaf_text chain_text key_text (disk K w) (disk K w') \<and>
        parse_material L X leaf_text chain_text key_text = Inr m)
     (\<lambda>_ w'. untouched S cid name (disk K w) (disk K w') \<or>
        committed S cid name leaf_text chain_text key_text (disk K w) (disk K w')) w"
proof -
  let ?f0 = "disk K w"
  let ?g = "generations_path S cid @ [name]"
  let ?U = "untouched S cid name ?f0"
  let ?C = "committed S cid name leaf_text chain_text key_text ?f0"
  let ?Q = "\<lambda>m w'. ?C (disk K w') \<and> parse_material L X leaf_text chain_text key_text = Inr m"
  let ?E = "\<lambda>(_ :: exn) w'. ?U (disk K w') \<or> ?C (disk K w')"
  have load: "wp (load_lineage K L X S cid) ?Q ?E w'" if "?C (disk K w')" for w'
    by (rule wp_mono[OF wp_load_committed[OF K that names(2)]]) (use that in auto)
  have filled: "wp (try_except (seq (write_generation K S ?g leaf_text chain_text key_text) (point_current K S cid name))
      (\<lambda>e. Some (seq (discard_generation K ?g) (raise e)))) (\<lambda>_ w'. ?C (disk K w')) (\<lambda>_ w'. ?U (disk K w')) w'"
    if "filling S cid name ?f0 (disk K w')" for w'
    unfolding wp_try_except option.case wp_seq
    by (rule wp_mono[OF wp_write_generation[OF K that]])
      (auto simp: wp_raise intro!: wp_mono[OF wp_point_current[OF K user]] wp_mono[OF wp_discard_generation[OF K]])
  have owned: "wp (set_owner_if_root K S ?g) (\<lambda>_ w'. filling S cid name ?f0 (disk K w')) ?E w'"
    if "filling S cid name ?f0 (disk K w')" for w'
    using that user by (simp add: set_owner_if_root_def wp_return)
  have started: "wp (seq (sys K (make_dir (euid K) (created_mode K 0x1C0) ?g)) (seq (set_owner_if_root K S ?g)
      (seq (try_except (seq (write_generation K S ?g leaf_text chain_text key_text) (point_current K S cid name))
         (\<lambda>e. Some (seq (discard_generation K ?g) (raise e)))) (load_lineage K L X S cid)))) ?Q ?E w'"
    if "?U (disk K w')" "plain (disk K w') (generations_path S cid)" for w'
    unfolding wp_seq[of "sys K c" for c]
  proof (rule wp_sys[OF K])
    fix a f w1
    assume "make_dir (euid K) (created_mode K 0x1C0) ?g (disk K w') = Inr (a, f)" "disk K w1 = f"
    then have "disk K w1 = AList.update ?g (Directory (euid K) (created_mode K 0x1C0)) (disk K w')"
      using that names(2) by (auto simp: make_dir_def new_entry_plain plain_name_def split: if_splits)
    then have "filling S cid name ?f0 (disk K w1)"
      using that names(2)
      by (simp add: plain_name_def filling_def plain_snoc node_at_update untouched_update plain_update)
    then show "wp (seq (set_owner_if_root K S ?g)
      (seq (try_except (seq (write_generation K S ?g leaf_text chain_text key_text) (point_current K S cid name))
         (\<lambda>e. Some (seq (discard_generation K ?g) (raise e)))) (load_lineage K L X S cid))) ?Q ?E w1"
      unfolding wp_seq[of "set_owner_if_root K S p" for p] wp_seq[of "try_except m h" for m h]
      by (auto intro!: wp_mono[OF owned] wp_mono[OF filled] load)
  qed (use that in auto)
  have generations: "wp (ensure_directory K S (generations_path S cid))
      (\<lambda>_ w'. ?U (disk K w') \<and> plain (disk K w') (generations_path S cid)) (\<lambda>_ w'. ?U (disk K w')) w'"
    if "?U (disk K w')" "plain (disk K w') (lineage_path S cid)" "dir_or_free (node_at (disk K w') (generations_path S cid))" for w'
    unfolding generations_path_def
    by (rule wp_mono[OF wp_ensure_directory[OF K that(2)]])
      (use that in \<open>auto simp: generations_path_def elim!: untouched_same_but\<close>,
       simp_all flip: generations_path_def)
  have lineage: "wp (ensure_directory K S (lineage_path S cid))
      (\<lambda>_ w'. ?U (disk K w') \<and> plain (disk K w') (lineage_path S cid) \<and> dir_or_free (node_at (disk K w') (generations_path S cid)))
      (\<lambda>_ w'. ?U (disk K w')) w"
    unfolding lineage_path_def
    by (rule wp_mono[OF wp_ensure_directory[OF K _ names(1)]])
      (use store in \<open>auto simp: plain_store_def store_paths same_but_def intro!: untouched_same_but[OF untouched_refl]\<close>)
  show ?thesis
    unfolding commit_generation_def Let_def wp_seq[of "ensure_directory K S p" for p] wp_bind wp_seq[of "raise_if b e" for b e] wp_raise_if
    by (auto intro!: wp_mono[OF lineage] wp_mono[OF generations] wp_observe[OF K] started)
qed

subsection \<open>Loading is a snapshot\<close>

text \<open>What a load gives, as a function of the tree alone.\<close>

definition file_content :: "int \<Rightarrow> path \<Rightarrow> int \<Rightarrow> bool \<Rightarrow> fs \<Rightarrow> exn + string" where
  "file_content owner p limit private f =
     (case open_nofollow p f of
        Inl e \<Rightarrow> if is_OSError (Lib e)
          then Inl (CertificateStoreError ''certificate generation file is unavailable'') else Inl (Lib e)
      | Inr (n, _) \<Rightarrow> checked_content owner limit private n)"

definition loaded :: "libs \<Rightarrow> pem_libs \<Rightarrow> native_store \<Rightarrow> string \<Rightarrow> fs \<Rightarrow> exn + lineage_material" where
  "loaded L X S cid f =
     (let g = realpath f (current_path S cid)
      in if \<not> is_symlink (current_path S cid) f
         then Inl (CertificateStoreError ''native ACME certificate generation is unavailable'')
         else if \<not> prefix (realpath f (generations_path S cid)) g
         then Inl (CertificateStoreError ''current certificate generation escapes its archive'')
         else if \<not> is_dir g f then Inl (CertificateStoreError ''current certificate generation is unavailable'')
         else
           (case file_content (expected_owner S) (g @ [''cert.pem'']) max_certificate_bytes False f of
              Inl e \<Rightarrow> Inl e
            | Inr leaf_text \<Rightarrow>
                (case file_content (expected_owner S) (g @ [''chain.pem'']) max_chain_bytes False f of
                   Inl e \<Rightarrow> Inl e
                 | Inr chain_text \<Rightarrow>
                     (case file_content (expected_owner S) (g @ [''privkey.pem'']) max_private_key_bytes True f of
                        Inl e \<Rightarrow> Inl e
                      | Inr key_text \<Rightarrow> parse_material L X leaf_text chain_text key_text))))"

lemma open_nofollow_same: "open_nofollow p f = Inr (n, f') \<Longrightarrow> f' = f"
  by (auto simp: open_nofollow_def split: sum.splits prod.splits node.splits)

lemma wp_file_content:
  assumes K: "mount_law K" and same: "disk K w = f"
    and Q: "\<And>text w'. disk K w' = f \<Longrightarrow> file_content owner p limit private f = Inr text \<Longrightarrow> Q text w'"
    and E: "\<And>e w'. disk K w' = f \<Longrightarrow> E e w'"
  shows "wp (read_generation_file K owner p limit private) Q E w"
  unfolding read_generation_file_def wp_bind wp_try_except
  by (rule wp_sys[OF K])
    (use same in \<open>auto simp: wp_lift wp_raise file_content_def split: sum.splits option.splits
       dest: open_nofollow_same intro!: Q E\<close>)

text \<open>A load that returns gives the snapshot, and changes nothing whatever happens.\<close>

lemma wp_load_lineage:
  assumes K: "mount_law K"
  shows "wp (load_lineage K L X S cid)
     (\<lambda>m w'. disk K w' = disk K w \<and> loaded L X S cid (disk K w) = Inr m) (\<lambda>_ w'. disk K w' = disk K w) w"
proof -
  let ?f = "disk K w"
  let ?g = "realpath ?f (current_path S cid)"
  have read: "wp (read_generation K L X S ?g)
     (\<lambda>m w'. disk K w' = ?f \<and> loaded L X S cid ?f = Inr m) (\<lambda>_ w'. disk K w' = ?f) w'"
    if "disk K w' = ?f" "is_symlink (current_path S cid) ?f" "prefix (realpath ?f (generations_path S cid)) ?g" "is_dir ?g ?f" for w'
    unfolding read_generation_def wp_bind
    by (intro wp_file_content[OF K]) (use that in \<open>auto simp: wp_lift loaded_def split: sum.splits\<close>)
  show ?thesis
    unfolding load_lineage_def lineage_exists_def wp_bind wp_seq wp_raise_if
    by (intro wp_observe[OF K]) (auto intro!: wp_observe[OF K] read)
qed

text \<open>Without faults a load gives exactly the snapshot.\<close>

lemma quiet_file_content:
  assumes K: "mount_law K" "reliable K" and "disk K w = f"
    and "\<And>w'. disk K w' = f \<Longrightarrow> case file_content owner p limit private f of Inl e \<Rightarrow> E e w' | Inr text \<Rightarrow> Q text w'"
  shows "wp (read_generation_file K owner p limit private) Q E w"
proof (cases "open_nofollow p f")
  case (Inl e)
  then show ?thesis
    unfolding read_generation_file_def wp_bind wp_try_except
    by (intro wp_sys_quiet[OF K]) (use assms(3,4) in \<open>auto simp: wp_raise file_content_def\<close>)
next
  case (Inr r)
  then obtain n where r: "open_nofollow p f = Inr (n, f)" by (cases r) (auto dest: open_nofollow_same)
  then show ?thesis
    unfolding read_generation_file_def wp_bind wp_try_except
    by (intro wp_sys_quiet[OF K]) (use assms(3,4) in \<open>auto simp: wp_lift file_content_def\<close>)
qed

lemma quiet_load_lineage:
  assumes K: "mount_law K" "reliable K"
  shows "wp (load_lineage K L X S cid)
     (\<lambda>m w'. disk K w' = disk K w \<and> loaded L X S cid (disk K w) = Inr m)
     (\<lambda>e w'. disk K w' = disk K w \<and> loaded L X S cid (disk K w) = Inl e) w"
proof -
  let ?f = "disk K w"
  let ?g = "realpath ?f (current_path S cid)"
  have read: "wp (read_generation K L X S ?g)
     (\<lambda>m w'. disk K w' = ?f \<and> loaded L X S cid ?f = Inr m)
     (\<lambda>e w'. disk K w' = ?f \<and> loaded L X S cid ?f = Inl e) w'"
    if "disk K w' = ?f" "is_symlink (current_path S cid) ?f" "prefix (realpath ?f (generations_path S cid)) ?g" "is_dir ?g ?f" for w'
    unfolding read_generation_def wp_bind
    by (rule quiet_file_content[OF K that(1)],
        use that in \<open>auto simp: loaded_def wp_lift split: sum.splits intro!: quiet_file_content[OF K]\<close>)
  have bad: "\<not> is_symlink (current_path S cid) ?f \<Longrightarrow>
       loaded L X S cid ?f = Inl (CertificateStoreError ''native ACME certificate generation is unavailable'')"
    "is_symlink (current_path S cid) ?f \<Longrightarrow> \<not> prefix (realpath ?f (generations_path S cid)) ?g \<Longrightarrow>
       loaded L X S cid ?f = Inl (CertificateStoreError ''current certificate generation escapes its archive'')"
    "is_symlink (current_path S cid) ?f \<Longrightarrow> prefix (realpath ?f (generations_path S cid)) ?g \<Longrightarrow> \<not> is_dir ?g ?f \<Longrightarrow>
       loaded L X S cid ?f = Inl (CertificateStoreError ''current certificate generation is unavailable'')"
    by (simp_all add: loaded_def Let_def)
  show ?thesis
    unfolding load_lineage_def lineage_exists_def wp_bind wp_seq wp_raise_if
    by (intro quiet_observe[OF K]) (auto simp: bad intro!: quiet_observe[OF K] read)
qed


subsection \<open>Properties\<close>

text \<open>A disk whose \<open>n\<close>-th system call fails, and no other.\<close>

definition failing_mount :: "int \<Rightarrow> (fs \<times> int) mount" where
  "failing_mount uid =
     \<lparr>disk = fst, set_disk = (\<lambda>f w. (f, snd w)),
      io_fault = (\<lambda>(f, n). (if n = 0 then Some (OSError ''EIO'') else None, (f, n - 1))),
      token_bytes = (\<lambda>n w. (''t'', w)), chunk = (\<lambda>w. (3, w)), euid = uid, umask = 0x12\<rparr>"

lemma failing_mount_law: "mount_law (failing_mount uid)"
  by (auto simp: mount_law_def failing_mount_def split: prod.splits)

definition archived :: "int \<Rightarrow> string \<Rightarrow> fs" where
  "archived uid name =
     [([''c''], Directory uid 0x1C0), ([''c'', ''w''], Directory uid 0x1C0),
      ([''c'', ''w'', ''generations''], Directory uid 0x1C0),
      ([''c'', ''w'', ''generations'', name], Directory uid 0x1C0),
      ([''c'', ''w'', ''generations'', name, ''cert.pem''], Regular uid 0x1A0 ''C1''),
      ([''c'', ''w'', ''generations'', name, ''chain.pem''], Regular uid 0x1A0 ''H1''),
      ([''c'', ''w'', ''generations'', name, ''privkey.pem''], Regular uid 0x180 ''K1''),
      ([''c'', ''w'', ''current''], Symlink uid (generation_link name))]"

definition text_libs :: libs where
  "text_libs = \<lparr>load_pem = (\<lambda>s. Inr \<lparr>subject_common_names = [], subject_countries = [],
      subject_name = ''leaf'', issuer_name = ''intermediate'', issuer_rfc4514 = ''CN=R'',
      dns_names = None, basic_constraints_ca = None, extended_key_usage = None, digital_signature = None,
      public_key_of = RsaKey 2048, public_key_der = ''k'', signature_hash = None, not_before = 0,
      not_after = 1, pem_bytes = s\<rparr>), sha256_digest = pem_bytes, verify_signature = (\<lambda>i c. None), idna_encode = Some\<rparr>"

definition text_pems :: pem_libs where
  "text_pems = \<lparr>load_pems = (\<lambda>s. Inr []), load_private_key = (\<lambda>s. Inr ''k'')\<rparr>"

definition store_c :: native_store where
  "store_c = \<lparr>store_root = [''c''], expected_owner = 7\<rparr>"

definition commit_example :: "int \<Rightarrow> int \<Rightarrow> (exn + lineage_material) \<times> fs \<times> int" where
  "commit_example uid n =
     commit_generation (failing_mount uid) text_libs text_pems store_c ''w'' ''C2'' ''H2'' ''K2'' ''g2'' (archived 7 ''g1'', n)"

lemma plain_archive: "plain_store store_c ''w'' (archived uid ''g1'')"
proof -
  have "plain (archived uid ''g1'') ([] @ [''c''])"
    unfolding plain_snoc by (simp add: archived_def node_at_def)
  then show ?thesis
    by (simp add: plain_store_def store_c_def lineage_path_def generations_path_def dir_or_free_def node_at_def archived_def)
qed





lemma parse_material_texts:
  "parse_material L X leaf_text chain_text key_text = Inr m \<Longrightarrow>
     leaf_pem m = leaf_text \<and> chain_pem m = chain_text \<and> private_key_pem m = key_text"
  by (auto simp: parse_material_def Let_def split: sum.splits if_splits)

text \<open>C9
  What a commit returned is what a later load of the same tree gives: the texts that were
  committed.\<close>

theorem commit_then_load:
  assumes "mount_law K" and "reliable K" and "euid K \<noteq> 0" and "plain_store S cid (disk K w)" and "cid \<noteq> ''..''" and "plain_name name"
    and "commit_generation K L X S cid leaf_text chain_text key_text name w = (Inr m, w1)" and "disk K w2 = disk K w1"
  shows "fst (load_lineage K L X S cid w2) = Inr m \<and>
     leaf_pem m = leaf_text \<and> chain_pem m = chain_text \<and> private_key_pem m = key_text"
proof -
  have "parse_material L X leaf_text chain_text key_text = Inr m"
    using wp_Inr[OF wp_commit_generation[OF assms(1,3-6)] assms(7)] by simp
  moreover obtain w0 where "load_lineage K L X S cid w0 = (Inr m, w1)"
    using assms(7) by (auto simp: commit_generation_def Let_def seq_Inr_iff bind_Inr_iff)
  then have "loaded L X S cid (disk K w2) = Inr m"
    using wp_Inr[OF wp_load_lineage[OF assms(1)]] assms(8) by metis
  moreover have "fst (load_lineage K L X S cid w2) = loaded L X S cid (disk K w2)"
    using quiet_load_lineage[OF assms(1,2), of L X S cid w2] unfolding wp_def by (auto split: prod.splits sum.splits)
  ultimately show ?thesis using parse_material_texts by metis
qed

definition calm_mount :: "fs mount" where
  "calm_mount = \<lparr>disk = id, set_disk = (\<lambda>f w. f), io_fault = (\<lambda>w. (None, w)), token_bytes = (\<lambda>n w. (''t'', w)),
     chunk = (\<lambda>w. (1, w)), euid = 7, umask = 0x12\<rparr>"

lemma calm_mount_laws: "mount_law calm_mount" "reliable calm_mount"
  by (simp_all add: mount_law_def reliable_def calm_mount_def)

definition calm_commit :: "(exn + lineage_material) \<times> fs" where
  "calm_commit = commit_generation calm_mount text_libs text_pems store_c ''w'' ''C2'' ''H2'' ''K2'' ''g2'' (archived 7 ''g1'')"

lemma calm_commit_returns: "(case fst calm_commit of Inr m \<Rightarrow> True | Inl _ \<Rightarrow> False)"
  by code_simp

theorem commit_then_load_witness:
  "\<exists>m. fst (load_lineage calm_mount text_libs text_pems store_c ''w'' (snd calm_commit)) = Inr m \<and> leaf_pem m = ''C2''"
proof -
  obtain m where m: "commit_generation calm_mount text_libs text_pems store_c ''w'' ''C2'' ''H2'' ''K2'' ''g2'' (archived 7 ''g1'') =
      (Inr m, snd calm_commit)"
    using calm_commit_returns by (cases "fst calm_commit") (auto simp flip: calm_commit_def simp: prod_eq_iff)
  have "euid calm_mount \<noteq> 0" "plain_store store_c ''w'' (disk calm_mount (archived 7 ''g1''))" "''w'' \<noteq> ''..''" "plain_name ''g2''"
    using plain_archive[of 7] by (simp_all add: calm_mount_def plain_name_def)
  then show ?thesis using commit_then_load[OF calm_mount_laws _ _ _ _ m refl] by auto
qed


end
