(* ===== verification/Acme.thy ===== *)
theory Acme
  imports Preflight CertificateStore StagingEvidence
begin

section \<open>Issuing a certificate\<close>

text \<open>
  \<open>acme_service.py\<close>: the account key, the order, its HTTP-01 challenges, and the choice of a chain
  that the publisher will be able to import. The ACME protocol library and the cryptographic
  library are parameters: \<open>acme_server\<close> is the session with the certificate authority, whose every
  operation may raise and may change the outside, \<open>acme_libs\<close> what is computed without it.
\<close>

subsection \<open>What the libraries offer\<close>

datatype key_spec = GenerateRsa int | GenerateEc string

text \<open>A private key is its PKCS8 text and the encoding of its public half.\<close>

record acme_key =
  key_pem :: string
  key_der :: string

datatype acme_challenge = Http01 string | OtherChallenge

record acme_authorization =
  auth_identifier :: string
  auth_challenges :: "acme_challenge list"

record acme_finalized =
  fullchain_pem :: "string option"
  alternative_fullchains :: "string list"

record acme_libs =
  reencode_key :: "string \<Rightarrow> string"
  rsa_or_ec :: "string \<Rightarrow> bool"
  sign_csr :: "string \<Rightarrow> string list \<Rightarrow> acme_key \<Rightarrow> lib_exn + string"
  load_account_key :: "string \<Rightarrow> lib_exn + bool"
  key_authorization :: "string \<Rightarrow> string \<Rightarrow> string"

text \<open>\<open>load_account_key\<close> tells whether the key it parsed is an RSA key; \<open>key_authorization\<close> gives the
  validation of a token under the account key.\<close>

record 'w acme_server =
  generate_key :: "key_spec \<Rightarrow> 'w \<Rightarrow> acme_key \<times> 'w"
  acme_clock :: "'w \<Rightarrow> instant \<times> 'w"
  local_clock :: "'w \<Rightarrow> instant \<times> 'w"
  get_directory :: "string \<Rightarrow> string \<Rightarrow> int \<Rightarrow> 'w \<Rightarrow> lib_exn option \<times> 'w"
  new_account :: "string \<Rightarrow> bool \<Rightarrow> 'w \<Rightarrow> lib_exn option \<times> 'w"
  query_registration :: "string \<Rightarrow> 'w \<Rightarrow> lib_exn option \<times> 'w"
  new_order :: "string \<Rightarrow> string option \<Rightarrow> 'w \<Rightarrow> (lib_exn + acme_authorization list) \<times> 'w"
  answer_challenge :: "string \<Rightarrow> 'w \<Rightarrow> lib_exn option \<times> 'w"
  poll_authorizations :: "instant \<Rightarrow> 'w \<Rightarrow> lib_exn option \<times> 'w"
  finalize_order :: "instant \<Rightarrow> 'w \<Rightarrow> (lib_exn + acme_finalized) \<times> 'w"

subsection \<open>The account\<close>

definition check_account_key :: "acme_libs \<Rightarrow> node \<Rightarrow> exn + string" where
  "check_account_key A n =
     (case n of
        Regular _ mode content \<Rightarrow>
          if mode AND 0x3F \<noteq> 0 then Inl (AcmeOperationError ''ACME account key permissions are unsafe'')
          else if 16384 < int (length content) then Inl (AcmeOperationError ''ACME account key exceeds size limit'')
          else
            (case load_account_key A content of
               Inl e \<Rightarrow> Inl (Lib e)
             | Inr rsa \<Rightarrow> if rsa then Inr content else Inl (AcmeOperationError ''ACME account key must be RSA''))
      | _ \<Rightarrow> Inl (AcmeOperationError ''ACME account key permissions are unsafe''))"

definition create_account_key :: "'w mount \<Rightarrow> 'w acme_server \<Rightarrow> path \<Rightarrow> ('w, exn, unit) prog" where
  "create_account_key K R p =
     seq (mkdir_parents K 0x1C0 (butlast p))
     (bind (ext (generate_key R (GenerateRsa 3072))) (\<lambda>key.
      bind (sys K (create_file (euid K) (created_mode K 0x180) p)) (\<lambda>fd.
      seq (write_all K fd (key_pem key)) (sys K (observe (\<lambda>_. ()))))))"

definition account_key ::
  "'w mount \<Rightarrow> acme_libs \<Rightarrow> 'w acme_server \<Rightarrow> acme_config \<Rightarrow> ('w, exn, string) prog" where
  "account_key K A R c =
     (let p = components (account_key_path c)
      in bind (sys K (observe (path_exists p))) (\<lambda>there.
         seq (if there then return () else create_account_key K R p)
         (bind
            (try_except (sys K (open_nofollow p)) (\<lambda>e.
               if is_OSError e then Some (raise (AcmeOperationError ''ACME account key is unavailable'')) else None))
            (\<lambda>n. lift (check_account_key A n)))))"

definition acme_client ::
  "'w mount \<Rightarrow> acme_libs \<Rightarrow> 'w acme_server \<Rightarrow> acme_config \<Rightarrow> ('w, exn, string) prog" where
  "acme_client K A R c =
     bind (account_key K A R c) (\<lambda>account.
     seq (ext_fail (get_directory R (directory_url c) account (min (acme_timeout_seconds c) 300)))
     (seq (try_except (ext_fail (new_account R (email c) (agree_to_terms c))) (\<lambda>e.
             case e of Lib (AcmeConflict location) \<Rightarrow> Some (ext_fail (query_registration R location)) | _ \<Rightarrow> None))
     (return account)))"

subsection \<open>Keys and requests\<close>

definition load_optional ::
  "'w mount \<Rightarrow> libs \<Rightarrow> pem_libs \<Rightarrow> native_store \<Rightarrow> string \<Rightarrow> ('w, exn, lineage_material option) prog" where
  "load_optional K L X S cid =
     bind (lineage_exists K S cid) (\<lambda>there.
       if there then bind (load_lineage K L X S cid) (\<lambda>m. return (Some m)) else return None)"

definition renewal_due :: "acme_config \<Rightarrow> lineage_material \<Rightarrow> instant \<Rightarrow> bool" where
  "renewal_due c m now \<longleftrightarrow> not_after (leaf m) \<le> now + renew_before_days c * 86400 * second"

definition certificate_key ::
  "acme_libs \<Rightarrow> 'w acme_server \<Rightarrow> acme_config \<Rightarrow> certificate_config \<Rightarrow> lineage_material option \<Rightarrow>
     ('w, exn, acme_key) prog" where
  "certificate_key A R c cert current =
     (case (if rotate_private_key_on_renewal c then None else current) of
        Some m \<Rightarrow>
          if rsa_or_ec A (private_key_pem m)
          then return \<lparr>key_pem = reencode_key A (private_key_pem m), key_der = private_key_public_der m\<rparr>
          else raise (AcmeOperationError ''stored certificate private key type is unsupported'')
      | None \<Rightarrow>
          ext (generate_key R
            (if key_family (key_of cert) = RSA
             then GenerateRsa (case rsa_size (key_of cert) of Some n \<Rightarrow> if n = 0 then 2048 else n | None \<Rightarrow> 2048)
             else GenerateEc (if ecdsa_curve (key_of cert) = Some ''secp384r1'' then ''secp384r1'' else ''secp256r1''))))"

subsection \<open>Challenges\<close>

definition http01_challenge :: "acme_authorization \<Rightarrow> exn + string" where
  "http01_challenge a =
     (case concat (map (\<lambda>c. case c of Http01 token \<Rightarrow> [token] | OtherChallenge \<Rightarrow> []) (auth_challenges a)) of
        [token] \<Rightarrow> Inr token
      | _ \<Rightarrow> Inl (AcmeOperationError ''ACME authorization did not offer exactly one HTTP-01 challenge''))"

text \<open>The pattern \<open>[A-Za-z0-9_-]{1,256}\<close>.\<close>

definition acme_token_char :: "char \<Rightarrow> bool" where
  "acme_token_char c \<longleftrightarrow>
     (CHR ''A'' \<le> c \<and> c \<le> CHR ''Z'') \<or> (CHR ''a'' \<le> c \<and> c \<le> CHR ''z'') \<or> (CHR ''0'' \<le> c \<and> c \<le> CHR ''9'') \<or>
     c = CHR ''_'' \<or> c = CHR ''-''"

definition acme_token :: "string \<Rightarrow> bool" where
  "acme_token t \<longleftrightarrow> t \<noteq> [] \<and> length t \<le> 256 \<and> list_all acme_token_char t"

definition encode_ascii :: "string \<Rightarrow> exn + string" where
  "encode_ascii s =
     (if is_ascii s then Inr s else Inl (Lib (ValueError ''UnicodeEncodeError'')))"

text \<open>\<open>catch m\<close>: the outcome of \<open>m\<close> as a value.\<close>

definition catch :: "('w, 'e, 'a) prog \<Rightarrow> ('w, 'e, 'e + 'a) prog" where
  "catch m = (\<lambda>w. case m w of (r, w') \<Rightarrow> (Inr r, w'))"

definition place_token ::
  "'w mount \<Rightarrow> exn + int \<Rightarrow> acme_libs \<Rightarrow> string \<Rightarrow> path \<Rightarrow> acme_authorization \<Rightarrow> ('w, exn, string) prog" where
  "place_token K publisher A account d a =
     bind (lift (http01_challenge a)) (\<lambda>token.
     seq (raise_if (\<not> acme_token token) (AcmeOperationError ''ACME server returned an invalid HTTP-01 token''))
     (bind (lift (encode_ascii (key_authorization A account token))) (\<lambda>content.
      seq (write_challenge K publisher d token content) (return token))))"

text \<open>The loop over the authorizations: the files written so far (the local \<open>challenge_paths\<close>, which
  the \<open>finally\<close> clause reads) and how the loop ended.\<close>

fun answer_challenges ::
  "'w mount \<Rightarrow> exn + int \<Rightarrow> acme_libs \<Rightarrow> 'w acme_server \<Rightarrow> string \<Rightarrow> path \<Rightarrow> path list \<Rightarrow> acme_authorization list \<Rightarrow>
     ('w, exn, path list \<times> (exn + unit)) prog" where
  "answer_challenges K publisher A R account d paths [] = return (paths, Inr ())"
| "answer_challenges K publisher A R account d paths (a # as) =
     bind (catch (place_token K publisher A account d a)) (\<lambda>placed.
       case placed of
         Inl e \<Rightarrow> return (paths, Inl e)
       | Inr token \<Rightarrow>
           bind (catch (ext_fail (answer_challenge R token))) (\<lambda>answered.
             case answered of
               Inl e \<Rightarrow> return (paths @ [d @ [token]], Inl e)
             | Inr _ \<Rightarrow> answer_challenges K publisher A R account d (paths @ [d @ [token]]) as))"

subsection \<open>The choice of a chain\<close>

definition built_chain ::
  "'w mount \<Rightarrow> libs \<Rightarrow> lineage_material \<Rightarrow> certificate_config \<Rightarrow> compatibility_config \<Rightarrow>
     ('w, exn, oci_certificate_chain) prog" where
  "built_chain K L m cert policy =
     bind (file_outcome K (components (root_pem_path (chain_of cert)))) (\<lambda>content. lift (build_oci_chain L content m cert policy))"

definition candidate_material :: "pem_libs \<Rightarrow> acme_key \<Rightarrow> string \<Rightarrow> exn + lineage_material" where
  "candidate_material X key candidate =
     (case encode_ascii candidate of Inl e \<Rightarrow> Inl e | Inr bytes \<Rightarrow>
     (case load_pems X bytes of Inl e \<Rightarrow> Inl (Lib e) | Inr parsed \<Rightarrow>
      if length parsed < 2 then Inl (AcmeOperationError ''ACME response did not contain an intermediate chain'')
      else Inr \<lparr>leaf = hd parsed, mat_intermediates = tl parsed, private_key_public_der = key_der key,
                leaf_pem = pem_bytes (hd parsed), chain_pem = concat (map pem_bytes (tl parsed)),
                private_key_pem = key_pem key\<rparr>))"

definition accept_candidate ::
  "'w mount \<Rightarrow> libs \<Rightarrow> pem_libs \<Rightarrow> 'w acme_server \<Rightarrow> app_config \<Rightarrow> certificate_config \<Rightarrow> acme_key \<Rightarrow> string \<Rightarrow>
     ('w, exn, lineage_material) prog" where
  "accept_candidate K L X R config cert key candidate =
     bind (lift (candidate_material X key candidate)) (\<lambda>m.
     bind (ext (acme_clock R)) (\<lambda>now.
     bind (lift (validate_certificate_material L m cert (compatibility config) (global_of config) now)) (\<lambda>_.
     seq (built_chain K L m cert (compatibility config)) (return m))))"

fun select_chain ::
  "'w mount \<Rightarrow> libs \<Rightarrow> pem_libs \<Rightarrow> 'w acme_server \<Rightarrow> app_config \<Rightarrow> certificate_config \<Rightarrow> acme_key \<Rightarrow>
     string list \<Rightarrow> ('w, exn, lineage_material) prog" where
  "select_chain K L X R config cert key [] =
     raise (AcmeOperationError ''ACME server returned no acceptable certificate chain'')"
| "select_chain K L X R config cert key (c # cs) =
     (if c = [] then select_chain K L X R config cert key cs
      else try_except (accept_candidate K L X R config cert key c) (\<lambda>e.
             if is_CertificateValidationError e \<or> is_ValueError e
             then Some (select_chain K L X R config cert key cs) else None))"

definition fullchains :: "acme_finalized \<Rightarrow> string list" where
  "fullchains f = (case fullchain_pem f of None \<Rightarrow> [] | Some c \<Rightarrow> [c]) @ alternative_fullchains f"

subsection \<open>The whole operation\<close>

fun is_AcmeError :: "exn \<Rightarrow> bool" where
  "is_AcmeError (Lib (AcmeError _)) = True"
| "is_AcmeError (Lib (AcmeConflict _)) = True"
| "is_AcmeError _ = False"

definition converted :: "('w, exn, 'a) prog \<Rightarrow> ('w, exn, 'a) prog" where
  "converted m =
     try_except m (\<lambda>e.
       if is_AcmeError e \<or> is_OSError e \<or> is_TypeError e \<or> is_ValueError e
       then Some (raise (AcmeOperationError ''native ACME operation failed'')) else None)"

definition open_order ::
  "'w mount \<Rightarrow> acme_libs \<Rightarrow> 'w acme_server \<Rightarrow> app_config \<Rightarrow> certificate_config \<Rightarrow> string \<Rightarrow>
     ('w, exn, string \<times> acme_authorization list) prog" where
  "open_order K A R config cert csr =
     bind (acme_client K A R (acme config)) (\<lambda>account.
     bind (ext_try (new_order R csr (preferred_profile (acme config)))) (\<lambda>auths.
     seq (raise_if (set (map auth_identifier auths) \<noteq> set (domains cert))
            (AcmeOperationError ''ACME order returned unexpected identifiers''))
     (return (account, auths))))"

definition generation_name :: "libs \<Rightarrow> lineage_material \<Rightarrow> instant \<Rightarrow> string \<Rightarrow> string" where
  "generation_name L m now hex = compact_timestamp now @ ''-'' @ take 12 (certificate_sha256 L (leaf m)) @ ''-'' @ hex"

definition finish_order ::
  "'w mount \<Rightarrow> libs \<Rightarrow> pem_libs \<Rightarrow> 'w acme_server \<Rightarrow> native_store \<Rightarrow> app_config \<Rightarrow> certificate_config \<Rightarrow>
     acme_key \<Rightarrow> ('w, exn, lineage_material) prog" where
  "finish_order K L X R S config cert key =
     bind (ext (local_clock R)) (\<lambda>now.
     let deadline = now + acme_timeout_seconds (acme config) * second
     in seq (ext_fail (poll_authorizations R deadline))
        (bind (ext_try (finalize_order R deadline)) (\<lambda>finalized.
         bind (select_chain K L X R config cert key (fullchains finalized)) (\<lambda>m.
         bind (ext (acme_clock R)) (\<lambda>stamp.
         bind (token_hex K 4) (\<lambda>hex.
           commit_generation K L X S (cert_id cert) (leaf_pem m) (chain_pem m) (key_pem key)
             (generation_name L m stamp hex)))))))"

definition run_order ::
  "'w mount \<Rightarrow> libs \<Rightarrow> pem_libs \<Rightarrow> acme_libs \<Rightarrow> 'w acme_server \<Rightarrow> native_store \<Rightarrow> exn + int \<Rightarrow> app_config \<Rightarrow>
     certificate_config \<Rightarrow> acme_key \<Rightarrow> string \<Rightarrow> ('w, exn, lineage_material) prog" where
  "run_order K L X A R S publisher config cert key csr =
     bind (converted (open_order K A R config cert csr)) (\<lambda>(account, auths).
     bind (answer_challenges K publisher A R account
             (challenge_directory (webroot_base (http01 config)) (webroot_id cert)) [] auths) (\<lambda>(paths, answered).
     try_finally
       (converted (seq (lift answered) (finish_order K L X R S config cert key)))
       (for_each paths (remove_challenge K))))"

definition issue ::
  "'w mount \<Rightarrow> libs \<Rightarrow> pem_libs \<Rightarrow> acme_libs \<Rightarrow> 'w acme_server \<Rightarrow> native_store \<Rightarrow> exn + int \<Rightarrow> app_config \<Rightarrow>
     certificate_config \<Rightarrow> bool \<Rightarrow> ('w, exn, lineage_material) prog" where
  "issue K L X A R S publisher config cert force =
     bind (load_optional K L X S (cert_id cert)) (\<lambda>current.
     bind (case current of
             None \<Rightarrow> return True
           | Some m \<Rightarrow>
               if force then return True
               else bind (ext (acme_clock R)) (\<lambda>now. return (renewal_due (acme config) m now))) (\<lambda>due.
     case (due, current) of
       (False, Some m) \<Rightarrow> return m
     | _ \<Rightarrow>
         bind (certificate_key A R (acme config) cert current) (\<lambda>key.
         bind (lift (map_sum Lib id (sign_csr A (common_name cert) (domains cert) key))) (\<lambda>csr.
           run_order K L X A R S publisher config cert key csr))))"

subsection \<open>Removed tokens\<close>

text \<open>\<open>absent f p\<close>: \<open>lstat\<close> finds nothing at the path.\<close>

definition absent :: "fs \<Rightarrow> path \<Rightarrow> bool" where
  "absent f p \<longleftrightarrow> stat_at f False p = Inl ENOENT"

definition ends :: "(path \<Rightarrow> bool) \<Rightarrow> lib_exn + path \<Rightarrow> bool" where
  "ends P r \<longleftrightarrow> (case r of Inl e \<Rightarrow> e = ENOENT | Inr q \<Rightarrow> P q)"

lemma ends_simps [simp]: "ends P (Inl e) \<longleftrightarrow> e = ENOENT" "ends P (Inr q) \<longleftrightarrow> P q"
  by (simp_all add: ends_def)

lemma absent_walk: "absent f p \<longleftrightarrow> ends (\<lambda>q. node_at f q = None) (walk f False max_links [] p)"
  by (auto simp: absent_def stat_at_def resolve_def split: sum.splits option.splits)

text \<open>Without an entry that is no directory, a path that led to it, or to nothing, leads to nothing.\<close>

lemma walk_delete:
  assumes "\<not> fl" and "node_at f q = Some n" and "\<not> is_directory (Some n)"
    and "ends (\<lambda>r. r = q \<or> node_at f r = None) (walk f fl k d cs)"
  shows "ends (\<lambda>r. r = q \<or> node_at f r = None) (walk (AList.delete q f) False k d cs)"
proof -
  have q: "q \<noteq> []" using assms(2,3) by (auto simp: node_at_def)
  show ?thesis
    using assms
  proof (induction f fl k d cs rule: walk.induct)
    case (1 f fl k d)
    then show ?case by (auto simp: node_at_delete q)
  next
    case (2 f fl k d c cs)
    show ?case
    proof (cases "node_at f (d @ [c])")
      case None
      then show ?thesis using 2 by (auto simp: node_at_delete q split: if_splits)
    next
      case (Some m)
      then show ?thesis
        using 2 by (cases m) (auto simp: node_at_delete q split: if_splits nat.splits)
    qed
  qed
qed

lemma unlink_absent:
  assumes "unlink_entry p f = Inr (u, f')"
  shows "absent f' p" and "absent f p' \<Longrightarrow> absent f' p'"
proof -
  obtain q n where stat: "stat_at f False p = Inr (q, n)" "\<not> is_directory (Some n)" "f' = AList.delete q f"
    using assms by (auto simp: unlink_entry_def split: sum.splits prod.splits node.splits)
  then have q: "walk f False max_links [] p = Inr q" "node_at f q = Some n"
    by (auto simp: stat_at_def resolve_def split: sum.splits option.splits)
  have gone: "absent f' x" if "ends (\<lambda>r. r = q \<or> node_at f r = None) (walk f False max_links [] x)" for x
  proof -
    have "q \<noteq> []" using q(2) stat(2) by (auto simp: node_at_def)
    moreover have "ends (\<lambda>r. r = q \<or> node_at f r = None) (walk f' False max_links [] x)"
      unfolding stat(3) by (rule walk_delete[OF _ q(2) stat(2) that]) simp
    ultimately show ?thesis by (auto simp: absent_walk ends_def stat(3) node_at_delete split: sum.splits)
  qed
  show "absent f' p" by (rule gone) (simp add: q(1))
  show "absent f' p'" if "absent f p'"
    by (rule gone) (use that in \<open>auto simp: absent_walk ends_def split: sum.splits\<close>)
qed

lemma unlink_missing: "unlink_entry p f = Inl ENOENT \<Longrightarrow> absent f p"
  by (auto simp: unlink_entry_def absent_def split: sum.splits prod.splits node.splits)

text \<open>A disk that never reports a file missing that is there.\<close>

definition no_false_missing :: "'w mount \<Rightarrow> bool" where
  "no_false_missing K \<longleftrightarrow> (\<forall>w. fst (io_fault K w) \<noteq> Some ENOENT)"

lemma wp_remove_absent:
  assumes K: "mount_law K" and F: "no_false_missing K"
  shows "wp (remove_challenge K p)
     (\<lambda>_ w'. absent (disk K w') p \<and> (\<forall>p'. absent (disk K w) p' \<longrightarrow> absent (disk K w') p')) (\<lambda>e _. \<exists>l. e = Lib l) w"
proof -
  obtain x w1 where x: "io_fault K w = (x, w1)" by fastforce
  then have same: "disk K w1 = disk K w" and x': "x \<noteq> Some ENOENT"
    using K F by (metis mount_law_def snd_conv, metis no_false_missing_def fst_conv)
  show ?thesis
  proof (cases x)
    case (Some e)
    then show ?thesis using x x' by (auto simp: remove_challenge_def wp_def sys_def try_except_def)
  next
    case None
    show ?thesis
    proof (cases "unlink_entry p (disk K w)")
      case (Inl e)
      then show ?thesis
        using x same None unlink_missing[of p "disk K w"]
        by (auto simp: remove_challenge_def wp_try_except wp_return) (auto simp: wp_def sys_def return_def)
    next
      case (Inr r)
      then obtain u f' where "unlink_entry p (disk K w) = Inr (u, f')" by (cases r) auto
      then show ?thesis
        using x same None unlink_absent[of p "disk K w" u f'] K
        by (auto simp: remove_challenge_def wp_def run_simps sys_def mount_law_def)
    qed
  qed
qed

lemma wp_remove_all:
  assumes K: "mount_law K" and F: "no_false_missing K"
  shows "wp (for_each paths (remove_challenge K))
     (\<lambda>_ w'. (\<forall>p\<in>set paths. absent (disk K w') p) \<and> (\<forall>p'. absent (disk K w) p' \<longrightarrow> absent (disk K w') p'))
     (\<lambda>e _. \<exists>l. e = Lib l) w"
proof (induction paths arbitrary: w)
  case (Cons p ps)
  have rest: "wp (for_each ps (remove_challenge K))
      (\<lambda>_ w'. (\<forall>x\<in>set (p # ps). absent (disk K w') x) \<and> (\<forall>p'. absent (disk K w) p' \<longrightarrow> absent (disk K w') p'))
      (\<lambda>e _. \<exists>l. e = Lib l) w1"
    if "absent (disk K w1) p" "\<forall>p'. absent (disk K w) p' \<longrightarrow> absent (disk K w1) p'" for w1
    by (rule wp_mono[OF Cons.IH[of w1]]) (use that in auto)
  show ?case
    unfolding for_each.simps wp_bind
    by (rule wp_mono[OF wp_remove_absent[OF K F]]) (auto intro: rest[simplified])
qed (simp add: wp_return)

subsection \<open>What an order that succeeds has done\<close>

lemma place_token_Inr:
  "place_token K publisher A account d a w = (Inr token, w') \<Longrightarrow> http01_challenge a = Inr token \<and> acme_token token"
  by (auto simp: place_token_def bind_Inr_iff seq_Inr_iff run_return run_lift raise_if_Inr_iff)

lemma answer_challenges_Inr:
  "answer_challenges K publisher A R account d paths auths w = (Inr (paths', Inr ()), w') \<Longrightarrow>
     \<exists>tokens. list_all2 (\<lambda>a t. http01_challenge a = Inr t \<and> acme_token t) auths tokens \<and>
       paths' = paths @ map (\<lambda>t. d @ [t]) tokens"
proof (induction auths arbitrary: paths w)
  case (Cons a as)
  obtain r w1 where r: "place_token K publisher A account d a w = (r, w1)" by fastforce
  then obtain token where token: "r = Inr token"
    using Cons.prems by (cases r) (auto simp: run_simps catch_def)
  obtain r2 w2 where r2: "ext_fail (answer_challenge R token) w1 = (r2, w2)" by fastforce
  then obtain u where "r2 = Inr u" using Cons.prems r token by (cases r2) (auto simp: run_simps catch_def)
  then have "answer_challenges K publisher A R account d (paths @ [d @ [token]]) as w2 = (Inr (paths', Inr ()), w')"
    using Cons.prems r r2 token by (simp add: run_simps catch_def)
  from Cons.IH[OF this] obtain tokens where
    "list_all2 (\<lambda>a t. http01_challenge a = Inr t \<and> acme_token t) as tokens"
    "paths' = (paths @ [d @ [token]]) @ map (\<lambda>t. d @ [t]) tokens" by blast
  moreover have "http01_challenge a = Inr token \<and> acme_token token"
    using place_token_Inr r token by metis
  ultimately show ?case by (intro exI[of _ "token # tokens"]) simp
qed (simp add: run_return)

definition chosen ::
  "libs \<Rightarrow> pem_libs \<Rightarrow> app_config \<Rightarrow> certificate_config \<Rightarrow> acme_key \<Rightarrow> lineage_material \<Rightarrow> bool" where
  "chosen L X config cert key m \<longleftrightarrow>
     (\<exists>candidate now fp content chain. candidate_material X key candidate = Inr m \<and>
        validate_certificate_material L m cert (compatibility config) (global_of config) now = Inr fp \<and>
        build_oci_chain L content m cert (compatibility config) = Inr chain)"

lemma accept_candidate_Inr:
  "accept_candidate K L X R config cert key c w = (Inr m, w') \<Longrightarrow> chosen L X config cert key m"
  unfolding chosen_def
  by (auto simp: accept_candidate_def built_chain_def bind_Inr_iff seq_Inr_iff run_return run_lift)

lemma select_chain_Inr:
  "select_chain K L X R config cert key cs w = (Inr m, w') \<Longrightarrow> chosen L X config cert key m"
proof (induction cs arbitrary: w)
  case (Cons c cs)
  show ?case
  proof (cases "c = []")
    case False
    obtain r w1 where r: "accept_candidate K L X R config cert key c w = (r, w1)" by fastforce
    then show ?thesis
      using Cons False accept_candidate_Inr[of K L X R config cert key c w] by (cases r) (auto simp: run_simps split: if_splits)
  qed (use Cons in simp)
qed (simp add: run_raise)

lemma converted_Inr: "converted m w = (Inr a, w') \<Longrightarrow> m w = (Inr a, w')"
  by (auto simp: converted_def try_except_def run_raise split: prod.splits sum.splits if_splits)

text \<open>A new generation: the material was chosen, and the result is what committing it under some
  name gave.\<close>

definition issued ::
  "'w mount \<Rightarrow> libs \<Rightarrow> pem_libs \<Rightarrow> native_store \<Rightarrow> app_config \<Rightarrow> certificate_config \<Rightarrow> acme_key \<Rightarrow> lineage_material \<Rightarrow> bool" where
  "issued K L X S config cert key m \<longleftrightarrow>
     (\<exists>M name w1 w2. chosen L X config cert key M \<and>
        commit_generation K L X S (cert_id cert) (leaf_pem M) (chain_pem M) (key_pem key) name w1 = (Inr m, w2))"

lemma finish_order_Inr:
  "finish_order K L X R S config cert key w = (Inr m, w') \<Longrightarrow> issued K L X S config cert key m"
  unfolding issued_def
  by (auto simp: finish_order_def Let_def bind_Inr_iff seq_Inr_iff) (blast dest: select_chain_Inr)

text \<open>The order the server gave for the request covers exactly the domains, and each of its
  authorizations offered one challenge, whose token file is gone.\<close>

definition order_closed ::
  "'w mount \<Rightarrow> 'w acme_server \<Rightarrow> app_config \<Rightarrow> certificate_config \<Rightarrow> string \<Rightarrow> fs \<Rightarrow> bool" where
  "order_closed K R config cert csr f \<longleftrightarrow>
     (\<exists>w1 w2 auths. new_order R csr (preferred_profile (acme config)) w1 = (Inr auths, w2) \<and>
        set (map auth_identifier auths) = set (domains cert) \<and>
        (\<forall>a\<in>set auths. \<exists>token. http01_challenge a = Inr token \<and> acme_token token \<and>
           absent f (challenge_directory (webroot_base (http01 config)) (webroot_id cert) @ [token])))"

lemma open_order_Inr:
  "open_order K A R config cert csr w = (Inr (account, auths), w') \<Longrightarrow>
     (\<exists>w1 w2. new_order R csr (preferred_profile (acme config)) w1 = (Inr auths, w2)) \<and>
     set (map auth_identifier auths) = set (domains cert)"
  by (auto simp: open_order_def bind_Inr_iff seq_Inr_iff ext_try_Inr raise_if_Inr_iff run_return simp del: set_map)

lemma try_finally_Inr2:
  "try_finally m f w = (Inr a, w') \<Longrightarrow> \<exists>w1 u. m w = (Inr a, w1) \<and> f w1 = (Inr u, w')"
  by (auto simp: try_finally_def split: prod.splits sum.splits)

lemma run_order_Inr:
  assumes K: "mount_law K" "no_false_missing K" and run: "run_order K L X A R S publisher config cert key csr w = (Inr m, w')"
  shows "order_closed K R config cert csr (disk K w') \<and> issued K L X S config cert key m"
proof -
  let ?d = "challenge_directory (webroot_base (http01 config)) (webroot_id cert)"
  obtain account auths w1 paths answered w2 where
    order: "open_order K A R config cert csr w = (Inr (account, auths), w1)"
    and answered: "answer_challenges K publisher A R account ?d [] auths w1 = (Inr (paths, answered), w2)"
    and rest: "try_finally (converted (seq (lift answered) (finish_order K L X R S config cert key)))
       (for_each paths (remove_challenge K)) w2 = (Inr m, w')"
    using run by (auto simp: run_order_def bind_Inr_iff dest!: converted_Inr)
  from try_finally_Inr2[OF rest] obtain w3 u where
    body: "seq (lift answered) (finish_order K L X R S config cert key) w2 = (Inr m, w3)"
    and removed: "for_each paths (remove_challenge K) w3 = (Inr u, w')"
    by (auto dest: converted_Inr)
  from body have ok: "answered = Inr ()" and fin: "finish_order K L X R S config cert key w2 = (Inr m, w3)"
    by (auto simp: seq_Inr_iff run_lift)
  from answer_challenges_Inr[OF answered[unfolded ok]] obtain tokens where
    tokens: "list_all2 (\<lambda>a t. http01_challenge a = Inr t \<and> acme_token t) auths tokens"
    and paths: "paths = map (\<lambda>t. ?d @ [t]) tokens" by auto
  have gone: "\<forall>p\<in>set paths. absent (disk K w') p"
    using wp_Inr[OF wp_remove_all[OF K] removed] by blast
  have "\<exists>token. http01_challenge a = Inr token \<and> acme_token token \<and> absent (disk K w') (?d @ [token])" if "a \<in> set auths" for a
    using that tokens gone paths by (fastforce simp: list_all2_conv_all_nth in_set_conv_nth)
  then have "order_closed K R config cert csr (disk K w')"
    unfolding order_closed_def using open_order_Inr[OF order] by blast
  then show ?thesis using finish_order_Inr[OF fin] by blast
qed

lemma lift_library_Inr: "lift (map_sum Lib id r) w = (Inr a, w') \<longleftrightarrow> r = Inr a \<and> w' = w"
  by (cases r) (auto simp: run_lift)


end
