(* ===== verification/Metrics.thy ===== *)
theory Metrics
  imports StateStore StagingEvidence Challenge CertificateStore
begin

section \<open>Metrics\<close>

text \<open>
  \<open>metrics.py\<close>: the samples that are built from the state store and the public leaf certificates,
  their text, and the file that the node exporter reads, written beside its target and moved onto
  it. A Python \<open>float\<close> is a rational or \<open>nan\<close>; how one is printed is a parameter.
\<close>

subsection \<open>Samples\<close>

datatype sample = IntSample int | FloatSample rat | NanSample

record metric =
  metric_name :: string
  metric_value :: sample
  metric_labels :: "(string \<times> string) list"

text \<open>\<open>s.replace(c, r)\<close> for a character \<open>c\<close>.\<close>

definition replace_char :: "char \<Rightarrow> string \<Rightarrow> string \<Rightarrow> string" where
  "replace_char c r s = concat (map (\<lambda>x. if x = c then r else [x]) s)"

definition escape_label_value :: "string \<Rightarrow> string" where
  "escape_label_value s =
     replace_char (CHR 0x0A) [CHR 0x5C, CHR ''n'']
       (replace_char (CHR 0x22) [CHR 0x5C, CHR 0x22] (replace_char (CHR 0x5C) [CHR 0x5C, CHR 0x5C] s))"

definition int_text :: "int \<Rightarrow> string" where
  "int_text n = (if n < 0 then CHR ''-'' # digits_of (nat (- n)) else digits_of (nat n))"

definition sample_text :: "(rat \<Rightarrow> string) \<Rightarrow> sample \<Rightarrow> string" where
  "sample_text float_text v =
     (case v of IntSample n \<Rightarrow> int_text n | FloatSample x \<Rightarrow> float_text x | NanSample \<Rightarrow> ''nan'')"

definition label_text :: "(string \<times> string) list \<Rightarrow> string" where
  "label_text labels =
     (if labels = [] then []
      else ''{'' @ join '','' (map (\<lambda>(k, v). k @ [CHR ''='', CHR 0x22] @ escape_label_value v @ [CHR 0x22]) labels) @ ''}'')"

definition render :: "(rat \<Rightarrow> string) \<Rightarrow> metric \<Rightarrow> exn + string" where
  "render float_text m =
     (if \<not> startswith (metric_name m) ''oci_acme_''
      then Inl (Lib (ValueError ''metric name must use the oci_acme_ namespace''))
      else Inr (metric_name m @ label_text (metric_labels m) @ '' '' @ sample_text float_text (metric_value m) @ [CHR 0x0A]))"

text \<open>\<open>"".join(metric.render() for metric in metrics)\<close>.\<close>

fun render_all :: "(rat \<Rightarrow> string) \<Rightarrow> metric list \<Rightarrow> exn + string" where
  "render_all float_text [] = Inr []"
| "render_all float_text (m # ms) =
     (case render float_text m of Inl e \<Rightarrow> Inl e | Inr line \<Rightarrow>
     (case render_all float_text ms of Inl e \<Rightarrow> Inl e | Inr rest \<Rightarrow> Inr (line @ rest)))"

subsection \<open>The file\<close>

definition temporary_name :: "nat \<Rightarrow> string \<Rightarrow> string" where
  "temporary_name pid name = ''.'' @ name @ ''.'' @ digits_of pid @ ''.tmp''"

definition write_metrics ::
  "'w mount \<Rightarrow> (rat \<Rightarrow> string) \<Rightarrow> nat \<Rightarrow> path \<Rightarrow> metric list \<Rightarrow> ('w, exn, unit) prog" where
  "write_metrics K float_text pid p metrics =
     (let temporary = butlast p @ [temporary_name pid (last p)]
      in seq (mkdir_parents K 0x1E8 (butlast p))
         (bind (sys K (create_file (euid K) (created_mode K 0x1A0) temporary)) (\<lambda>fd.
          seq (try_except
                 (bind (lift (render_all float_text metrics)) (\<lambda>content.
                  seq (write_all K fd content) (sys K (observe (\<lambda>_. ())))))
                 (\<lambda>e. Some (seq (unlink_missing_ok K temporary) (raise e))))
          (sys K (replace_entry temporary p)))))"

subsection \<open>What is measured\<close>

definition publication_operations :: "operation_type list" where
  "publication_operations = [BOOTSTRAP, PUBLISH, RECONCILE]"

definition failure_states :: "operation_state list" where
  "failure_states =
     [CONFIG_FAILED, HTTP01_PREFLIGHT_FAILED, ACME_FAILED, LOCAL_VALIDATION_FAILED, OCI_UPLOAD_FAILED,
      OCI_VERSION_FAILED, OCI_PROMOTION_FAILED, AUDIT_FAILED, ROLLBACK_FAILED, MANUAL_INTERVENTION_REQUIRED]"

definition timestamp_sample :: "seconds option \<Rightarrow> sample" where
  "timestamp_sample t = FloatSample (case t of None \<Rightarrow> 0 | Some s \<Rightarrow> of_int s)"

definition leaf_path :: "app_config \<Rightarrow> certificate_config \<Rightarrow> path" where
  "leaf_path config cert = components (certificates_dir (acme config)) @ [cert_id cert, ''current'', ''cert.pem'']"

definition leaf_expiry :: "libs \<Rightarrow> lib_exn + string \<Rightarrow> exn + instant option" where
  "leaf_expiry L content =
     (case (case content of Inl e \<Rightarrow> Inl e | Inr bytes \<Rightarrow> load_pem L bytes) of
        Inl e \<Rightarrow> if is_OSError (Lib e) \<or> is_ValueError (Lib e) then Inr None else Inl (Lib e)
      | Inr c \<Rightarrow> Inr (Some (not_after c)))"

definition certificate_days_remaining ::
  "'w mount \<Rightarrow> libs \<Rightarrow> app_config \<Rightarrow> certificate_config \<Rightarrow> instant \<Rightarrow> ('w, sample) action" where
  "certificate_days_remaining K L config cert now =
     bind (locally (file_outcome K (leaf_path config cert))) (\<lambda>content.
     bind (lift (leaf_expiry L content)) (\<lambda>expires.
       return (case expires of
                 None \<Rightarrow> NanSample
               | Some t \<Rightarrow> FloatSample (max 0 (of_int (t - now) / of_int (86400 * second))))))"

text \<open>The dictionary \<open>failures\<close> and the counter \<open>rollbacks\<close>, which the loop over the groups updates.\<close>

record tally =
  renewal_failures :: int
  publication_failures :: int
  audit_failures :: int
  preflight_failures :: int
  rollback_failures :: int
  completed_rollbacks :: int

definition tally_group :: "operation_type \<times> operation_state \<times> nat \<Rightarrow> tally \<Rightarrow> tally" where
  "tally_group g t =
     (case g of (ty, st, n) \<Rightarrow>
        let t1 = if ty = ROLLBACK \<and> st = COMPLETED
                 then t\<lparr>completed_rollbacks := completed_rollbacks t + int n\<rparr> else t
        in if \<not> List.member failure_states st then t1
           else
             let t2 = if st = HTTP01_PREFLIGHT_FAILED
                      then t1\<lparr>preflight_failures := preflight_failures t1 + int n\<rparr> else t1
             in if ty = RENEW then t2\<lparr>renewal_failures := renewal_failures t2 + int n\<rparr>
                else if List.member publication_operations ty
                then t2\<lparr>publication_failures := publication_failures t2 + int n\<rparr>
                else if ty = AUDIT then t2\<lparr>audit_failures := audit_failures t2 + int n\<rparr>
                else if ty = ROLLBACK then t2\<lparr>rollback_failures := rollback_failures t2 + int n\<rparr>
                else t2)"

definition no_failures :: tally where
  "no_failures = \<lparr>renewal_failures = 0, publication_failures = 0, audit_failures = 0, preflight_failures = 0,
     rollback_failures = 0, completed_rollbacks = 0\<rparr>"

definition tally_of :: "(operation_type \<times> operation_state \<times> nat) list \<Rightarrow> tally" where
  "tally_of gs = fold tally_group gs no_failures"

fun operation_label :: "operation_type \<Rightarrow> string" where
  "operation_label BOOTSTRAP = ''bootstrap''"
| "operation_label RENEW = ''renew''"
| "operation_label PUBLISH = ''publish''"
| "operation_label RECONCILE = ''reconcile''"
| "operation_label AUDIT = ''audit''"
| "operation_label ROLLBACK = ''rollback''"

definition gauge :: "string \<Rightarrow> sample \<Rightarrow> metric" where
  "gauge name v = \<lparr>metric_name = name, metric_value = v, metric_labels = []\<rparr>"

definition certificate_gauge :: "string \<Rightarrow> string \<Rightarrow> sample \<Rightarrow> metric" where
  "certificate_gauge cid name v = \<lparr>metric_name = name, metric_value = v, metric_labels = [(''certificate_id'', cid)]\<rparr>"

definition tally_metrics :: "string \<Rightarrow> tally \<Rightarrow> metric list" where
  "tally_metrics cid t =
     [certificate_gauge cid ''oci_acme_renewal_failures_total'' (IntSample (renewal_failures t)),
      certificate_gauge cid ''oci_acme_publication_failures_total'' (IntSample (publication_failures t)),
      certificate_gauge cid ''oci_acme_audit_failures_total'' (IntSample (audit_failures t)),
      certificate_gauge cid ''oci_acme_rollbacks_total'' (IntSample (completed_rollbacks t)),
      certificate_gauge cid ''oci_acme_http01_preflight_failures_total'' (IntSample (preflight_failures t))]"

definition state_metrics :: "string \<Rightarrow> sample \<Rightarrow> cert_row option \<Rightarrow> nat \<Rightarrow> metric list" where
  "state_metrics cid days state versions =
     [certificate_gauge cid ''oci_acme_certificate_days_remaining'' days,
      certificate_gauge cid ''oci_acme_last_renewal_success_timestamp''
        (timestamp_sample (Option.bind state last_successful_renewal_at)),
      certificate_gauge cid ''oci_acme_last_publication_success_timestamp''
        (timestamp_sample (Option.bind state last_successful_publication_at)),
      certificate_gauge cid ''oci_acme_last_audit_success_timestamp''
        (timestamp_sample (Option.bind state last_successful_audit_at)),
      certificate_gauge cid ''oci_acme_oci_versions'' (IntSample (int versions))]"

definition duration_metrics :: "string \<Rightarrow> (operation_type \<times> rat) list \<Rightarrow> metric list" where
  "duration_metrics cid averages =
     map (\<lambda>(ty, x). \<lparr>metric_name = ''oci_acme_operation_duration_seconds'', metric_value = FloatSample x,
            metric_labels = [(''certificate_id'', cid), (''operation'', operation_label ty)]\<rparr>) averages"

definition certificate_metrics ::
  "'w env \<Rightarrow> 'w mount \<Rightarrow> libs \<Rightarrow> app_config \<Rightarrow> instant \<Rightarrow> certificate_config \<Rightarrow> ('w, metric list) action" where
  "certificate_metrics env K L config now cert =
     (let cid = cert_id cert
      in bind (certificate_state env cid) (\<lambda>state.
         bind (certificate_days_remaining K L config cert now) (\<lambda>days.
         bind (known_oci_versions env cid) (\<lambda>versions.
         bind (operation_counts env cid) (\<lambda>counts.
         bind (average_completed_operation_durations env cid) (\<lambda>averages.
           return (state_metrics cid days state versions @ tally_metrics cid (tally_of counts) @
             duration_metrics cid averages)))))))"

definition compatibility_gauge :: "app_config \<Rightarrow> metric" where
  "compatibility_gauge config =
     gauge ''oci_acme_compatibility_gate'' (IntSample (if live_verified (compatibility config) then 1 else 0))"

definition collect_metrics :: "'w env \<Rightarrow> 'w mount \<Rightarrow> libs \<Rightarrow> app_config \<Rightarrow> ('w, metric list) action" where
  "collect_metrics env K L config =
     bind (now_utc env) (\<lambda>now.
     bind (map_prog (certificate_metrics env K L config now) (certificates config)) (\<lambda>samples.
       return (compatibility_gauge config # concat samples)))"

definition database_path :: "app_config \<Rightarrow> path" where
  "database_path config = components (state_dir (global_of config)) @ [''state.sqlite3'']"

definition database_exists :: "'w mount \<Rightarrow> app_config \<Rightarrow> ('w, bool) action" where
  "database_exists K config =
     try_except (locally (sys K (observe (path_exists (database_path config)))))
       (\<lambda>e. if is_OSError e then Some (return False) else None)"

text \<open>\<open>StateStore.open_read_only\<close>: a connection to the existing database, nothing else. An \<open>Interrupted\<close>
  process is no \<open>Exception\<close>.\<close>

definition open_read_only :: "('w \<Rightarrow> lib_exn option \<times> 'w) \<Rightarrow> ('w, unit) action" where
  "open_read_only connect =
     bind (external connect) (\<lambda>fault. case fault of Some e \<Rightarrow> raise (Lib e) | None \<Rightarrow> return ())"

definition unavailable_metrics :: "app_config \<Rightarrow> metric list" where
  "unavailable_metrics config = [gauge ''oci_acme_state_available'' (IntSample 0), compatibility_gauge config]"

definition collect_read_only_metrics ::
  "'w env \<Rightarrow> ('w \<Rightarrow> lib_exn option \<times> 'w) \<Rightarrow> 'w mount \<Rightarrow> libs \<Rightarrow> app_config \<Rightarrow> ('w, metric list) action" where
  "collect_read_only_metrics env connect K L config =
     bind (database_exists K config) (\<lambda>there.
       if \<not> there then return (unavailable_metrics config)
       else
         bind (try_except (seq (open_read_only connect) (return True))
                 (\<lambda>e. if e = Lib Interrupted then None else Some (return False))) (\<lambda>opened.
           if \<not> opened then return (unavailable_metrics config)
           else
             bind (collect_metrics env K L config) (\<lambda>metrics.
               return (gauge ''oci_acme_state_available'' (IntSample 1) # metrics))))"

definition write_configured_metrics ::
  "'w env \<Rightarrow> 'w mount \<Rightarrow> libs \<Rightarrow> (rat \<Rightarrow> string) \<Rightarrow> nat \<Rightarrow> app_config \<Rightarrow> ('w, unit) action" where
  "write_configured_metrics env K L float_text pid config =
     (if \<not> textfile_enabled (monitoring config) then return ()
      else
        seq (open_store env)
        (bind (collect_metrics env K L config) (\<lambda>metrics.
           locally (write_metrics K float_text pid (components (textfile_path (monitoring config))) metrics))))"

subsection \<open>The file is replaced as a whole\<close>

lemma digits_ne: "digits_of n \<noteq> []"
  by (subst digits_of.simps) simp

definition metrics_written :: "fs \<Rightarrow> path \<Rightarrow> path \<Rightarrow> string \<Rightarrow> fs \<Rightarrow> bool" where
  "metrics_written f p temporary content f' \<longleftrightarrow>
     holds_text f' p content \<and> node_at f' temporary = None \<and>
     (\<forall>q. q \<noteq> p \<and> q \<noteq> temporary \<longrightarrow> node_at f' q = node_at f q)"

lemma wp_write_metrics:
  fixes pid and d :: path
  assumes K: "mount_law K" and d: "plain (disk K w) d" and c: "c \<noteq> ''..''"
  defines "t \<equiv> d @ [temporary_name pid c]"
  shows "wp (write_metrics K float_text pid (d @ [c]) metrics)
     (\<lambda>_ w'. \<exists>content. render_all float_text metrics = Inr content \<and> metrics_written (disk K w) (d @ [c]) t content (disk K w'))
     (\<lambda>_ w'. same_but t (disk K w) (disk K w')) w"
proof -
  have t: "temporary_name pid c \<noteq> ''..''" "temporary_name pid c \<noteq> c"
  proof -
    have "length (temporary_name pid c) > length c + 2"
      by (simp add: temporary_name_def)
    then show "temporary_name pid c \<noteq> ''..''" "temporary_name pid c \<noteq> c" by auto
  qed
  let ?S = "\<lambda>w'. same_but t (disk K w) (disk K w')"
  let ?Q = "\<lambda>_ w'. \<exists>content. render_all float_text metrics = Inr content \<and> metrics_written (disk K w) (d @ [c]) t content (disk K w')"
  have plain: "plain (disk K w') d" if "?S w'" for w'
    using plain_same_but[OF d that] by (simp add: t_def)
  have moved: "wp (sys K (replace_entry t (d @ [c]))) ?Q (\<lambda>_. ?S) w'"
    if S: "?S w'" and held: "holds_text (disk K w') t content" and r: "render_all float_text metrics = Inr content" for w' content
  proof -
    obtain u m where node: "node_at (disk K w') t = Some (Regular u m content)" using held by (auto simp: holds_text_def)
    then have stat: "stat_at (disk K w') False t = Inr (t, Regular u m content)"
      using plain[OF S] t(1) by (simp add: t_def stat_entry)
    have dst: "resolve (disk K w') False (d @ [c]) = Inr (d @ [c])" using plain[OF S] c by (simp add: resolve_entry)
    have ne: "d @ [c] \<noteq> t" "t \<noteq> []" using t(2) by (simp_all add: t_def)
    have written: "metrics_written (disk K w) (d @ [c]) t content f"
      if "replace_entry t (d @ [c]) (disk K w') = Inr (a, f)" for a f
      using that S ne
      by (auto simp: replace_entry_def stat dst metrics_written_def holds_text_def same_but_def node_at_update node_at_delete split: if_splits)
    show ?thesis
      by (rule wp_sys[OF K])
        (use S r in \<open>auto intro: written simp: same_but_def\<close>)
  qed
  have cleaned: "wp (seq (unlink_missing_ok K t) (raise e)) Q (\<lambda>_. ?S) w'" if "?S w'" for e :: exn and Q :: "unit \<Rightarrow> 'a \<Rightarrow> bool" and w'
  proof -
    have "same_but t (disk K w) f" if "unlink_entry t (disk K w') = Inr (a, f)" for a f
      using that \<open>?S w'\<close> plain[OF \<open>?S w'\<close>] t(1)
      by (auto simp: unlink_entry_def t_def stat_entry same_but_def node_at_delete split: option.splits node.splits)
    then show ?thesis
      unfolding unlink_missing_ok_def wp_seq wp_try_except wp_raise
      by (intro wp_sys[OF K]) (use that in \<open>auto simp: wp_return wp_raise split: option.splits\<close>)
  qed
  have filled: "wp (bind (lift (render_all float_text metrics)) (\<lambda>content. seq (write_all K t content) (sys K (observe (\<lambda>_. ())))))
     (\<lambda>_ w'. ?S w' \<and> (\<exists>content. render_all float_text metrics = Inr content \<and> holds_text (disk K w') t content)) (\<lambda>_. ?S) w'"
    if S: "?S w'" and empty: "holds_text (disk K w') t []" for w'
  proof -
    obtain u m where node: "node_at (disk K w') t = Some (Regular u m [])" using empty by (auto simp: holds_text_def)
    have "wp (seq (write_all K t content) (sys K (observe (\<lambda>_. ()))))
       (\<lambda>_ w'. ?S w' \<and> holds_text (disk K w') t content) (\<lambda>_. ?S) w'" for content
      unfolding wp_seq
      by (rule wp_mono[OF wp_write_all[OF K _ node S]]) (auto simp: t_def holds_text_def intro!: wp_observe[OF K])
    then show ?thesis using S by (auto simp: wp_bind wp_lift split: sum.splits)
  qed
  have made: "a = t \<and> same_but t (disk K w) f \<and> holds_text f t []"
    if "create_file (euid K) mode t (disk K w) = Inr (a, f)" for mode a f
    using that d t(1) by (auto simp: create_file_def new_entry_plain t_def same_but_def holds_text_def node_at_update split: if_splits)
  show ?thesis
    unfolding write_metrics_def Let_def butlast_snoc last_snoc t_def[symmetric] wp_seq[of "mkdir_parents a b x" for a b x]
      wp_bind[of "sys K x" for x]
    by (rule wp_mono[OF wp_mkdir_parents_plain[OF K d]], rule wp_sys[OF K])
      (auto simp: same_but_refl wp_seq[of "try_except m h" for m h] wp_try_except dest!: made
        intro!: wp_mono[OF filled] cleaned moved)
qed


subsection \<open>What the counters count\<close>

lemma count_list_remdups_sum:
  "sum_list (map (\<lambda>k. if Q k then int (count_list xs k) else 0) (remdups xs)) = int (length (filter Q xs))"
proof -
  have "sum_list (map (\<lambda>k. if Q k then int (count_list xs k) else 0) (remdups xs)) =
      (\<Sum>k\<in>set xs. if Q k then int (count_list xs k) else 0)"
    by (simp add: sum_list_distinct_conv_sum_set)
  also have "\<dots> = (\<Sum>k\<in>{k \<in> set xs. Q k}. int (count_list (filter Q xs) k))"
    by (rule sum.mono_neutral_cong_right) (auto simp: count_list_eq_length_filter intro: arg_cong[where f = length] filter_cong)
  also have "\<dots> = int (length (filter Q xs))"
    using sum_count_set[of "filter Q xs" "{k \<in> set xs. Q k}"] by (simp flip: of_nat_sum)
  finally show ?thesis .
qed

text \<open>Each counter is the sum over the groups it takes.\<close>

definition counted :: "(operation_type \<Rightarrow> operation_state \<Rightarrow> bool) \<Rightarrow> (operation_type \<times> operation_state \<times> nat) list \<Rightarrow> int" where
  "counted Q gs = sum_list (map (\<lambda>(ty, st, n). if Q ty st then int n else 0) gs)"

abbreviation failed :: "operation_state \<Rightarrow> bool" where
  "failed st \<equiv> List.member failure_states st"

lemma tally_counted:
  "tally_of gs =
     \<lparr>renewal_failures = counted (\<lambda>ty st. ty = RENEW \<and> failed st) gs,
      publication_failures = counted (\<lambda>ty st. List.member publication_operations ty \<and> failed st) gs,
      audit_failures = counted (\<lambda>ty st. ty = AUDIT \<and> failed st) gs,
      preflight_failures = counted (\<lambda>_ st. st = HTTP01_PREFLIGHT_FAILED) gs,
      rollback_failures = counted (\<lambda>ty st. ty = ROLLBACK \<and> failed st) gs,
      completed_rollbacks = counted (\<lambda>ty st. ty = ROLLBACK \<and> st = COMPLETED) gs\<rparr>"
proof (induction gs rule: rev_induct)
  case Nil
  then show ?case by (simp add: tally_of_def no_failures_def counted_def)
next
  case (snoc g gs)
  obtain ty st n where g: "g = (ty, st, n)" by (cases g)
  have "tally_of (gs @ [g]) = tally_group g (tally_of gs)" by (simp add: tally_of_def)
  then show ?case
    unfolding snoc.IH g
    by (cases ty) (auto simp: tally_group_def counted_def publication_operations_def failure_states_def Let_def)
qed

lemma counted_groups:
  "counted Q (count_groups cid d) = int (length (filter (\<lambda>r. row_certificate r = cid \<and> Q (row_type r) (row_state r)) (operations d)))"
proof -
  let ?keys = "map (\<lambda>r. (row_type r, row_state r)) (rows_of cid d)"
  have "counted Q (count_groups cid d) =
      sum_list (map (\<lambda>k. if Q (fst k) (snd k) then int (count_list ?keys k) else 0) (remdups ?keys))"
    by (simp add: counted_def count_groups_def Let_def comp_def split_def cong: if_cong)
  also have "\<dots> = int (length (filter (\<lambda>k. Q (fst k) (snd k)) ?keys))"
    by (rule count_list_remdups_sum)
  finally show ?thesis by (simp add: rows_of_def filter_map comp_def conj_commute)
qed


end
