(* ===== verification/PublicationService.thy ===== *)
theory PublicationService
  imports Rollback Notification Retention Acme Metrics
begin

section \<open>The publication service\<close>

text \<open>
  \<open>publication_service.py\<close>: the service that the commands call. It composes the gate, the preflight,
  the issuance, the publication, the audit, the rollback and the retention, and owns the recovery of
  an interrupted bootstrap. What it is built on is one record: the environment, the disk, the
  libraries and the networks. The parts that touch neither the state store nor OCI run
  \<open>locally\<close>, on the outside of the world.

  \<open>asyncio.run\<close> of a coroutine, and \<open>OciExecutor.run\<close> of a callable, are the run of the callable;
  closing the executor and the connection has no effect the program can see.
\<close>

record 'w services =
  run_env :: "'w env"
  run_disk :: "'w mount"
  run_libs :: libs
  run_pems :: pem_libs
  run_json :: json_libs
  run_acme_libs :: acme_libs
  run_acme :: "'w acme_server"
  run_http :: "'w http_network"
  run_tls :: "'w network"
  run_mail :: "'w mailer"
  instance_principals :: "'w \<Rightarrow> lib_exn option \<times> 'w"
  owner_uid :: int
  publisher_account :: "exn + int"

subsection \<open>Clients\<close>

definition instance_principal_signer :: "('w \<Rightarrow> lib_exn option \<times> 'w) \<Rightarrow> oci_config \<Rightarrow> ('w, unit) action" where
  "instance_principal_signer credentials c =
     (if authentication c \<noteq> ''instance_principal''
      then raise (OciAuthenticationError ''only instance_principal authentication is supported'')
      else
        bind (external credentials) (\<lambda>r.
          case r of
            None \<Rightarrow> return ()
          | Some e \<Rightarrow>
              if is_OSError (Lib e)
              then raise (OciAuthenticationError ''instance-principal credentials are unavailable'')
              else raise (Lib e)))"

definition create_certificates_adapters ::
  "'w env \<Rightarrow> ('w \<Rightarrow> lib_exn option \<times> 'w) \<Rightarrow> oci_config \<Rightarrow> ('w, 'w adapters) action" where
  "create_certificates_adapters env credentials c =
     seq (instance_principal_signer credentials c)
       (return (oci_adapters env (default_policy (max_read_attempts c))))"

definition adapters_for :: "'w services \<Rightarrow> app_config \<Rightarrow> ('w, 'w adapters) action" where
  "adapters_for V config =
     create_certificates_adapters (run_env V) (instance_principals V) (oci_settings config)"

subsection \<open>Selection, gates and events\<close>

definition require_production_qualification ::
  "'w services \<Rightarrow> app_config \<Rightarrow> certificate_config \<Rightarrow> ('w, unit) action" where
  "require_production_qualification V config cert =
     (if environment_of (global_of config) = PRODUCTION
      then locally (require_qualified_profile (run_disk V) (run_json V) config cert) else return ())"

definition local_store :: "'w services \<Rightarrow> app_config \<Rightarrow> native_store" where
  "local_store V config = certificate_store (acme config) (owner_uid V)"

definition load_and_validate :: "'w services \<Rightarrow> app_config \<Rightarrow> certificate_config \<Rightarrow> ('w, lineage_material) action" where
  "load_and_validate V config cert =
     locally (load_lineage (run_disk V) (run_libs V) (run_pems V) (local_store V config) (cert_id cert))"

fun is_PreflightError :: "exn \<Rightarrow> bool" where
  "is_PreflightError (PreflightError _) = True"
| "is_PreflightError _ = False"

fun is_RollbackError :: "exn \<Rightarrow> bool" where
  "is_RollbackError (RollbackError _) = True"
| "is_RollbackError _ = False"

fun is_PublicationServiceError :: "exn \<Rightarrow> bool" where
  "is_PublicationServiceError (PublicationServiceError _) = True"
| "is_PublicationServiceError _ = False"

fun is_OciAuthenticationError :: "exn \<Rightarrow> bool" where
  "is_OciAuthenticationError (OciAuthenticationError _) = True"
| "is_OciAuthenticationError _ = False"

fun is_SqliteError :: "exn \<Rightarrow> bool" where
  "is_SqliteError (Lib (SqliteError _)) = True"
| "is_SqliteError _ = False"

fun is_AcmeOperationError :: "exn \<Rightarrow> bool" where
  "is_AcmeOperationError (AcmeOperationError _) = True"
| "is_AcmeOperationError _ = False"

fun is_ConfigurationError :: "exn \<Rightarrow> bool" where
  "is_ConfigurationError (ConfigurationError _) = True"
| "is_ConfigurationError _ = False"

fun is_ReconciliationError :: "exn \<Rightarrow> bool" where
  "is_ReconciliationError (ReconciliationError _) = True"
| "is_ReconciliationError _ = False"

definition service_preflight :: "'w services \<Rightarrow> app_config \<Rightarrow> certificate_config \<Rightarrow> ('w, unit) action" where
  "service_preflight V config cert =
     seq (log_event ''HTTP01_PREFLIGHT_STARTED'' (cert_id cert))
     (seq (try_except
             (locally (run_preflight (run_disk V) (publisher_account V) (run_http V) (http01 config) cert))
             (\<lambda>e. if is_PreflightError e
                   then Some (seq (log_event ''HTTP01_PREFLIGHT_FAILED'' (cert_id cert)) (raise e)) else None))
     (log_event ''HTTP01_PREFLIGHT_SUCCESS'' (cert_id cert)))"

definition audit_service_for :: "'w services \<Rightarrow> app_config \<Rightarrow> certificate_config \<Rightarrow> 'w audit_service" where
  "audit_service_for V config cert =
     tls_audit_service (run_tls V) (run_libs V)
       (if environment_of (global_of config) = STAGING then Some (root_pem_path (chain_of cert)) else None)
       (audit_of cert)"

definition send_notice :: "'w services \<Rightarrow> app_config \<Rightarrow> string \<Rightarrow> string \<Rightarrow> ('w, unit) action" where
  "send_notice V config cid event =
     try_except
       (seq (notify (run_env V) (run_mail V) (notifications config) event
               [(''certificate_id'', cid), (''status'', event)] (Some (store_cooldown (run_env V))))
          (return ()))
       (\<lambda>e. if is_NotificationError e then Some (return ()) else None)"

definition notify_audit_failure :: "'w services \<Rightarrow> app_config \<Rightarrow> string \<Rightarrow> ('w, unit) action" where
  "notify_audit_failure V config cid = send_notice V config cid ''AUDIT_FAILED''"

definition notify_event :: "'w services \<Rightarrow> app_config \<Rightarrow> string \<Rightarrow> string \<Rightarrow> ('w, unit) action" where
  "notify_event V config cid event =
     bind
       (try_except (seq (open_store (run_env V)) (return True))
          (\<lambda>e. if is_OSError e \<or> is_SqliteError e then Some (return False) else None))
       (\<lambda>opened. if opened then send_notice V config cid event else return ())"

definition failure_notification_event :: "exn \<Rightarrow> string" where
  "failure_notification_event e =
     (if is_PreflightError e then ''HTTP01_PREFLIGHT_FAILED''
      else if is_AcmeOperationError e then ''ACME_FAILED''
      else if is_CertificateStoreError e \<or> is_CertificateValidationError e then ''LOCAL_CERT_REJECTED''
      else if is_RollbackError e then ''OCI_ROLLBACK_FAILED''
      else if is_AuditError e then ''AUDIT_FAILED''
      else ''OCI_UPLOAD_FAILED'')"

definition notify_renewal_failure :: "'w services \<Rightarrow> app_config \<Rightarrow> string \<Rightarrow> exn \<Rightarrow> ('w, unit) action" where
  "notify_renewal_failure V config cid e = notify_event V config cid (failure_notification_event e)"

subsection \<open>Audit\<close>

definition audit_failed :: "'w services \<Rightarrow> app_config \<Rightarrow> certificate_config \<Rightarrow> string \<Rightarrow> ('w, unit) action" where
  "audit_failed V config cert oid =
     seq (transition (run_env V) oid AUDIT_FAILED (no_columns\<lparr>col_error_code := Some ''AUDIT_FAILED''\<rparr>))
     (seq (notify_audit_failure V config (cert_id cert))
     (log_event ''AUDIT_FAILED'' (cert_id cert)))"

definition audit_succeeded :: "'w services \<Rightarrow> certificate_config \<Rightarrow> string \<Rightarrow> ('w, unit) action" where
  "audit_succeeded V cert oid =
     seq (transition (run_env V) oid AUDIT_SUCCESS no_columns)
     (seq (record_audit_success (run_env V) (cert_id cert))
     (seq (transition (run_env V) oid COMPLETED no_columns)
     (seq (complete_interrupted_audits (run_env V) (cert_id cert) oid)
     (log_event ''AUDIT_SUCCESS'' (cert_id cert)))))"

definition audit_current ::
  "'w services \<Rightarrow> 'w adapters \<Rightarrow> app_config \<Rightarrow> certificate_config \<Rightarrow> string \<Rightarrow> string \<Rightarrow> ('w, audit_result) action" where
  "audit_current V P config cert ocid rid =
     bind (port_get_public_bundle P ocid None rid) (\<lambda>bundle.
     bind (now_utc (run_env V)) (\<lambda>now.
     bind (lift (validate_public_certificate (run_libs V) (certificate_pem bundle) cert (global_of config) now)) (\<lambda>expected.
       run_audit (run_env V) (run_tls V) (audit_service_for V config cert) expected)))"

definition audit_certificate :: "'w services \<Rightarrow> app_config \<Rightarrow> string \<Rightarrow> ('w, bool) action" where
  "audit_certificate V config cid =
     bind (lift (configured_certificate config cid)) (\<lambda>cert.
     case certificate_ocid (oci_of cert) of
       None \<Rightarrow> raise (PublicationServiceError ''audit requires a configured OCI certificate OCID'')
     | Some ocid \<Rightarrow>
         bind (adapters_for V config) (\<lambda>P.
         seq (open_store (run_env V))
         (bind (start_operation (run_env V) (cert_id cert) AUDIT None (Some ocid)) (\<lambda>operation.
          let oid = operation_id operation
          in bind (uuid4 (run_env V)) (\<lambda>rid.
          seq (transition (run_env V) oid AUDIT_PENDING (no_columns\<lparr>col_request := Some rid\<rparr>))
          (try_except
             (bind (audit_current V P config cert ocid rid) (\<lambda>result.
                if \<not> successful result
                then seq (audit_failed V config cert oid) (return False)
                else seq (audit_succeeded V cert oid) (return True)))
             (\<lambda>e. if is_AuditError e then Some (seq (audit_failed V config cert oid) (raise e)) else None)))))))"

subsection \<open>Rollback\<close>

definition rollback_certificate :: "'w services \<Rightarrow> app_config \<Rightarrow> string \<Rightarrow> ('w, rollback_result) action" where
  "rollback_certificate V config cid =
     bind (lift (configured_certificate config cid)) (\<lambda>cert.
     bind (adapters_for V config) (\<lambda>P.
     seq (open_store (run_env V))
     (bind (now_utc (run_env V)) (\<lambda>now.
        rollback (run_env V) (run_libs V) (run_tls V) P config cert now (Some (audit_service_for V config cert))))))"

subsection \<open>Retention\<close>

record retention_result =
  retained_certificate_id :: string
  scheduled_version_numbers :: "int list"

definition schedule_one ::
  "'w services \<Rightarrow> 'w adapters \<Rightarrow> certificate_config \<Rightarrow> string \<Rightarrow> instant \<Rightarrow> int \<Rightarrow> ('w, unit) action" where
  "schedule_one V P cert ocid t n =
     bind (uuid4 (run_env V)) (\<lambda>rid.
     bind (port_get_version P ocid n rid) (\<lambda>version.
     seq (raise_if (ver_etag version = None) (OciCertificateError ''OCI version deletion requires a version ETag''))
     (seq (port_schedule_version_deletion P ocid n t (ver_etag version) rid)
     (log_event ''RETENTION_SCHEDULED'' (cert_id cert)))))"

definition referenced_versions :: "operation list \<Rightarrow> int list" where
  "referenced_versions active =
     concat (map (\<lambda>o'. case oci_version_number o' of None \<Rightarrow> [] | Some n \<Rightarrow> [n]) active)"

definition apply_retention :: "'w services \<Rightarrow> 'w adapters \<Rightarrow> certificate_config \<Rightarrow> string \<Rightarrow> ('w, retention_result) action" where
  "apply_retention V P cert ocid =
     bind (uuid4 (run_env V)) (\<lambda>rid.
     bind (port_list_versions P ocid rid) (\<lambda>versions.
     bind (active_operations (run_env V) (cert_id cert)) (\<lambda>active.
     bind (now_utc (run_env V)) (\<lambda>now.
     let plan = plan_retention (retention_of cert) versions (referenced_versions active) now
     in seq (for_each (plan_versions plan) (schedule_one V P cert ocid (plan_deletion_time plan)))
        (return \<lparr>retained_certificate_id = cert_id cert, scheduled_version_numbers = plan_versions plan\<rparr>)))))"

definition retention :: "'w services \<Rightarrow> app_config \<Rightarrow> string \<Rightarrow> ('w, retention_result) action" where
  "retention V config cid =
     bind (lift (configured_certificate config cid)) (\<lambda>cert.
     case certificate_ocid (oci_of cert) of
       None \<Rightarrow> raise (PublicationServiceError ''retention requires a configured OCI certificate OCID'')
     | Some ocid \<Rightarrow>
         bind (adapters_for V config) (\<lambda>P. seq (open_store (run_env V)) (apply_retention V P cert ocid)))"

subsection \<open>After a publication\<close>

definition enforce_post_publication_audit :: "'w services \<Rightarrow> app_config \<Rightarrow> certificate_config \<Rightarrow> ('w, unit) action" where
  "enforce_post_publication_audit V config cert =
     (if audit_mode_of (audit_of cert) \<noteq> ENFORCE then return ()
      else
        bind (try_except (audit_certificate V config (cert_id cert)) (\<lambda>e. if is_AuditError e then Some (return False) else None)) (\<lambda>ok.
          if ok then return ()
          else if \<not> automatic_rollback_on_failure (audit_of cert)
          then raise (AuditError ''TLS audit failed after OCI publication'')
          else
            try_except (seq (rollback_certificate V config (cert_id cert)) (return ()))
              (\<lambda>e. if is_RollbackError e
                    then Some (seq (log_event ''OCI_ROLLBACK_FAILED'' (cert_id cert)) (raise e)) else None)))"

definition run_post_publication_audit :: "'w services \<Rightarrow> app_config \<Rightarrow> certificate_config \<Rightarrow> ('w, unit) action" where
  "run_post_publication_audit V config cert =
     (if audit_mode_of (audit_of cert) = DISABLED then return ()
      else if audit_mode_of (audit_of cert) = ENFORCE then enforce_post_publication_audit V config cert
      else try_except (seq (audit_certificate V config (cert_id cert)) (return ()))
             (\<lambda>e. if is_AuditError e then Some (return ()) else None))"

definition retention_failure :: "exn \<Rightarrow> bool" where
  "retention_failure e \<longleftrightarrow>
     is_OciAuthenticationError e \<or> is_OciCertificateError e \<or> is_OSError e \<or> is_PublicationServiceError e \<or> is_SqliteError e"

definition run_post_publication_retention :: "'w services \<Rightarrow> app_config \<Rightarrow> certificate_config \<Rightarrow> ('w, unit) action" where
  "run_post_publication_retention V config cert =
     (if \<not> retention_enabled (retention_of cert) then return ()
      else
        bind (try_except (bind (retention V config (cert_id cert)) (\<lambda>r. return (Some r)))
                (\<lambda>e. if retention_failure e
                      then Some (seq (log_event ''RETENTION_FAILED'' (cert_id cert))
                                (seq (notify_event V config (cert_id cert) ''RETENTION_FAILED'') (return None)))
                      else None)) (\<lambda>r.
          case r of
            None \<Rightarrow> return ()
          | Some result \<Rightarrow>
              if scheduled_version_numbers result = [] then log_event ''RETENTION_SKIPPED'' (cert_id cert) else return ()))"

subsection \<open>Publish and renew\<close>

definition publish :: "'w services \<Rightarrow> app_config \<Rightarrow> string \<Rightarrow> operation_type \<Rightarrow> ('w, publication_result) action" where
  "publish V config cid ty =
     bind (lift (configured_certificate config cid)) (\<lambda>cert.
     seq (require_production_qualification V config cert)
     (bind (load_and_validate V config cert) (\<lambda>m.
      bind (now_utc (run_env V)) (\<lambda>now.
      bind (lift (validate_certificate_material (run_libs V) m cert (compatibility config) (global_of config) now)) (\<lambda>fp.
      bind (locally (built_chain (run_disk V) (run_libs V) m cert (compatibility config))) (\<lambda>chain.
      seq (log_event ''LOCAL_CERT_VALIDATED'' (cert_id cert))
      (bind (adapters_for V config) (\<lambda>P.
       seq (open_store (run_env V))
       (bind (now_utc (run_env V)) (\<lambda>now'.
        bind (reconcile (run_env V) (run_libs V) P config cert m chain fp now' ty) (\<lambda>result.
        seq (log_event ''OPERATION_COMPLETED'' (cert_id cert))
        (seq (run_post_publication_audit V config cert)
        (seq (run_post_publication_retention V config cert)
        (return result))))))))))))))"

definition current_fingerprint :: "'w services \<Rightarrow> app_config \<Rightarrow> certificate_config \<Rightarrow> ('w, string option) action" where
  "current_fingerprint V config cert =
     bind (locally (lineage_exists (run_disk V) (local_store V config) (cert_id cert))) (\<lambda>there.
       if \<not> there then return None
       else
         bind (load_and_validate V config cert) (\<lambda>m.
         bind (now_utc (run_env V)) (\<lambda>now.
         bind (lift (validate_certificate_material (run_libs V) m cert (compatibility config) (global_of config) now)) (\<lambda>fp.
           return (Some fp)))))"

definition run_issue :: "'w services \<Rightarrow> app_config \<Rightarrow> certificate_config \<Rightarrow> bool \<Rightarrow> ('w, unit) action" where
  "run_issue V config cert force =
     seq (log_event ''ACME_STARTED'' (cert_id cert))
     (seq (locally (issue (run_disk V) (run_libs V) (run_pems V) (run_acme_libs V) (run_acme V)
             (local_store V config) (publisher_account V) config cert force))
     (log_event ''ACME_COMPLETED'' (cert_id cert)))"

definition renew :: "'w services \<Rightarrow> app_config \<Rightarrow> string \<Rightarrow> bool \<Rightarrow> ('w, publication_result) action" where
  "renew V config cid force =
     bind (lift (configured_certificate config cid)) (\<lambda>cert.
     seq (require_production_qualification V config cert)
     (seq (service_preflight V config cert)
     (bind (current_fingerprint V config cert) (\<lambda>earlier.
      seq (run_issue V config cert force)
      (bind (publish V config cid RENEW) (\<lambda>publication.
       if earlier = Some (pub_fingerprint publication)
       then return \<lparr>pub_certificate_id = pub_certificate_id publication, pub_version = pub_version publication,
                    pub_fingerprint = pub_fingerprint publication, pub_changed = pub_changed publication\<rparr>
       else return publication))))))"

subsection \<open>Bootstrap\<close>

record bootstrap_result =
  boot_certificate_id :: string
  boot_ocid :: string
  boot_version :: int

definition bootstrap_candidate :: "string \<Rightarrow> operation \<Rightarrow> bool" where
  "bootstrap_candidate fp o' \<longleftrightarrow>
     op_type o' = BOOTSTRAP \<and> local_fingerprint o' = Some fp \<and> oci_certificate_ocid o' \<noteq> None"

text \<open>The version the certificate has, whose bundle must be of the local material; the error depends on
  who asks.\<close>

definition matching_bundle ::
  "'w services \<Rightarrow> 'w adapters \<Rightarrow> app_config \<Rightarrow> certificate_config \<Rightarrow> string \<Rightarrow> string \<Rightarrow> string \<Rightarrow> string \<Rightarrow>
     ('w, oci_public_bundle) action" where
  "matching_bundle V P config cert ocid fp rid message =
     bind (port_get_public_bundle P ocid None rid) (\<lambda>bundle.
     bind (now_utc (run_env V)) (\<lambda>now.
     bind (lift (validate_public_certificate (run_libs V) (certificate_pem bundle) cert (global_of config) now)) (\<lambda>remote.
     seq (raise_if (remote \<noteq> fp) (PublicationServiceError message)) (return bundle))))"

definition confirm_bootstrap ::
  "'w services \<Rightarrow> certificate_config \<Rightarrow> string \<Rightarrow> string \<Rightarrow> string \<Rightarrow> int \<Rightarrow> string option \<Rightarrow> ('w, bootstrap_result) action" where
  "confirm_bootstrap V cert oid ocid fp n rid =
     seq (transition (run_env V) oid OCI_CURRENT_CONFIRMED (no_columns\<lparr>col_version := Some n, col_request := rid\<rparr>))
     (seq (record_publication_success (run_env V) (cert_id cert) fp fp n)
     (seq (transition (run_env V) oid COMPLETED no_columns)
     (return \<lparr>boot_certificate_id = cert_id cert, boot_ocid = ocid, boot_version = n\<rparr>)))"

definition recover_operation ::
  "'w services \<Rightarrow> 'w adapters \<Rightarrow> app_config \<Rightarrow> certificate_config \<Rightarrow> string \<Rightarrow> operation \<Rightarrow> ('w, bootstrap_result option) action" where
  "recover_operation V P config cert fp operation =
     (case oci_certificate_ocid operation of
        None \<Rightarrow> raise (PublicationServiceError ''bootstrap recovery lacks OCI certificate state'')
      | Some ocid \<Rightarrow>
          bind (uuid4 (run_env V)) (\<lambda>rid.
          bind (matching_bundle V P config cert ocid fp rid
                  ''bootstrap recovery OCI certificate does not match local material'') (\<lambda>bundle.
          bind (confirm_bootstrap V cert (operation_id operation) ocid fp (bundle_version bundle) (Some rid)) (\<lambda>result.
          seq (log_event ''OPERATION_COMPLETED'' (cert_id cert)) (return (Some result))))))"

definition recover_bootstrap ::
  "'w services \<Rightarrow> 'w adapters \<Rightarrow> app_config \<Rightarrow> certificate_config \<Rightarrow> string \<Rightarrow> ('w, bootstrap_result option) action" where
  "recover_bootstrap V P config cert fp =
     bind (active_operations (run_env V) (cert_id cert)) (\<lambda>active.
     case filter (bootstrap_candidate fp) active of
       [] \<Rightarrow> return None
     | [operation] \<Rightarrow> recover_operation V P config cert fp operation
     | _ \<Rightarrow> raise (PublicationServiceError ''bootstrap recovery has ambiguous OCI certificate state''))"

text \<open>The handlers of the creation: what is recorded of a failure before and after the certificate
  exists.\<close>

definition bootstrap_guarded :: "'w services \<Rightarrow> string \<Rightarrow> bool \<Rightarrow> ('w, 'a) action \<Rightarrow> ('w, 'a) action" where
  "bootstrap_guarded V oid created m =
     try_except m (\<lambda>e.
       if is_OciCertificateError e
       then Some (seq (transition (run_env V) oid (if created then OCI_VERSION_FAILED else OCI_UPLOAD_FAILED) no_columns) (raise e))
       else if is_CertificateValidationError e \<or> is_PublicationServiceError e
       then Some (seq (transition (run_env V) oid OCI_VERSION_FAILED no_columns) (raise e))
       else None)"

definition create_remote ::
  "'w services \<Rightarrow> 'w adapters \<Rightarrow> certificate_config \<Rightarrow> lineage_material \<Rightarrow> oci_certificate_chain \<Rightarrow> string \<Rightarrow> string \<Rightarrow>
     ('w, string) action" where
  "create_remote V P cert m chain fp rid =
     bind (now_utc (run_env V)) (\<lambda>now.
     bind (lift (version_name now fp)) (\<lambda>name.
       port_create_imported_certificate P (compartment_ocid (oci_of cert)) (certificate_name (oci_of cert))
         \<lparr>mat_version_name = name, mat_certificate_pem = leaf_pem m,
          mat_cert_chain_pem = chain_cert_chain_pem chain, mat_private_key_pem = private_key_pem m\<rparr> rid))"

definition create_certificate ::
  "'w services \<Rightarrow> 'w adapters \<Rightarrow> app_config \<Rightarrow> certificate_config \<Rightarrow> lineage_material \<Rightarrow> oci_certificate_chain \<Rightarrow>
     string \<Rightarrow> string \<Rightarrow> ('w, bootstrap_result) action" where
  "create_certificate V P config cert m chain fp oid =
     bind (uuid4 (run_env V)) (\<lambda>rid.
     bind (bootstrap_guarded V oid False (create_remote V P cert m chain fp rid)) (\<lambda>ocid.
       bootstrap_guarded V oid True
         (seq (transition (run_env V) oid OCI_RECONCILED (no_columns\<lparr>col_ocid := Some ocid, col_request := Some rid\<rparr>))
         (bind (matching_bundle V P config cert ocid fp rid
                  ''initial OCI certificate current version does not match local material'') (\<lambda>bundle.
            confirm_bootstrap V cert oid ocid fp (bundle_version bundle) None)))))"

definition bootstrap :: "'w services \<Rightarrow> app_config \<Rightarrow> string \<Rightarrow> ('w, bootstrap_result) action" where
  "bootstrap V config cid =
     bind (lift (configured_certificate config cid)) (\<lambda>cert.
     seq (raise_if (certificate_ocid (oci_of cert) \<noteq> None)
            (PublicationServiceError ''bootstrap requires certificate_ocid to be absent''))
     (seq (require_production_qualification V config cert)
     (seq (service_preflight V config cert)
     (seq (run_issue V config cert False)
     (bind (load_and_validate V config cert) (\<lambda>m.
      bind (now_utc (run_env V)) (\<lambda>now.
      bind (lift (validate_certificate_material (run_libs V) m cert (compatibility config) (global_of config) now)) (\<lambda>fp.
      bind (locally (built_chain (run_disk V) (run_libs V) m cert (compatibility config))) (\<lambda>chain.
      bind (adapters_for V config) (\<lambda>P.
      seq (open_store (run_env V))
      (bind (recover_bootstrap V P config cert fp) (\<lambda>recovered.
       case recovered of
         Some result \<Rightarrow> return result
       | None \<Rightarrow>
           bind (start_operation (run_env V) (cert_id cert) BOOTSTRAP (Some fp) None) (\<lambda>operation.
           seq (transition (run_env V) (operation_id operation) LOCAL_CERT_VALIDATED no_columns)
             (create_certificate V P config cert m chain fp (operation_id operation)))))))))))))))"

subsection \<open>All certificate sets\<close>

definition with_ocid :: "string \<Rightarrow> certificate_config \<Rightarrow> certificate_config" where
  "with_ocid ocid cert = cert\<lparr>oci_of := (oci_of cert)\<lparr>certificate_ocid := Some ocid\<rparr>\<rparr>"

definition recovered_config :: "app_config \<Rightarrow> certificate_config \<Rightarrow> string \<Rightarrow> app_config" where
  "recovered_config config cert ocid =
     config\<lparr>certificates := map (\<lambda>c. if cert_id c = cert_id cert then with_ocid ocid cert else c) (certificates config)\<rparr>"

definition renew_set :: "'w services \<Rightarrow> app_config \<Rightarrow> certificate_config \<Rightarrow> ('w, publication_result) action" where
  "renew_set V config cert =
     (if certificate_ocid (oci_of cert) \<noteq> None then renew V config (cert_id cert) False
      else
        seq (open_store (run_env V))
        (bind (confirmed_oci_certificate_ocid (run_env V) (cert_id cert)) (\<lambda>recovered.
         case recovered of
           None \<Rightarrow>
             bind (bootstrap V config (cert_id cert)) (\<lambda>b.
               return \<lparr>pub_certificate_id = boot_certificate_id b, pub_version = boot_version b,
                       pub_fingerprint = ''initial-publication'', pub_changed = True\<rparr>)
         | Some ocid \<Rightarrow> renew V (recovered_config config cert ocid) (cert_id cert) False)))"

definition expiry_event :: "monitoring_config \<Rightarrow> sample \<Rightarrow> string option" where
  "expiry_event c days =
     (case days of
        FloatSample x \<Rightarrow>
          if x \<le> of_int (critical_days c) then Some ''CERTIFICATE_EXPIRY_CRITICAL''
          else if x \<le> of_int (warning_days c) then Some ''CERTIFICATE_EXPIRY_WARNING''
          else None
      | _ \<Rightarrow> None)"

definition notify_expiry :: "'w services \<Rightarrow> app_config \<Rightarrow> certificate_config \<Rightarrow> ('w, unit) action" where
  "notify_expiry V config cert =
     bind (now_utc (run_env V)) (\<lambda>now.
     bind (certificate_days_remaining (run_disk V) (run_libs V) config cert now) (\<lambda>days.
       case expiry_event (monitoring config) days of
         None \<Rightarrow> return ()
       | Some event \<Rightarrow> notify_event V config (cert_id cert) event))"

definition renewable_failure :: "exn \<Rightarrow> bool" where
  "renewable_failure e \<longleftrightarrow>
     is_AuditError e \<or> is_CertificateValidationError e \<or> is_ConfigurationError e \<or> is_OciAuthenticationError e \<or>
     is_OciCertificateError e \<or> is_AcmeOperationError e \<or> is_CertificateStoreError e \<or> is_PreflightError e \<or>
     is_PublicationServiceError e \<or> is_ReconciliationError e \<or> is_RollbackError e"

text \<open>One set: the publication it appended and the failure it appended, if any.\<close>

definition renewal_failed ::
  "'w services \<Rightarrow> app_config \<Rightarrow> string \<Rightarrow> publication_result option \<Rightarrow> exn \<Rightarrow>
     ('w, publication_result option \<times> (string \<times> exn) option) action" where
  "renewal_failed V config cid publication e =
     (if renewable_failure e
      then seq (notify_renewal_failure V config cid e) (return (publication, Some (cid, e)))
      else raise e)"

definition renew_one ::
  "'w services \<Rightarrow> app_config \<Rightarrow> certificate_config \<Rightarrow>
     ('w, publication_result option \<times> (string \<times> exn) option) action" where
  "renew_one V config cert =
     seq (if live_verified (compatibility config) then return ()
          else notify_event V config (cert_id cert) ''COMPATIBILITY_NOT_VERIFIED'')
     (bind (catch (renew_set V config cert)) (\<lambda>r.
      case r of
        Inl e \<Rightarrow> renewal_failed V config (cert_id cert) None e
      | Inr publication \<Rightarrow>
          bind (catch (notify_expiry V config cert)) (\<lambda>noticed.
            case noticed of
              Inl e \<Rightarrow> renewal_failed V config (cert_id cert) (Some publication) e
            | Inr _ \<Rightarrow> return (Some publication, None))))"

record renewal_batch =
  batch_publications :: "publication_result list"
  batch_failures :: "(string \<times> exn) list"

definition batch_of :: "(publication_result option \<times> (string \<times> exn) option) list \<Rightarrow> renewal_batch" where
  "batch_of rs =
     \<lparr>batch_publications = concat (map (\<lambda>r. case fst r of None \<Rightarrow> [] | Some p \<Rightarrow> [p]) rs),
      batch_failures = concat (map (\<lambda>r. case snd r of None \<Rightarrow> [] | Some f \<Rightarrow> [f]) rs)\<rparr>"

definition renew_all :: "'w services \<Rightarrow> app_config \<Rightarrow> ('w, renewal_batch) action" where
  "renew_all V config =
     bind (map_prog (renew_one V config) (certificates config)) (\<lambda>rs. return (batch_of rs))"

end
