(* ===== verification/Status.thy ===== *)
theory Status
  imports PublicationService
begin

section \<open>Status\<close>

text \<open>
  \<open>status_service.py\<close>: one item per configured certificate set, from the state store and the public leaf,
  without creating anything. A Python dict is the association list of its items in order; \<open>d | e\<close>
  and \<open>d.update(e)\<close> keep the place of a key that exists.
\<close>

subsection \<open>Values\<close>

definition dict_update :: "(string \<times> json) list \<Rightarrow> (string \<times> json) list \<Rightarrow> (string \<times> json) list" where
  "dict_update d e = fold (\<lambda>(k, v). AList.update k v) e d"

text \<open>\<open>s.replace(p, r)\<close> for a text \<open>p\<close> that is not empty.\<close>

fun replace_text :: "string \<Rightarrow> string \<Rightarrow> string \<Rightarrow> string" where
  "replace_text p r [] = []"
| "replace_text p r (c # cs) =
     (if p \<noteq> [] \<and> startswith (c # cs) p then r @ replace_text p r (drop (length p - 1) cs)
      else c # replace_text p r cs)"

text \<open>A UTC instant with its offset written \<open>Z\<close>.\<close>

definition zulu_text :: "instant \<Rightarrow> string" where
  "zulu_text t = replace_text ''+00:00'' ''Z'' (isoformat t)"

subsection \<open>The items\<close>

definition compatibility_warnings :: "app_config \<Rightarrow> string list" where
  "compatibility_warnings config =
     (if enforce_documented_subject_country (compatibility config) then []
      else [''DOCUMENTED_SUBJECT_COUNTRY_NOT_ENFORCED''])"

definition local_not_after ::
  "'w mount \<Rightarrow> libs \<Rightarrow> app_config \<Rightarrow> certificate_config \<Rightarrow> ('w, string option) action" where
  "local_not_after K L config cert =
     bind (locally (file_outcome K (leaf_path config cert))) (\<lambda>content.
     bind (lift (leaf_expiry L content)) (\<lambda>expires. return (map_option zulu_text expires)))"

definition drift :: "string option \<Rightarrow> string option \<Rightarrow> string" where
  "drift local_fp remote_fp =
     (if local_fp = None \<or> remote_fp = None then ''UNKNOWN''
      else if local_fp = remote_fp then ''NONE''
      else ''LOCAL_OCI_FINGERPRINT_MISMATCH'')"

definition base_payload ::
  "'w mount \<Rightarrow> libs \<Rightarrow> app_config \<Rightarrow> certificate_config \<Rightarrow> ('w, (string \<times> json) list) action" where
  "base_payload K L config cert =
     bind (local_not_after K L config cert) (\<lambda>expires.
       return
         [(''certificate_id'', JStr (cert_id cert)),
          (''compatibility'',
             JStr (if live_verified (compatibility config) then ''LIVE_VERIFIED'' else ''LIVE_NOT_VERIFIED'')),
          (''compatibility_warnings'', JList (map JStr (compatibility_warnings config))),
          (''local_not_after'', json_option JStr expires)])"

definition unknown_fields :: "certificate_config \<Rightarrow> string \<Rightarrow> (string \<times> json) list" where
  "unknown_fields cert state =
     [(''oci_certificate_ocid'', json_option JStr (certificate_ocid (oci_of cert))), (''state'', JStr state),
      (''drift'', JStr ''UNKNOWN''), (''oci_versions_observed'', JInt 0), (''pending_publication'', JBool False)]"

definition unknown_item ::
  "'w mount \<Rightarrow> libs \<Rightarrow> app_config \<Rightarrow> string \<Rightarrow> certificate_config \<Rightarrow> ('w, (string \<times> json) list) action" where
  "unknown_item K L config state cert =
     bind (base_payload K L config cert) (\<lambda>payload. return (dict_update payload (unknown_fields cert state)))"

definition publication_pending :: "operation list \<Rightarrow> bool" where
  "publication_pending active =
     list_ex (\<lambda>o'. List.member [OCI_PENDING_UPLOADED, OCI_PENDING_VERIFIED] (op_state o')) active"

definition stored_time :: "seconds \<Rightarrow> json" where
  "stored_time t = JStr (zulu_text (t * second))"

text \<open>\<open>asdict(state)\<close>.\<close>

definition state_fields :: "string \<Rightarrow> cert_row \<Rightarrow> (string \<times> json) list" where
  "state_fields cid r =
     [(''certificate_id'', JStr cid),
      (''last_local_fingerprint'', json_option JStr (last_local_fingerprint r)),
      (''last_oci_current_fingerprint'', json_option JStr (last_oci_current_fingerprint r)),
      (''last_oci_current_version'', json_option JInt (last_oci_current_version r)),
      (''last_successful_renewal_at'', json_option stored_time (last_successful_renewal_at r)),
      (''last_successful_publication_at'', json_option stored_time (last_successful_publication_at r)),
      (''last_successful_audit_at'', json_option stored_time (last_successful_audit_at r)),
      (''last_error_code'', json_option JStr (last_error_code r)),
      (''updated_at'', stored_time (cert_updated_at r))]"

definition with_state :: "string \<Rightarrow> cert_row option \<Rightarrow> (string \<times> json) list \<Rightarrow> (string \<times> json) list" where
  "with_state cid state payload =
     (case state of
        None \<Rightarrow> dict_update payload [(''state'', JStr ''NO_PUBLICATION_STATE''), (''drift'', JStr ''UNKNOWN'')]
      | Some r \<Rightarrow>
          dict_update (dict_update (dict_update payload [(''state'', JStr ''AVAILABLE'')]) (state_fields cid r))
            [(''drift'', JStr (drift (last_local_fingerprint r) (last_oci_current_fingerprint r)))])"

text \<open>\<open>a or b\<close> on an optional text: an empty text is false.\<close>

definition known_ocid :: "'w env \<Rightarrow> certificate_config \<Rightarrow> ('w, string option) action" where
  "known_ocid env cert =
     (case certificate_ocid (oci_of cert) of
        Some (c # cs) \<Rightarrow> return (Some (c # cs))
      | _ \<Rightarrow> confirmed_oci_certificate_ocid env (cert_id cert))"

definition status_item ::
  "'w env \<Rightarrow> 'w mount \<Rightarrow> libs \<Rightarrow> app_config \<Rightarrow> certificate_config \<Rightarrow> ('w, (string \<times> json) list) action" where
  "status_item env K L config cert =
     (let cid = cert_id cert
      in bind (certificate_state env cid) (\<lambda>state.
         bind (known_ocid env cert) (\<lambda>ocid.
         bind (base_payload K L config cert) (\<lambda>payload.
         bind (known_oci_versions env cid) (\<lambda>versions.
         bind (active_operations env cid) (\<lambda>active.
           return (with_state cid state
             (dict_update payload
                [(''oci_certificate_ocid'', json_option JStr ocid),
                 (''oci_versions_observed'', JInt (int versions)),
                 (''pending_publication'', JBool (publication_pending active))]))))))))"

definition status_items ::
  "'w env \<Rightarrow> ('w \<Rightarrow> lib_exn option \<times> 'w) \<Rightarrow> 'w mount \<Rightarrow> libs \<Rightarrow> app_config \<Rightarrow> ('w, (string \<times> json) list list) action" where
  "status_items env connect K L config =
     bind (database_exists K config) (\<lambda>there.
       if \<not> there then map_prog (unknown_item K L config ''NO_LOCAL_STATE'') (certificates config)
       else
         bind (try_except (seq (open_read_only connect) (return True))
                 (\<lambda>e. if is_SqliteError e then Some (return False) else None)) (\<lambda>opened.
           if \<not> opened then map_prog (unknown_item K L config ''STATE_UNAVAILABLE'') (certificates config)
           else map_prog (status_item env K L config) (certificates config)))"

subsection \<open>Status is what the store says\<close>

text \<open>The item of one set, from the database and the expiry of its leaf.\<close>

definition stored_ocid :: "certificate_config \<Rightarrow> database \<Rightarrow> string option" where
  "stored_ocid cert d =
     (case certificate_ocid (oci_of cert) of
        Some (c # cs) \<Rightarrow> Some (c # cs)
      | _ \<Rightarrow> confirmed_ocid (cert_id cert) d)"

text \<open>What an operator relies on in one item.\<close>

definition tells_state :: "database \<Rightarrow> certificate_config \<Rightarrow> (string \<times> json) list \<Rightarrow> bool" where
  "tells_state d cert item \<longleftrightarrow>
     json_get item ''certificate_id'' = JStr (cert_id cert) \<and>
     json_get item ''oci_certificate_ocid'' = json_option JStr (stored_ocid cert d) \<and>
     json_get item ''oci_versions_observed'' = JInt (int (distinct_versions (cert_id cert) d)) \<and>
     json_get item ''pending_publication'' =
       JBool (\<exists>r\<in>set (operations d). row_certificate r = cert_id cert \<and>
         row_state r \<in> {OCI_PENDING_UPLOADED, OCI_PENDING_VERIFIED}) \<and>
     json_get item ''state'' =
       JStr (if certificate_states d (cert_id cert) = None then ''NO_PUBLICATION_STATE'' else ''AVAILABLE'') \<and>
     json_get item ''drift'' =
       JStr (case certificate_states d (cert_id cert) of
               None \<Rightarrow> ''UNKNOWN''
             | Some r \<Rightarrow> drift (last_local_fingerprint r) (last_oci_current_fingerprint r))"

definition tells_nothing :: "string \<Rightarrow> certificate_config \<Rightarrow> (string \<times> json) list \<Rightarrow> bool" where
  "tells_nothing state cert item \<longleftrightarrow>
     json_get item ''certificate_id'' = JStr (cert_id cert) \<and> json_get item ''state'' = JStr state \<and>
     json_get item ''drift'' = JStr ''UNKNOWN''"

lemma dict_get_update:
  "map_of (dict_update d e) k = (case map_of (rev e) k of None \<Rightarrow> map_of d k | Some v \<Rightarrow> Some v)"
  by (induction e arbitrary: d)
    (auto simp: dict_update_def update_conv map_add_def split: option.splits)

lemma json_get_update: "json_get (dict_update d e) k = (case map_of (rev e) k of None \<Rightarrow> json_get d k | Some v \<Rightarrow> v)"
  by (simp add: json_get_def dict_get_update split: option.splits)

lemma publication_pending_rows:
  "publication_pending (map operation_of_row (active_rows cid d)) \<longleftrightarrow>
     (\<exists>r\<in>set (operations d). row_certificate r = cid \<and> row_state r \<in> {OCI_PENDING_UPLOADED, OCI_PENDING_VERIFIED})"
  by (auto simp: publication_pending_def active_rows_def operation_of_row_def list_ex_iff Bex_def)

lemma inert_database_exists [inert_intros]: "inert (database_exists K config)"
  unfolding database_exists_def by (intro inert_intros) (auto intro: inert_return split: if_splits)

lemma inert_open_read_only [inert_intros]: "inert (open_read_only connect)"
  unfolding open_read_only_def by (intro inert_intros)

lemma inert_base_payload [inert_intros]: "inert (base_payload K L config cert)"
  unfolding base_payload_def local_not_after_def by (intro inert_intros)

lemma inert_status_item: "inert (status_item env K L config cert)"
  unfolding status_item_def Let_def certificate_state_def known_ocid_def confirmed_oci_certificate_ocid_def
    known_oci_versions_def active_operations_def
  by (intro inert_intros) (auto intro: inert_intros split: option.splits list.splits)

lemma inert_status: "inert (status_items env connect K L config)"
  unfolding status_items_def unknown_item_def
  by (intro inert_intros inert_status_item) (auto intro: inert_return split: if_splits)

lemma wp_base_payload:
  assumes "\<And>payload o'. json_get payload ''certificate_id'' = JStr (cert_id cert) \<Longrightarrow> Q payload (w\<lparr>outside := o'\<rparr>)"
    and "\<And>e o'. E e (w\<lparr>outside := o'\<rparr>)"
  shows "wp (base_payload K L config cert) Q E w"
  unfolding base_payload_def wp_bind
  by (rule wp_inert) (use assms in \<open>auto simp: local_not_after_def wp_return json_get_def intro: inert_intros\<close>)

lemma wp_unknown_item: "wp (unknown_item K L config state cert) (\<lambda>item _. tells_nothing state cert item) (\<lambda>_ _. True) w"
  unfolding unknown_item_def wp_bind
  by (rule wp_base_payload) (simp_all add: wp_return tells_nothing_def json_get_update unknown_fields_def)

lemma wp_status_item:
  "wp (status_item env K L config cert) (\<lambda>item w'. tells_state (db w) cert item \<and> db w' = db w) (\<lambda>_ _. True) w"
proof -
  have known: "wp (known_ocid env cert) (\<lambda>ocid w'. ocid = stored_ocid cert (db w) \<and> db w' = db w) (\<lambda>_ _. True) w1"
    if "db w1 = db w" for w1
    unfolding known_ocid_def stored_ocid_def confirmed_oci_certificate_ocid_def
    by (auto simp: wp_return that split: option.splits list.splits intro!: wp_select)
  show ?thesis
    unfolding status_item_def Let_def wp_bind certificate_state_def known_oci_versions_def active_operations_def
    apply (intro wp_select wp_mono[OF known] wp_base_payload)
           apply (simp_all add: wp_return tells_state_def with_state_def json_get_update state_fields_def publication_pending_rows split: option.splits)
    done
qed

lemma wp_map_each:
  assumes "\<And>x w. x \<in> set xs \<Longrightarrow> I w \<Longrightarrow> wp (f x) (\<lambda>y w'. P x y \<and> I w') (\<lambda>_ _. True) w" and "I w"
  shows "wp (map_prog f xs) (\<lambda>ys w'. list_all2 P xs ys \<and> I w') (\<lambda>_ _. True) w"
  using assms
proof (induction xs arbitrary: w)
  case (Cons x xs)
  show ?case
    unfolding map_prog.simps wp_bind
    by (rule wp_mono[OF Cons.prems(1)]) (use Cons in \<open>auto simp: wp_return intro!: wp_mono[OF Cons.IH]\<close>)
qed (simp add: wp_return)

definition reports :: "database \<Rightarrow> certificate_config list \<Rightarrow> (string \<times> json) list list \<Rightarrow> bool" where
  "reports d certs items \<longleftrightarrow>
     list_all2 (tells_state d) certs items \<or> list_all2 (tells_nothing ''NO_LOCAL_STATE'') certs items \<or>
     list_all2 (tells_nothing ''STATE_UNAVAILABLE'') certs items"

lemma wp_status: "wp (status_items env connect K L config) (\<lambda>items _. reports (db w) (certificates config) items) (\<lambda>_ _. True) w"
proof -
  have unknown: "wp (map_prog (unknown_item K L config state) (certificates config))
      (\<lambda>items _. reports (db w) (certificates config) items) (\<lambda>_ _. True) w1"
    if "state \<in> {''NO_LOCAL_STATE'', ''STATE_UNAVAILABLE''}" for state w1
    by (rule wp_mono[OF wp_map_each[where I = "\<lambda>_. True" and P = "tells_nothing state"]])
      (use that in \<open>auto simp: reports_def intro: wp_mono[OF wp_unknown_item]\<close>)
  have item: "wp (status_item env K L config cert) (\<lambda>item w'. tells_state (db w) cert item \<and> db w' = db w) (\<lambda>_ _. True) w1"
    if "db w1 = db w" for cert w1
    using wp_status_item[of env K L config cert w1] that by simp
  have known: "wp (map_prog (status_item env K L config) (certificates config))
      (\<lambda>items _. reports (db w) (certificates config) items) (\<lambda>_ _. True) w1" if "db w1 = db w" for w1
    by (rule wp_mono[OF wp_map_each[where I = "\<lambda>w'. db w' = db w" and P = "tells_state (db w)"]])
      (use that item in \<open>auto simp: reports_def\<close>)
  have opened: "inert (try_except (seq (open_read_only connect) (return True))
                 (\<lambda>e. if is_SqliteError e then Some (return False) else None))"
    by (intro inert_intros) (auto intro: inert_return split: if_splits)
  show ?thesis
    unfolding status_items_def wp_bind
    by (rule wp_inert[OF inert_database_exists])
      (simp_all add: unknown wp_bind wp_inert[OF opened] known)
qed

end
