(* ===== verification/Operator.thy ===== *)
theory Operator
  imports Loading Status Challenge
begin

section \<open>Operator workflows\<close>

text \<open>
  \<open>operator.py\<close> and \<open>support.py\<close>: the commands that create configuration files, show the effective
  configuration and collect diagnostics. The accounts of the host, \<open>systemctl\<close>, and the printing of
  YAML, JSON and models are parameters. A group owner is not modelled; an owner and a mode are.
\<close>

record 'w operating_system =
  account :: "(int \<times> int) option"
  challenge_group :: "int option"
  systemctl :: "string list \<Rightarrow> 'w \<Rightarrow> (lib_exn + int \<times> string) \<times> 'w"

record printers =
  yaml_dump :: "yaml_value \<Rightarrow> string"
  json_indented :: "json \<Rightarrow> string"
  model_dump :: "app_config \<Rightarrow> (string \<times> json) list"

definition text_lines :: "string list \<Rightarrow> string" where
  "text_lines ls = concat (map (\<lambda>l. l @ [CHR 0x0A]) ls)"

text \<open>\<open>str(Path(s))\<close>; exactly two slashes at the front are kept.\<close>

definition path_str :: "string \<Rightarrow> string" where
  "path_str s =
     (let anchor = (if startswith s ''//'' \<and> \<not> startswith s ''///'' then ''//'' else if startswith s ''/'' then ''/'' else []);
          parts = join ''/'' (components s)
      in if anchor @ parts = [] then ''.'' else anchor @ parts)"

text \<open>\<open>str(Path(s) / name)\<close> for an absolute \<open>s\<close> and one component.\<close>

definition path_below :: "string \<Rightarrow> string \<Rightarrow> string" where
  "path_below s name = (let d = path_str s in if endswith d ''/'' then d @ name else d @ ''/'' @ name)"

subsection \<open>Writing configuration files\<close>

definition write_new_file :: "'w mount \<Rightarrow> path \<Rightarrow> string \<Rightarrow> ('w, exn, unit) prog" where
  "write_new_file K p contents =
     bind (sys K (create_file (euid K) (created_mode K 0x1A0) p)) (\<lambda>fd. write_all K fd contents)"

text \<open>\<open>os.chown\<close> and \<open>os.chmod\<close>.\<close>

definition own :: "'w mount \<Rightarrow> int \<Rightarrow> 32 word \<Rightarrow> path \<Rightarrow> ('w, exn, unit) prog" where
  "own K uid mode p = seq (sys K (alter True (with_owner uid) p)) (sys K (alter True (with_mode mode) p))"

definition apply_runtime_ownership ::
  "'w mount \<Rightarrow> 'w operating_system \<Rightarrow> path \<Rightarrow> path list \<Rightarrow> ('w, exn, unit) prog" where
  "apply_runtime_ownership K A d files =
     (if euid K \<noteq> 0 then return ()
      else
        (case (account A, challenge_group A) of
           (Some (uid, _), Some _) \<Rightarrow>
             seq (own K 0 0x1E9 d)
             (seq (own K uid 0x1E8 (d @ [''certificates'']))
             (seq (own K 0 0x1E8 (d @ [''roots'']))
             (for_each files (own K uid 0x1A0))))
         | _ \<Rightarrow>
             raise (ConfigurationError
               (''OCI ACME service accounts are unavailable; '' @ ''install the package before initializing config''))))"

definition settings_template :: string where
  "settings_template =
     text_lines
     [''# Generated by '' @ [CHR 0x60] @ ''oci-acme config init'' @ [CHR 0x60] @ ''.'',
      ''# Fill every EXAMPLE value before use.'',
      ''schema_version: 4'',
      ''global:'',
      ''  environment: staging'',
      ''  state_dir: /var/lib/oci-acme-publisher'',
      ''  log_level: INFO'',
      ''  json_logging: true'',
      ''compatibility:'',
      ''  # Set this only after retaining successful live compatibility evidence.'',
      ''  live_verified: false'',
      ''  enforce_documented_subject_country: true'',
      ''  require_complete_chain_to_root: true'',
      ''  reject_mixed_algorithm_chain: true'',
      ''acme:'',
      ''  email: admin@example.com'',
      ''  agree_to_terms: true'',
      ''  directory_url: https://acme-staging-v02.api.letsencrypt.org/directory'',
      ''  account_key_path: /var/lib/oci-acme-publisher/acme/account.key'',
      ''  certificates_dir: /var/lib/oci-acme-publisher/certificates'',
      ''  operation_timeout_seconds: 1800'',
      ''  renew_before_days: 30'',
      ''  rotate_private_key_on_renewal: true'',
      ''http01:'',
      ''  webroot_base: /var/lib/oci-acme-http01/webroots'',
      ''  responder:'',
      ''    bind_address: 127.0.0.1'',
      ''    bind_port: 8080'',
      ''  self_check: {}'',
      ''oci:'',
      ''  authentication: instance_principal'',
      ''monitoring:'',
      ''  warning_days: 20'',
      ''  critical_days: 7'']"

definition certificate_template :: string where
  "certificate_template =
     text_lines
     [''# One file per certificate. Rename this file before production use.'',
      ''certificate:'',
      ''  id: example-com'',
      ''  webroot_id: example-com'',
      ''  common_name: example.com'',
      ''  domains: [example.com]'',
      ''  key:'',
      ''    type: rsa'',
      ''    rsa_size: 2048'',
      ''  chain:'',
      ''    root_pem_path: /etc/oci-acme-publisher/roots/isrg-root-x1.pem'',
      ''    allowed_root_sha256: ['' @ [CHR 0x22] @ ''0000000000000000000000000000000000000000000000000000000000000000'' @ [CHR 0x22] @ '']'',
      ''    allowed_issuer_common_names: ['' @ [CHR 0x22] @ ''EXAMPLE ISSUER'' @ [CHR 0x22] @ '']'',
      ''  oci:'',
      ''    region: eu-frankfurt-1'',
      ''    compartment_ocid: ocid1.compartment.oc1..EXAMPLE'',
      ''    certificate_ocid: null'',
      ''    certificate_name: example-com'',
      ''  audit:'',
      ''    mode: observe'',
      ''    automatic_rollback_on_failure: false'',
      ''    endpoints:'',
      ''      - hostname: example.com'',
      ''        port: 443'']"

definition has_entries :: "path \<Rightarrow> fs \<Rightarrow> bool" where
  "has_entries p f =
     (case stat_at f True p of
        Inr (q, Directory _ _) \<Rightarrow> list_ex (\<lambda>(r, _). r \<noteq> [] \<and> butlast r = q) f
      | _ \<Rightarrow> False)"

text \<open>The three checks of the directory; \<open>and\<close> evaluates its second operand only if the first holds.\<close>

definition both :: "('w, exn, bool) prog \<Rightarrow> ('w, exn, bool) prog \<Rightarrow> ('w, exn, bool) prog" where
  "both m n = bind m (\<lambda>a. if a then n else return False)"

definition initialize_configuration ::
  "'w mount \<Rightarrow> 'w operating_system \<Rightarrow> string \<Rightarrow> bool \<Rightarrow> ('w, exn, string list) prog" where
  "initialize_configuration K A directory dry_run =
     (let d = components directory;
          names = [path_below directory ''settings.yaml'',
                   path_below directory ''certificates'' @ ''/example-com.yaml'']
      in seq (raise_if (\<not> startswith directory ''/'') (ConfigurationError ''configuration directory must be an absolute path''))
         (bind (both (sys K (observe (path_exists d))) (sys K (observe (\<lambda>f. \<not> is_dir d f)))) (\<lambda>taken.
          seq (raise_if taken (ConfigurationError ''configuration path exists and is not a directory''))
          (bind (both (sys K (observe (path_exists d))) (sys K (observe (has_entries d)))) (\<lambda>occupied.
           seq (raise_if occupied (ConfigurationError ''configuration directory is not empty; refusing to overwrite it''))
           (if dry_run then return names
            else
              seq (mkdir_parents K 0x1E8 d)
              (seq (sys K (make_dir (euid K) (created_mode K 0x1E8) (d @ [''certificates''])))
              (seq (sys K (make_dir (euid K) (created_mode K 0x1E8) (d @ [''roots''])))
              (seq (write_new_file K (d @ [''settings.yaml'']) settings_template)
              (seq (write_new_file K (d @ [''certificates'', ''example-com.yaml'']) certificate_template)
              (seq (apply_runtime_ownership K A d [d @ [''settings.yaml''], d @ [''certificates'', ''example-com.yaml'']])
              (return names))))))))))))"

record new_certificate =
  new_id :: string
  new_domains :: "string list"
  new_region :: string
  new_compartment :: string
  new_ocid :: "string option"

definition check_new_certificate :: "libs \<Rightarrow> new_certificate \<Rightarrow> exn + string list" where
  "check_new_certificate L n =
     (if \<not> is_slug (new_id n)
      then Inl (ConfigurationError ''certificate id must contain lowercase letters, digits, and hyphens'')
      else if new_domains n = [] then Inl (ConfigurationError ''at least one domain is required'')
      else
        (case map_result (normalize_domain (idna_encode L)) (new_domains n) of
           Inl e \<Rightarrow> if is_ValueError e then Inl (ConfigurationError ''one or more domains are invalid'') else Inl e
         | Inr normalized \<Rightarrow>
             if \<not> distinct normalized then Inl (ConfigurationError ''domains must be unique'')
             else if new_region n = [] \<or> list_ex is_space (new_region n)
             then Inl (ConfigurationError ''region must be a non-empty OCI region identifier'')
             else if \<not> startswith (new_compartment n) ''ocid1.compartment.''
             then Inl (ConfigurationError ''compartment OCID is invalid'')
             else if (case new_ocid n of None \<Rightarrow> False | Some ocid \<Rightarrow> \<not> startswith ocid ''ocid1.certificate.'')
             then Inl (ConfigurationError ''certificate OCID is invalid'')
             else Inr normalized))"

definition ytext :: "string \<Rightarrow> yaml_value" where
  "ytext s = YScalar (YText s)"

definition ydict :: "(string \<times> yaml_value) list \<Rightarrow> yaml_value" where
  "ydict d = YDict (map (\<lambda>(k, v). (YText k, v)) d)"

definition certificate_document :: "new_certificate \<Rightarrow> string list \<Rightarrow> yaml_value" where
  "certificate_document n normalized =
     ydict
       [(''certificate'', ydict
          [(''id'', ytext (new_id n)), (''webroot_id'', ytext (new_id n)), (''common_name'', ytext (hd normalized)),
           (''domains'', YList (map ytext normalized)),
           (''key'', ydict [(''type'', ytext ''rsa''), (''rsa_size'', YScalar (YInt 2048))]),
           (''chain'', ydict
              [(''root_pem_path'', ytext ''/etc/oci-acme-publisher/roots/isrg-root-x1.pem''),
               (''allowed_root_sha256'', YList [ytext (replicate 64 (CHR ''0''))]),
               (''allowed_issuer_common_names'', YList [ytext ''EXAMPLE ISSUER''])]),
           (''oci'', ydict
              [(''region'', ytext (new_region n)), (''compartment_ocid'', ytext (new_compartment n)),
               (''certificate_ocid'', case new_ocid n of None \<Rightarrow> YScalar YNull | Some ocid \<Rightarrow> ytext ocid),
               (''certificate_name'', ytext (new_id n))]),
           (''audit'', ydict
              [(''mode'', ytext ''observe''), (''automatic_rollback_on_failure'', YScalar (YBool False)),
               (''endpoints'', YList [ydict [(''hostname'', ytext (hd normalized)), (''port'', YScalar (YInt 443))]])])])]"

definition add_certificate ::
  "'w mount \<Rightarrow> 'w operating_system \<Rightarrow> libs \<Rightarrow> printers \<Rightarrow> string \<Rightarrow> new_certificate \<Rightarrow> bool \<Rightarrow> ('w, exn, string) prog" where
  "add_certificate K A L T directory n dry_run =
     (let d = components directory;
          p = d @ [''certificates'', new_id n @ ''.yaml'']
      in seq (raise_if (\<not> startswith directory ''/'') (ConfigurationError ''configuration directory must be an absolute path''))
         (bind (lift (check_new_certificate L n)) (\<lambda>normalized.
          bind (sys K (observe (path_exists p))) (\<lambda>there.
          seq (raise_if there (ConfigurationError ''certificate configuration already exists; refusing to overwrite it''))
          (seq (if dry_run then return ()
                else
                  bind (sys K (observe (is_dir (butlast p)))) (\<lambda>initialized.
                  seq (raise_if (\<not> initialized) (ConfigurationError ''configuration directory has not been initialized''))
                  (seq (write_new_file K p (yaml_dump T (certificate_document n normalized)))
                  (apply_runtime_ownership K A d [p]))))
          (return (path_below directory ''certificates'' @ ''/'' @ new_id n @ ''.yaml'')))))))"

subsection \<open>Showing the configuration\<close>

definition redacted :: json where
  "redacted = JStr ''[REDACTED]''"

text \<open>The contact address and the reference of the notification credential do not leave the host.\<close>

definition hide_field :: "string \<Rightarrow> string \<Rightarrow> ((string \<times> json) list \<Rightarrow> bool) \<Rightarrow> (string \<times> json) list \<Rightarrow> (string \<times> json) list" where
  "hide_field k field present document =
     (case map_of document k of
        Some (JDict a) \<Rightarrow> if present a then AList.update k (JDict (AList.update field redacted a)) document else document
      | _ \<Rightarrow> document)"

definition redact_model :: "(string \<times> json) list \<Rightarrow> (string \<times> json) list" where
  "redact_model document =
     hide_field ''notifications'' ''credential_ref'' (\<lambda>a. json_get a ''credential_ref'' \<noteq> JNull)
       (hide_field ''acme'' ''email'' (\<lambda>_. True) document)"

definition effective_configuration ::
  "'w mount \<Rightarrow> libs \<Rightarrow> schema_libs \<Rightarrow> printers \<Rightarrow> string \<Rightarrow> ('w, exn, (string \<times> json) list) prog" where
  "effective_configuration K L Y T p = bind (load_config K L Y p) (\<lambda>config. return (redact_model (model_dump T config)))"

fun environment_text :: "environment \<Rightarrow> string" where
  "environment_text PRODUCTION = ''production''"
| "environment_text STAGING = ''staging''"

definition diagnose_configuration ::
  "'w mount \<Rightarrow> libs \<Rightarrow> schema_libs \<Rightarrow> string \<Rightarrow> ('w, exn, (string \<times> json) list) prog" where
  "diagnose_configuration K L Y p =
     bind (load_config K L Y p) (\<lambda>config.
       let r = responder (http01 config)
       in return
         [(''result'', JStr ''DIAGNOSE_CONFIGURATION_VALID''), (''config_path'', JStr (path_str p)),
          (''environment'', JStr (environment_text (environment_of (global_of config)))),
          (''certificate_ids'', JList (map (\<lambda>c. JStr (cert_id c)) (certificates config))),
          (''responder'', JDict
             [(''bind_address'', JStr (bind_address r)), (''bind_port'', JInt (bind_port r)),
              (''health_path'', JStr (health_path r)), (''readiness_path'', JStr (readiness_path r))]),
          (''next_action'', JStr (''Run '' @ [CHR 0x60] @ ''oci-acme check --config <directory>'' @ [CHR 0x60] @ '' before issuance.''))])"

subsection \<open>Support bundles\<close>

definition service_names :: "string list" where
  "service_names = [''oci-acme-http01.service'', ''oci-acme-renew.service'', ''oci-acme-renew.timer'']"

definition service_properties :: "string list" where
  "service_properties = [''Id'', ''ActiveState'', ''SubState'', ''UnitFileState'', ''Result'']"

text \<open>\<open>s.splitlines()\<close> on bytes read as characters.\<close>

definition line_end :: "char \<Rightarrow> bool" where
  "line_end c \<longleftrightarrow> List.member [0x0A, 0x0B, 0x0C, 0x0D, 0x1C, 0x1D, 0x1E, 0x85] (of_char c :: nat)"

fun splitlines :: "string \<Rightarrow> string list" where
  "splitlines [] = []"
| "splitlines (c # s) =
     (if c = CHR 0x0D \<and> startswith s [CHR 0x0A] then [] # splitlines (drop 1 s)
      else if line_end c then [] # splitlines s
      else (case splitlines s of [] \<Rightarrow> [[c]] | l # ls \<Rightarrow> (c # l) # ls))"

definition unit_fields :: "string \<Rightarrow> (string \<times> string) list" where
  "unit_fields stdout =
     filter (\<lambda>(k, _). k \<noteq> [])
       (map (\<lambda>l. case partition_at (CHR ''='') l of (k, _, v) \<Rightarrow> (k, v)) (splitlines stdout))"

text \<open>\<open>fields.get(name, "unknown")\<close>: of a key that occurs twice, the last value.\<close>

definition field_text :: "(string \<times> string) list \<Rightarrow> string \<Rightarrow> json" where
  "field_text pairs name = JStr (case map_of (rev pairs) name of None \<Rightarrow> ''unknown'' | Some v \<Rightarrow> v)"

definition unavailable_unit :: "string \<Rightarrow> json" where
  "unavailable_unit name = JDict [(''unit'', JStr name), (''state'', JStr ''UNAVAILABLE'')]"

definition unit_report :: "string \<Rightarrow> int \<times> string \<Rightarrow> json" where
  "unit_report name completed =
     (case completed of (returncode, stdout) \<Rightarrow>
        if returncode \<noteq> 0 then unavailable_unit name
        else
          (let pairs = unit_fields stdout
           in JDict
                [(''unit'', JStr name), (''active_state'', field_text pairs ''ActiveState''),
                 (''sub_state'', field_text pairs ''SubState''),
                 (''unit_file_state'', field_text pairs ''UnitFileState''), (''result'', field_text pairs ''Result'')]))"

definition unit_status :: "'w operating_system \<Rightarrow> string \<Rightarrow> ('w, exn, json) prog" where
  "unit_status A name =
     try_except
       (bind (ext_try (systemctl A
                ([''systemctl'', ''show'', name, ''--no-page''] @ map (\<lambda>p. ''--property='' @ p) service_properties)))
          (\<lambda>completed. return (unit_report name completed)))
       (\<lambda>e. if is_OSError e then Some (return (unavailable_unit name)) else None)"

definition service_status :: "'w operating_system \<Rightarrow> ('w, exn, json list) prog" where
  "service_status A = map_prog (unit_status A) service_names"

definition application_version :: string where
  "application_version = ''2.0.0''"

definition support_bundle ::
  "'w env \<Rightarrow> ('w \<Rightarrow> lib_exn option \<times> 'w) \<Rightarrow> 'w mount \<Rightarrow> 'w operating_system \<Rightarrow> libs \<Rightarrow> schema_libs \<Rightarrow> string \<Rightarrow> app_config \<Rightarrow>
     ('w, (string \<times> json) list) action" where
  "support_bundle env connect K A L Y p config =
     bind (now_utc env) (\<lambda>now.
     bind (locally (diagnose_configuration K L Y p)) (\<lambda>diagnostics.
     bind (status_items env connect K L config) (\<lambda>items.
     bind (locally (service_status A)) (\<lambda>services.
       return
         [(''schema_version'', JInt 1), (''result'', JStr ''SUPPORT_BUNDLE_CREATED''),
          (''created_at'', JStr (isoformat now)), (''application_version'', JStr application_version),
          (''diagnostics'', JDict diagnostics), (''certificate_status'', JList (map JDict items)),
          (''services'', JList services),
          (''exclusions'', JList (map JStr
             [''configuration values'', ''systemd credentials'', ''journal entries'', ''private keys'',
              ''PEM certificate contents'', ''ACME account key material'']))]))))"

definition write_support_bundle ::
  "'w mount \<Rightarrow> printers \<Rightarrow> string \<Rightarrow> (string \<times> json) list \<Rightarrow> ('w, exn, unit) prog" where
  "write_support_bundle K T output bundle =
     (let p = components output
      in seq (raise_if (\<not> startswith output ''/'') (ConfigurationError ''support bundle output path must be an absolute path''))
         (bind (sys K (observe (path_exists p))) (\<lambda>there.
          bind (if there then return True else sys K (observe (is_symlink p))) (\<lambda>taken.
          seq (raise_if taken (ConfigurationError ''support bundle already exists; refusing to overwrite it''))
          (bind (sys K (observe (is_dir (butlast p)))) (\<lambda>parent.
           seq (raise_if (\<not> parent) (ConfigurationError ''support bundle directory does not exist''))
           (write_new_file K p (json_indented T (JDict bundle) @ [CHR 0x0A]))))))))"

subsection \<open>Nothing is overwritten\<close>

text \<open>\<open>preserves f f'\<close>: what \<open>f\<close> has is in \<open>f'\<close>, with the same content; its owner and mode may differ.\<close>

fun same_content :: "node \<Rightarrow> node \<Rightarrow> bool" where
  "same_content (Regular _ _ b) (Regular _ _ b') = (b = b')"
| "same_content (Directory _ _) (Directory _ _) = True"
| "same_content (Symlink _ t) (Symlink _ t') = (t = t')"
| "same_content _ _ = False"

definition preserves :: "fs \<Rightarrow> fs \<Rightarrow> bool" where
  "preserves f f' \<longleftrightarrow> (\<forall>q n. node_at f q = Some n \<longrightarrow> (\<exists>n'. node_at f' q = Some n' \<and> same_content n n'))"

lemma same_content_refl: "same_content n n"
  by (cases n) simp_all

lemma same_content_trans: "same_content n n' \<Longrightarrow> same_content n' n'' \<Longrightarrow> same_content n n''"
  by (cases n; cases n'; cases n'') simp_all

lemma same_content_attributes: "same_content n (with_owner u n)" "same_content n (with_mode m n)"
  by (cases n; simp)+

lemma preserves_refl: "preserves f f"
  by (auto simp: preserves_def intro: same_content_refl)

lemma preserves_update:
  assumes "preserves f0 f" and "q \<noteq> []"
    and "\<And>n0. node_at f0 q = Some n0 \<Longrightarrow> \<exists>n'. node_at f q = Some n' \<and> same_content n' n"
  shows "preserves f0 (AList.update q n f)"
  using assms unfolding preserves_def by (auto simp: node_at_update) (metis option.inject same_content_trans)+

lemma preserves_new:
  assumes "preserves f0 f" and "new_entry f p = Inr q"
  shows "preserves f0 (AList.update q n f)" and "node_at f0 q = None" and "q \<noteq> []"
proof -
  have q: "q \<noteq> []" "node_at f q = None" using assms(2) by (auto simp: new_entry_def split: sum.splits if_splits)
  moreover from this show "node_at f0 q = None" using assms(1) unfolding preserves_def by (metis not_None_eq)
  ultimately show "preserves f0 (AList.update q n f)" by (intro preserves_update[OF assms(1)]) auto
  show "q \<noteq> []" by (rule q)
qed

lemma preserves_alter:
  assumes "preserves f0 f" and "alter fl g p f = Inr (u, f')" and "\<And>n. same_content n (g n)"
  shows "preserves f0 f'"
proof -
  obtain q n where q: "node_at f q = Some n" "f' = AList.update q (g n) f"
    using assms(2) by (auto simp: alter_def stat_at_def split: sum.splits option.splits)
  show ?thesis
  proof (cases "q = []")
    case True
    then have "node_at f' r = node_at f r" for r using q by (simp add: node_at_def update_conv')
    then show ?thesis using assms(1) by (simp add: preserves_def)
  next
    case False
    then show ?thesis unfolding q(2) by (intro preserves_update[OF assms(1)]) (auto simp: q(1) assms(3))
  qed
qed

abbreviation kept_contents :: "'w mount \<Rightarrow> fs \<Rightarrow> ('w, exn, 'a) prog \<Rightarrow> bool" where
  "kept_contents K f0 m \<equiv> keeps (\<lambda>w. preserves f0 (disk K w)) m"

lemma kept_sys:
  assumes "mount_law K" and "\<And>f a f'. preserves f0 f \<Longrightarrow> call f = Inr (a, f') \<Longrightarrow> preserves f0 f'"
  shows "kept_contents K f0 (sys K call)"
  unfolding keeps_wp by (intro allI impI wp_sys[OF assms(1)]) (auto intro: assms(2))

lemma kept_observe: "mount_law K \<Longrightarrow> kept_contents K f0 (sys K (observe g))"
  by (rule kept_sys) (auto simp: observe_def)

lemma kept_make_dir: "mount_law K \<Longrightarrow> kept_contents K f0 (sys K (make_dir u m p))"
  by (rule kept_sys) (auto simp: make_dir_def intro: preserves_new split: sum.splits)

lemma kept_own: "mount_law K \<Longrightarrow> kept_contents K f0 (own K uid mode p)"
  unfolding own_def by (intro keeps_seq kept_sys) (auto intro: preserves_alter same_content_attributes)

lemma kept_mkdir_parents: "mount_law K \<Longrightarrow> kept_contents K f0 (mkdir_parents K mode p)"
proof (induction K mode p rule: mkdir_parents.induct)
  case (1 K mode p)
  show ?case
    unfolding mkdir_parents.simps[of K mode p] Let_def
    by (intro keeps_try_except kept_make_dir 1)
      (auto split: if_splits intro!: keeps_seq keeps_bind keeps_try_except keeps_if keeps_return keeps_raise kept_make_dir kept_observe 1)
qed

lemma kept_write_all:
  assumes K: "mount_law K" and q: "node_at f0 q = None"
  shows "kept_contents K f0 (write_all K q content)"
proof (induction content rule: length_induct)
  case (1 content)
  have "q \<noteq> []" using q by (auto simp: node_at_def)
  then have "preserves f0 f'" if "preserves f0 f" "append_bytes q bytes f = Inr (a, f')" for f a f' bytes
    using that q by (auto simp: append_bytes_def intro: preserves_update split: option.splits node.splits)
  then have append: "kept_contents K f0 (sys K (append_bytes q bytes))" for bytes by (intro kept_sys[OF K])
  have count: "kept_contents K f0 (write_count K)"
    unfolding keeps_wp by (auto intro: wp_write_count[OF K])
  show ?case
    by (subst write_all.simps) (use 1 in \<open>auto intro!: keeps_intros append count\<close>)
qed

lemma kept_write_new_file:
  assumes K: "mount_law K"
  shows "kept_contents K f0 (write_new_file K p contents)"
  unfolding write_new_file_def keeps_wp wp_bind
proof (intro allI impI wp_sys[OF K])
  fix w fd f w'
  assume I: "preserves f0 (disk K w)" and c: "create_file (euid K) (created_mode K 0x1A0) p (disk K w) = Inr (fd, f)" and f: "disk K w' = f"
  have e: "new_entry (disk K w) p = Inr fd" and f': "f = AList.update fd (Regular (euid K) (created_mode K 0x1A0) []) (disk K w)"
    using c by (auto simp: create_file_def split: sum.splits)
  show "wp (write_all K fd contents) (\<lambda>_ w. preserves f0 (disk K w)) (\<lambda>_ w. preserves f0 (disk K w)) w'"
    by (rule keeps_wpD[OF kept_write_all[OF K preserves_new(2)[OF I e]]]) (simp add: f f' preserves_new(1)[OF I e])
qed simp

lemma kept_ownership: "mount_law K \<Longrightarrow> kept_contents K f0 (apply_runtime_ownership K A d files)"
  unfolding apply_runtime_ownership_def
  by (auto intro!: keeps_intros kept_own split: option.splits)

lemma kept_both: "kept_contents K f0 m \<Longrightarrow> kept_contents K f0 n \<Longrightarrow> kept_contents K f0 (both m n)"
  unfolding both_def by (intro keeps_intros)

lemma initialize_keeps: "mount_law K \<Longrightarrow> kept_contents K f0 (initialize_configuration K A directory dry_run)"
  unfolding initialize_configuration_def Let_def
  by (intro keeps_intros kept_both kept_observe kept_mkdir_parents kept_make_dir kept_write_new_file kept_ownership)

lemma add_certificate_keeps: "mount_law K \<Longrightarrow> kept_contents K f0 (add_certificate K A L T directory n dry_run)"
  unfolding add_certificate_def Let_def
  by (intro keeps_intros kept_observe kept_write_new_file kept_ownership)

lemma support_bundle_keeps: "mount_law K \<Longrightarrow> kept_contents K f0 (write_support_bundle K T output bundle)"
  unfolding write_support_bundle_def Let_def
  by (intro keeps_intros kept_observe kept_write_new_file)

subsection \<open>An added certificate is loaded\<close>

lemma walk_preserved:
  "walk f fl k d cs = Inr q \<Longrightarrow> node_at f q \<noteq> None \<Longrightarrow> preserves f f' \<Longrightarrow> walk f' fl k d cs = Inr q"
proof (induction f fl k d cs rule: walk.induct)
  case (2 f fl k d c cs)
  show ?case
  proof (cases "c = ''..''")
    case False
    then obtain n where n: "node_at f (d @ [c]) = Some n" using "2.prems" by (cases "node_at f (d @ [c])") (auto split: if_splits)
    then obtain n' where "node_at f' (d @ [c]) = Some n'" "same_content n n'" using "2.prems"(3) by (auto simp: preserves_def)
    then show ?thesis using 2 n False by (cases n; cases n') (auto split: if_splits nat.splits)
  qed (use 2 in auto)
qed simp

lemma read_file_preserved:
  assumes "read_file p f = Inr (text, f)" and "preserves f f'"
  shows "read_file p f' = Inr (text, f')"
proof -
  obtain q u m where q: "walk f True max_links [] p = Inr q" "node_at f q = Some (Regular u m text)"
    using assms(1) by (auto simp: read_file_def stat_at_def resolve_def split: sum.splits option.splits node.splits)
  then obtain n' where "node_at f' q = Some n'" "same_content (Regular u m text) n'" using assms(2) by (auto simp: preserves_def)
  moreover have "walk f' True max_links [] p = Inr q" using walk_preserved[OF q(1) _ assms(2)] q(2) by simp
  ultimately show ?thesis by (cases n') (auto simp: read_file_def stat_at_def resolve_def)
qed

lemma wp_write_new_file:
  assumes K: "mount_law K"
  shows "wp (write_new_file K p contents) (\<lambda>_ w'. read_file p (disk K w') = Inr (contents, disk K w')) (\<lambda>_ _. True) w"
  unfolding write_new_file_def wp_bind
proof (rule wp_sys[OF K])
  fix fd f w'
  assume c: "create_file (euid K) (created_mode K 0x1A0) p (disk K w) = Inr (fd, f)" and f: "disk K w' = f"
  then have e: "new_entry (disk K w) p = Inr fd" and f': "f = AList.update fd (Regular (euid K) (created_mode K 0x1A0) []) (disk K w)"
    by (auto simp: create_file_def split: sum.splits)
  have fd: "fd \<noteq> []" by (rule preserves_new(3)[OF preserves_refl e])
  have start: "node_at (disk K w') fd = Some (Regular (euid K) (created_mode K 0x1A0) [])" "same_but fd (disk K w) (disk K w')"
    using fd by (auto simp: f f' node_at_update same_but_def)
  show "wp (write_all K fd contents) (\<lambda>_ w'. read_file p (disk K w') = Inr (contents, disk K w')) (\<lambda>_ _. True) w'"
    by (rule wp_mono[OF wp_write_all[OF K fd start]])
      (use stat_new_entry[OF e] in \<open>auto simp: read_file_def\<close>)
qed simp

lemma wp_add_certificate:
  assumes K: "mount_law K"
  shows "wp (add_certificate K A L T directory n False)
     (\<lambda>_ w'. \<exists>normalized. check_new_certificate L n = Inr normalized \<and>
        read_file (components directory @ [''certificates'', new_id n @ ''.yaml'']) (disk K w') =
          Inr (yaml_dump T (certificate_document n normalized), disk K w'))
     (\<lambda>_ _. True) w"
proof -
  let ?p = "components directory @ [''certificates'', new_id n @ ''.yaml'']"
  have written: "wp (seq (write_new_file K ?p body) (apply_runtime_ownership K A (components directory) [?p]))
      (\<lambda>_ w'. read_file ?p (disk K w') = Inr (body, disk K w')) (\<lambda>_ _. True) w1" for body w1
    unfolding wp_seq
  proof (rule wp_mono[OF wp_write_new_file[OF K]])
    fix u w2 assume "read_file ?p (disk K w2) = Inr (body, disk K w2)"
    then show "wp (apply_runtime_ownership K A (components directory) [?p])
        (\<lambda>_ w'. read_file ?p (disk K w') = Inr (body, disk K w')) (\<lambda>_ _. True) w2"
      by (intro wp_mono[OF keeps_wpD[OF kept_ownership[OF K] preserves_refl]]) (auto intro: read_file_preserved)
  qed simp
  show ?thesis
    unfolding add_certificate_def Let_def wp_seq[of "raise_if b e" for b e] wp_raise_if wp_bind[of "lift r" for r] wp_lift
    by (auto split: sum.splits simp: wp_bind wp_seq[of "raise_if b e" for b e] wp_raise_if wp_seq[of "bind m k" for m k] wp_return
        intro!: wp_observe[OF K] wp_mono[OF written])
qed

text \<open>What the loader sees in the file.\<close>

definition reads_back :: "schema_libs \<Rightarrow> printers \<Rightarrow> yaml_value \<Rightarrow> bool" where
  "reads_back Y T v \<longleftrightarrow> yaml_load Y (yaml_dump T v) = Inr v \<and> int (length (yaml_dump T v)) \<le> max_config_bytes"

definition certificate_body :: "yaml_value \<Rightarrow> yaml_value" where
  "certificate_body v = (case v of YDict [(_, body)] \<Rightarrow> body | _ \<Rightarrow> v)"

lemma certificate_document_loads:
  assumes "read_file p f = Inr (yaml_dump T (certificate_document n normalized), f)" and "reads_back Y T (certificate_document n normalized)"
  shows "certificate_in Y f p = Inr (certificate_body (certificate_document n normalized))"
  using assms
  by (simp add: certificate_in_def document_in_def parse_document_def reads_back_def certificate_document_def ydict_def
      certificate_mapping_def certificate_body_def)

subsection \<open>What is shown of a configuration\<close>

lemma map_of_update: "map_of (AList.update k v d) k' = (if k' = k then Some v else map_of d k')"
  by (simp add: update_conv')

lemma hide_field_other: "k' \<noteq> k \<Longrightarrow> map_of (hide_field k field present document) k' = map_of document k'"
  by (auto simp: hide_field_def map_of_update split: option.split json.split)

lemma hide_field_hides:
  assumes "map_of (hide_field k field present document) k = Some (JDict a)"
  shows "json_get a field = redacted \<or> \<not> present a"
proof (cases "\<exists>b. map_of document k = Some (JDict b)")
  case True
  then obtain b where b: "map_of document k = Some (JDict b)" by blast
  then show ?thesis
    using assms by (cases "present b") (auto simp: hide_field_def map_of_update json_get_def)
next
  case False
  then have "hide_field k field present document = document"
    by (auto simp: hide_field_def split: option.split json.split)
  then show ?thesis using False assms by simp
qed

lemma redact_model_hides:
  "map_of (redact_model document) ''acme'' = Some (JDict a) \<Longrightarrow> json_get a ''email'' = redacted"
  "map_of (redact_model document) ''notifications'' = Some (JDict b) \<Longrightarrow> json_get b ''credential_ref'' \<in> {JNull, redacted}"
  unfolding redact_model_def using hide_field_hides by (fastforce simp: hide_field_other)+

text \<open>Everything else is shown as it is.\<close>

lemma redact_model_rest:
  "k \<noteq> ''acme'' \<Longrightarrow> k \<noteq> ''notifications'' \<Longrightarrow> map_of (redact_model document) k = map_of document k"
  by (simp add: redact_model_def hide_field_other)

end
