(* ===== verification/ServiceLaws.thy ===== *)
theory ServiceLaws
  imports PublicationService
begin

section \<open>The laws of the publication service\<close>

text \<open>
  Every method of the service keeps the database lawful and sends OCI only mutations that a policy
  allows. The policy is a locale: what it must admit are the mutations that the guards of the
  publication, the rollback, the retention and the bootstrap justify. The methods are verified once
  for any policy, and the policies of one configuration and of a batch are interpretations.
\<close>

subsection \<open>Lawfulness through the pieces\<close>

text \<open>A run of a part, lawful for its own guard, is one of the whole.\<close>

lemma safe_trans: "safe d0 d1 \<Longrightarrow> safe d1 d2 \<Longrightarrow> safe d0 d2"
  by (auto simp: safe_def intro: evolves_trans)

lemma lawful_compose:
  assumes "lawful H d0 t0 w0" and "lawful G (db w0) (trace w0) w"
    and "\<And>pre e io. G pre e \<Longrightarrow> H (io @ pre) e"
  shows "lawful H d0 t0 w"
proof -
  obtain io io' where "trace w0 = t0 @ io" "justified H io" "trace w = trace w0 @ io'" "justified G io'"
    using assms(1,2) by (auto simp: lawful_def exchanged_def)
  moreover from this(4) have "justified H (io @ io')" if "justified H io"
    using that
  proof (induction io' rule: rev_induct)
    case (snoc e io')
    then have "justified H ((io @ io') @ [e])" by (simp add: justified_snoc assms(3) del: append_assoc)
    then show ?case by simp
  qed simp
  moreover have "safe d0 (db w)" using assms(1,2) by (auto simp: lawful_def intro: safe_trans)
  ultimately show ?thesis by (auto simp: lawful_def exchanged_def)
qed

lemma lawful_start: "lawful H d0 t0 w \<Longrightarrow> lawful G (db w) (trace w) w"
  by (auto simp: lawful_def safe_def exchanged_def)

lemma lawful_wf: "lawful H d0 t0 w \<Longrightarrow> wf_db (db w)"
  by (simp add: lawful_def safe_def)

lemma lawful_operations:
  assumes "lawful H d0 t0 w0" and "operations (db w) = operations (db w0)" and "trace w = trace w0"
  shows "lawful H d0 t0 w"
proof -
  have "store_step (db w0) (db w)" using assms(2) by (rule store_step.facts)
  then show ?thesis using assms by (auto simp: lawful_def exchanged_def intro: safe_step)
qed

lemma keeps_lawful_inert: "inert m \<Longrightarrow> keeps (lawful H d0 t0) m"
  by (metis keeps_def inert_def lawful_outside)

lemmas keeps_lawful_outside [keeps_intros] =
  keeps_lawful_inert[OF inert_external] keeps_lawful_inert[OF inert_now] keeps_lawful_inert[OF inert_locally]
  keeps_lawful_inert[OF inert_select] keeps_lawful_inert[OF inert_external, folded uuid4_def]

lemma keeps_lawful_log [keeps_intros]: "keeps (lawful H d0 t0) (log_event e c)"
  unfolding log_event_def by (rule keeps_modify) simp

text \<open>Opening the store changes no operation.\<close>

definition same_rows :: "'w world \<Rightarrow> 'w world \<Rightarrow> bool" where
  "same_rows w0 w \<longleftrightarrow> operations (db w) = operations (db w0) \<and> trace w = trace w0"

lemma same_rows_refl: "same_rows w w"
  by (simp add: same_rows_def)

lemma lawful_same_rows: "lawful H d0 t0 w0 \<Longrightarrow> same_rows w0 w \<Longrightarrow> lawful H d0 t0 w"
  by (simp add: same_rows_def lawful_operations)

lemma keeps_same_rows_sql:
  "(\<And>d a d'. st d = Inr (a, d') \<Longrightarrow> operations d' = operations d) \<Longrightarrow> keeps (same_rows w0) (sql env st)"
  by (auto simp: keeps_wp same_rows_def intro!: wp_sqlI)

lemma keeps_same_rows_inert: "inert m \<Longrightarrow> keeps (same_rows w0) m"
  unfolding keeps_def inert_def same_rows_def by (metis world.select_convs(2,3) world.surjective world.update_convs(1))

lemma keeps_same_rows_open: "keeps (same_rows w0) (open_store env)"
proof -
  have ddl: "keeps (same_rows w0) (sql env (exec_ddl s))" for s
    by (cases s) (auto simp: create_object_def intro!: keeps_same_rows_sql split: if_splits)
  have version: "keeps (same_rows w0) (sql env (insert_schema_version v t))" for v t
    by (rule keeps_same_rows_sql) (auto simp: insert_schema_version_def split: if_splits)
  have clock: "keeps (same_rows w0) (utc_now_rfc3339 env)"
    unfolding utc_now_rfc3339_def by (rule keeps_same_rows_inert) (intro inert_intros)
  have "keeps (same_rows w0) (apply_migrations env)"
    unfolding apply_migrations_def
    by (intro keeps_intros ddl keeps_same_rows_inert[OF inert_select])
      (auto intro!: keeps_intros ddl version clock)
  then show ?thesis
    unfolding open_store_def by (intro keeps_intros keeps_same_rows_inert[OF inert_external])
qed

lemma keeps_lawful_open [keeps_intros]: "keeps (lawful H d0 t0) (open_store env)"
  unfolding keeps_def
  by (metis keeps_def keeps_same_rows_open lawful_same_rows same_rows_refl)

text \<open>A notice changes no operation.\<close>

lemma keeps_lawful_notice: "keeps (lawful H d0 t0) (send_notice V config cid event)"
proof -
  have "keeps (unmoved w0) (send_notice V config cid event)" for w0
    unfolding send_notice_def
    by (intro keeps_intros store.keeps_notify) (auto intro: keeps_intros split: if_splits)
  then show ?thesis
    unfolding keeps_def by (meson lawful_operations unmoved_def unmoved_refl)
qed

lemma keeps_lawful_event: "keeps (lawful H d0 t0) (notify_event V config cid event)"
  unfolding notify_event_def
  by (intro keeps_intros keeps_lawful_notice) (auto intro: keeps_intros split: if_splits)

lemma keeps_lawful_part:
  assumes "\<And>w. wf_db (db w) \<Longrightarrow>
      wp m (\<lambda>_ w'. lawful G (db w) (trace w) w') (\<lambda>_ w'. lawful G (db w) (trace w) w') w"
    and "\<And>pre e io. G pre e \<Longrightarrow> H (io @ pre) e"
  shows "keeps (lawful H d0 t0) m"
  unfolding keeps_wp
proof (intro allI impI)
  fix w :: "'a world" assume w: "lawful H d0 t0 w"
  show "wp m (\<lambda>_. lawful H d0 t0) (\<lambda>_. lawful H d0 t0) w"
    by (rule wp_mono[OF assms(1)[OF lawful_wf[OF w]]]) (auto intro: lawful_compose[OF w _ assms(2)])
qed

lemma configured_Inr:
  "configured_certificate config cid = Inr cert \<Longrightarrow> cert \<in> set (certificates config) \<and> cert_id cert = cid"
  by (auto simp: configured_certificate_def filter_eq_Cons_iff split: list.splits)

lemma keeps_configured:
  "(\<And>cert. cert \<in> set (certificates config) \<Longrightarrow> cert_id cert = cid \<Longrightarrow> keeps I (k cert)) \<Longrightarrow>
     keeps I (bind (lift (configured_certificate config cid)) k)"
  by (auto simp: keeps_wp wp_simps split: sum.splits dest: configured_Inr)

lemma inert_adapters_for: "inert (adapters_for V config)"
  unfolding adapters_for_def create_certificates_adapters_def instance_principal_signer_def
  by (intro inert_intros)

lemma keeps_adapters:
  assumes "\<And>p. keeps (lawful H d0 t0) (k (oci_adapters (run_env V) p))"
  shows "keeps (lawful H d0 t0) (bind (adapters_for V config) k)"
  unfolding keeps_wp wp_bind
proof (intro allI impI)
  fix w :: "'a world" assume w: "lawful H d0 t0 w"
  obtain r o' where run: "adapters_for V config w = (r, w\<lparr>outside := o'\<rparr>)" by (rule inertE[OF inert_adapters_for])
  have "P = oci_adapters (run_env V) (default_policy (max_read_attempts (oci_settings config)))" if "r = Inr P" for P
    using run that by (auto simp: adapters_for_def create_certificates_adapters_def seq_Inr_iff run_return)
  then show "wp (adapters_for V config) (\<lambda>P. wp (k P) (\<lambda>_. lawful H d0 t0) (\<lambda>_. lawful H d0 t0)) (\<lambda>_. lawful H d0 t0) w"
    using run w assms[unfolded keeps_wp] by (auto simp: wp_def[of "adapters_for V config"] split: sum.splits)
qed

subsection \<open>Which exceptions a part can raise\<close>

definition raises_only :: "('e \<Rightarrow> bool) \<Rightarrow> ('s, 'e, 'a) prog \<Rightarrow> bool" where
  "raises_only R m \<longleftrightarrow> (\<forall>w. wp m (\<lambda>_ _. True) (\<lambda>e _. R e) w)"

named_theorems raises_intros \<open>introduction rules for the exceptions of programs\<close>

lemma raises_bind [raises_intros]: "raises_only R m \<Longrightarrow> (\<And>a. raises_only R (k a)) \<Longrightarrow> raises_only R (bind m k)"
  unfolding raises_only_def wp_bind by (blast intro: wp_mono)

lemma raises_seq [raises_intros]: "raises_only R m \<Longrightarrow> raises_only R n \<Longrightarrow> raises_only R (seq m n)"
  unfolding seq_def by (rule raises_bind)

lemma raises_pure [raises_intros]:
  "raises_only R (return a)" "raises_only R (external f)" "raises_only R (log_event ev c)"
  by (auto simp: raises_only_def wp_return log_event_def wp_modify wp_external split: prod.splits)

lemma raises_if [raises_intros]:
  "(b \<Longrightarrow> raises_only R m) \<Longrightarrow> (\<not> b \<Longrightarrow> raises_only R n) \<Longrightarrow> raises_only R (if b then m else n)"
  by simp

lemma raises_raise_if [raises_intros]: "(b \<Longrightarrow> R e) \<Longrightarrow> raises_only R (raise_if b e)"
  by (simp add: raises_only_def wp_simps)

lemma raises_option [raises_intros]:
  "(x = None \<Longrightarrow> raises_only R m) \<Longrightarrow> (\<And>a. x = Some a \<Longrightarrow> raises_only R (n a)) \<Longrightarrow>
     raises_only R (case x of None \<Rightarrow> m | Some a \<Rightarrow> n a)"
  by (cases x) simp_all

lemma raises_except:
  assumes "\<And>w. wp m (\<lambda>_ _. True) (\<lambda>e _. case h e of None \<Rightarrow> R e | Some k \<Rightarrow> raises_only R k) w"
  shows "raises_only R (try_except m h)"
  unfolding raises_only_def wp_try_except
  by (intro allI wp_mono[OF assms]) (auto simp: raises_only_def split: option.splits)

text \<open>The state store raises what SQLite or the language raises.\<close>

fun is_library :: "exn \<Rightarrow> bool" where
  "is_library (Lib _) = True"
| "is_library _ = False"

lemma raises_sql: "raises_only is_library (sql env st)"
  by (auto simp: raises_only_def intro!: wp_sqlI)

lemma raises_clock: "raises_only R (utc_now_rfc3339 env)" "raises_only R (now_utc env)" "raises_only R (uuid4 env)"
  unfolding utc_now_rfc3339_def now_utc_def uuid4_def by (intro raises_intros)+

lemma raises_store:
  "raises_only is_library (transition env oid st cols)"
  "raises_only is_library (record_audit_success env cid)"
  "raises_only is_library (complete_interrupted_audits env cid oid)"
  "raises_only is_library (record_alert_sent env key status)"
  "raises_only is_library (should_send_alert env key status minutes)"
  unfolding transition_def record_audit_success_def complete_interrupted_audits_def record_alert_sent_def should_send_alert_def
  by (intro raises_intros raises_sql raises_clock | simp)+

lemma raises_weaken: "raises_only R m \<Longrightarrow> (\<And>e. R e \<Longrightarrow> R' e) \<Longrightarrow> raises_only R' m"
  unfolding raises_only_def by (blast intro: wp_mono)

lemma raises_lift [raises_intros]: "(\<And>e. r = Inl e \<Longrightarrow> R e) \<Longrightarrow> raises_only R (lift r)"
  by (auto simp: raises_only_def wp_lift split: sum.splits)

lemma raises_raise [raises_intros]: "R e \<Longrightarrow> raises_only R (raise e)"
  by (simp add: raises_only_def wp_raise)

lemma raises_handled [raises_intros]:
  assumes "raises_only R' m" and "\<And>e. R' e \<Longrightarrow> h e = None \<Longrightarrow> R e" and "\<And>e k. h e = Some k \<Longrightarrow> raises_only R k"
  shows "raises_only R (try_except m h)"
  by (rule raises_except, rule wp_mono[OF assms(1)[unfolded raises_only_def, rule_format]])
    (use assms(2,3) in \<open>auto split: option.splits\<close>)

text \<open>A notice raises what the library raises; the notifier's own error is caught.\<close>

fun notice_error :: "exn \<Rightarrow> bool" where
  "notice_error (Lib _) = True"
| "notice_error (NotificationError _) = True"
| "notice_error _ = False"

lemma library_notice: "is_library e \<Longrightarrow> notice_error e"
  by (cases e) simp_all

lemma raises_try_outside: "raises_only notice_error (try_outside f)"
  unfolding try_outside_def by (intro raises_intros) (auto split: sum.splits simp: map_sum_def)

lemma raises_deliver:
  "raises_only notice_error (deliver env M (Some (store_cooldown env)) c event entries key status)"
proof -
  have noted: "raises_only notice_error (note_sent (Some (store_cooldown env)) key status)"
    by (auto simp: note_sent_def store_cooldown_def intro: raises_weaken[OF raises_store(4) library_notice])
  have attempt: "raises_only notice_error (deliver_attempt M (Some (store_cooldown env)) c url p key status k)" for url p k
    unfolding deliver_attempt_def
    by (intro raises_handled[where R' = notice_error] raises_intros raises_try_outside noted)
      (auto split: if_splits intro!: raises_intros)
  have loop: "raises_only notice_error (deliver_loop env M (Some (store_cooldown env)) c url p key status ks)" for url p ks
    by (induction ks) (auto simp: sleep_def intro!: raises_intros attempt)
  have path: "credential_path r = Inl e \<Longrightarrow> notice_error e" for r e
    by (auto simp: credential_path_def Let_def split: if_splits option.splits)
  have url: "webhook_url n c s = Inl e \<Longrightarrow> notice_error e" for n s e
    by (auto simp: webhook_url_def urlparse_def Let_def split: if_splits sum.splits prod.splits option.splits)
  show ?thesis
    unfolding deliver_def
    by (intro raises_handled[where R' = notice_error] raises_intros raises_try_outside loop)
      (auto split: if_splits intro!: raises_intros intro: path url)
qed

lemma raises_notice: "raises_only is_library (send_notice V config cid event)"
proof -
  have "raises_only notice_error (notify (run_env V) M c event entries (Some (store_cooldown (run_env V))))" for M c entries
    unfolding notify_def Let_def option.case
    by (intro raises_intros raises_deliver)
      (auto simp: store_cooldown_def intro: raises_weaken[OF raises_store(5) library_notice])
  then show ?thesis
    unfolding send_notice_def
    by (intro raises_handled[where R' = notice_error] raises_seq raises_pure)
      (auto intro!: raises_intros split: if_splits elim: notice_error.elims)
qed

lemma library_no_audit: "is_library e \<Longrightarrow> \<not> is_AuditError e"
  by (cases e) simp_all

subsection \<open>What the retention and the bootstrap may send\<close>

text \<open>A deletion is scheduled for a version of the plan over listed versions, with the etag just read
  for it.\<close>

definition retention_guard ::
  "certificate_config \<Rightarrow> string \<Rightarrow> int list \<Rightarrow> instant \<Rightarrow> io_entry list \<Rightarrow> io_entry \<Rightarrow> bool" where
  "retention_guard cert ocid referenced now before entry =
     (case fst entry of
        ScheduleVersionDeletion c n t etag \<Rightarrow>
          c = ocid \<and> etag \<noteq> None \<and>
          (\<exists>v. just_shown before (GetCertificateVersion ocid n) version_of_response v \<and> ver_etag v = etag) \<and>
          (\<exists>versions. (\<forall>v\<in>set versions. was_listed before ocid v) \<and>
             n \<in> set (plan_versions (plan_retention (retention_of cert) versions referenced now)) \<and>
             t = plan_deletion_time (plan_retention (retention_of cert) versions referenced now))
      | request \<Rightarrow> \<not> is_mutation request)"

definition is_creation :: "io_entry \<Rightarrow> bool" where
  "is_creation entry = (case fst entry of CreateCertificate _ _ _ \<Rightarrow> True | _ \<Rightarrow> False)"

text \<open>One certificate is created, from the local material.\<close>

definition bootstrap_guard ::
  "certificate_config \<Rightarrow> lineage_material \<Rightarrow> oci_certificate_chain \<Rightarrow> string \<Rightarrow> io_entry list \<Rightarrow> io_entry \<Rightarrow> bool" where
  "bootstrap_guard cert m chain fp before entry =
     (case fst entry of
        CreateCertificate name compartment details \<Rightarrow>
          name = certificate_name (oci_of cert) \<and> compartment = compartment_ocid (oci_of cert) \<and>
          imp_stage details = None \<and> imp_certificate_pem details = leaf_pem m \<and>
          imp_cert_chain_pem details = chain_cert_chain_pem chain \<and>
          imp_private_key_pem details = private_key_pem m \<and>
          (\<exists>now. version_name now fp = Inr (imp_version_name details)) \<and>
          \<not> list_ex is_creation before
      | request \<Rightarrow> \<not> is_mutation request)"

lemma lets_reads_retention: "lets_reads (retention_guard cert ocid referenced now)"
  unfolding lets_reads_def retention_guard_def by (auto split: oci_request.splits)

lemma lets_reads_bootstrap: "lets_reads (bootstrap_guard cert m chain fp)"
  unfolding lets_reads_def bootstrap_guard_def by (auto split: oci_request.splits)

subsection \<open>A policy\<close>

definition validated_material ::
  "libs \<Rightarrow> app_config \<Rightarrow> certificate_config \<Rightarrow> lineage_material \<Rightarrow> string \<Rightarrow> oci_certificate_chain \<Rightarrow> bool" where
  "validated_material L config cert m fp chain \<longleftrightarrow>
     (\<exists>now. validate_certificate_material L m cert (compatibility config) (global_of config) now = Inr fp) \<and>
     (\<exists>content. build_oci_chain L content m cert (compatibility config) = Inr chain)"

locale mutation_policy =
  fixes L :: libs and config :: app_config and H :: "io_entry list \<Rightarrow> io_entry \<Rightarrow> bool"
  assumes reads: "lets_reads H"
    and publications: "cert \<in> set (certificates config) \<Longrightarrow> certificate_ocid (oci_of cert) = Some ocid \<Longrightarrow>
      validated_material L config cert m fp chain \<Longrightarrow>
      publication_guard L config cert m chain fp now ocid pre e \<Longrightarrow> H (io @ pre) e"
    and rollbacks: "cert \<in> set (certificates config) \<Longrightarrow> certificate_ocid (oci_of cert) = Some ocid \<Longrightarrow>
      rollback_guard L config cert now ocid pre e \<Longrightarrow> H (io @ pre) e"
    and retentions: "cert \<in> set (certificates config) \<Longrightarrow> certificate_ocid (oci_of cert) = Some ocid \<Longrightarrow>
      retention_guard cert ocid referenced now pre e \<Longrightarrow> H (io @ pre) e"
    and creations: "cert \<in> set (certificates config) \<Longrightarrow> certificate_ocid (oci_of cert) = None \<Longrightarrow>
      validated_material L config cert m fp chain \<Longrightarrow> bootstrap_guard cert m chain fp pre e \<Longrightarrow> H (io @ pre) e"
begin

lemma keeps_rollback:
  assumes "run_libs V = L"
  shows "keeps (lawful H d0 t0) (rollback_certificate V config cid)"
proof -
  have part: "keeps (lawful H d0 t0) (rollback (run_env V) L (run_tls V) (oci_adapters (run_env V) p) config cert now (Some (audit_service_for V config cert)))"
    if cert: "cert \<in> set (certificates config)" for p cert now
  proof (cases "certificate_ocid (oci_of cert)")
    case None
    then show ?thesis by (simp add: rollback_def keeps_raise)
  next
    case (Some ocid)
    show ?thesis
    proof (rule keeps_lawful_part[where G = "rollback_guard L config cert now ocid"])
      fix w :: "'a world" assume wf: "wf_db (db w)"
      have "audit_ports (audit_service_for V config cert)"
        unfolding audit_service_for_def by (rule tls.audit_ports_axioms)
      then show "wp (rollback (run_env V) L (run_tls V) (oci_adapters (run_env V) p) config cert now (Some (audit_service_for V config cert)))
          (\<lambda>_ w'. lawful (rollback_guard L config cert now ocid) (db w) (trace w) w')
          (\<lambda>_ w'. lawful (rollback_guard L config cert now ocid) (db w) (trace w) w') w"
        by (intro wp_mono[OF sdk.wp_rollback[OF _ wf Some]]) (auto simp: lawful_def elim: exchanged_weaken)
    qed (rule rollbacks[OF cert Some])
  qed
  show ?thesis
    unfolding rollback_certificate_def assms
    by (intro keeps_configured keeps_adapters keeps_intros part)
qed

end

subsection \<open>The audit\<close>

lemma wp_kept: "keeps I m \<Longrightarrow> I w \<Longrightarrow> (\<And>a w'. I w' \<Longrightarrow> Q a w') \<Longrightarrow> (\<And>e w'. I w' \<Longrightarrow> E e w') \<Longrightarrow> wp m Q E w"
  by (blast intro: wp_mono dest: keeps_wpD)

lemma wp_unhandled:
  assumes "wp m Q E w" and "raises_only R m" and "\<And>e. R e \<Longrightarrow> h e = None"
  shows "wp m Q (\<lambda>e. case h e of None \<Rightarrow> E e | Some k \<Rightarrow> F k) w"
  by (rule wp_mono[OF wp_conj[OF assms(1) assms(2)[unfolded raises_only_def, rule_format]]]) (simp_all add: assms(3))

lemma keeps_audit:
  fixes V :: "'w services"
  assumes reads: "lets_reads H"
  shows "keeps (lawful H d0 t0) (audit_certificate V config cid)"
proof -
  let ?L = "\<lambda>(_ :: exn). lawful H d0 t0" and ?Q = "\<lambda>(_ :: bool). lawful H d0 t0"
  let ?T = "\<lambda>oid st w. tracked d0 oid AUDIT st (db w) \<and> exchanged H t0 (\<lambda>_. True) w"
  have lifecycle: "lifecycle AUDIT DISCOVERED AUDIT_PENDING" "lifecycle AUDIT AUDIT_PENDING AUDIT_FAILED"
    "lifecycle AUDIT AUDIT_PENDING AUDIT_SUCCESS" "lifecycle AUDIT AUDIT_SUCCESS COMPLETED"
    by (simp_all add: lifecycle_def next_defs)
  have notice: "keeps (lawful H d0 t0) (seq (notify_audit_failure V config c) (log_event ''AUDIT_FAILED'' c))" for c
    unfolding notify_audit_failure_def by (intro keeps_intros keeps_lawful_notice)
  have failed: "wp (seq (audit_failed V config cert oid) k) ?Q ?L w"
    if "?T oid AUDIT_PENDING w" and "keeps (lawful H d0 t0) k" for cert oid w and k :: "('w, bool) action"
    unfolding audit_failed_def wp_seq[of _ k] wp_seq[of "transition e a b c" for e a b c]
    by (rule wp_track[OF _ lifecycle(2)])
      (use that in \<open>auto intro!: wp_kept[OF notice] keeps_wpD intro: lawful_tracked\<close>)
  have closed: "lawful H d0 t0 (w\<lparr>outside := o', db := update_where (interrupted_audit c x) (close_audit t) (db w)\<rparr>)"
    if "?T oid st w" for oid st w o' c x t
    using that by (auto simp: lawful_def intro: safe_audits_closed tracked_safe)
  have succeeded: "wp (seq (audit_succeeded V cert oid) (return True)) ?Q ?L w" if "?T oid AUDIT_PENDING w" for cert oid w
    unfolding audit_succeeded_def wp_seq wp_return
    by (rule wp_track[OF _ lifecycle(3)]) (use that in \<open>auto intro!: 
       wp_record_audit_success wp_track[OF _ lifecycle(4)] wp_complete_interrupted_audits wp_log_event 
      intro: lawful_tracked tracked_record_fact simp: closed\<close>)
  have current: "keeps (?T oid AUDIT_PENDING) (audit_current V (oci_adapters (run_env V) p) config cert ocid rid)"
    for oid p cert ocid rid
  proof -
    have kept: "keeps (?T oid AUDIT_PENDING) m" if "inert m" for m :: "('w, 'b) action"
      using that unfolding keeps_def inert_def by (metis exchanged_same(1) world.select_convs(2) world.surjective world.update_convs(1))
    have ask: "keeps (?T oid AUDIT_PENDING) (port_get_public_bundle (oci_adapters (run_env V) p) ocid None rid)"
      unfolding keeps_wp
      by (intro allI impI, rule wp_ask[OF sdk.bundle_law _ _ reads lasting_True])
        (auto elim: exchanged_weaken)
    show ?thesis
      unfolding audit_current_def audit_service_for_def
      by (intro keeps_bind keeps_lift ask kept[OF inert_now] kept[OF tls.inert_run_audit])
  qed
  have library: "raises_only is_library (seq (audit_failed V config cert oid) (return False))"
    "raises_only is_library (seq (audit_succeeded V cert oid) (return True))" for cert oid
    unfolding audit_failed_def audit_succeeded_def notify_audit_failure_def
    by (intro raises_intros raises_store raises_notice)+
  have body: "wp (try_except (bind (audit_current V (oci_adapters (run_env V) p) config cert ocid rid) (\<lambda>result.
              if \<not> successful result then seq (audit_failed V config cert oid) (return False)
              else seq (audit_succeeded V cert oid) (return True)))
           (\<lambda>e. if is_AuditError e then Some (seq (audit_failed V config cert oid) (raise e)) else None)) ?Q ?L w"
    if T: "?T oid AUDIT_PENDING w" for p cert ocid rid oid w
    unfolding wp_try_except wp_bind
  proof (rule wp_kept[OF current T])
    fix result and w' :: "'w world"
    assume T: "?T oid AUDIT_PENDING w'"
    show "wp (if \<not> successful result then seq (audit_failed V config cert oid) (return False)
              else seq (audit_succeeded V cert oid) (return True)) ?Q
         (\<lambda>e. case if is_AuditError e then Some (seq (audit_failed V config cert oid) (raise e)) else None of
            None \<Rightarrow> lawful H d0 t0 | Some k \<Rightarrow> wp k ?Q ?L) w'"
      by (cases "successful result")
        (simp_all add: wp_unhandled[OF failed[OF T keeps_return] library(1)] wp_unhandled[OF succeeded[OF T] library(2)]
           library_no_audit)
  qed (auto intro!: failed keeps_raise intro: lawful_tracked)
  have new: "tracked d0 oid AUDIT DISCOVERED (with_operations (\<lambda>rs. rs @ [discovered_row oid c AUDIT None x t]) d)"
    if "safe d0 d" and "oid \<notin> row_id ` set (operations d)" for d oid c x t
    by (rule tracked_started[OF that]) simp
  have started: "wp (bind (start_operation (run_env V) (cert_id cert) AUDIT None (Some ocid)) (\<lambda>operation.
          let oid = operation_id operation
          in bind (uuid4 (run_env V)) (\<lambda>rid.
          seq (transition (run_env V) oid AUDIT_PENDING (no_columns\<lparr>col_request := Some rid\<rparr>))
          (try_except
             (bind (audit_current V (oci_adapters (run_env V) p) config cert ocid rid) (\<lambda>result.
                if \<not> successful result then seq (audit_failed V config cert oid) (return False)
                else seq (audit_succeeded V cert oid) (return True)))
             (\<lambda>e. if is_AuditError e then Some (seq (audit_failed V config cert oid) (raise e)) else None))))) ?Q ?L w"
    if "lawful H d0 t0 w" for cert ocid p w
    unfolding wp_bind[of "start_operation e c t f x" for e c t f x]
    by (rule wp_start_operation)
      (use that in \<open>auto simp: new Let_def wp_bind[of "uuid4 e" for e] wp_seq[of "transition e a b c" for e a b c] lawful_def
         intro!: wp_uuid4I wp_track[OF _ lifecycle(1), of d0] body new\<close>)
  show ?thesis
    unfolding audit_certificate_def
    by (intro keeps_configured keeps_case_option keeps_raise keeps_adapters keeps_seq keeps_lawful_open)
      (rule keeps_wp[THEN iffD2], intro allI impI started)
qed

subsection \<open>The retention\<close>

text \<open>The guard of an applied plan: whatever the time it was planned at.\<close>

definition retains :: "certificate_config \<Rightarrow> string \<Rightarrow> int list \<Rightarrow> io_entry list \<Rightarrow> io_entry \<Rightarrow> bool" where
  "retains cert ocid referenced pre e \<longleftrightarrow> (\<exists>now. retention_guard cert ocid referenced now pre e)"

definition referenced_in :: "string \<Rightarrow> database \<Rightarrow> int list" where
  "referenced_in cid d = referenced_versions (map operation_of_row (active_rows cid d))"

lemma lets_reads_retains: "lets_reads (retains cert ocid referenced)"
  using lets_reads_retention by (auto simp: retains_def lets_reads_def)

lemma keeps_inert: "inert m \<Longrightarrow> (\<And>w o'. I (w\<lparr>outside := o'\<rparr>) = I w) \<Longrightarrow> keeps I m"
  by (metis keeps_def inert_def)

lemma wp_apply_retention:
  fixes V :: "'w services" and w :: "'w world" and cert ocid
  defines "G \<equiv> retains cert ocid (referenced_in (cert_id cert) (db w))"
  shows "wp (apply_retention V (oci_adapters (run_env V) p) cert ocid)
     (\<lambda>_ w'. db w' = db w \<and> exchanged G (trace w) (\<lambda>_. True) w')
     (\<lambda>_ w'. db w' = db w \<and> exchanged G (trace w) (\<lambda>_. True) w') w"
proof -
  let ?P = "oci_adapters (run_env V) p"
  let ?J = "\<lambda>w'. db w' = db w \<and> exchanged G (trace w) (\<lambda>_. True) w'"
  let ?I = "\<lambda>versions w'. db w' = db w \<and> exchanged G (trace w) (\<lambda>io. \<forall>v\<in>set versions. was_listed io ocid v) w'"
  have reads: "lets_reads G" by (simp add: G_def lets_reads_retains)
  have last: "lasting (\<lambda>io. \<forall>v\<in>set versions. was_listed io ocid v)" for versions by (intro lasting_intros)
  have send: "wp (port_schedule_version_deletion ?P ocid n t (ver_etag v) rid)
       (\<lambda>_. wp (log_event e c) (\<lambda>_. ?I versions) (\<lambda>_. ?I versions)) (\<lambda>_. ?I versions) w'"
    if "db w' = db w" "ver_etag v \<noteq> None"
      and ex: "exchanged G (trace w) (\<lambda>io. (\<forall>v\<in>set versions. was_listed io ocid v) \<and>
           just_shown io (GetCertificateVersion ocid n) version_of_response v) w'"
      and plan: "n \<in> set (plan_versions plan)" "plan = plan_retention (retention_of cert) versions (referenced_in (cert_id cert) (db w)) now"
        "t = plan_deletion_time plan"
    for n t v e c rid plan versions now w'
  proof (rule wp_send[OF sdk.deletion_law ex])
    fix q answer io
    assume "Inr (ScheduleVersionDeletion ocid n t (ver_etag v)) = (Inr q :: exn + oci_request)"
      and io: "(\<forall>v\<in>set versions. was_listed io ocid v) \<and> just_shown io (GetCertificateVersion ocid n) version_of_response v"
    then have q: "q = ScheduleVersionDeletion ocid n t (ver_etag v)" by simp
    then show "\<forall>v\<in>set versions. was_listed (io @ [(q, answer)]) ocid v"
      using io last[of versions] by (simp add: lasting_def)
    have "retention_guard cert ocid (referenced_in (cert_id cert) (db w)) now io (q, answer)"
      unfolding retention_guard_def q fst_conv oci_request.case
      using io that(2) plan by (intro conjI exI[of _ v] exI[of _ versions]) auto
    then show "G io (q, answer)" by (auto simp: G_def retains_def)
  qed (use that(1) in \<open>auto simp: log_event_def wp_modify\<close>)
  have one: "keeps (?I versions) (schedule_one V ?P cert ocid (plan_deletion_time plan) n)"
    if "n \<in> set (plan_versions plan)" "plan = plan_retention (retention_of cert) versions (referenced_in (cert_id cert) (db w)) now"
    for n plan versions now
    unfolding keeps_wp schedule_one_def wp_bind wp_seq wp_raise_if
    by (intro allI impI wp_uuid4I, rule wp_ask[OF sdk.get_version_law _ _ reads last])
      (auto intro!: send[OF _ _ _ that refl] elim: exchanged_weaken)
  have all: "keeps (?I versions) (seq (for_each (plan_versions plan) (schedule_one V ?P cert ocid (plan_deletion_time plan))) (return r))"
    if "plan = plan_retention (retention_of cert) versions (referenced_in (cert_id cert) (db w)) now" for plan versions now r
    by (intro keeps_seq keeps_for_each keeps_return one[OF _ that])
  show ?thesis
    unfolding apply_retention_def wp_bind Let_def active_operations_def
    by (intro wp_uuid4I, rule wp_list[OF sdk.list_law _ reads lasting_True])
      (auto intro!: wp_select wp_nowI wp_kept[OF all] simp: referenced_in_def[symmetric] exchanged_def)
qed

subsection \<open>The bootstrap\<close>

text \<open>\<open>underway H d0 t0 oid st w\<close>: the bootstrap \<open>oid\<close> is in state \<open>st\<close>, and the exchange since \<open>t0\<close> is
  justified.\<close>

definition underway ::
  "(io_entry list \<Rightarrow> io_entry \<Rightarrow> bool) \<Rightarrow> database \<Rightarrow> io_entry list \<Rightarrow> string \<Rightarrow> operation_state \<Rightarrow> 'w world \<Rightarrow> bool" where
  "underway H d0 t0 oid st w \<longleftrightarrow> tracked d0 oid BOOTSTRAP st (db w) \<and> exchanged H t0 (\<lambda>_. True) w"

lemma bootstrap_lifecycle:
  "lifecycle BOOTSTRAP DISCOVERED LOCAL_CERT_VALIDATED" "lifecycle BOOTSTRAP LOCAL_CERT_VALIDATED OCI_RECONCILED"
  "lifecycle BOOTSTRAP LOCAL_CERT_VALIDATED OCI_UPLOAD_FAILED" "lifecycle BOOTSTRAP OCI_RECONCILED OCI_VERSION_FAILED"
  "lifecycle BOOTSTRAP OCI_RECONCILED OCI_CURRENT_CONFIRMED" "lifecycle BOOTSTRAP OCI_CURRENT_CONFIRMED OCI_CURRENT_CONFIRMED"
  "lifecycle BOOTSTRAP OCI_CURRENT_CONFIRMED COMPLETED"
  by (simp_all add: lifecycle_def next_defs)

lemma underway_lawful: "underway H d0 t0 oid st w \<Longrightarrow> lawful H d0 t0 w"
  by (auto simp: underway_def intro: lawful_tracked)

lemma wp_underway:
  assumes "underway H d0 t0 oid st w" and "lifecycle BOOTSTRAP st st'" and "col_ocid cols = None \<or> st' = OCI_RECONCILED"
    and "\<And>w'. underway H d0 t0 oid st' w' \<Longrightarrow> Q () w'" and "\<And>e w'. lawful H d0 t0 w' \<Longrightarrow> E e w'"
  shows "wp (transition env oid st' cols) Q E w"
  by (rule wp_track[OF _ assms(2)]) (use assms in \<open>auto simp: underway_def\<close>)

lemma keeps_matching_bundle:
  assumes "lets_reads H"
  shows "keeps (underway H d0 t0 oid st) (matching_bundle V (oci_adapters (run_env V) p) config cert ocid fp rid message)"
proof -
  have "keeps (underway H d0 t0 oid st) (port_get_public_bundle (oci_adapters (run_env V) p) ocid None rid)"
    unfolding keeps_wp
    by (intro allI impI, rule wp_ask[OF sdk.bundle_law _ _ assms lasting_True])
      (auto simp: underway_def elim: exchanged_weaken)
  then show ?thesis
    unfolding matching_bundle_def
    by (intro keeps_intros keeps_inert[OF inert_now]) (simp_all add: underway_def)
qed

lemma wp_confirm_bootstrap:
  assumes "underway H d0 t0 oid st w" and "lifecycle BOOTSTRAP st OCI_CURRENT_CONFIRMED"
  shows "wp (confirm_bootstrap V cert oid ocid fp n rid) (\<lambda>_. lawful H d0 t0) (\<lambda>_. lawful H d0 t0) w"
proof -
  have recorded: "underway H d0 t0 oid s (w\<lparr>outside := o', db := record_fact c f t (db w)\<rparr>)"
    if "underway H d0 t0 oid s w" for s w o' c f t
    using that by (simp add: underway_def tracked_record_fact)
  show ?thesis
    unfolding confirm_bootstrap_def wp_seq wp_return
    by (rule wp_underway[OF assms])
      (auto intro!: wp_record_publication_success wp_underway[OF recorded bootstrap_lifecycle(7)] intro: underway_lawful)
qed

lemma raises_confirm: "raises_only is_library (confirm_bootstrap V cert oid ocid fp n rid)"
  unfolding confirm_bootstrap_def record_publication_success_def
  by (intro raises_intros raises_store raises_sql raises_clock)

lemma keeps_confirm_log:
  "wp m (\<lambda>_. lawful H d0 t0) (\<lambda>_. lawful H d0 t0) w \<Longrightarrow>
     wp (bind m (\<lambda>r. seq (log_event e c) (return (f r)))) (\<lambda>_. lawful H d0 t0) (\<lambda>_. lawful H d0 t0) w"
  by (auto simp: wp_simps log_event_def elim: wp_mono)

text \<open>A recovery finds a bootstrap that created its certificate, and sends no mutation.\<close>

lemma keeps_recover_bootstrap:
  assumes reads: "lets_reads H"
  shows "keeps (lawful H d0 t0) (recover_bootstrap V (oci_adapters (run_env V) p) config cert fp)"
  unfolding keeps_wp
proof (intro allI impI)
  fix w :: "'a world" assume w: "lawful H d0 t0 w"
  let ?L = "\<lambda>_. lawful H d0 t0"
  have found: "\<exists>st. underway H d0 t0 (operation_id x) st (w\<lparr>outside := o'\<rparr>) \<and> lifecycle BOOTSTRAP st OCI_CURRENT_CONFIRMED"
    if "filter (bootstrap_candidate fp) (map operation_of_row (active_rows (cert_id cert) (db w))) = [x]" for x o'
  proof -
    have "x \<in> set (filter (bootstrap_candidate fp) (map operation_of_row (active_rows (cert_id cert) (db w))))"
      using that by simp
    then obtain r where r: "r \<in> set (operations (db w))" "x = operation_of_row r" "\<not> is_terminal (row_state r)"
      "row_type r = BOOTSTRAP" "row_ocid r \<noteq> None"
      by (auto simp: active_rows_def bootstrap_candidate_def operation_of_row_def)
    moreover have "row_state r \<in> {OCI_RECONCILED, OCI_CURRENT_CONFIRMED}"
      using wf_db_row[OF lawful_wf[OF w] r(1)] r by (auto simp: wf_row_def)
    ultimately show ?thesis
      using w bootstrap_lifecycle
      by (intro exI[of _ "row_state r"]) (auto simp: underway_def tracked_def lawful_def operation_of_row_def)
  qed
  have one: "wp (recover_operation V (oci_adapters (run_env V) p) config cert fp x) ?L ?L w'"
    if "underway H d0 t0 (operation_id x) st w'" "lifecycle BOOTSTRAP st OCI_CURRENT_CONFIRMED" for x st w'
    unfolding recover_operation_def wp_case_option wp_raise
      wp_bind[of "uuid4 x" for x] wp_bind[of "matching_bundle a b d x y z m n" for a b d x y z m n]
    by (auto split: option.split intro!: wp_uuid4I wp_kept[OF keeps_matching_bundle[OF reads]] keeps_confirm_log wp_confirm_bootstrap
        intro: underway_lawful that(2)) (use that in \<open>auto simp: underway_def intro: lawful_tracked\<close>)
  show "wp (recover_bootstrap V (oci_adapters (run_env V) p) config cert fp) ?L ?L w"
    unfolding recover_bootstrap_def active_operations_def wp_bind
    by (rule wp_select)
      (use w in \<open>auto simp: wp_return wp_raise split: list.split dest!: found intro: one\<close>)
qed

subsection \<open>The creation\<close>

lemma wp_bootstrap_guarded:
  assumes "wp m Q (\<lambda>e w'. lawful H d0 t0 w' \<and>
        (is_OciCertificateError e \<or> is_CertificateValidationError e \<or> is_PublicationServiceError e \<longrightarrow> underway H d0 t0 oid st w')) w"
    and "created \<longrightarrow> st = OCI_RECONCILED" and "\<not> created \<longrightarrow> st = LOCAL_CERT_VALIDATED"
    and "\<not> created \<Longrightarrow> raises_only port_error m"
  shows "wp (bootstrap_guarded V oid created m) Q (\<lambda>_. lawful H d0 t0) w"
proof -
  have port: "\<not> is_CertificateValidationError e \<and> \<not> is_PublicationServiceError e" if "port_error e" for e
    using that by (cases e) simp_all
  have fail: "wp (seq (transition (run_env V) oid st' no_columns) (raise e)) Q (\<lambda>_. lawful H d0 t0) w'"
    if "underway H d0 t0 oid st w'" "lifecycle BOOTSTRAP st st'" for st' e w'
    unfolding wp_seq wp_raise by (rule wp_underway[OF that]) (auto intro: underway_lawful)
  have m: "wp m Q (\<lambda>e w'. (lawful H d0 t0 w' \<and>
        (is_OciCertificateError e \<or> is_CertificateValidationError e \<or> is_PublicationServiceError e \<longrightarrow> underway H d0 t0 oid st w')) \<and>
        (\<not> created \<longrightarrow> port_error e)) w"
    using assms(1) wp_conj[OF assms(1) assms(4)[unfolded raises_only_def, rule_format]]
    by (cases created) (auto elim: wp_mono)
  show ?thesis
    unfolding bootstrap_guarded_def wp_try_except
    by (rule wp_mono[OF m]) (use assms(2,3) in \<open>auto intro!: fail bootstrap_lifecycle dest: port\<close>)
qed

lemma library_unguarded:
  "is_library e \<Longrightarrow> \<not> (is_OciCertificateError e \<or> is_CertificateValidationError e \<or> is_PublicationServiceError e)"
  by (cases e) simp_all

lemma wp_library:
  "wp m Q (\<lambda>_. J) w \<Longrightarrow> raises_only is_library m \<Longrightarrow> wp m Q (\<lambda>e w'. is_library e \<and> J w') w"
  unfolding raises_only_def wp_def by (auto split: prod.splits sum.splits dest!: spec[of _ w])

lemma raises_sends: "sends_once req m \<Longrightarrow> raises_only port_error m"
  unfolding raises_only_def by (auto intro: wp_sends_once)

lemma creation_request:
  assumes "create_request compartment name m = Inr q"
  shows "\<exists>details. q = CreateCertificate name compartment details \<and> import_details None m = Inr details"
  using assms by (auto simp: create_request_def map_sum_def split: sum.splits)

lemma import_details_Inr:
  "import_details stage m = Inr d \<Longrightarrow>
     imp_version_name d = mat_version_name m \<and> imp_stage d = stage \<and> imp_certificate_pem d = mat_certificate_pem m \<and>
     imp_cert_chain_pem d = mat_cert_chain_pem m \<and> imp_private_key_pem d = mat_private_key_pem m"
  by (auto simp: import_details_def decode_ascii_def split: sum.splits if_splits)

lemma wp_create_certificate:
  fixes w :: "'w world" and V :: "'w services"
  assumes und: "underway (bootstrap_guard cert m chain fp) d0 (trace w) oid LOCAL_CERT_VALIDATED w"
  shows "wp (create_certificate V (oci_adapters (run_env V) p) config cert m chain fp oid)
     (\<lambda>_. lawful (bootstrap_guard cert m chain fp) d0 (trace w)) (\<lambda>_. lawful (bootstrap_guard cert m chain fp) d0 (trace w)) w"
proof -
  let ?G = "bootstrap_guard cert m chain fp" and ?t0 = "trace w"
  let ?P = "oci_adapters (run_env V) p"
  let ?U = "\<lambda>st. underway ?G d0 ?t0 oid st"
  let ?L = "\<lambda>_. lawful ?G d0 ?t0"
  have reads: "lets_reads ?G" by (rule lets_reads_bootstrap)
  have send: "wp (create_remote V ?P cert m chain fp rid) (\<lambda>_. ?U LOCAL_CERT_VALIDATED) (\<lambda>_. ?U LOCAL_CERT_VALIDATED) w'"
    if w': "w' = w\<lparr>outside := o'\<rparr>" for rid w' o'
  proof -
    have ex: "exchanged ?G ?t0 (\<lambda>io. io = []) w'" using w' by (simp add: exchanged_def)
    have tr: "tracked d0 oid BOOTSTRAP LOCAL_CERT_VALIDATED (db w')" using und w' by (simp add: underway_def)
    have mutation: "?G [] (q, answer)"
      if q: "create_request (compartment_ocid (oci_of cert)) (certificate_name (oci_of cert))
         \<lparr>mat_version_name = name, mat_certificate_pem = leaf_pem m, mat_cert_chain_pem = chain_cert_chain_pem chain,
          mat_private_key_pem = private_key_pem m\<rparr> = Inr q" and "version_name now fp = Inr name" for q answer name now
      using creation_request[OF q] that(2) by (auto simp: bootstrap_guard_def dest!: import_details_Inr)
    show ?thesis
      unfolding create_remote_def wp_bind wp_lift
      by (intro wp_nowI) (auto split: sum.splits simp: underway_def tr exchanged_weaken[OF ex]
          intro!: wp_send[OF sdk.create_law exchanged_same(1)[THEN iffD2, OF ex], where R' = "\<lambda>_. True"] mutation)
  qed
  have port: "raises_only port_error (create_remote V ?P cert m chain fp rid)" for rid
    unfolding create_remote_def
    by (intro raises_intros raises_clock raises_sends[OF sdk.create_law]) (auto simp: version_name_def split: if_splits)
  have created: "wp (bootstrap_guarded V oid True
         (seq (transition (run_env V) oid OCI_RECONCILED (no_columns\<lparr>col_ocid := Some ocid, col_request := Some rid\<rparr>))
         (bind (matching_bundle V ?P config cert ocid fp rid message) (\<lambda>bundle.
            confirm_bootstrap V cert oid ocid fp (bundle_version bundle) None)))) ?L ?L w'"
    if "?U LOCAL_CERT_VALIDATED w'" for ocid rid message w'
  proof (rule wp_bootstrap_guarded[where st = OCI_RECONCILED])
    let ?E = "\<lambda>e w'. lawful ?G d0 ?t0 w' \<and>
        (is_OciCertificateError e \<or> is_CertificateValidationError e \<or> is_PublicationServiceError e \<longrightarrow> ?U OCI_RECONCILED w')"
    have confirmed: "wp (confirm_bootstrap V cert oid ocid fp n None) ?L ?E w''" if "?U OCI_RECONCILED w''" for n w''
      by (rule wp_mono[OF wp_library[OF wp_confirm_bootstrap[OF that bootstrap_lifecycle(5)] raises_confirm]])
        (auto dest: library_unguarded)
    have matched: "wp (bind (matching_bundle V ?P config cert ocid fp rid message) (\<lambda>bundle.
            confirm_bootstrap V cert oid ocid fp (bundle_version bundle) None)) ?L ?E w''" if "?U OCI_RECONCILED w''" for w''
      unfolding wp_bind
      by (rule wp_kept[OF keeps_matching_bundle[OF reads] that confirmed]) (simp_all add: underway_lawful)
    have "wp (transition (run_env V) oid OCI_RECONCILED (no_columns\<lparr>col_ocid := Some ocid, col_request := Some rid\<rparr>))
        (\<lambda>_. ?U OCI_RECONCILED) (\<lambda>_. lawful ?G d0 ?t0) w'"
      by (rule wp_underway[OF that bootstrap_lifecycle(2)]) simp_all
    from wp_library[OF this raises_store(1)]
    show "wp (seq (transition (run_env V) oid OCI_RECONCILED (no_columns\<lparr>col_ocid := Some ocid, col_request := Some rid\<rparr>))
         (bind (matching_bundle V ?P config cert ocid fp rid message) (\<lambda>bundle.
            confirm_bootstrap V cert oid ocid fp (bundle_version bundle) None))) ?L ?E w'"
      unfolding wp_seq by (rule wp_mono, intro matched) (auto dest: library_unguarded)
  qed simp_all
  show ?thesis
    unfolding create_certificate_def wp_bind
    by (intro wp_uuid4I wp_bootstrap_guarded[where st = LOCAL_CERT_VALIDATED])
      (auto intro!: wp_mono[OF send[OF refl]] created port intro: underway_lawful)
qed

lemma wp_first_creation:
  fixes w :: "'w world" and V :: "'w services"
  assumes wf: "wf_db (db w)"
  shows "wp (bind (start_operation (run_env V) (cert_id cert) BOOTSTRAP (Some fp) None) (\<lambda>operation.
           seq (transition (run_env V) (operation_id operation) LOCAL_CERT_VALIDATED no_columns)
             (create_certificate V (oci_adapters (run_env V) p) config cert m chain fp (operation_id operation))))
     (\<lambda>_. lawful (bootstrap_guard cert m chain fp) (db w) (trace w)) (\<lambda>_. lawful (bootstrap_guard cert m chain fp) (db w) (trace w)) w"
  unfolding wp_bind wp_seq
proof (rule wp_start_operation)
  fix oid now and o' :: 'w
  let ?G = "bootstrap_guard cert m chain fp"
  let ?w = "w\<lparr>outside := o', db := with_operations (\<lambda>rs. rs @ [discovered_row oid (cert_id cert) BOOTSTRAP (Some fp) None now]) (db w)\<rparr>"
  assume new: "oid \<notin> row_id ` set (operations (db w))"
  have "wp (transition (run_env V) oid LOCAL_CERT_VALIDATED no_columns)
     (\<lambda>_. wp (create_certificate V (oci_adapters (run_env V) p) config cert m chain fp oid)
        (\<lambda>_. lawful ?G (db w) (trace w)) (\<lambda>_. lawful ?G (db w) (trace w)))
     (\<lambda>_. lawful ?G (db w) (trace w)) ?w"
  proof (rule wp_track[OF _ bootstrap_lifecycle(1)])
    show "tracked (db w) oid BOOTSTRAP DISCOVERED (db ?w)"
      using tracked_started[OF safe_refl[OF wf] new, of BOOTSTRAP None] by simp
    show "exchanged ?G (trace w) (\<lambda>_. True) ?w" by (simp add: exchanged_def)
    fix w' :: "'w world"
    assume "tracked (db w) oid BOOTSTRAP LOCAL_CERT_VALIDATED (db w')" "exchanged ?G (trace w) (\<lambda>_. True) w'" "trace w' = trace ?w"
    then show "wp (create_certificate V (oci_adapters (run_env V) p) config cert m chain fp oid)
        (\<lambda>_. lawful ?G (db w) (trace w)) (\<lambda>_. lawful ?G (db w) (trace w)) w'"
      using wp_create_certificate[of cert m chain fp "db w" w' oid V p config] by (simp add: underway_def)
  qed simp_all
  then show "wp (transition (run_env V) (operation_id
       \<lparr>operation_id = oid, certificate_id = cert_id cert, op_type = BOOTSTRAP, op_state = DISCOVERED,
          local_fingerprint = Some fp, oci_certificate_ocid = None, oci_version_number = None\<rparr>) LOCAL_CERT_VALIDATED no_columns)
     (\<lambda>_. wp (create_certificate V (oci_adapters (run_env V) p) config cert m chain fp (operation_id
       \<lparr>operation_id = oid, certificate_id = cert_id cert, op_type = BOOTSTRAP, op_state = DISCOVERED,
          local_fingerprint = Some fp, oci_certificate_ocid = None, oci_version_number = None\<rparr>))
        (\<lambda>_. lawful ?G (db w) (trace w)) (\<lambda>_. lawful ?G (db w) (trace w)))
     (\<lambda>_. lawful ?G (db w) (trace w)) ?w" by simp
qed (simp add: lawful_def safe_refl wf exchanged_def)

subsection \<open>The methods\<close>

lemma keeps_lift_bind: "(\<And>a. r = Inr a \<Longrightarrow> keeps I (k a)) \<Longrightarrow> keeps I (bind (lift r) k)"
  by (auto simp: keeps_wp wp_simps split: sum.splits)

lemma keeps_built_chain:
  fixes K :: "'w mount"
  assumes "\<And>chain content. build_oci_chain L content m cert policy = Inr chain \<Longrightarrow> keeps (lawful H d0 t0) (k chain)"
  shows "keeps (lawful H d0 t0) (bind (locally (built_chain K L m cert policy)) k)"
proof -
  have "wp (built_chain K L m cert policy) (\<lambda>chain _. \<exists>content. build_oci_chain L content m cert policy = Inr chain) (\<lambda>_ _. True) o'" for o' :: 'w
    unfolding built_chain_def by (auto simp: wp_bind wp_lift wp_def[of "file_outcome a b" for a b] split: prod.splits sum.splits)
  then have chain: "wp (locally (built_chain K L m cert policy)) (\<lambda>chain w'. lawful H d0 t0 w' \<and> (\<exists>content. build_oci_chain L content m cert policy = Inr chain))
      (\<lambda>_. lawful H d0 t0) w" if "lawful H d0 t0 w" for w
    using that by (intro wp_locally) (auto elim: wp_mono)
  show ?thesis
    unfolding keeps_wp wp_bind
    by (intro allI impI, erule wp_mono[OF chain]) (auto intro: keeps_wpD[OF assms])
qed

context mutation_policy
begin

lemma keeps_retention:
  assumes V: "run_libs V = L"
  shows "keeps (lawful H d0 t0) (retention V config cid)"
proof -
  have "keeps (lawful H d0 t0) (apply_retention V (oci_adapters (run_env V) p) cert ocid)"
    if cert: "cert \<in> set (certificates config)" "certificate_ocid (oci_of cert) = Some ocid" for p cert ocid
  proof (rule keeps_lawful_part[where G = "\<lambda>pre e. \<exists>referenced. retains cert ocid referenced pre e"])
    fix w :: "'a world" assume "wf_db (db w)"
    then show "wp (apply_retention V (oci_adapters (run_env V) p) cert ocid)
        (\<lambda>_. lawful (\<lambda>pre e. \<exists>referenced. retains cert ocid referenced pre e) (db w) (trace w))
        (\<lambda>_. lawful (\<lambda>pre e. \<exists>referenced. retains cert ocid referenced pre e) (db w) (trace w)) w"
      by (intro wp_mono[OF wp_apply_retention])
        (auto simp: lawful_def exchanged_def justified_def intro: safe_refl)
  qed (auto simp: retains_def intro: retentions[OF cert])
  then show ?thesis
    unfolding retention_def
    by (intro keeps_configured keeps_case_option keeps_raise keeps_adapters keeps_seq keeps_lawful_open)
qed

lemma keeps_after_publication:
  assumes V: "run_libs V = L"
  shows "keeps (lawful H d0 t0) (run_post_publication_audit V config cert)"
    and "keeps (lawful H d0 t0) (run_post_publication_retention V config cert)"
proof -
  show "keeps (lawful H d0 t0) (run_post_publication_audit V config cert)"
    unfolding run_post_publication_audit_def enforce_post_publication_audit_def
    by (intro keeps_intros keeps_audit reads keeps_rollback[OF V]) (auto intro!: keeps_intros split: if_splits)
  have handled: "keeps (lawful H d0 t0) k"
    if "(if retention_failure e
         then Some (seq (log_event ''RETENTION_FAILED'' c) (seq (notify_event V config c ''RETENTION_FAILED'') (return None)))
         else None) = Some k" for e k c
    using that by (auto intro!: keeps_intros keeps_lawful_event split: if_splits)
  show "keeps (lawful H d0 t0) (run_post_publication_retention V config cert)"
    unfolding run_post_publication_retention_def
    by (intro keeps_if keeps_bind keeps_try_except keeps_case_option keeps_return keeps_lawful_log keeps_retention[OF V] handled)
qed

lemma keeps_reconcile:
  assumes ty: "publishes ty" and cert: "cert \<in> set (certificates config)" and m: "validated_material L config cert m fp chain"
  shows "keeps (lawful H d0 t0) (reconcile env L (oci_adapters env p) config cert m chain fp now ty)"
proof (cases "certificate_ocid (oci_of cert)")
  case None
  then show ?thesis by (simp add: reconcile_def keeps_raise)
next
  case (Some ocid)
  show ?thesis
  proof (rule keeps_lawful_part[where G = "publication_guard L config cert m chain fp now ocid"])
    fix w :: "'a world" assume wf: "wf_db (db w)"
    show "wp (reconcile env L (oci_adapters env p) config cert m chain fp now ty)
        (\<lambda>_. lawful (publication_guard L config cert m chain fp now ocid) (db w) (trace w))
        (\<lambda>_. lawful (publication_guard L config cert m chain fp now ocid) (db w) (trace w)) w"
      by (rule wp_mono[OF sdk.wp_reconcile[OF ty wf Some]]) (auto simp: lawful_def elim: exchanged_weaken)
  qed (rule publications[OF cert Some m])
qed

lemma keeps_publish:
  assumes V: "run_libs V = L" and ty: "publishes ty"
  shows "keeps (lawful H d0 t0) (publish V config cid ty)"
  unfolding publish_def V require_production_qualification_def load_and_validate_def
  by (intro keeps_configured keeps_seq keeps_if keeps_return keeps_bind[OF keeps_lawful_outside(3)]
      keeps_bind[OF keeps_lawful_outside(2)] keeps_lift_bind keeps_built_chain keeps_adapters keeps_bind[OF keeps_reconcile[OF ty]]
      keeps_lawful_log keeps_lawful_open keeps_after_publication[OF V] keeps_lawful_outside(3))
    (auto simp: validated_material_def)

end

context mutation_policy
begin

lemma keeps_issuing:
  "keeps (lawful H d0 t0) (require_production_qualification V config cert)"
  "keeps (lawful H d0 t0) (service_preflight V config cert)"
  "keeps (lawful H d0 t0) (current_fingerprint V config cert)"
  "keeps (lawful H d0 t0) (run_issue V config cert force)"
proof -
  have "keeps (lawful H d0 t0) k"
    if "(if is_PreflightError e then Some (seq (log_event ev c) (raise e)) else None) = Some k" for e ev c and k :: "('a, unit) action"
    using that by (auto intro!: keeps_intros split: if_splits)
  then show "keeps (lawful H d0 t0) (service_preflight V config cert)"
    unfolding service_preflight_def by (intro keeps_intros)
qed (simp_all add: require_production_qualification_def current_fingerprint_def load_and_validate_def run_issue_def keeps_intros)

lemma keeps_renew:
  assumes V: "run_libs V = L"
  shows "keeps (lawful H d0 t0) (renew V config cid force)"
  unfolding renew_def
  by (intro keeps_configured keeps_seq keeps_bind keeps_if keeps_return keeps_issuing keeps_publish[OF V])
    (simp add: publishes_def)

lemma keeps_bootstrap:
  assumes V: "run_libs V = L"
  shows "keeps (lawful H d0 t0) (bootstrap V config cid)"
proof -
  have create: "keeps (lawful H d0 t0) (bind (start_operation (run_env V) (cert_id cert) BOOTSTRAP (Some fp) None) (\<lambda>operation.
           seq (transition (run_env V) (operation_id operation) LOCAL_CERT_VALIDATED no_columns)
             (create_certificate V (oci_adapters (run_env V) p) config cert m chain fp (operation_id operation))))"
    if "cert \<in> set (certificates config)" "certificate_ocid (oci_of cert) = None" "validated_material L config cert m fp chain"
    for cert p m chain fp
    by (rule keeps_lawful_part[where G = "bootstrap_guard cert m chain fp"])
      (blast intro: wp_first_creation creations[OF that])+
  have absent: "keeps I (seq (raise_if (certificate_ocid (oci_of cert) \<noteq> None) e) k)"
    if "certificate_ocid (oci_of cert) = None \<Longrightarrow> keeps I k" for I cert e and k :: "('a, bootstrap_result) action"
    using that by (cases "certificate_ocid (oci_of cert)") (auto simp: keeps_wp wp_simps)
  show ?thesis
    unfolding bootstrap_def V load_and_validate_def
    by (intro keeps_configured absent keeps_seq keeps_issuing keeps_case_option keeps_return keeps_bind[OF keeps_lawful_outside(3)]
        keeps_bind[OF keeps_lawful_outside(2)] keeps_bind[OF keeps_recover_bootstrap[OF reads]]
        keeps_lift_bind keeps_built_chain keeps_adapters keeps_lawful_open create)
      (auto simp: validated_material_def)
qed

end

end
