(* ===== verification/PreflightService.thy ===== *)
theory PreflightService
  imports ServiceLaws
begin

section \<open>The operational preflight\<close>

text \<open>
  \<open>preflight_service.py\<close>: the checks before an issuance that change neither OCI nor the state store: the
  clock of the host, the responder, the web roots and the pinned roots, read access to OCI, and the
  HTTP-01 route of every domain. \<open>timedatectl\<close> and the connection to the responder are parameters; the
  \<open>TimeoutExpired\<close> of a subprocess is \<open>TimeoutError\<close> here, which is handled alike.
\<close>

record 'w probes =
  timedatectl :: "'w \<Rightarrow> (lib_exn + int \<times> string) \<times> 'w"
  responder_open :: "string \<Rightarrow> int \<Rightarrow> 'w \<Rightarrow> lib_exn option \<times> 'w"
  responder_talk :: "string \<Rightarrow> 'w \<Rightarrow> (lib_exn + string) \<times> 'w"
  responder_close :: "'w \<Rightarrow> lib_exn option \<times> 'w"

definition verify_clock :: "'w probes \<Rightarrow> ('w, exn, unit) prog" where
  "verify_clock M =
     bind
       (try_except (ext_try (timedatectl M))
          (\<lambda>e. if is_OSError e then Some (raise (PreflightError ''system clock synchronization cannot be verified'')) else None))
       (\<lambda>(returncode, stdout).
          raise_if (returncode \<noteq> 0 \<or> lower (strip stdout) \<noteq> ''yes'') (PreflightError ''system clock is not synchronized''))"

definition readiness_request :: "responder_config \<Rightarrow> string" where
  "readiness_request c =
     ''GET '' @ readiness_path c @ '' HTTP/1.1'' @ crlf @ ''Host: localhost'' @ crlf @ ''Connection: close'' @ crlf @ crlf"

definition verify_responder :: "'w probes \<Rightarrow> http01_config \<Rightarrow> ('w, exn, unit) prog" where
  "verify_responder M c =
     (let r = responder c
      in bind
           (try_except
              (seq (ext_fail (responder_open M (bind_address r) (bind_port r)))
                 (try_finally
                    (bind (lift (encode_ascii (readiness_request r))) (\<lambda>request. ext_try (responder_talk M request)))
                    (ext_fail (responder_close M))))
              (\<lambda>e. if is_OSError e then Some (raise (PreflightError ''local HTTP-01 responder is unavailable'')) else None))
           (\<lambda>response.
              raise_if (\<not> startswith response ''HTTP/1.1 200 '') (PreflightError ''local HTTP-01 responder is not ready'')))"

definition verify_webroot :: "'w mount \<Rightarrow> http01_config \<Rightarrow> certificate_config \<Rightarrow> ('w, exn, unit) prog" where
  "verify_webroot K c cert =
     bind (sys K (observe (is_dir (components (webroot_base c) @ components (webroot_id cert))))) (\<lambda>there.
       raise_if (\<not> there) (PreflightError ''configured HTTP-01 webroot is unavailable''))"

definition parse_root :: "libs \<Rightarrow> lib_exn + string \<Rightarrow> exn + x509" where
  "parse_root L content =
     (case (case content of Inl e \<Rightarrow> Inl e | Inr bytes \<Rightarrow> load_pem L bytes) of
        Inl e \<Rightarrow>
          if is_OSError (Lib e) \<or> is_ValueError (Lib e)
          then Inl (PreflightError ''configured chain root is unreadable or invalid'') else Inl (Lib e)
      | Inr anchor \<Rightarrow> Inr anchor)"

definition verify_root_pin :: "'w mount \<Rightarrow> libs \<Rightarrow> certificate_config \<Rightarrow> ('w, exn, unit) prog" where
  "verify_root_pin K L cert =
     bind (file_outcome K (components (root_pem_path (chain_of cert)))) (\<lambda>content.
     bind (lift (parse_root L content)) (\<lambda>anchor.
       raise_if (\<not> List.member (allowed_root_sha256 (chain_of cert)) (certificate_sha256 L anchor))
         (PreflightError ''configured chain root is not allowlisted'')))"

definition verify_oci_read :: "'w services \<Rightarrow> app_config \<Rightarrow> certificate_config \<Rightarrow> ('w, unit) action" where
  "verify_oci_read V config cert =
     bind (adapters_for V config) (\<lambda>P.
       case certificate_ocid (oci_of cert) of
         None \<Rightarrow> return ()
       | Some ocid \<Rightarrow> bind (uuid4 (run_env V)) (\<lambda>rid. seq (port_get_certificate P ocid rid) (return ())))"

definition operational_preflight ::
  "'w services \<Rightarrow> 'w probes \<Rightarrow> app_config \<Rightarrow> certificate_config list \<Rightarrow> ('w, unit) action" where
  "operational_preflight V M config certs =
     seq (locally (verify_clock M))
     (seq (locally (verify_responder M (http01 config)))
     (seq (for_each certs (\<lambda>cert.
             seq (locally (verify_webroot (run_disk V) (http01 config) cert))
               (locally (verify_root_pin (run_disk V) (run_libs V) cert))))
     (seq (for_each certs (verify_oci_read V config))
     (for_each certs (\<lambda>cert.
        locally (run_preflight (run_disk V) (publisher_account V) (run_http V) (http01 config) cert))))))"

subsection \<open>What a preflight that returns has seen\<close>

text \<open>The host's own facts: the web root is a directory and the file of the root holds a certificate that
  is pinned.\<close>

definition host_prepared :: "libs \<Rightarrow> http01_config \<Rightarrow> fs \<Rightarrow> certificate_config \<Rightarrow> bool" where
  "host_prepared L c f cert \<longleftrightarrow>
     is_dir (components (webroot_base c) @ components (webroot_id cert)) f \<and>
     (\<exists>content anchor. read_file (components (root_pem_path (chain_of cert))) f = Inr (content, f) \<and>
        load_pem L content = Inr anchor \<and> certificate_sha256 L anchor \<in> set (allowed_root_sha256 (chain_of cert)))"

definition route_answered :: "'w http_network \<Rightarrow> self_check_config \<Rightarrow> certificate_config \<Rightarrow> bool" where
  "route_answered H c cert \<longleftrightarrow> (\<exists>token content. \<forall>d\<in>set (domains cert). domain_answered H c token content d)"

text \<open>The exchange with OCI: reads of configured certificates only; and the answer to a read.\<close>

definition reads_configured :: "certificate_config list \<Rightarrow> io_entry list \<Rightarrow> bool" where
  "reads_configured certs io \<longleftrightarrow>
     list_all (\<lambda>e. list_ex (\<lambda>cert. \<exists>ocid. certificate_ocid (oci_of cert) = Some ocid \<and> fst e = GetCertificate ocid) certs) io"

definition readable :: "io_entry list \<Rightarrow> certificate_config \<Rightarrow> bool" where
  "readable io cert \<longleftrightarrow>
     (case certificate_ocid (oci_of cert) of
        None \<Rightarrow> True
      | Some ocid \<Rightarrow> \<exists>c. shown io (GetCertificate ocid) (certificate_of_response ocid) c)"

text \<open>The probes of the host leave its files alone.\<close>

definition probes_apart :: "'w mount \<Rightarrow> 'w probes \<Rightarrow> bool" where
  "probes_apart K M \<longleftrightarrow>
     (\<forall>w. disk K (snd (timedatectl M w)) = disk K w) \<and> (\<forall>a p w. disk K (snd (responder_open M a p w)) = disk K w) \<and>
     (\<forall>r w. disk K (snd (responder_talk M r w)) = disk K w) \<and> (\<forall>w. disk K (snd (responder_close M w)) = disk K w)"

abbreviation still :: "'w mount \<Rightarrow> 'w \<Rightarrow> ('w, exn, 'a) prog \<Rightarrow> bool" where
  "still K w0 m \<equiv> keeps (\<lambda>w. disk K w = disk K w0) m"

lemma still_ext: "(\<And>w. disk K (snd (f w)) = disk K w) \<Longrightarrow> still K w0 (ext f)"
  by (auto simp: keeps_def ext_def split: prod.splits) (metis snd_conv)

lemma still_ext_try: "(\<And>w. disk K (snd (f w)) = disk K w) \<Longrightarrow> still K w0 (ext_try f)"
  unfolding ext_try_def by (intro keeps_bind still_ext keeps_lift)

lemma still_ext_fail: "(\<And>w. disk K (snd (f w)) = disk K w) \<Longrightarrow> still K w0 (ext_fail f)"
  unfolding ext_fail_def by (intro keeps_bind still_ext keeps_case_option keeps_return keeps_raise)

lemma still_verify:
  assumes "probes_apart K M"
  shows "still K w0 (verify_clock M)" "still K w0 (verify_responder M c)"
  using assms unfolding verify_clock_def verify_responder_def Let_def probes_apart_def
  by (auto intro!: keeps_intros still_ext_try still_ext_fail split: if_splits)

lemma wp_file_outcome:
  assumes "mount_law K"
  shows "wp (file_outcome K p)
     (\<lambda>r w'. disk K w' = disk K w \<and> (\<forall>c. r = Inr c \<longrightarrow> read_file p (disk K w) = Inr (c, disk K w))) (\<lambda>_ w'. disk K w' = disk K w) w"
  unfolding file_outcome_def wp_try_except wp_bind
  by (rule wp_sys[OF assms]) (auto simp: wp_return dest: read_file_same split: exn.splits option.splits)

lemma wp_verify_host:
  assumes K: "mount_law K"
  shows "wp (seq (verify_webroot K c cert) (verify_root_pin K L cert))
     (\<lambda>_ w'. disk K w' = disk K w \<and> host_prepared L c (disk K w) cert) (\<lambda>_ w'. disk K w' = disk K w) w"
proof -
  have parse: "\<exists>bytes. content = Inr bytes \<and> load_pem L bytes = Inr anchor" if "parse_root L content = Inr anchor" for content anchor
    using that by (auto simp: parse_root_def split: sum.splits if_splits)
  have pin: "wp (verify_root_pin K L cert)
     (\<lambda>_ w'. disk K w' = disk K w \<and> host_prepared L c (disk K w) cert) (\<lambda>_ w'. disk K w' = disk K w) w1"
    if "disk K w1 = disk K w" and "is_dir (components (webroot_base c) @ components (webroot_id cert)) (disk K w)" for w1
    unfolding verify_root_pin_def wp_bind wp_lift wp_raise_if
    by (rule wp_mono[OF wp_file_outcome[OF K]])
      (use that in \<open>auto simp: host_prepared_def split: sum.splits dest!: parse\<close>)
  show ?thesis
    unfolding wp_seq wp_bind verify_webroot_def wp_raise_if
    by (rule wp_observe[OF K]) (auto intro: pin)
qed

text \<open>A loop establishes for each element what the later steps keep.\<close>

lemma wp_for_each_all:
  assumes "\<And>x w. x \<in> set xs \<Longrightarrow> I w \<Longrightarrow>
      wp (g x) (\<lambda>_ w'. I w' \<and> P x w' \<and> (\<forall>y. P y w \<longrightarrow> P y w')) (\<lambda>_. I) w"
    and "I w"
  shows "wp (for_each xs g) (\<lambda>_ w'. I w' \<and> (\<forall>x\<in>set xs. P x w') \<and> (\<forall>y. P y w \<longrightarrow> P y w')) (\<lambda>_. I) w"
  using assms
proof (induction xs arbitrary: w)
  case (Cons x xs)
  have step: "wp (g x) (\<lambda>_ w'. I w' \<and> P x w' \<and> (\<forall>y. P y w \<longrightarrow> P y w')) (\<lambda>_. I) w" by (simp add: Cons.prems)
  have rest: "wp (for_each xs g) (\<lambda>_ w'. I w' \<and> (\<forall>x\<in>set xs. P x w') \<and> (\<forall>y. P y w1 \<longrightarrow> P y w')) (\<lambda>_. I) w1" if "I w1" for w1
    by (rule Cons.IH[OF _ that]) (simp add: Cons.prems)
  show ?case
    unfolding for_each.simps wp_bind
    by (rule wp_mono[OF step]) (auto intro!: wp_mono[OF rest])
qed (simp add: wp_return)

text \<open>The exchange so far: reads of the configured certificates.\<close>

definition only_read :: "certificate_config list \<Rightarrow> 'w world \<Rightarrow> 'w world \<Rightarrow> bool" where
  "only_read certs w w' \<longleftrightarrow> db w' = db w \<and> journal w' = journal w \<and> (\<exists>io. trace w' = trace w @ io \<and> reads_configured certs io)"

lemma only_read_outside: "only_read certs w w' \<Longrightarrow> only_read certs w (w'\<lparr>outside := o'\<rparr>)"
  by (simp add: only_read_def)

lemma keeps_only_read: "inert m \<Longrightarrow> keeps (only_read certs w) m"
  by (erule keeps_inert) (simp add: only_read_def)

lemma wp_host_checks:
  fixes V :: "'w services" and w :: "'w world"
  assumes K: "mount_law (run_disk V)" and f: "disk (run_disk V) (outside w) = f" and I: "only_read certs w0 w"
  shows "wp (for_each cs (\<lambda>cert.
       seq (locally (verify_webroot (run_disk V) c cert)) (locally (verify_root_pin (run_disk V) L cert))))
     (\<lambda>_ w'. only_read certs w0 w' \<and> (\<forall>cert\<in>set cs. host_prepared L c f cert)) (\<lambda>_. only_read certs w0) w"
proof -
  let ?I = "\<lambda>w'. only_read certs w0 w' \<and> disk (run_disk V) (outside w') = f"
  have checked: "wp (seq (locally (verify_webroot (run_disk V) c cert)) (locally (verify_root_pin (run_disk V) L cert)))
      (\<lambda>_ w'. ?I w' \<and> host_prepared L c f cert \<and> (\<forall>y. host_prepared L c f y \<longrightarrow> host_prepared L c f y)) (\<lambda>_. ?I) w1"
    if "?I w1" for cert w1
  proof -
    have "wp (verify_webroot (run_disk V) c cert)
        (\<lambda>_ o1. wp (verify_root_pin (run_disk V) L cert)
           (\<lambda>_ o2. disk (run_disk V) o2 = f \<and> host_prepared L c f cert) (\<lambda>_ o2. disk (run_disk V) o2 = f) o1)
        (\<lambda>_ o1. disk (run_disk V) o1 = f) (outside w1)"
      using wp_verify_host[OF K, of c cert L "outside w1"] that by (simp add: wp_seq)
    then show ?thesis
      using that unfolding wp_seq
      by (auto intro!: wp_locally elim!: wp_mono simp: only_read_outside)
  qed
  show ?thesis
    by (rule wp_mono[OF wp_for_each_all[where I = ?I and P = "\<lambda>cert _. host_prepared L c f cert"]])
      (use checked f I in auto)
qed

lemma wp_readable:
  fixes V :: "'w services" and w :: "'w world"
  assumes "only_read certs w0 w" and cert: "cert \<in> set certs"
  shows "wp (verify_oci_read V config cert)
     (\<lambda>_ w'. only_read certs w0 w' \<and> (\<exists>io. trace w' = trace w @ io \<and> readable io cert)) (\<lambda>_. only_read certs w0) w"
proof -
  have run: "P = oci_adapters (run_env V) (default_policy (max_read_attempts (oci_settings config)))"
    if "adapters_for V config w = (Inr P, w1)" for P w1
    using that by (auto simp: adapters_for_def create_certificates_adapters_def seq_Inr_iff run_return)
  have read: "wp (port_get_certificate (oci_adapters (run_env V) p) ocid rid)
       (\<lambda>_ w'. only_read certs w0 w' \<and> (\<exists>io. trace w' = trace w @ io \<and> readable io cert)) (\<lambda>_. only_read certs w0) w1"
    if I: "only_read certs w0 w1" "trace w1 = trace w" and ocid: "certificate_ocid (oci_of cert) = Some ocid" for ocid rid p w1
  proof (rule wp_asks[OF sdk.get_certificate_law])
    have q: "reads_configured certs (map (Pair (GetCertificate ocid)) rs)" "reads_configured certs (retried (GetCertificate ocid) failures r)"
      for rs failures r
      using ocid cert by (auto simp: reads_configured_def list_all_iff list_ex_iff retried_def)
    have more: "only_read certs w0 (w1\<lparr>outside := o', trace := trace w1 @ io\<rparr>)" if "reads_configured certs io" for o' io
      using I(1) that by (auto simp: only_read_def reads_configured_def)
    show "only_read certs w0 (w1\<lparr>outside := o', trace := trace w1 @ retried (GetCertificate ocid) failures (Inr resp)\<rparr>) \<and>
        (\<exists>io. trace (w1\<lparr>outside := o', trace := trace w1 @ retried (GetCertificate ocid) failures (Inr resp)\<rparr>) = trace w @ io \<and> readable io cert)"
      if "certificate_of_response ocid resp = Inr a" for a failures resp o'
    proof -
      have "readable (retried (GetCertificate ocid) failures (Inr resp)) cert"
        using ocid shown_retried[where parse = "certificate_of_response ocid" and io = "[]" and req = "GetCertificate ocid", OF that] by (auto simp: readable_def)
      then show ?thesis using more[OF q(2)] I(2) by simp
    qed
    show "only_read certs w0 (w1\<lparr>outside := o', trace := trace w1 @ map (Pair (GetCertificate ocid)) rs\<rparr>)" for o' rs
      by (rule more[OF q(1)])
  qed
  obtain r o' where adapters: "adapters_for V config w = (r, w\<lparr>outside := o'\<rparr>)" by (rule inertE[OF inert_adapters_for])
  show ?thesis
    unfolding verify_oci_read_def wp_bind
  proof (rule wpI)
    fix P w1 assume "adapters_for V config w = (Inr P, w1)"
    then have P: "P = oci_adapters (run_env V) (default_policy (max_read_attempts (oci_settings config)))" and w1: "w1 = w\<lparr>outside := o'\<rparr>"
      using run adapters by auto
    show "wp (case certificate_ocid (oci_of cert) of None \<Rightarrow> return ()
        | Some ocid \<Rightarrow> bind (uuid4 (run_env V)) (\<lambda>rid. seq (port_get_certificate P ocid rid) (return ())))
       (\<lambda>_ w'. only_read certs w0 w' \<and> (\<exists>io. trace w' = trace w @ io \<and> readable io cert)) (\<lambda>_. only_read certs w0) w1"
      unfolding P w1
      using assms(1) by (auto simp: wp_return wp_bind wp_seq readable_def only_read_outside split: option.splits intro!: wp_uuid4I wp_mono[OF read[unfolded readable_def]])
  qed (use adapters assms(1) in \<open>auto simp: only_read_outside\<close>)
qed

text \<open>The whole preflight.\<close>

definition preflight_passed :: "'w services \<Rightarrow> app_config \<Rightarrow> certificate_config list \<Rightarrow> 'w world \<Rightarrow> 'w world \<Rightarrow> bool" where
  "preflight_passed V config certs w w' \<longleftrightarrow>
     (\<forall>cert\<in>set certs.
        host_prepared (run_libs V) (http01 config) (disk (run_disk V) (outside w)) cert \<and>
        (\<exists>io. trace w' = trace w @ io \<and> readable io cert) \<and>
        (self_check_enabled (self_check (http01 config)) \<longrightarrow> route_answered (run_http V) (self_check (http01 config)) cert))"

lemma readable_append: "readable io cert \<Longrightarrow> readable (io @ io') cert" "readable io' cert \<Longrightarrow> readable (io @ io') cert"
  by (auto simp: readable_def shown_def split: option.splits)

lemma inert_for_each: "(\<And>x. x \<in> set xs \<Longrightarrow> inert (f x)) \<Longrightarrow> inert (for_each xs f)"
  by (induction xs) (auto intro: inert_intros)

lemma wp_all_readable:
  fixes w :: "'w world"
  assumes "only_read certs w0 w" and "set cs \<subseteq> set certs" and "trace w = trace w0"
  shows "wp (for_each cs (verify_oci_read V config))
     (\<lambda>_ w'. only_read certs w0 w' \<and> (\<forall>cert\<in>set cs. \<exists>io. trace w' = trace w0 @ io \<and> readable io cert)) (\<lambda>_. only_read certs w0) w"
proof -
  let ?P = "\<lambda>cert w'. \<exists>io. trace w' = trace w0 @ io \<and> readable io cert"
  have "wp (verify_oci_read V config cert)
      (\<lambda>_ w'. only_read certs w0 w' \<and> ?P cert w' \<and> (\<forall>y. ?P y w1 \<longrightarrow> ?P y w')) (\<lambda>_. only_read certs w0) w1"
    if c: "cert \<in> set cs" and I: "only_read certs w0 w1" for cert w1
  proof -
    obtain io1 where io1: "trace w1 = trace w0 @ io1" using I by (auto simp: only_read_def)
    show ?thesis
      by (rule wp_mono[OF wp_readable[OF I]])
        (use c assms(2) io1 in \<open>auto intro: readable_append\<close>)
  qed
  then show ?thesis
    by (intro wp_mono[OF wp_for_each_all[where I = "only_read certs w0" and P = ?P]]) (use assms(1) in auto)
qed

lemma wp_operational_preflight:
  fixes V :: "'w services" and w :: "'w world"
  assumes K: "mount_law (run_disk V)" and M: "probes_apart (run_disk V) M"
  shows "wp (operational_preflight V M config certs)
     (\<lambda>_ w'. only_read certs w w' \<and> preflight_passed V config certs w w') (\<lambda>_ w'. only_read certs w w') w"
proof -
  let ?f = "disk (run_disk V) (outside w)"
  let ?route = "\<lambda>cert. self_check_enabled (self_check (http01 config)) \<longrightarrow> route_answered (run_http V) (self_check (http01 config)) cert"
  have start: "only_read certs w w" by (simp add: only_read_def reads_configured_def)
  have probe: "wp (locally m) (\<lambda>_ w'. only_read certs w w' \<and> trace w' = trace w \<and> disk (run_disk V) (outside w') = ?f) (\<lambda>_. only_read certs w) w1"
    if "still (run_disk V) (outside w) m" "only_read certs w w1" "trace w1 = trace w" "disk (run_disk V) (outside w1) = ?f"
    for m :: "('w, exn, unit) prog" and w1
    by (rule wp_locally, rule wp_mono[OF keeps_wpD[OF that(1)]]) (use that in \<open>auto simp: only_read_outside\<close>)
  have hosts: "wp (for_each certs (\<lambda>cert.
       seq (locally (verify_webroot (run_disk V) (http01 config) cert)) (locally (verify_root_pin (run_disk V) (run_libs V) cert))))
     (\<lambda>_ w'. only_read certs w w' \<and> trace w' = trace w \<and> (\<forall>cert\<in>set certs. host_prepared (run_libs V) (http01 config) ?f cert))
     (\<lambda>_. only_read certs w) w1"
    if I: "only_read certs w w1" "trace w1 = trace w" "disk (run_disk V) (outside w1) = ?f" for w1
  proof -
    have "inert (for_each certs (\<lambda>cert.
       seq (locally (verify_webroot (run_disk V) (http01 config) cert)) (locally (verify_root_pin (run_disk V) (run_libs V) cert))))"
      by (intro inert_for_each inert_intros)
    then have "keeps (\<lambda>w'. trace w' = trace w) (for_each certs (\<lambda>cert.
       seq (locally (verify_webroot (run_disk V) (http01 config) cert)) (locally (verify_root_pin (run_disk V) (run_libs V) cert))))"
      by (rule keeps_inert) simp
    from keeps_wpD[OF this I(2)] wp_host_checks[OF K I(3,1)] show ?thesis
      by (rule wp_mono[OF wp_conj]) auto
  qed
  have routes: "wp (for_each certs (\<lambda>cert. locally (run_preflight (run_disk V) (publisher_account V) (run_http V) (http01 config) cert)))
     (\<lambda>_ w'. only_read certs w w' \<and> trace w' = trace w1 \<and> (\<forall>cert\<in>set certs. ?route cert)) (\<lambda>_. only_read certs w) w1"
    if I: "only_read certs w w1" for w1
  proof -
    let ?I = "\<lambda>w'. only_read certs w w' \<and> trace w' = trace w1"
    have "wp (locally (run_preflight (run_disk V) (publisher_account V) (run_http V) (http01 config) cert))
        (\<lambda>_ w'. ?I w' \<and> ?route cert \<and> (\<forall>y. ?route y \<longrightarrow> ?route y)) (\<lambda>_. ?I) w2" if "?I w2" for cert w2
      by (rule wp_locally, rule wpI)
        (use that in \<open>auto simp: only_read_outside route_answered_def dest: run_preflight_answered\<close>)
    then show ?thesis
      by (intro wp_mono[OF wp_for_each_all[where I = ?I and P = "\<lambda>cert _. ?route cert"]]) (use I in auto)
  qed
  show ?thesis
    unfolding operational_preflight_def wp_seq
    apply (rule wp_mono[OF probe[OF still_verify(1)[OF M]]])
    apply (simp_all add: start)
    apply (rule wp_mono[OF probe[OF still_verify(2)[OF M]]]; (simp; elim conjE)?)
    apply (rule wp_mono[OF hosts]; (simp; elim conjE)?)
    apply (rule wp_mono[OF wp_all_readable]; (simp; elim conjE)?)
    apply (rule wp_mono[OF routes]; (simp; elim conjE)?)
    apply (auto simp add: preflight_passed_def)
    done
qed

end
