(* ===== verification/ServicePolicy.thy ===== *)
theory ServicePolicy
  imports ServiceLaws
begin

section \<open>What the service may send\<close>

text \<open>
  The policies of the publisher, as interpretations of the interface \<open>mutation_policy\<close>: what one
  configuration allows, and what a batch over it allows, where a set without an OCID may run under
  the configuration with the OCID its bootstrap recorded. The commands of the service are collected
  in one type, so that a property of all of them is one statement.
\<close>

subsection \<open>One configuration\<close>

text \<open>The guards of one certificate set.\<close>

definition set_guard :: "libs \<Rightarrow> app_config \<Rightarrow> certificate_config \<Rightarrow> io_entry list \<Rightarrow> io_entry \<Rightarrow> bool" where
  "set_guard L config cert pre e \<longleftrightarrow>
     (case certificate_ocid (oci_of cert) of
        None \<Rightarrow> \<exists>m fp chain. validated_material L config cert m fp chain \<and> bootstrap_guard cert m chain fp pre e
      | Some ocid \<Rightarrow>
          (\<exists>m fp chain now. validated_material L config cert m fp chain \<and>
             publication_guard L config cert m chain fp now ocid pre e) \<or>
          (\<exists>now. rollback_guard L config cert now ocid pre e) \<or>
          (\<exists>referenced now. retention_guard cert ocid referenced now pre e))"

text \<open>A mutation is justified by a recent part of what was read: what a set's operation read itself.\<close>

definition config_guard :: "libs \<Rightarrow> app_config \<Rightarrow> io_entry list \<Rightarrow> io_entry \<Rightarrow> bool" where
  "config_guard L config before e \<longleftrightarrow>
     (is_mutation (fst e) \<longrightarrow>
        (\<exists>cert\<in>set (certificates config). \<exists>io pre. before = io @ pre \<and> set_guard L config cert pre e))"

lemma config_guardI:
  "cert \<in> set (certificates config) \<Longrightarrow> set_guard L config cert pre e \<Longrightarrow> config_guard L config (io @ pre) e"
  unfolding config_guard_def by blast

interpretation service: mutation_policy L config "config_guard L config" for L config
proof
  show "lets_reads (config_guard L config)" by (simp add: lets_reads_def config_guard_def)
qed (erule config_guardI, auto simp: set_guard_def)+

subsection \<open>A batch\<close>

definition runs_as :: "app_config \<Rightarrow> app_config \<Rightarrow> bool" where
  "runs_as config config' \<longleftrightarrow>
     config' = config \<or>
     (\<exists>cert\<in>set (certificates config). \<exists>ocid. certificate_ocid (oci_of cert) = None \<and> config' = recovered_config config cert ocid)"

definition batch_guard :: "libs \<Rightarrow> app_config \<Rightarrow> io_entry list \<Rightarrow> io_entry \<Rightarrow> bool" where
  "batch_guard L config before e \<longleftrightarrow> (\<exists>config'. runs_as config config' \<and> config_guard L config' before e)"

lemma config_guard_part: "config_guard L config pre e \<Longrightarrow> config_guard L config (io @ pre) e"
  unfolding config_guard_def by (metis append_assoc)

lemma keeps_batch:
  assumes "\<And>d0 t0. keeps (lawful (config_guard L config') d0 t0) m" and "runs_as config config'"
  shows "keeps (lawful (batch_guard L config) d0 t0) m"
proof (rule keeps_lawful_part[where G = "config_guard L config'"])
  fix w :: "'a world" assume "wf_db (db w)"
  then have "lawful (config_guard L config') (db w) (trace w) w" by (simp add: lawful_def exchanged_def safe_refl)
  then show "wp m (\<lambda>_. lawful (config_guard L config') (db w) (trace w)) (\<lambda>_. lawful (config_guard L config') (db w) (trace w)) w"
    by (rule keeps_wpD[OF assms(1)])
qed (use assms(2) in \<open>auto simp: batch_guard_def intro: config_guard_part\<close>)

lemma runs_as_self: "runs_as config config"
  by (simp add: runs_as_def)

lemma keeps_renew_set:
  assumes cert: "cert \<in> set (certificates config)"
  shows "keeps (lawful (batch_guard (run_libs V) config) d0 t0) (renew_set V config cert)"
proof (cases "certificate_ocid (oci_of cert)")
  case None
  have rest: "keeps (lawful (batch_guard (run_libs V) config) d0 t0) (renew V (recovered_config config cert ocid) cid False)" for ocid cid
    by (rule keeps_batch[OF service.keeps_renew[OF refl]]) (use cert None in \<open>auto simp: runs_as_def\<close>)
  show ?thesis
    using None unfolding renew_set_def confirmed_oci_certificate_ocid_def
    by (auto intro!: keeps_seq keeps_bind keeps_case_option keeps_return keeps_lawful_open rest keeps_lawful_outside(4)
        keeps_batch[OF service.keeps_bootstrap[OF refl] runs_as_self])
qed (auto simp: renew_set_def intro: keeps_batch[OF service.keeps_renew[OF refl] runs_as_self])

lemma keeps_catch: "keeps I m \<Longrightarrow> keeps I (catch m)"
  by (auto simp: keeps_def catch_def split: prod.splits)

lemma keeps_renewal_failed:
  "keeps (lawful H d0 t0) (renewal_failed V config cid publication e)"
  unfolding renewal_failed_def notify_renewal_failure_def by (intro keeps_intros keeps_lawful_event)

lemma keeps_notify_expiry: "keeps (lawful H d0 t0) (notify_expiry V config cert)"
  unfolding notify_expiry_def certificate_days_remaining_def by (intro keeps_intros keeps_lawful_event)

lemma keeps_renew_all:
  "keeps (lawful (batch_guard (run_libs V) config) d0 t0) (renew_all V config)"
proof -
  have "keeps (lawful (batch_guard (run_libs V) config) d0 t0) (renew_one V config cert)"
    if "cert \<in> set (certificates config)" for cert
    unfolding renew_one_def
    by (intro keeps_seq keeps_if keeps_return keeps_lawful_event keeps_bind keeps_catch keeps_renew_set[OF that])
      (auto intro!: keeps_bind keeps_catch keeps_notify_expiry keeps_renewal_failed keeps_return split: sum.split)
  then show ?thesis
    unfolding renew_all_def by (intro keeps_bind keeps_map_prog keeps_return)
qed

end
