(* ===== verification/CompatibilityProbe.thy ===== *)
theory CompatibilityProbe
  imports ServicePolicy
begin

section \<open>The compatibility probe\<close>

text \<open>
  \<open>compatibility_probe.py\<close>: the offline validation of a lineage, and the live test of staging that
  publishes, renews, audits and rolls back a test certificate. \<open>expected_owner_uid\<close> is an argument.
\<close>

record compatibility_probe_result =
  probed_certificate_id :: string
  probed_leaf_fingerprint :: string
  probed_root_fingerprint :: string
  probed_chain_bytes :: int
  probed_country_enforced :: bool

record live_probe_result =
  live_certificate_id :: string
  live_evidence :: live_probe_evidence

fun is_CompatibilityProbeError :: "exn \<Rightarrow> bool" where
  "is_CompatibilityProbeError (CompatibilityProbeError _) = True"
| "is_CompatibilityProbeError (LiveProbePrerequisiteError _) = True"
| "is_CompatibilityProbeError _ = False"

definition validated_profile ::
  "'w services \<Rightarrow> app_config \<Rightarrow> certificate_config \<Rightarrow> lineage_material \<Rightarrow> ('w, string \<times> oci_certificate_chain) action" where
  "validated_profile V config cert m =
     try_except
       (bind (now_utc (run_env V)) (\<lambda>now.
        bind (lift (validate_certificate_material (run_libs V) m cert (compatibility config) (global_of config) now)) (\<lambda>fp.
        bind (locally (built_chain (run_disk V) (run_libs V) m cert (compatibility config))) (\<lambda>chain.
          return (fp, chain)))))
       (\<lambda>e. if is_ValueError e
             then Some (raise (CompatibilityProbeError ''local certificate profile is incompatible with OCI policy''))
             else None)"

definition probe_material ::
  "'w services \<Rightarrow> app_config \<Rightarrow> certificate_config \<Rightarrow> lineage_material \<Rightarrow> ('w, compatibility_probe_result) action" where
  "probe_material V config cert m =
     bind (validated_profile V config cert m) (\<lambda>(fp, chain).
       return
         \<lparr>probed_certificate_id = cert_id cert, probed_leaf_fingerprint = fp,
          probed_root_fingerprint = certificate_sha256 (run_libs V) (chain_root chain),
          probed_chain_bytes = int (length (chain_cert_chain_pem chain)),
          probed_country_enforced = enforce_documented_subject_country (compatibility config)\<rparr>)"

definition offline_probe ::
  "'w services \<Rightarrow> app_config \<Rightarrow> certificate_config \<Rightarrow> int \<Rightarrow> ('w, compatibility_probe_result) action" where
  "offline_probe V config cert uid =
     bind (locally (load_lineage (run_disk V) (run_libs V) (run_pems V) (certificate_store (acme config) uid) (cert_id cert)))
       (probe_material V config cert)"

definition require_live_test_environment :: "app_config \<Rightarrow> certificate_config \<Rightarrow> exn + unit" where
  "require_live_test_environment config cert =
     (if environment_of (global_of config) \<noteq> STAGING
      then Inl (LiveProbePrerequisiteError ''live compatibility probe requires environment: staging'')
      else if endpoints (audit_of cert) = []
      then Inl (LiveProbePrerequisiteError
             ''live compatibility probe requires a manually associated TLS audit endpoint'')
      else if certificate_ocid (oci_of cert) = None
      then Inl (LiveProbePrerequisiteError
             (''live compatibility probe requires an existing test certificate OCID; '' @
              ''run bootstrap, associate that OCID manually, then rerun the probe''))
      else Inr ())"

definition audited :: "'w services \<Rightarrow> app_config \<Rightarrow> certificate_config \<Rightarrow> string \<Rightarrow> ('w, unit) action" where
  "audited V config cert message =
     bind (audit_certificate V config (cert_id cert)) (\<lambda>ok. raise_if (\<not> ok) (CompatibilityProbeError message))"

definition live_result ::
  "certificate_config \<Rightarrow> string \<Rightarrow> publication_result \<Rightarrow> compatibility_probe_result \<Rightarrow> publication_result \<Rightarrow> rollback_result \<Rightarrow>
     live_probe_result" where
  "live_result cert ocid baseline offline renewed rolled =
     \<lparr>live_certificate_id = cert_id cert,
      live_evidence =
        \<lparr>ev_ocid = ocid, ev_initial_version = pub_version baseline, ev_promoted_version = pub_version renewed,
         ev_rollback_version = rolled_version rolled, ev_leaf_fingerprint = probed_leaf_fingerprint offline,
         ev_root_fingerprint = probed_root_fingerprint offline, ev_chain_bytes = probed_chain_bytes offline,
         ev_country_enforced = probed_country_enforced offline\<rparr>\<rparr>"

definition live_probe :: "'w services \<Rightarrow> app_config \<Rightarrow> certificate_config \<Rightarrow> int \<Rightarrow> ('w, live_probe_result) action" where
  "live_probe V config cert uid =
     seq (lift (require_live_test_environment config cert))
     (bind (publish V config (cert_id cert) PUBLISH) (\<lambda>baseline.
      bind (offline_probe V config cert uid) (\<lambda>offline.
      bind (renew V config (cert_id cert) True) (\<lambda>renewed.
      seq (audited V config cert ''manual TLS consumer did not present promoted CURRENT version'')
      (bind (rollback_certificate V config (cert_id cert)) (\<lambda>rolled.
       seq (audited V config cert ''manual TLS consumer did not present rolled-back CURRENT version'')
       (case certificate_ocid (oci_of cert) of
          None \<Rightarrow> raise (CompatibilityProbeError ''live compatibility probe did not obtain an OCI certificate OCID'')
        | Some ocid \<Rightarrow> return (live_result cert ocid baseline offline renewed rolled))))))))"

subsection \<open>The offline probe\<close>

text \<open>It touches neither the store nor OCI, and its result is of material that validates.\<close>

lemma inert_offline_probe [inert_intros]: "inert (offline_probe V config cert uid)"
  unfolding offline_probe_def probe_material_def validated_profile_def
  by (intro inert_intros) (auto intro: inert_intros split: if_splits)

definition profiled :: "libs \<Rightarrow> app_config \<Rightarrow> certificate_config \<Rightarrow> compatibility_probe_result \<Rightarrow> bool" where
  "profiled L config cert r \<longleftrightarrow>
     probed_certificate_id r = cert_id cert \<and>
     (\<exists>m chain. validated_material L config cert m (probed_leaf_fingerprint r) chain \<and>
        probed_root_fingerprint r = certificate_sha256 L (chain_root chain) \<and>
        probed_chain_bytes r = int (length (chain_cert_chain_pem chain)))"

lemma wp_validated_profile:
  "wp (validated_profile V config cert m) (\<lambda>(fp, chain) _. validated_material (run_libs V) config cert m fp chain) (\<lambda>_ _. True) w"
proof -
  have chain: "wp (locally (built_chain (run_disk V) (run_libs V) m cert (compatibility config)))
      (\<lambda>chain _. \<exists>content. build_oci_chain (run_libs V) content m cert (compatibility config) = Inr chain) (\<lambda>_ _. True) w1" for w1
    by (rule wp_locally)
      (auto simp: built_chain_def wp_bind wp_lift wp_def[of "file_outcome a b" for a b] split: prod.splits sum.splits)
  have handled: "(case if b then Some (raise e) else None of None \<Rightarrow> \<lambda>_. True | Some k \<Rightarrow> wp k Q (\<lambda>_ _. True)) w1" for b e Q w1
    by (simp add: wp_raise)
  show ?thesis
    unfolding validated_profile_def wp_try_except wp_bind
    by (rule wp_nowI)
      (auto simp: wp_lift wp_return wp_raise validated_material_def handled split: sum.splits intro!: wp_mono[OF chain])
qed

lemma wp_offline_probe: "wp (offline_probe V config cert uid) (\<lambda>r _. profiled (run_libs V) config cert r) (\<lambda>_ _. True) w"
proof -
  have profiled: "profiled L config cert \<lparr>probed_certificate_id = cert_id cert, probed_leaf_fingerprint = fp,
      probed_root_fingerprint = certificate_sha256 L (chain_root chain), probed_chain_bytes = int (length (chain_cert_chain_pem chain)),
      probed_country_enforced = b\<rparr>" if "validated_material L config cert m fp chain" for L m fp chain b
    using that unfolding profiled_def by auto
  have "wp (probe_material V config cert m) (\<lambda>r _. profiled (run_libs V) config cert r) (\<lambda>_ _. True) w1" for m w1
    unfolding probe_material_def wp_bind
    by (rule wp_mono[OF wp_validated_profile]) (use profiled in \<open>auto simp: wp_return\<close>)
  then show ?thesis
    unfolding offline_probe_def wp_bind by (rule wp_mono[OF wp_True]) auto
qed

subsection \<open>The live probe\<close>

context mutation_policy
begin

lemma keeps_live_probe:
  assumes V: "run_libs V = L"
  shows "keeps (lawful H d0 t0) (live_probe V config cert uid)"
  unfolding live_probe_def audited_def
  by (intro keeps_intros keeps_publish[OF V] keeps_renew[OF V] keeps_audit[OF reads] keeps_rollback[OF V]
      keeps_lawful_inert[OF inert_offline_probe])
    (simp add: publishes_def)

end

end
