(* ===== verification/Locking.thy ===== *)
theory Locking
  imports Models
begin

section \<open>The publisher lock\<close>

text \<open>
  \<open>locking.py\<close>: one publisher at a time on a host. The kernel's side is what \<open>flock(2)\<close>
  documents: a lock belongs to an open file description, an exclusive request that would block
  fails at once with \<open>BlockingIOError\<close> under \<open>LOCK_NB\<close>, and closing the description (also by
  the end of the process) releases it. The publishers are numbered; each has one
  \<open>AdvisoryLock\<close> on the same path, of which \<open>held_fd\<close> is the field \<open>_fd\<close>.
\<close>

subsection \<open>The operations\<close>

record host =
  open_fds :: "nat list"
  lock_owner :: "nat option"
  held_fd :: "nat \<Rightarrow> nat option"

definition fresh_fd :: "host \<Rightarrow> nat" where
  "fresh_fd h = Suc (foldr max (open_fds h) 0)"

text \<open>\<open>os.open\<close>, \<open>os.close\<close> and \<open>fcntl.flock\<close>.\<close>

definition os_open :: "host \<Rightarrow> nat \<times> host" where
  "os_open h = (fresh_fd h, h\<lparr>open_fds := fresh_fd h # open_fds h\<rparr>)"

definition os_close :: "nat \<Rightarrow> host \<Rightarrow> host" where
  "os_close fd h =
     h\<lparr>open_fds := filter (\<lambda>d. d \<noteq> fd) (open_fds h),
       lock_owner := (if lock_owner h = Some fd then None else lock_owner h)\<rparr>"

definition flock_ex_nb :: "nat \<Rightarrow> host \<Rightarrow> host option" where
  "flock_ex_nb fd h =
     (if lock_owner h = None \<or> lock_owner h = Some fd then Some (h\<lparr>lock_owner := Some fd\<rparr>) else None)"

definition flock_un :: "nat \<Rightarrow> host \<Rightarrow> host" where
  "flock_un fd h = h\<lparr>lock_owner := (if lock_owner h = Some fd then None else lock_owner h)\<rparr>"

text \<open>
  \<open>acquire\<close> and \<open>release\<close>; \<open>fault\<close> is the error of \<open>mkdir\<close> or \<open>open\<close>, when there is one.
\<close>

definition acquire :: "lib_exn option \<Rightarrow> nat \<Rightarrow> (host, exn, unit) prog" where
  "acquire fault i =
     (case fault of
        Some e \<Rightarrow> raise (Lib e)
      | None \<Rightarrow>
          (\<lambda>h. case os_open h of (fd, h1) \<Rightarrow>
             (case flock_ex_nb fd h1 of
                None \<Rightarrow> (Inl LockUnavailableError, os_close fd h1)
              | Some h2 \<Rightarrow> (Inr (), h2\<lparr>held_fd := (held_fd h2)(i := Some fd)\<rparr>))))"

definition release :: "nat \<Rightarrow> (host, exn, unit) prog" where
  "release i =
     (\<lambda>h. case held_fd h i of
        None \<Rightarrow> (Inr (), h)
      | Some fd \<Rightarrow> (Inr (), (os_close fd (flock_un fd h))\<lparr>held_fd := (held_fd h)(i := None)\<rparr>))"

text \<open>\<open>with AdvisoryLock(path): body\<close>.\<close>

definition with_lock :: "lib_exn option \<Rightarrow> nat \<Rightarrow> (host, exn, 'a) prog \<Rightarrow> (host, exn, 'a) prog" where
  "with_lock fault i body = seq (acquire fault i) (try_finally body (release i))"

text \<open>The end of a process without \<open>release\<close>: the kernel closes its descriptor.\<close>

definition dies :: "nat \<Rightarrow> host \<Rightarrow> host" where
  "dies i h =
     (case held_fd h i of None \<Rightarrow> h | Some fd \<Rightarrow> (os_close fd h)\<lparr>held_fd := (held_fd h)(i := None)\<rparr>)"

subsection \<open>Any interleaving of publishers\<close>

text \<open>A publisher that has the lock does not call \<open>acquire\<close> again (it uses the context manager once).\<close>

inductive lock_step :: "host \<Rightarrow> host \<Rightarrow> bool" where
  tries: "held_fd h i = None \<Longrightarrow> lock_step h (snd (acquire fault i h))"
| lets_go: "lock_step h (snd (release i h))"
| crashes: "lock_step h (dies i h)"

inductive_cases lock_stepE: "lock_step h h'"

inductive reachable :: "host \<Rightarrow> bool" where
  idle: "reachable \<lparr>open_fds = [], lock_owner = None, held_fd = (\<lambda>_. None)\<rparr>"
| later: "reachable h \<Longrightarrow> lock_step h h' \<Longrightarrow> reachable h'"

text \<open>Whoever holds a descriptor owns the lock with it, and it is open.\<close>

definition consistent :: "host \<Rightarrow> bool" where
  "consistent h \<longleftrightarrow>
     (\<forall>i fd. held_fd h i = Some fd \<longrightarrow> lock_owner h = Some fd \<and> fd \<in> set (open_fds h)) \<and>
     (\<forall>fd. lock_owner h = Some fd \<longrightarrow> (\<exists>i. held_fd h i = Some fd)) \<and>
     (\<forall>i j fd fd'. held_fd h i = Some fd \<longrightarrow> held_fd h j = Some fd' \<longrightarrow> i = j)"

lemma consistent_owner: "consistent h \<Longrightarrow> held_fd h i = Some fd \<Longrightarrow> lock_owner h = Some fd \<and> fd \<in> set (open_fds h)"
  by (simp add: consistent_def)

lemma consistent_holder: "consistent h \<Longrightarrow> lock_owner h = Some fd \<Longrightarrow> \<exists>i. held_fd h i = Some fd"
  by (simp add: consistent_def)

lemma consistent_exclusive: "consistent h \<Longrightarrow> held_fd h i = Some fd \<Longrightarrow> held_fd h j = Some fd' \<Longrightarrow> i = j"
  unfolding consistent_def by blast

lemma consistent_free: "consistent h \<Longrightarrow> lock_owner h = None \<Longrightarrow> held_fd h i = None"
  by (cases "held_fd h i") (auto dest: consistent_owner)

lemma foldr_max_ge: "x \<in> set xs \<Longrightarrow> x \<le> foldr max xs (0 :: nat)"
  by (induction xs) auto

lemma fresh_fd_new: "fresh_fd h \<notin> set (open_fds h)"
  by (auto simp: fresh_fd_def dest: foldr_max_ge)

lemma acquire_free:
  assumes "consistent h" and "lock_owner h = None"
  shows "acquire None i h = (Inr (), h\<lparr>open_fds := fresh_fd h # open_fds h, lock_owner := Some (fresh_fd h),
     held_fd := (held_fd h)(i := Some (fresh_fd h))\<rparr>)"
  using assms by (simp add: acquire_def os_open_def flock_ex_nb_def)

lemma acquire_taken:
  assumes "consistent h" and "lock_owner h = Some fd"
  shows "acquire None i h = (Inl LockUnavailableError, h)"
proof -
  have "fd \<noteq> fresh_fd h" using assms consistent_holder consistent_owner fresh_fd_new by metis
  moreover have "filter (\<lambda>d. d \<noteq> fresh_fd h) (open_fds h) = open_fds h"
    using fresh_fd_new by (auto simp: filter_id_conv)
  ultimately show ?thesis
    using assms(2) by (simp add: acquire_def os_open_def flock_ex_nb_def os_close_def)
qed

lemma consistent_acquire:
  assumes "consistent h" and "held_fd h i = None"
  shows "consistent (snd (acquire fault i h))"
proof (cases fault)
  case None
  then show ?thesis
  proof (cases "lock_owner h")
    case free: None
    with assms(1) have "held_fd h j = None" for j by (rule consistent_free)
    then show ?thesis using None acquire_free[OF assms(1) free] by (simp add: consistent_def)
  qed (use None assms in \<open>simp add: acquire_taken\<close>)
qed (use assms in \<open>simp add: acquire_def raise_def\<close>)

lemma consistent_dies: "consistent h \<Longrightarrow> consistent (dies i h)"
proof (cases "held_fd h i")
  case (Some fd)
  assume h: "consistent h"
  then have "held_fd h j = None" if "j \<noteq> i" for j
    using that Some consistent_exclusive by (metis not_None_eq)
  then show ?thesis
    using Some consistent_owner[OF h Some] by (auto simp: consistent_def dies_def os_close_def)
qed (simp add: dies_def)

lemma release_dies: "release i h = (Inr (), dies i h)"
  by (simp add: release_def dies_def os_close_def flock_un_def split: option.splits)

lemma reachable_consistent: "reachable h \<Longrightarrow> consistent h"
proof (induction rule: reachable.induct)
  case idle
  show ?case by (simp add: consistent_def)
next
  case (later h h')
  from later.hyps(2) later.IH show ?case
    by (cases rule: lock_step.cases) (simp_all add: consistent_acquire consistent_dies release_dies)
qed

subsection \<open>Under the lock\<close>

text \<open>\<open>leaves_lock m\<close>: the body leaves the lock and the descriptors alone.\<close>

definition leaves_lock :: "(host, exn, 'a) prog \<Rightarrow> bool" where
  "leaves_lock m \<longleftrightarrow> (\<forall>h. snd (m h) = h)"

lemma with_lock_taken:
  "consistent h \<Longrightarrow> lock_owner h = Some fd \<Longrightarrow> with_lock None i body h = (Inl LockUnavailableError, h)"
  by (simp add: with_lock_def run_simps acquire_taken)

lemma with_lock_free:
  assumes "consistent h" and "lock_owner h = None" and "leaves_lock body"
  shows "with_lock None i body h =
     (fst (body (h\<lparr>open_fds := fresh_fd h # open_fds h, lock_owner := Some (fresh_fd h),
        held_fd := (held_fd h)(i := Some (fresh_fd h))\<rparr>)), h)"
proof -
  let ?h = "h\<lparr>open_fds := fresh_fd h # open_fds h, lock_owner := Some (fresh_fd h),
     held_fd := (held_fd h)(i := Some (fresh_fd h))\<rparr>"
  have body: "body ?h = (fst (body ?h), ?h)"
    using assms(3) by (metis leaves_lock_def prod.collapse)
  have closed: "filter (\<lambda>d. d \<noteq> fresh_fd h) (open_fds h) = open_fds h"
    using fresh_fd_new by (auto simp: filter_id_conv)
  have "(held_fd h)(i := None) = held_fd h"
    using consistent_free[OF assms(1,2)] by (simp add: fun_upd_idem)
  then have "dies i ?h = h"
    using assms(2) closed by (cases h) (simp add: dies_def os_close_def)
  then show ?thesis
    unfolding with_lock_def run_seq acquire_free[OF assms(1,2)] prod.case sum.case run_try_finally
    by (subst body) (simp add: release_dies)
qed

subsection \<open>The lock as an abstract mutex\<close>

text \<open>The contract: at most one publisher is inside, it enters when nobody is, and leaves.\<close>

inductive mutex_step :: "nat option \<Rightarrow> nat option \<Rightarrow> bool" where
  enters: "mutex_step None (Some i)"
| leaves: "mutex_step (Some i) None"
| stays: "mutex_step s s"

text \<open>\<open>inside h s\<close>: exactly the publisher \<open>s\<close>, if any, holds the lock of the host.\<close>

definition inside :: "host \<Rightarrow> nat option \<Rightarrow> bool" where
  "inside h s \<longleftrightarrow> (\<forall>i. s = Some i \<longleftrightarrow> held_fd h i \<noteq> None)"

lemma inside_acquire:
  assumes "consistent h" and "inside h s" and "held_fd h i = None"
  shows "\<exists>s'. mutex_step s s' \<and> inside (snd (acquire fault i h)) s'"
proof (cases fault)
  case None
  show ?thesis
  proof (cases "lock_owner h")
    case free: None
    then have "held_fd h j = None" for j using assms(1) by (simp add: consistent_free)
    then have "s = None" using assms(2) by (cases s) (auto simp: inside_def)
    moreover have "inside (snd (acquire None i h)) (Some i)"
      using \<open>\<And>j. held_fd h j = None\<close> acquire_free[OF assms(1) free] by (simp add: inside_def)
    ultimately show ?thesis using None enters by blast
  qed (use None assms stays in \<open>auto simp: acquire_taken\<close>)
qed (use assms stays in \<open>auto simp: acquire_def raise_def\<close>)

lemma inside_dies: "consistent h \<Longrightarrow> inside h s \<Longrightarrow> \<exists>s'. mutex_step s s' \<and> inside (dies i h) s'"
proof (cases "held_fd h i")
  case (Some fd)
  assume h: "consistent h" "inside h s"
  then have "s = Some i" using Some by (simp add: inside_def)
  moreover have "held_fd (dies i h) j = None" for j
    using h Some \<open>s = Some i\<close> by (cases "j = i") (auto simp: dies_def os_close_def inside_def)
  ultimately show ?thesis using leaves by (auto simp: inside_def)
qed (use stays in \<open>auto simp: dies_def\<close>)

lemma inside_step: "consistent h \<Longrightarrow> inside h s \<Longrightarrow> lock_step h h' \<Longrightarrow> \<exists>s'. mutex_step s s' \<and> inside h' s'"
  by (erule lock_stepE) (simp_all add: inside_acquire inside_dies release_dies)

subsection \<open>Properties\<close>

text \<open>C30
  Whatever publishers start, stop or die in whatever order, at most one of them holds the lock,
  and its descriptor is the open one that owns the lock.\<close>

theorem lock_exclusive:
  assumes "reachable h" and "held_fd h i = Some fd" and "held_fd h j = Some fd'"
  shows "i = j \<and> fd = fd' \<and> lock_owner h = Some fd \<and> fd \<in> set (open_fds h)"
  using reachable_consistent[OF assms(1)] consistent_exclusive[OF _ assms(2,3)] consistent_owner[OF _ assms(2)]
    assms(2,3) by auto

definition one_inside :: host where
  "one_inside = snd (acquire None 7 \<lparr>open_fds = [], lock_owner = None, held_fd = (\<lambda>_. None)\<rparr>)"

lemma one_inside_reachable: "reachable one_inside"
  unfolding one_inside_def by (rule later[OF idle tries]) simp

lemma one_inside_held: "held_fd one_inside 7 = Some 1"
  by (simp add: one_inside_def acquire_def os_open_def flock_ex_nb_def fresh_fd_def)

theorem lock_exclusive_witness: "lock_owner one_inside = Some 1 \<and> 1 \<in> set (open_fds one_inside)"
  using lock_exclusive[OF one_inside_reachable one_inside_held one_inside_held] by simp

text \<open>The lock implements a mutex: seen as who is inside, every attempt, release and death of a
  publisher is a step of the abstract mutex (it enters when nobody is inside, leaves, or nothing
  changes), from every state that can be reached.\<close>

theorem lock_refines_mutex:
  assumes "reachable h" and "inside h s" and "lock_step h h'"
  shows "\<exists>s'. mutex_step s s' \<and> inside h' s'"
  by (rule inside_step[OF reachable_consistent[OF assms(1)] assms(2,3)])

theorem lock_refines_mutex_witness: "\<exists>s'. mutex_step (Some 7) s' \<and> inside (dies 7 one_inside) s'"
proof -
  have "inside one_inside (Some 7)"
    by (simp add: inside_def one_inside_def acquire_def os_open_def flock_ex_nb_def)
  then show ?thesis by (rule lock_refines_mutex[OF one_inside_reachable _ crashes])
qed

text \<open>A publisher that finds the lock free runs its body under it and leaves the host as it was,
  whether the body returns or raises; one that finds it taken raises \<open>LockUnavailableError\<close>
  without running the body and without leaking a descriptor.\<close>

theorem with_lock_outcome:
  assumes "reachable h" and "leaves_lock body"
  shows "with_lock None i body h =
     (case lock_owner h of
        Some _ \<Rightarrow> (Inl LockUnavailableError, h)
      | None \<Rightarrow> (fst (body (snd (acquire None i h))), h))"
  using with_lock_free[OF reachable_consistent[OF assms(1)] _ assms(2)] with_lock_taken[OF reachable_consistent[OF assms(1)]]
    acquire_free[OF reachable_consistent[OF assms(1)]]
  by (auto split: option.splits)

theorem with_lock_outcome_witness: "with_lock None 3 (return ()) one_inside = (Inl LockUnavailableError, one_inside)"
proof -
  have "leaves_lock (return ())" by (simp add: leaves_lock_def return_def)
  moreover have "lock_owner one_inside = Some 1"
    by (simp add: one_inside_def acquire_def os_open_def flock_ex_nb_def fresh_fd_def)
  ultimately show ?thesis using with_lock_outcome[OF one_inside_reachable, of "return ()" 3] by simp
qed

end
