(* ===== verification/Cli.thy ===== *)
theory Cli
  imports Operator PreflightService CompatibilityProbe Locking
begin

section \<open>The command line\<close>

text \<open>
  \<open>cli.py\<close>: the commands of \<open>oci-acme\<close>, from the parsed arguments to the exit status. What a command
  prints is part of its value; the parsing of the arguments and the printing are not modelled, and the
  set-up of the logging is in theory Logging. The commands that may change OCI or the state store run under the lock
  of the host. Closing a file or a connection has no effect the program can see.
\<close>

record 'w console =
  service :: "'w services"
  host_system :: "'w operating_system"
  host_probes :: "'w probes"
  schemas :: schema_libs
  printing :: printers
  state_connection :: "'w \<Rightarrow> lib_exn option \<times> 'w"
  print_float :: "rat \<Rightarrow> string"
  process_id :: nat
  json_schema :: json
  lock_host :: "'w \<Rightarrow> host"
  set_lock_host :: "host \<Rightarrow> 'w \<Rightarrow> 'w"
  lock_fault :: "'w \<Rightarrow> lib_exn option \<times> 'w"
  publisher_number :: nat

datatype printed = Line string | Reported json

datatype command =
    Init string bool
  | ConfigValidate string bool
  | ConfigAddCertificate string new_certificate bool
  | ConfigShowEffective string
  | Diagnose string "string option"
  | MetricsCollect string "string option"
  | ServiceStatus
  | Check string "string option"
  | Onboard string "string option"
  | StagingVerify string string string
  | GenerateSchema string
  | Probe string string bool
  | StatusCommand string bool
  | AuditCommand string string
  | RollbackCommand string string
  | RetentionCommand string string
  | BootstrapCommand string string
  | RenewCommand string "string option" bool
  | PublishCommand string string
  | ReconcileCommand string string

type_synonym 'w cli = "('w, printed list \<times> exit_code) action"

subsection \<open>The parts of the console\<close>

definition files_of :: "'w console \<Rightarrow> 'w mount" where
  "files_of C = run_disk (service C)"

definition configured :: "'w console \<Rightarrow> string \<Rightarrow> ('w, app_config) action" where
  "configured C p = locally (load_config (files_of C) (run_libs (service C)) (schemas C) p)"

definition success :: "printed list \<Rightarrow> 'w cli" where
  "success out = return (out, Exit_SUCCESS)"

definition publisher_uid :: "'w console \<Rightarrow> exn + int" where
  "publisher_uid C =
     (case account (host_system C) of
        None \<Rightarrow> Inl (ChallengeFileError ''publisher account is not available'')
      | Some (uid, _) \<Rightarrow> Inr uid)"

text \<open>\<open>PublicationService()\<close>: the constructor looks up the owner of the material.\<close>

definition publication_service :: "'w console \<Rightarrow> ('w, 'w services) action" where
  "publication_service C =
     bind (lift (publisher_uid C)) (\<lambda>uid. return ((service C)\<lparr>owner_uid := uid\<rparr>))"

definition configured_metrics :: "'w console \<Rightarrow> app_config \<Rightarrow> ('w, unit) action" where
  "configured_metrics C config =
     write_configured_metrics (run_env (service C)) (files_of C) (run_libs (service C)) (print_float C) (process_id C) config"

subsection \<open>Commands that read\<close>

definition validate_config_command :: "'w console \<Rightarrow> string \<Rightarrow> bool \<Rightarrow> 'w cli" where
  "validate_config_command C p as_json =
     bind (configured C p) (\<lambda>config.
     seq (log_event ''CONFIG_VALIDATED'' [])
     (success
        [if as_json
         then Reported (JDict
                [(''result'', JStr ''CONFIG_VALIDATED''), (''schema_version'', JInt (schema_version config)),
                 (''environment'', JStr (environment_text (environment_of (global_of config)))),
                 (''certificate_count'', JInt (int (length (certificates config))))])
         else Line ''configuration valid'']))"

definition initialize_config :: "'w console \<Rightarrow> string \<Rightarrow> bool \<Rightarrow> 'w cli" where
  "initialize_config C directory dry_run =
     bind (locally (initialize_configuration (files_of C) (host_system C) directory dry_run)) (\<lambda>names.
       success [Reported (JDict
         [(''config_directory'', JStr directory), (''files'', JList (map JStr names)),
          (''result'', JStr (if dry_run then ''CONFIG_INIT_DRY_RUN'' else ''CONFIG_INITIALIZED''))])])"

definition show_effective_config :: "'w console \<Rightarrow> string \<Rightarrow> 'w cli" where
  "show_effective_config C p =
     bind (locally (effective_configuration (files_of C) (run_libs (service C)) (schemas C) (printing C) p)) (\<lambda>document.
       success [Reported (JDict document)])"

definition add_certificate_config :: "'w console \<Rightarrow> string \<Rightarrow> new_certificate \<Rightarrow> bool \<Rightarrow> 'w cli" where
  "add_certificate_config C directory n dry_run =
     bind (locally (add_certificate (files_of C) (host_system C) (run_libs (service C)) (printing C) directory n dry_run)) (\<lambda>p.
       success [Reported (JDict
         [(''certificate_path'', JStr p),
          (''result'', JStr (if dry_run then ''CERTIFICATE_CONFIG_DRY_RUN'' else ''CERTIFICATE_CONFIG_ADDED''))])])"

definition diagnose :: "'w console \<Rightarrow> string \<Rightarrow> string option \<Rightarrow> 'w cli" where
  "diagnose C p output =
     bind (configured C p) (\<lambda>config.
       case output of
         None \<Rightarrow>
           bind (locally (diagnose_configuration (files_of C) (run_libs (service C)) (schemas C) p)) (\<lambda>document.
             success [Reported (JDict document)])
       | Some target \<Rightarrow>
           bind (support_bundle (run_env (service C)) (state_connection C) (files_of C) (host_system C)
                   (run_libs (service C)) (schemas C) p config) (\<lambda>bundle.
           seq (locally (write_support_bundle (files_of C) (printing C) target bundle))
             (success [Reported (JDict [(''output'', JStr target), (''result'', JStr ''SUPPORT_BUNDLE_WRITTEN'')])])))"

definition metrics_collect :: "'w console \<Rightarrow> string \<Rightarrow> string option \<Rightarrow> 'w cli" where
  "metrics_collect C p output =
     bind (configured C p) (\<lambda>config.
     bind (collect_read_only_metrics (run_env (service C)) (state_connection C) (files_of C) (run_libs (service C)) config) (\<lambda>metrics.
       case output of
         None \<Rightarrow> bind (lift (render_all (print_float C) metrics)) (\<lambda>content. success [Line content])
       | Some target \<Rightarrow>
           seq (locally (write_metrics (files_of C) (print_float C) (process_id C) (components target) metrics))
             (success [Reported (JDict [(''output'', JStr target), (''result'', JStr ''METRICS_WRITTEN'')])])))"

definition service_status_command :: "'w console \<Rightarrow> 'w cli" where
  "service_status_command C =
     bind (locally (service_status (host_system C))) (\<lambda>units. success [Reported (JList units)])"

text \<open>\<open>print(f"\{result['certificate_id']\}: \{result['state']\}")\<close>; both values are texts.\<close>

definition item_text :: "(string \<times> json) list \<Rightarrow> string \<Rightarrow> string" where
  "item_text item k = (case json_get item k of JStr s \<Rightarrow> s | _ \<Rightarrow> [])"

definition status_command :: "'w console \<Rightarrow> string \<Rightarrow> bool \<Rightarrow> 'w cli" where
  "status_command C p as_json =
     bind (configured C p) (\<lambda>config.
     bind (status_items (run_env (service C)) (state_connection C) (files_of C) (run_libs (service C)) config) (\<lambda>items.
       success
         (if as_json then [Reported (JList (map JDict items))]
          else map (\<lambda>item. Line (item_text item ''certificate_id'' @ '': '' @ item_text item ''state'')) items)))"

definition selected_certificates :: "app_config \<Rightarrow> string option \<Rightarrow> certificate_config list" where
  "selected_certificates config cid =
     (case cid of None \<Rightarrow> certificates config | Some c \<Rightarrow> filter (\<lambda>cert. cert_id cert = c) (certificates config))"

definition preflight :: "'w console \<Rightarrow> string \<Rightarrow> string option \<Rightarrow> 'w cli" where
  "preflight C p cid =
     bind (configured C p) (\<lambda>config.
     let certs = selected_certificates config cid
     in seq (raise_if (certs = []) (CompatibilityProbeError ''configured certificate id was not found''))
        (seq (if environment_of (global_of config) = PRODUCTION
              then for_each certs (\<lambda>cert. locally (require_qualified_profile (files_of C) (run_json (service C)) config cert))
              else return ())
        (seq (operational_preflight (service C) (host_probes C) config certs)
        (success [Reported (JDict
           [(''certificate_ids'', JList (map (\<lambda>cert. JStr (cert_id cert)) certs)),
            (''result'', JStr ''PREFLIGHT_SUCCESS'')])]))))"

definition onboard :: "'w console \<Rightarrow> string \<Rightarrow> string option \<Rightarrow> 'w cli" where
  "onboard C p cid =
     bind (preflight C p cid) (\<lambda>(out, _).
       success (out @ [Reported (JDict
         [(''result'', JStr ''ONBOARDING_PREREQUISITES_PASSED''),
          (''next_action'',
             JStr ''Review the staging result, then run an explicit bootstrap or issuance command.'')])]))"

text \<open>\<open>open(path, "w")\<close>: a file that exists is emptied, wherever the path leads.\<close>

definition open_write :: "int \<Rightarrow> 32 word \<Rightarrow> path \<Rightarrow> path syscall" where
  "open_write uid mode p f =
     (case resolve f True p of
        Inl e \<Rightarrow> Inl e
      | Inr q \<Rightarrow>
          (case node_at f q of
             None \<Rightarrow> Inr (q, AList.update q (Regular uid mode []) f)
           | Some (Regular u m _) \<Rightarrow> Inr (q, AList.update q (Regular u m []) f)
           | Some (Directory _ _) \<Rightarrow> Inl EISDIR
           | Some (Symlink _ _) \<Rightarrow> Inl ELOOP))"

definition generate_schema :: "'w console \<Rightarrow> string \<Rightarrow> 'w cli" where
  "generate_schema C output =
     (let K = files_of C
      in seq (locally (bind (sys K (open_write (euid K) (created_mode K 0x1B6) (components output))) (\<lambda>fd.
                write_all K fd (json_indented (printing C) (json_schema C) @ [CHR 0x0A]))))
           (success []))"

subsection \<open>Commands that change OCI or the state store\<close>

definition publish_command :: "'w console \<Rightarrow> string \<Rightarrow> string \<Rightarrow> operation_type \<Rightarrow> 'w cli" where
  "publish_command C p cid ty =
     bind (configured C p) (\<lambda>config.
     bind (publication_service C) (\<lambda>V.
     bind (publish V config cid ty) (\<lambda>result.
     seq (configured_metrics C config)
     (success [Reported (JDict
        [(''certificate_id'', JStr (pub_certificate_id result)), (''changed'', JBool (pub_changed result)),
         (''current_version_number'', JInt (pub_version result)), (''result'', JStr ''OCI_CURRENT_CONFIRMED'')])]))))"

definition renewal_exit_code :: "exn list \<Rightarrow> exit_code" where
  "renewal_exit_code errors =
     (if list_ex is_PreflightError errors then Exit_HTTP01_PREFLIGHT_FAILED
      else if list_ex is_AcmeOperationError errors then Exit_ACME_FAILED
      else if list_ex (\<lambda>e. is_CertificateStoreError e \<or> is_CertificateValidationError e) errors
      then Exit_X509_VALIDATION_FAILED
      else if list_ex is_AuditError errors then Exit_AUDIT_ENFORCE_FAILED
      else if list_ex is_RollbackError errors then Exit_ROLLBACK_FAILED
      else Exit_OCI_IMPORT_FAILED)"

definition renew_batch :: "'w services \<Rightarrow> app_config \<Rightarrow> string option \<Rightarrow> bool \<Rightarrow> ('w, renewal_batch) action" where
  "renew_batch V config cid force =
     (case cid of
        Some c \<Rightarrow>
          bind (renew V config c force) (\<lambda>result.
            return \<lparr>batch_publications = [result], batch_failures = []\<rparr>)
      | None \<Rightarrow> renew_all V config)"

definition renew_command :: "'w console \<Rightarrow> string \<Rightarrow> string option \<Rightarrow> bool \<Rightarrow> 'w cli" where
  "renew_command C p cid force =
     bind (configured C p) (\<lambda>config.
     bind (publication_service C) (\<lambda>V.
     bind (renew_batch V config cid force) (\<lambda>batch.
     seq (configured_metrics C config)
     (let results = batch_publications batch; failures = batch_failures batch
      in return
        ([Reported (JDict
            [(''certificate_ids'', JList (map (\<lambda>r. JStr (pub_certificate_id r)) results)),
             (''changed'', JBool (list_ex pub_changed results)),
             (''current_version_numbers'', JList (map (\<lambda>r. JInt (pub_version r)) results)),
             (''failed_certificate_ids'', JList (map (\<lambda>x. JStr (fst x)) failures)),
             (''result'', JStr ''RENEW_COMPLETED'')])],
         if failures = [] then Exit_SUCCESS else renewal_exit_code (map snd failures))))))"

definition bootstrap_command :: "'w console \<Rightarrow> string \<Rightarrow> string \<Rightarrow> 'w cli" where
  "bootstrap_command C p cid =
     bind (configured C p) (\<lambda>config.
     bind (publication_service C) (\<lambda>V.
     bind (bootstrap V config cid) (\<lambda>result.
     seq (configured_metrics C config)
     (success [Reported (JDict
        [(''certificate_id'', JStr (boot_certificate_id result)),
         (''current_version_number'', JInt (boot_version result)),
         (''oci_certificate_ocid'', JStr (boot_ocid result)), (''result'', JStr ''BOOTSTRAP_COMPLETED'')])]))))"

definition audit_command :: "'w console \<Rightarrow> string \<Rightarrow> string \<Rightarrow> 'w cli" where
  "audit_command C p cid =
     bind (configured C p) (\<lambda>config.
     bind (publication_service C) (\<lambda>V.
     bind (audit_certificate V config cid) (\<lambda>ok.
     seq (configured_metrics C config)
     (bind (lift (configured_certificate config cid)) (\<lambda>cert.
      let observe_only = (audit_mode_of (audit_of cert) = OBSERVE)
      in return
        ([Reported (JDict
            [(''certificate_id'', JStr cid),
             (''result'', JStr (if ok then ''AUDIT_SUCCESS''
                               else if observe_only then ''AUDIT_FAILED_OBSERVE'' else ''AUDIT_FAILED_ENFORCE''))])],
         if ok \<or> observe_only then Exit_SUCCESS else Exit_AUDIT_ENFORCE_FAILED))))))"

definition rollback_command :: "'w console \<Rightarrow> string \<Rightarrow> string \<Rightarrow> 'w cli" where
  "rollback_command C p cid =
     bind (configured C p) (\<lambda>config.
     bind (publication_service C) (\<lambda>V.
     bind (rollback_certificate V config cid) (\<lambda>result.
     seq (configured_metrics C config)
     (success [Reported (JDict
        [(''certificate_id'', JStr (rolled_certificate_id result)), (''result'', JStr ''ROLLBACK_SUCCESS''),
         (''version_number'', JInt (rolled_version result))])]))))"

definition retention_command :: "'w console \<Rightarrow> string \<Rightarrow> string \<Rightarrow> 'w cli" where
  "retention_command C p cid =
     bind (configured C p) (\<lambda>config.
     bind (publication_service C) (\<lambda>V.
     bind (retention V config cid) (\<lambda>result.
     seq (configured_metrics C config)
     (success [Reported (JDict
        [(''certificate_id'', JStr (retained_certificate_id result)), (''result'', JStr ''RETENTION_SCHEDULED''),
         (''version_numbers'', JList (map JInt (scheduled_version_numbers result)))])]))))"

definition profile_pairs :: "compatibility_probe_result \<Rightarrow> (string \<times> json) list" where
  "profile_pairs r =
     [(''certificate_id'', JStr (probed_certificate_id r)), (''chain_bytes'', JInt (probed_chain_bytes r)),
      (''documented_subject_country_enforced'', JBool (probed_country_enforced r)),
      (''leaf_fingerprint'', JStr (probed_leaf_fingerprint r)), (''root_fingerprint'', JStr (probed_root_fingerprint r))]"

definition live_pairs :: "live_probe_result \<Rightarrow> (string \<times> json) list" where
  "live_pairs r =
     (let e = live_evidence r
      in [(''certificate_id'', JStr (live_certificate_id r)), (''chain_bytes'', JInt (ev_chain_bytes e)),
          (''documented_subject_country_enforced'', JBool (ev_country_enforced e)),
          (''leaf_fingerprint'', JStr (ev_leaf_fingerprint e)), (''root_fingerprint'', JStr (ev_root_fingerprint e)),
          (''initial_version_number'', JInt (ev_initial_version e)), (''oci_certificate_ocid'', JStr (ev_ocid e)),
          (''promoted_version_number'', JInt (ev_promoted_version e)), (''result'', JStr ''COMPATIBILITY_LIVE_PASSED''),
          (''rollback_version_number'', JInt (ev_rollback_version e))])"

definition compatibility_probe :: "'w console \<Rightarrow> string \<Rightarrow> string \<Rightarrow> bool \<Rightarrow> 'w cli" where
  "compatibility_probe C p cid live =
     bind (configured C p) (\<lambda>config.
     case filter (\<lambda>cert. cert_id cert = cid) (certificates config) of
       [] \<Rightarrow> raise (CompatibilityProbeError ''configured certificate id was not found'')
     | cert # _ \<Rightarrow>
         if live then
           seq (lift (require_live_test_environment config cert))
           (bind (lift (publisher_uid C)) (\<lambda>uid.
            bind (live_probe ((service C)\<lparr>owner_uid := uid\<rparr>) config cert uid) (\<lambda>r. success [Reported (JDict (live_pairs r))])))
         else
           bind (lift (publisher_uid C)) (\<lambda>uid.
           bind (offline_probe (service C) config cert uid) (\<lambda>r.
             success [Reported (JDict (profile_pairs r @ [(''result'', JStr ''COMPATIBILITY_OFFLINE_PASSED'')]))])))"

definition staging_verify :: "'w console \<Rightarrow> string \<Rightarrow> string \<Rightarrow> string \<Rightarrow> 'w cli" where
  "staging_verify C p cid evidence_output =
     bind (configured C p) (\<lambda>config.
     bind (lift (configured_certificate config cid)) (\<lambda>cert.
     seq (lift (require_live_test_environment config cert))
     (bind (lift (publisher_uid C)) (\<lambda>uid.
      bind (live_probe ((service C)\<lparr>owner_uid := uid\<rparr>) config cert uid) (\<lambda>r.
      bind (now_utc (run_env (service C))) (\<lambda>now.
      seq (locally (write_evidence (files_of C) (run_json (service C)) now evidence_output cert (live_evidence r)))
      (success [Reported (JDict
         [(''certificate_id'', JStr (cert_id cert)), (''evidence_path'', JStr evidence_output),
          (''promoted_version_number'', JInt (ev_promoted_version (live_evidence r))),
          (''result'', JStr ''STAGING_EVIDENCE_WRITTEN''),
          (''rollback_version_number'', JInt (ev_rollback_version (live_evidence r)))])])))))))"

subsection \<open>The lock and the dispatch\<close>

text \<open>A program on the host's descriptors, and \<open>with AdvisoryLock(...): body\<close>; \<open>lock_fault\<close> is the error of
  creating the directory or opening the file, when there is one.\<close>

definition on_host :: "'w console \<Rightarrow> (host, exn, 'a) prog \<Rightarrow> ('w, 'a) action" where
  "on_host C m =
     (\<lambda>w. case m (lock_host C (outside w)) of (r, h) \<Rightarrow> (r, w\<lparr>outside := set_lock_host C h (outside w)\<rparr>))"

definition under_lock :: "'w console \<Rightarrow> ('w, 'a) action \<Rightarrow> ('w, 'a) action" where
  "under_lock C body =
     bind (external (lock_fault C)) (\<lambda>fault.
     seq (on_host C (acquire fault (publisher_number C)))
       (try_finally body (on_host C (release (publisher_number C)))))"

fun perform :: "'w console \<Rightarrow> command \<Rightarrow> 'w cli" where
  "perform C (Init d dry_run) = initialize_config C d dry_run"
| "perform C (ConfigValidate p as_json) = validate_config_command C p as_json"
| "perform C (ConfigAddCertificate d n dry_run) = add_certificate_config C d n dry_run"
| "perform C (ConfigShowEffective p) = show_effective_config C p"
| "perform C (Diagnose p output) = diagnose C p output"
| "perform C (MetricsCollect p output) = metrics_collect C p output"
| "perform C ServiceStatus = service_status_command C"
| "perform C (Check p cid) = preflight C p cid"
| "perform C (Onboard p cid) = onboard C p cid"
| "perform C (StagingVerify p cid output) = under_lock C (staging_verify C p cid output)"
| "perform C (GenerateSchema output) = generate_schema C output"
| "perform C (Probe p cid live) =
     (if live then under_lock C (compatibility_probe C p cid True) else compatibility_probe C p cid False)"
| "perform C (StatusCommand p as_json) = status_command C p as_json"
| "perform C (AuditCommand p cid) = under_lock C (audit_command C p cid)"
| "perform C (RollbackCommand p cid) = under_lock C (rollback_command C p cid)"
| "perform C (RetentionCommand p cid) = under_lock C (retention_command C p cid)"
| "perform C (BootstrapCommand p cid) = under_lock C (bootstrap_command C p cid)"
| "perform C (RenewCommand p cid force) = under_lock C (renew_command C p cid force)"
| "perform C (PublishCommand p cid) = under_lock C (publish_command C p cid PUBLISH)"
| "perform C (ReconcileCommand p cid) = under_lock C (publish_command C p cid RECONCILE)"

text \<open>The \<open>except\<close> clauses of \<open>main\<close>: the code of the event, the line that is printed and the exit code.\<close>

definition expected_failure :: "exn \<Rightarrow> (string \<times> string \<times> exit_code) option" where
  "expected_failure e =
     (case e of
        ConfigurationError message \<Rightarrow> Some (''CONFIGURATION_INVALID'', message, Exit_CONFIGURATION_INVALID)
      | LockUnavailableError \<Rightarrow>
          Some (''CONFIGURATION_INVALID'', ''publisher lock is already held'', Exit_LOCKED_OR_TEMPORARY_FAILURE)
      | _ \<Rightarrow>
          if is_CertificateStoreError e \<or> is_CertificateValidationError e
          then Some (''X509_VALIDATION_FAILED'', ''local certificate validation failed'', Exit_X509_VALIDATION_FAILED)
          else if is_PreflightError e
          then Some (''HTTP01_PREFLIGHT_FAILED'', ''HTTP-01 preflight failed'', Exit_HTTP01_PREFLIGHT_FAILED)
          else if is_AcmeOperationError e then Some (''ACME_FAILED'', ''ACME operation failed'', Exit_ACME_FAILED)
          else if is_AuditError e then Some (''AUDIT_ENFORCE_FAILED'', ''TLS audit failed'', Exit_AUDIT_ENFORCE_FAILED)
          else if is_RollbackError e then Some (''ROLLBACK_FAILED'', ''OCI rollback failed'', Exit_ROLLBACK_FAILED)
          else if is_CompatibilityProbeError e
          then Some (''OCI_CERTIFICATE_PROFILE_INCOMPATIBLE'', ''OCI_CERTIFICATE_PROFILE_INCOMPATIBLE'',
                     Exit_OCI_CERTIFICATE_PROFILE_INCOMPATIBLE)
          else if is_OciAuthenticationError e \<or> is_OciCertificateError e \<or> is_ReconciliationError e \<or> is_PublicationServiceError e
          then Some (''OCI_IMPORT_FAILED'', ''OCI publication failed'', Exit_OCI_IMPORT_FAILED)
          else None)"

text \<open>\<open>parser.error\<close> ends the process with status 2 before anything is done.\<close>

definition usage_error :: "command \<Rightarrow> bool" where
  "usage_error cmd = (case cmd of RenewCommand _ None True \<Rightarrow> True | _ \<Rightarrow> False)"

definition main :: "'w console \<Rightarrow> command \<Rightarrow> ('w, printed list \<times> int) action" where
  "main C cmd =
     (if usage_error cmd then return ([], 2)
      else
        try_except (bind (perform C cmd) (\<lambda>(out, code). return (out, exit_value code)))
          (\<lambda>e. case expected_failure e of
                 None \<Rightarrow> None
               | Some (event, message, code) \<Rightarrow>
                   Some (seq (log_event ''OPERATION_FAILED'' event) (return ([Line message], exit_value code)))))"

end
