(* ===== verification/CliLaws.thy ===== *)
theory CliLaws
  imports Cli
begin

section \<open>The laws of the commands\<close>

text \<open>
  What holds of every command: the mutations it sends to OCI are those that the policy of the
  configuration it loaded allows, the database moves by lifecycle steps, a command that changes
  something does nothing while another publisher holds the lock, and the exit status says how it
  ended.
\<close>

subsection \<open>What the console relies on\<close>

text \<open>The descriptors of the host and the files are different parts of the outside.\<close>

definition console_law :: "'w console \<Rightarrow> bool" where
  "console_law C \<longleftrightarrow>
     mount_law (files_of C) \<and>
     (\<forall>h w. lock_host C (set_lock_host C h w) = h \<and> disk (files_of C) (set_lock_host C h w) = disk (files_of C) w) \<and>
     (\<forall>w. lock_host C (snd (lock_fault C w)) = lock_host C w \<and> disk (files_of C) (snd (lock_fault C w)) = disk (files_of C) w)"

text \<open>The configuration of a command that runs under the lock.\<close>

fun mutating_config :: "command \<Rightarrow> string option" where
  "mutating_config (StagingVerify p _ _) = Some p"
| "mutating_config (Probe p _ live) = (if live then Some p else None)"
| "mutating_config (AuditCommand p _) = Some p"
| "mutating_config (RollbackCommand p _) = Some p"
| "mutating_config (RetentionCommand p _) = Some p"
| "mutating_config (BootstrapCommand p _) = Some p"
| "mutating_config (RenewCommand p _ _) = Some p"
| "mutating_config (PublishCommand p _) = Some p"
| "mutating_config (ReconcileCommand p _) = Some p"
| "mutating_config _ = None"

definition command_config :: "'w console \<Rightarrow> fs \<Rightarrow> string \<Rightarrow> exn + app_config" where
  "command_config C f p = config_in (run_libs (service C)) (schemas C) f p"

text \<open>A command sends a mutation only if it runs under the lock and the policy of its configuration
  justifies it.\<close>

definition command_guard :: "'w console \<Rightarrow> command \<Rightarrow> fs \<Rightarrow> io_entry list \<Rightarrow> io_entry \<Rightarrow> bool" where
  "command_guard C cmd f before e \<longleftrightarrow>
     (is_mutation (fst e) \<longrightarrow>
        (\<exists>p config. mutating_config cmd = Some p \<and> command_config C f p = Inr config \<and>
           batch_guard (run_libs (service C)) config before e))"

lemma lets_reads_command: "lets_reads (command_guard C cmd f)"
  by (simp add: lets_reads_def command_guard_def)

lemma batch_guard_part: "batch_guard L config pre e \<Longrightarrow> batch_guard L config (io @ pre) e"
  unfolding batch_guard_def by (blast intro: config_guard_part)

subsection \<open>Commands that read\<close>

lemma inert_configured [inert_intros]: "inert (configured C p)"
  unfolding configured_def by (intro inert_intros)

lemma inert_certificate_metrics: "inert (certificate_metrics env K L config now cert)"
  unfolding certificate_metrics_def Let_def certificate_state_def certificate_days_remaining_def known_oci_versions_def
    operation_counts_def average_completed_operation_durations_def
  by (intro inert_intros)

lemma inert_collect_metrics [inert_intros]: "inert (collect_metrics env K L config)"
  unfolding collect_metrics_def by (intro inert_intros inert_certificate_metrics)

lemma inert_read_only_metrics [inert_intros]: "inert (collect_read_only_metrics env connect K L config)"
  unfolding collect_read_only_metrics_def
  by (intro inert_intros) (auto intro: inert_return split: if_splits)

lemma inert_support_bundle [inert_intros]: "inert (support_bundle env connect K A L Y p config)"
  unfolding support_bundle_def by (intro inert_intros inert_status)

lemma inert_success [inert_intros]: "inert (success out)"
  unfolding success_def by (intro inert_intros)

lemma inert_reading_commands:
  "inert (initialize_config C d dry_run)" "inert (show_effective_config C p)" "inert (add_certificate_config C d n dry_run)"
  "inert (diagnose C p target)" "inert (metrics_collect C p target)" "inert (service_status_command C)"
  "inert (status_command C p as_json)" "inert (generate_schema C file_name)" "inert (compatibility_probe C p cid False)"
proof -
  show "inert (compatibility_probe C p cid False)"
    unfolding compatibility_probe_def
    by (intro inert_intros) (auto intro!: inert_intros split: list.splits)
qed (simp_all add: initialize_config_def show_effective_config_def add_certificate_config_def diagnose_def metrics_collect_def
    service_status_command_def status_command_def generate_schema_def inert_intros inert_status Let_def)

lemma keeps_verify_oci_read:
  assumes "lets_reads H"
  shows "keeps (lawful H d0 t0) (verify_oci_read V config cert)"
proof -
  have "keeps (lawful H d0 t0) (port_get_certificate (oci_adapters (run_env V) p) ocid rid)" for p ocid rid
    unfolding keeps_wp lawful_def
    by (intro allI impI, elim conjE, rule wp_ask[OF sdk.get_certificate_law _ _ assms lasting_True])
      (auto elim: exchanged_weaken)
  then show ?thesis
    unfolding verify_oci_read_def
    by (intro keeps_adapters keeps_case_option keeps_return keeps_bind keeps_seq)
      (simp_all add: uuid4_def keeps_lawful_inert inert_external)
qed

lemma keeps_operational_preflight:
  "lets_reads H \<Longrightarrow> keeps (lawful H d0 t0) (operational_preflight V M config certs)"
  unfolding operational_preflight_def
  by (intro keeps_seq keeps_for_each keeps_verify_oci_read keeps_lawful_outside(3))

lemma keeps_preflight: "lets_reads H \<Longrightarrow> keeps (lawful H d0 t0) (preflight C p cid)"
  unfolding preflight_def Let_def configured_def
  by (intro keeps_bind keeps_seq keeps_raise_if keeps_if keeps_for_each keeps_return keeps_operational_preflight
      keeps_lawful_inert[OF inert_success] keeps_lawful_outside(3))

lemma keeps_reading_commands:
  assumes "mutating_config cmd = None" and reads: "lets_reads H"
  shows "keeps (lawful H d0 t0) (perform C cmd)"
proof -
  have valid: "keeps (lawful H d0 t0) (validate_config_command C p as_json)" for p as_json
    unfolding validate_config_command_def
    by (intro keeps_bind keeps_seq keeps_lawful_inert[OF inert_configured] keeps_lawful_inert[OF inert_success] keeps_lawful_log)
  have onboarded: "keeps (lawful H d0 t0) (onboard C p cid)" for p cid
    unfolding onboard_def
    by (intro keeps_bind keeps_preflight[OF reads]) (auto intro: keeps_lawful_inert[OF inert_success])
  show ?thesis
    using assms(1) by (cases cmd) (auto simp: inert_reading_commands keeps_lawful_inert valid onboarded keeps_preflight[OF reads])
qed

subsection \<open>Commands that change OCI or the state store\<close>

lemma wp_configured:
  fixes C :: "'w console"
  assumes K: "mount_law (files_of C)" and f: "disk (files_of C) (outside w) = f"
  shows "wp (configured C p) (\<lambda>config w'. (\<exists>o'. w' = w\<lparr>outside := o'\<rparr>) \<and> command_config C f p = Inr config)
     (\<lambda>_ w'. \<exists>o'. w' = w\<lparr>outside := o'\<rparr>) w"
  unfolding configured_def command_config_def
  by (rule wp_locally, rule wp_mono[OF load_config_reads[OF K, unfolded reads_as_def, rule_format, OF f]]) auto

lemma wp_with_config:
  assumes "mount_law (files_of C)" and "disk (files_of C) (outside w) = f" and "lawful H d0 t0 w"
    and "\<And>config. command_config C f p = Inr config \<Longrightarrow> keeps (lawful H d0 t0) (k config)"
  shows "wp (bind (configured C p) k) (\<lambda>_. lawful H d0 t0) (\<lambda>_. lawful H d0 t0) w"
  unfolding wp_bind
  by (rule wp_mono[OF wp_configured[OF assms(1,2)]]) (use assms(3,4) in \<open>auto intro!: keeps_wpD\<close>)

lemma inert_on_host [inert_intros]: "inert (on_host C m)"
  by (rule inertI) (auto simp: on_host_def split: prod.splits)

lemma wp_under_lock:
  assumes law: "console_law C" and f: "disk (files_of C) (outside w) = f" and I: "lawful H d0 t0 w"
    and body: "\<And>w1. disk (files_of C) (outside w1) = f \<Longrightarrow> lawful H d0 t0 w1 \<Longrightarrow>
      wp body (\<lambda>_. lawful H d0 t0) (\<lambda>_. lawful H d0 t0) w1"
  shows "wp (under_lock C body) (\<lambda>_. lawful H d0 t0) (\<lambda>_. lawful H d0 t0) w"
proof -
  have acquired: "wp (on_host C m) (\<lambda>_ w'. disk (files_of C) (outside w') = f \<and> lawful H d0 t0 w') (\<lambda>_. lawful H d0 t0) w1"
    if "disk (files_of C) (outside w1) = f" "lawful H d0 t0 w1" for m :: "(host, exn, unit) prog" and w1
    using that law by (auto simp: on_host_def wp_def console_law_def split: prod.splits sum.splits)
  have released: "keeps (lawful H d0 t0) (on_host C m)" for m :: "(host, exn, unit) prog"
    by (rule keeps_lawful_inert[OF inert_on_host])
  have closing: "wp (try_finally body (on_host C m)) (\<lambda>_. lawful H d0 t0) (\<lambda>_. lawful H d0 t0) w1"
    if "disk (files_of C) (outside w1) = f" "lawful H d0 t0 w1" for m :: "(host, exn, unit) prog" and w1
    unfolding wp_try_finally
    by (rule wp_mono[OF body[OF that]]) (auto intro: keeps_wpD[OF released])
  show ?thesis
    unfolding under_lock_def wp_bind wp_seq wp_external
    using f I law
    by (auto simp: console_law_def split: prod.split intro!: wp_mono[OF acquired] closing dest: spec[where x = "outside w"])
qed

text \<open>What the policy of the loaded configuration allows is what the command's guard does.\<close>

lemma keeps_by_policy:
  fixes m :: "('w, 'a) action"
  assumes "mutating_config cmd = Some p" and "command_config C f p = Inr config"
    and m: "\<And>d t. keeps (lawful (batch_guard (run_libs (service C)) config) d t) m"
  shows "keeps (lawful (command_guard C cmd f) d0 t0) m"
proof (rule keeps_lawful_part[where G = "batch_guard (run_libs (service C)) config"])
  fix w :: "'w world" assume "wf_db (db w)"
  then have "lawful (batch_guard (run_libs (service C)) config) (db w) (trace w) w"
    by (simp add: lawful_def exchanged_def safe_refl)
  then show "wp m (\<lambda>_. lawful (batch_guard (run_libs (service C)) config) (db w) (trace w))
      (\<lambda>_. lawful (batch_guard (run_libs (service C)) config) (db w) (trace w)) w"
    by (rule keeps_wpD[OF m])
qed (use assms(1,2) in \<open>auto simp: command_guard_def intro: batch_guard_part\<close>)

lemma keeps_configured_metrics: "keeps (lawful H d0 t0) (configured_metrics C config)"
  unfolding configured_metrics_def write_configured_metrics_def
  by (intro keeps_if keeps_return keeps_seq keeps_bind keeps_lawful_open keeps_lawful_inert[OF inert_collect_metrics] keeps_lawful_outside(3))

lemmas keeps_command_intros =
  keeps_bind keeps_seq keeps_return keeps_lift keeps_raise keeps_configured_metrics keeps_lawful_inert[OF inert_success]
  keeps_lawful_outside(2,3) keeps_lawful_inert[OF inert_offline_probe]

lemma keeps_batched:
  assumes "\<And>d t. keeps (lawful (config_guard L config) d t) m"
  shows "keeps (lawful (batch_guard L config) d0 t0) m"
  by (rule keeps_batch[OF assms runs_as_self])

text \<open>The service of a command uses the libraries of the console.\<close>

lemma keeps_service:
  assumes "\<And>V. run_libs V = run_libs (service C) \<Longrightarrow> keeps (lawful H d0 t0) (k V)"
  shows "keeps (lawful H d0 t0) (bind (publication_service C) k)"
proof -
  have "keeps (lawful H d0 t0) (k ((service C)\<lparr>owner_uid := uid\<rparr>))" for uid by (rule assms) simp
  then show ?thesis
    by (cases "publisher_uid C") (auto simp: keeps_def publication_service_def run_bind run_return lift_def)
qed

lemma keeps_renew_batch:
  assumes "run_libs V = L"
  shows "keeps (lawful (batch_guard L config) d0 t0) (renew_batch V config cid force)"
  unfolding renew_batch_def
  by (cases cid) (use assms in \<open>auto intro!: keeps_bind keeps_return keeps_renew_all keeps_batched[OF service.keeps_renew]\<close>)

lemma keeps_probe:
  assumes "run_libs V = L"
  shows "keeps (lawful (batch_guard L config) d0 t0) (live_probe V config cert uid)"
  by (rule keeps_batched[OF service.keeps_live_probe[OF assms]])

lemma wp_mutating_body:
  fixes C :: "'w console" and w :: "'w world" and cmd
  assumes K: "mount_law (files_of C)" and f: "disk (files_of C) (outside w) = f"
    and p: "mutating_config cmd = Some p" and I: "lawful (command_guard C cmd f) d0 t0 w"
    and k: "\<And>config d t. keeps (lawful (batch_guard (run_libs (service C)) config) d t) (k config)"
  shows "wp (bind (configured C p) k) (\<lambda>_. lawful (command_guard C cmd f) d0 t0) (\<lambda>_. lawful (command_guard C cmd f) d0 t0) w"
  by (rule wp_with_config[OF K f I]) (rule keeps_by_policy[OF p _ k])

lemma keeps_bodies:
  fixes V :: "'w services"
  assumes V: "run_libs V = L"
  defines "H \<equiv> \<lambda>config. batch_guard L config"
  shows "publishes ty \<Longrightarrow> keeps (lawful (H config) d t) (publish V config cid ty)"
    and "keeps (lawful (H config) d t) (bootstrap V config cid)"
    and "keeps (lawful (H config) d t) (audit_certificate V config cid)"
    and "keeps (lawful (H config) d t) (rollback_certificate V config cid)"
    and "keeps (lawful (H config) d t) (retention V config cid)"
  unfolding H_def V[symmetric]
  by (rule keeps_batched; auto intro: service.keeps_publish service.keeps_bootstrap service.keeps_rollback service.keeps_retention
      keeps_audit[OF service.reads])+

text \<open>The body of a command that runs under the lock.\<close>

fun locked_body :: "'w console \<Rightarrow> command \<Rightarrow> 'w cli" where
  "locked_body C (StagingVerify p cid target) = staging_verify C p cid target"
| "locked_body C (Probe p cid live) = compatibility_probe C p cid live"
| "locked_body C (AuditCommand p cid) = audit_command C p cid"
| "locked_body C (RollbackCommand p cid) = rollback_command C p cid"
| "locked_body C (RetentionCommand p cid) = retention_command C p cid"
| "locked_body C (BootstrapCommand p cid) = bootstrap_command C p cid"
| "locked_body C (RenewCommand p cid force) = renew_command C p cid force"
| "locked_body C (PublishCommand p cid) = publish_command C p cid PUBLISH"
| "locked_body C (ReconcileCommand p cid) = publish_command C p cid RECONCILE"
| "locked_body C _ = success []"

lemma dispatch_locked: "mutating_config cmd = Some p \<Longrightarrow> perform C cmd = under_lock C (locked_body C cmd)"
  by (cases cmd) (auto split: if_splits)

definition governed :: "'w console \<Rightarrow> string \<Rightarrow> 'w cli \<Rightarrow> bool" where
  "governed C p m \<longleftrightarrow>
     (\<exists>k. m = bind (configured C p) k \<and>
        (\<forall>config d t. keeps (lawful (batch_guard (run_libs (service C)) config) d t) (k config)))"

lemma governedI:
  "(\<And>config d t. keeps (lawful (batch_guard (run_libs (service C)) config) d t) (k config)) \<Longrightarrow>
     governed C p (bind (configured C p) k)"
  by (auto simp: governed_def)

lemma governed_commands:
  "publishes ty \<Longrightarrow> governed C p (publish_command C p cid ty)" "governed C p (bootstrap_command C p cid)"
  "governed C p (rollback_command C p cid)" "governed C p (retention_command C p cid)"
  unfolding publish_command_def bootstrap_command_def rollback_command_def retention_command_def
  by (rule governedI, intro keeps_service keeps_command_intros keeps_bodies; assumption?)+

lemma governed_audit: "governed C p (audit_command C p cid)"
  unfolding audit_command_def Let_def by (rule governedI) (intro keeps_service keeps_command_intros keeps_bodies)

lemma governed_renew: "governed C p (renew_command C p cid force)"
  unfolding renew_command_def Let_def by (rule governedI) (intro keeps_service keeps_command_intros keeps_renew_batch)

lemma governed_staging: "governed C p (staging_verify C p cid target)"
  unfolding staging_verify_def by (rule governedI, intro keeps_command_intros keeps_probe) simp

lemma governed_probe: "governed C p (compatibility_probe C p cid live)"
  unfolding compatibility_probe_def
  by (rule governedI) (auto split: list.split intro!: keeps_command_intros keeps_probe)

lemma governed_locked: "mutating_config cmd = Some p \<Longrightarrow> governed C p (locked_body C cmd)"
  by (cases cmd)
    (auto simp: governed_commands governed_audit governed_renew governed_staging governed_probe publishes_def split: if_splits)

lemma wp_dispatch:
  fixes C :: "'w console" and w :: "'w world" and cmd
  assumes law: "console_law C" and wf: "wf_db (db w)"
  defines "H \<equiv> command_guard C cmd (disk (files_of C) (outside w))"
  shows "wp (perform C cmd) (\<lambda>_. lawful H (db w) (trace w)) (\<lambda>_. lawful H (db w) (trace w)) w"
proof -
  have I: "lawful H (db w) (trace w) w" using wf by (simp add: lawful_def exchanged_def safe_refl)
  show ?thesis
  proof (cases "mutating_config cmd")
    case None
    show ?thesis
      by (rule keeps_wpD[OF keeps_reading_commands[OF None] I]) (simp add: H_def lets_reads_command)
  next
    case (Some p)
    obtain k where body: "locked_body C cmd = bind (configured C p) k"
      and k: "\<And>config d t. keeps (lawful (batch_guard (run_libs (service C)) config) d t) (k config)"
      using governed_locked[OF Some, of C] unfolding governed_def by blast
    have K: "mount_law (files_of C)" using law by (simp add: console_law_def)
    show ?thesis
      unfolding dispatch_locked[OF Some] body
      by (rule wp_under_lock[OF law refl I]) (unfold H_def, rule wp_mutating_body[OF K _ Some _ k])
  qed
qed

lemma wp_main:
  fixes C :: "'w console" and w :: "'w world" and cmd
  assumes law: "console_law C" and wf: "wf_db (db w)"
  defines "H \<equiv> command_guard C cmd (disk (files_of C) (outside w))"
  shows "wp (main C cmd) (\<lambda>_. lawful H (db w) (trace w)) (\<lambda>_. lawful H (db w) (trace w)) w"
proof -
  have I: "lawful H (db w) (trace w) w" using wf by (simp add: lawful_def exchanged_def safe_refl)
  have failed: "keeps (lawful H (db w) (trace w)) (seq (log_event ''OPERATION_FAILED'' e) (return r))" for e and r :: "printed list \<times> int"
    by (intro keeps_seq keeps_return keeps_lawful_log)
  show ?thesis
    unfolding main_def wp_if wp_return wp_try_except wp_bind
    using I by (auto intro!: wp_mono[OF wp_dispatch[OF law wf, of cmd, folded H_def]] keeps_wpD[OF failed]
        simp: wp_return split: option.split)
qed

end
