(* ===== verification/CliExit.thy ===== *)
theory CliExit
  imports CliLaws
begin

section \<open>How a command ends\<close>

text \<open>
  The exit statuses: which failures \<open>main\<close> maps and which it lets through, that status 0 means the
  command returned, and that a batch renewal with status 0 has published every certificate set. And
  the lock: what a command does when another publisher holds it.
\<close>

subsection \<open>Failures\<close>

text \<open>The exceptions that no \<open>except\<close> clause of \<open>main\<close> names.\<close>

fun escapes_main :: "exn \<Rightarrow> bool" where
  "escapes_main (Lib _) = True"
| "escapes_main (ChallengeFileError _) = True"
| "escapes_main (HostHeaderError _) = True"
| "escapes_main (NotificationError _) = True"
| "escapes_main OutOfFuel = True"
| "escapes_main _ = False"

lemma expected_failure_None: "expected_failure e = None \<longleftrightarrow> escapes_main e"
  by (cases e) (simp_all add: expected_failure_def)

definition failure_statuses :: "int list" where
  "failure_statuses = [2, 3, 4, 5, 6, 8, 9, 11, 75]"

lemma expected_failure_status:
  "expected_failure e = Some (event, message, code) \<Longrightarrow> exit_value code \<in> set failure_statuses"
  by (cases e) (auto simp: expected_failure_def failure_statuses_def)

lemma exit_value_zero: "exit_value code = 0 \<longleftrightarrow> code = Exit_SUCCESS"
  by (cases code) simp_all

lemma main_zero:
  assumes "main C cmd w = (Inr (out, 0), w')"
  shows "perform C cmd w = (Inr (out, Exit_SUCCESS), w')"
proof -
  have status: "exit_value code \<noteq> 0" if "expected_failure e = Some (event, message, code)" for e event message code
    using expected_failure_status[OF that] by (auto simp: failure_statuses_def)
  show ?thesis
    using assms
    by (auto simp: main_def return_def try_except_def bind_def seq_def log_event_def modify_def exit_value_zero status
        split: if_splits prod.splits sum.splits option.splits dest!: status)
qed

lemma main_returns:
  assumes "perform C cmd w = (Inr (out, code), w')" and "\<not> usage_error cmd"
  shows "main C cmd w = (Inr (out, exit_value code), w')"
  using assms by (simp add: main_def run_try_except run_bind run_return)

subsection \<open>What a program yields\<close>

definition yields :: "('a \<Rightarrow> bool) \<Rightarrow> ('s, 'e, 'a) prog \<Rightarrow> bool" where
  "yields P m \<longleftrightarrow> (\<forall>w a w'. m w = (Inr a, w') \<longrightarrow> P a)"

named_theorems yields_intros \<open>introduction rules for what programs yield\<close>

lemma yields_return [yields_intros]: "P a \<Longrightarrow> yields P (return a)"
  by (simp add: yields_def return_def)

lemma yields_raise [yields_intros]: "yields P (raise e)"
  by (simp add: yields_def raise_def)

lemma yields_bind [yields_intros]: "(\<And>a. yields P (k a)) \<Longrightarrow> yields P (bind m k)"
  by (auto simp: yields_def bind_Inr_iff)

lemma yields_bind_from: "yields Q m \<Longrightarrow> (\<And>a. Q a \<Longrightarrow> yields P (k a)) \<Longrightarrow> yields P (bind m k)"
  unfolding yields_def bind_Inr_iff by blast

lemma yields_lift: "(\<And>a. r = Inr a \<Longrightarrow> P a) \<Longrightarrow> yields P (lift r)"
  by (simp add: yields_def lift_def)

lemma yields_seq [yields_intros]: "yields P n \<Longrightarrow> yields P (seq m n)"
  unfolding seq_def by (rule yields_bind)

lemma yields_if [yields_intros]: "yields P m \<Longrightarrow> yields P n \<Longrightarrow> yields P (if b then m else n)"
  by simp

lemma yields_case_option [yields_intros]:
  "yields P m \<Longrightarrow> (\<And>a. yields P (n a)) \<Longrightarrow> yields P (case x of None \<Rightarrow> m | Some a \<Rightarrow> n a)"
  by (cases x) simp_all

lemma yields_try_except [yields_intros]:
  "yields P m \<Longrightarrow> (\<And>e k. h e = Some k \<Longrightarrow> yields P k) \<Longrightarrow> yields P (try_except m h)"
  by (fastforce simp: yields_def try_except_def split: prod.splits sum.splits option.splits)

lemma yields_map_prog:
  assumes "\<And>x. x \<in> set xs \<Longrightarrow> yields (P x) (m x)"
  shows "yields (list_all2 P xs) (map_prog m xs)"
  using assms
proof (induction xs)
  case (Cons x xs)
  then show ?case
    unfolding map_prog.simps
    by (intro yields_bind_from[of "P x"] yields_bind_from[of "list_all2 P xs"] yields_return) auto
qed (simp add: yields_def return_def)

subsection \<open>A batch covers every certificate set\<close>

abbreviation of_set :: "string \<Rightarrow> publication_result \<Rightarrow> bool" where
  "of_set cid r \<equiv> pub_certificate_id r = cid"

lemma yields_configured: "yields (\<lambda>cert. cert_id cert = cid) (lift (configured_certificate config cid))"
  by (rule yields_lift) (simp add: configured_Inr)

lemma yields_reconcile: "yields (of_set (cert_id cert)) (reconcile env L P config cert m chain fp now ty)"
  unfolding reconcile_def converge_def promote_and_confirm_def complete_operation_def
  by (intro yields_intros) simp_all

lemma yields_publish: "yields (of_set cid) (publish V config cid ty)"
  unfolding publish_def
  by (rule yields_bind_from[OF yields_configured])
    (intro yields_intros yields_bind_from[OF yields_reconcile], simp)

lemma yields_renew: "yields (of_set cid) (renew V config cid force)"
  unfolding renew_def
  by (intro yields_intros yields_bind_from[OF yields_publish]) simp_all

lemma yields_bootstrap: "yields (\<lambda>b. boot_certificate_id b = cid) (bootstrap V config cid)"
proof -
  have confirmed: "yields (\<lambda>b. boot_certificate_id b = cert_id cert) (confirm_bootstrap V cert oid ocid fp n rid)" for cert oid ocid fp n rid
    unfolding confirm_bootstrap_def by (intro yields_intros) simp
  have recovered: "yields (\<lambda>r. \<forall>b. r = Some b \<longrightarrow> boot_certificate_id b = cert_id cert) (recover_bootstrap V P config cert fp)" for P cert fp
    unfolding recover_bootstrap_def recover_operation_def
    by (intro yields_intros) (auto split: list.split option.split intro!: yields_intros yields_bind_from[OF confirmed])
  have created: "yields (\<lambda>b. boot_certificate_id b = cert_id cert) (create_certificate V P config cert m chain fp oid)" for P cert m chain fp oid
    unfolding create_certificate_def bootstrap_guarded_def
    by (intro yields_intros confirmed) (auto intro!: yields_intros split: if_splits)
  show ?thesis
    unfolding bootstrap_def
    by (rule yields_bind_from[OF yields_configured])
      (intro yields_seq yields_bind yields_bind_from[OF recovered], auto split: option.split intro!: yields_intros created)
qed

lemma yields_renew_set: "yields (of_set (cert_id cert)) (renew_set V config cert)"
  unfolding renew_set_def
  by (intro yields_intros yields_renew yields_bind_from[OF yields_bootstrap]) simp

text \<open>Every set is in the batch: as a publication, or as a failure.\<close>

definition accounted :: "certificate_config \<Rightarrow> publication_result option \<times> (string \<times> exn) option \<Rightarrow> bool" where
  "accounted cert r \<longleftrightarrow>
     (case fst r of None \<Rightarrow> True | Some p \<Rightarrow> of_set (cert_id cert) p) \<and>
     (case snd r of None \<Rightarrow> fst r \<noteq> None | Some (cid, e) \<Rightarrow> cid = cert_id cert \<and> renewable_failure e)"

lemma yields_renew_one: "yields (accounted cert) (renew_one V config cert)"
proof -
  have failed: "yields (accounted cert) (renewal_failed V config (cert_id cert) publication e)"
    if "\<And>p. publication = Some p \<Longrightarrow> of_set (cert_id cert) p" for publication e
    using that unfolding renewal_failed_def by (auto simp: accounted_def split: option.split intro!: yields_intros)
  have caught: "yields (\<lambda>r. \<forall>p. r = Inr p \<longrightarrow> of_set (cert_id cert) p) (catch (renew_set V config cert))"
    using yields_renew_set[of cert V config] by (auto simp: yields_def catch_def split: prod.splits)
  show ?thesis
    unfolding renew_one_def
    by (intro yields_seq yields_bind_from[OF caught])
      (auto split: sum.split intro!: failed yields_intros simp: accounted_def)
qed

lemma batch_without_failures:
  assumes "list_all2 accounted certs rs" and "batch_failures (batch_of rs) = []"
  shows "map pub_certificate_id (batch_publications (batch_of rs)) = map cert_id certs"
  using assms
  by (induction rule: list_all2_induct) (auto simp: accounted_def batch_of_def split: option.splits)

lemma yields_renew_all:
  "yields (\<lambda>batch. batch_failures batch = [] \<longrightarrow> map pub_certificate_id (batch_publications batch) = map cert_id (certificates config))
     (renew_all V config)"
  unfolding renew_all_def
  by (intro yields_bind_from[OF yields_map_prog[OF yields_renew_one]] yields_return) (simp add: batch_without_failures)

text \<open>A command under the lock that returns has run its body, on the same files.\<close>

lemma under_lock_Inr:
  assumes law: "console_law C" and run: "under_lock C body w = (Inr r, w')"
  shows "\<exists>w1 w2. disk (files_of C) (outside w1) = disk (files_of C) (outside w) \<and> db w1 = db w \<and> body w1 = (Inr r, w2)"
proof -
  obtain fault o1 where fault: "lock_fault C (outside w) = (fault, o1)" by fastforce
  then have o1: "disk (files_of C) o1 = disk (files_of C) (outside w)" using law by (auto simp: console_law_def dest: spec[where x = "outside w"])
  let ?h = "acquire fault (publisher_number C) (lock_host C o1)"
  let ?w1 = "w\<lparr>outside := set_lock_host C (snd ?h) o1\<rparr>"
  have "try_finally body (on_host C (release (publisher_number C))) ?w1 = (Inr r, w')"
    using run fault by (auto simp: under_lock_def bind_Inr_iff seq_Inr_iff external_def on_host_def split: prod.splits)
  then obtain w2 where "body ?w1 = (Inr r, w2)"
    by (auto simp: try_finally_def split: prod.splits sum.splits)
  moreover have "disk (files_of C) (outside ?w1) = disk (files_of C) (outside w)" using law o1 by (simp add: console_law_def)
  ultimately show ?thesis by (intro exI[of _ ?w1] exI[of _ w2]) simp
qed

definition renew_report :: "publication_result list \<Rightarrow> printed list" where
  "renew_report results =
     [Reported (JDict
        [(''certificate_ids'', JList (map (\<lambda>r. JStr (pub_certificate_id r)) results)),
         (''changed'', JBool (list_ex pub_changed results)),
         (''current_version_numbers'', JList (map (\<lambda>r. JInt (pub_version r)) results)),
         (''failed_certificate_ids'', JList []), (''result'', JStr ''RENEW_COMPLETED'')])]"

subsection \<open>Every exit status\<close>

definition exit_known :: "exit_code \<Rightarrow> bool" where
  "exit_known code \<longleftrightarrow> code = Exit_SUCCESS \<or> exit_value code \<in> set failure_statuses"

lemma exit_known_simps [simp]:
  "exit_known Exit_SUCCESS" "exit_known Exit_AUDIT_ENFORCE_FAILED" "exit_known (renewal_exit_code errors)"
  by (simp_all add: exit_known_def failure_statuses_def renewal_exit_code_def)

lemma yields_success: "yields (exit_known \<circ> snd) (success out)"
  unfolding success_def by (intro yields_return) simp

lemma yields_under_lock: "yields P body \<Longrightarrow> yields P (under_lock C body)"
  unfolding under_lock_def
  by (intro yields_intros) (auto simp: yields_def try_finally_def split: prod.splits sum.splits)

lemma yields_dispatch: "yields (exit_known \<circ> snd) (perform C cmd)"
proof -
  have preflight: "yields (exit_known \<circ> snd) (preflight C p cid)" for p cid
    unfolding preflight_def Let_def by (intro yields_intros yields_success)
  have probe: "yields (exit_known \<circ> snd) (compatibility_probe C p cid live)" for p cid live
    unfolding compatibility_probe_def
    by (rule yields_bind) (auto split: list.split intro!: yields_intros yields_success)
  show ?thesis
    by (cases cmd)
      (auto simp: validate_config_command_def initialize_config_def show_effective_config_def add_certificate_config_def
        diagnose_def metrics_collect_def service_status_command_def status_command_def onboard_def generate_schema_def
        publish_command_def renew_command_def bootstrap_command_def audit_command_def rollback_command_def
        retention_command_def staging_verify_def Let_def
        intro!: yields_under_lock yields_intros yields_success preflight probe)
qed

lemma wp_main_status: "wp (main C cmd) (\<lambda>(out, status) _. status = 0 \<or> status \<in> set failure_statuses) (\<lambda>e _. escapes_main e) w"
proof -
  have status: "exit_value code \<in> set failure_statuses" if "expected_failure e = Some (event, message, code)"
    for e event message code
    using expected_failure_status[OF that] .
  have dispatched: "wp (perform C cmd) (\<lambda>(out, code) _. exit_known code) (\<lambda>_ _. True) w"
    using yields_dispatch[of C cmd] by (auto simp: wp_def yields_def split: prod.splits sum.splits)
  show ?thesis
    unfolding main_def wp_if wp_try_except wp_bind
    by (auto simp: wp_return wp_seq log_event_def wp_modify exit_known_def expected_failure_None failure_statuses_def[symmetric]
        dest: status intro!: wp_mono[OF dispatched] split: option.split)
      (simp add: failure_statuses_def)
qed

end
