(* ===== verification/Sessions.thy ===== *)
theory Sessions
  imports CliExit
begin

section \<open>Sessions\<close>

text \<open>
  The life of an installation: from an empty database, any commands one after another, each ending
  as it may, with anything happening outside between them. What holds in every reachable world is
  the invariant of the whole publisher.
\<close>

inductive session :: "'w console \<Rightarrow> 'w world \<Rightarrow> bool" where
  fresh: "db w = empty_database \<Longrightarrow> trace w = [] \<Longrightarrow> session C w"
| command: "session C w \<Longrightarrow> main C cmd w = (out, w') \<Longrightarrow> session C w'"
| meanwhile: "session C w \<Longrightarrow> session C (w\<lparr>outside := o'\<rparr>)"

inductive_cases sessionE: "session C w"

text \<open>What justifies a mutation in a session: the policy of a configuration that some state of the files
  gives.\<close>

definition session_guard :: "'w console \<Rightarrow> io_entry list \<Rightarrow> io_entry \<Rightarrow> bool" where
  "session_guard C before e \<longleftrightarrow>
     (is_mutation (fst e) \<longrightarrow>
        (\<exists>f p config. command_config C f p = Inr config \<and> batch_guard (run_libs (service C)) config before e))"

lemma command_session_guard: "command_guard C cmd f pre e \<Longrightarrow> session_guard C (io @ pre) e"
  by (auto simp: command_guard_def session_guard_def intro: batch_guard_part)

lemma session_lawful:
  assumes "session C w" and "console_law C"
  shows "lawful (session_guard C) empty_database [] w"
  using assms
proof (induction rule: session.induct)
  case (fresh w C)
  then show ?case by (simp add: lawful_def exchanged_def safe_refl wf_empty)
next
  case (command C w cmd out w')
  let ?H = "command_guard C cmd (disk (files_of C) (outside w))"
  have I: "lawful (session_guard C) empty_database [] w" using command by simp
  have "lawful ?H (db w) (trace w) w'"
    using wp_main[OF command.prems lawful_wf[OF I], of cmd] command.hyps(2)
    by (cases out) (auto simp: wp_def)
  then show ?case by (rule lawful_compose[OF I]) (rule command_session_guard)
qed simp

subsection \<open>What the metrics can count\<close>

text \<open>In a well-formed database no renewal has a failure state, and no operation failed in a preflight.\<close>

lemma possible_failures:
  "possible ty st \<Longrightarrow> ty = RENEW \<Longrightarrow> \<not> failed st"
  "possible ty st \<Longrightarrow> st \<noteq> HTTP01_PREFLIGHT_FAILED"
  by (cases ty; auto simp: failure_states_def)+

lemma uncounted:
  assumes "wf_db d"
  shows "renewal_failures (tally_of (count_groups cid d)) = 0" and "preflight_failures (tally_of (count_groups cid d)) = 0"
proof -
  have rows: "possible (row_type r) (row_state r)" if "r \<in> set (operations d)" for r
    using wf_db_row[OF assms that] by (simp add: wf_row_def)
  have "filter (\<lambda>r. row_certificate r = cid \<and> row_type r = RENEW \<and> failed (row_state r)) (operations d) = []"
    "filter (\<lambda>r. row_certificate r = cid \<and> row_state r = HTTP01_PREFLIGHT_FAILED) (operations d) = []"
    using possible_failures[OF rows] by (auto simp only: filter_empty_conv)
  then show "renewal_failures (tally_of (count_groups cid d)) = 0" "preflight_failures (tally_of (count_groups cid d)) = 0"
    by (simp_all add: tally_counted counted_groups)
qed

end
