(* ===== verification/Example.thy ===== *)
theory Example
  imports Reconciler
begin

section \<open>A concrete run\<close>

text \<open>
  A configuration, a certificate library and a scripted service, for evaluating the definitions
  on a concrete input: the outside world is the list of the answers still to come and a counter
  that serves as clock, random source and supply of identifiers.
\<close>

type_synonym script = "(lib_exn + response) list \<times> int"

fun letters :: "nat \<Rightarrow> string" where
  "letters 0 = ''u''"
| "letters (Suc n) = CHR ''u'' # letters n"

definition script_env :: "script env" where
  "script_env =
     \<lparr>oci_call = (\<lambda>req rid (answers, n).
        case answers of [] \<Rightarrow> (Inl (OSError ''no route''), ([], n)) | a # rest \<Rightarrow> (a, (rest, n))),
      read_clock = (\<lambda>(answers, n). (n * second, (answers, n + 1))),
      new_uuid = (\<lambda>(answers, n). (letters (nat n), (answers, n + 1))),
      wait = (\<lambda>t s. s),
      uniform = (\<lambda>c s. (0, s)),
      sql_fault = (\<lambda>s. (None, s)),
      open_database = (\<lambda>s. (None, s)),
      page_budget = 3\<rparr>"

definition script_world :: "(lib_exn + response) list \<Rightarrow> script world" where
  "script_world answers = \<lparr>outside = (answers, 0), db = empty_database, trace = [], journal = []\<rparr>"

definition example_leaf :: "string \<Rightarrow> x509" where
  "example_leaf text =
     \<lparr>subject_common_names = [PStr ''a.example''], subject_countries = [PStr ''IT''],
      subject_name = ''leaf'', issuer_name = ''intermediate'', issuer_rfc4514 = ''CN=R'',
      dns_names = Some [''a.example''], basic_constraints_ca = Some False,
      extended_key_usage = None, digital_signature = None, public_key_of = RsaKey 2048,
      public_key_der = ''k'', signature_hash = Some ''sha256'', not_before = 0,
      not_after = 1000 * second, pem_bytes = text\<rparr>"

text \<open>The digest of the library is the text itself.\<close>

definition example_libs :: libs where
  "example_libs =
     \<lparr>load_pem = (\<lambda>text. Inr (example_leaf text)), sha256_digest = pem_bytes,
      verify_signature = (\<lambda>issuer child. None), idna_encode = Some\<rparr>"

definition example_certificate :: certificate_config where
  "example_certificate =
     \<lparr>cert_id = ''web'', webroot_id = ''web'', common_name = ''a.example'', domains = [''a.example''],
      key_of = \<lparr>key_family = RSA, rsa_size = Some 2048, ecdsa_curve = None\<rparr>,
      chain_of = \<lparr>root_pem_path = ''/root.pem'', allowed_root_sha256 = [''0123456789abcdef0123456789abcdef0123456789abcdef0123456789abcdef''], allowed_issuer_common_names = []\<rparr>,
      oci_of = \<lparr>region = ''r'', compartment_ocid = ''c'',
                certificate_ocid = Some ''ocid1.certificate.x'', certificate_name = ''n''\<rparr>,
      audit_of = \<lparr>audit_mode_of = DISABLED, automatic_rollback_on_failure = False,
                  propagation_timeout_seconds = 600, retry_interval_seconds = 15,
                  audit_require_all_addresses = True, audit_reject_non_global = True, endpoints = []\<rparr>,
      retention_of = \<lparr>retention_enabled = True, keep_deprecated_versions = 1, minimum_age_days = 30,
                      deletion_delay_days = 30\<rparr>\<rparr>"

definition example_config :: app_config where
  "example_config =
     \<lparr>schema_version = 4,
      global_of = \<lparr>environment_of = STAGING, state_dir = ''/var'', log_level = ''INFO'', json_logging = True,
                   max_parallel_certificates = 1, clock_skew_tolerance_seconds = 300\<rparr>,
      compatibility = \<lparr>live_verified = False, live_evidence_paths = [], enforce_documented_subject_country = True,
                       require_complete_chain_to_root = True, reject_mixed_algorithm_chain = True\<rparr>,
      acme = \<lparr>email = ''a@b'', agree_to_terms = True, directory_url = ''https://staging'',
              account_key_path = ''/k'', certificates_dir = ''/certs'', acme_timeout_seconds = 1800,
              renew_before_days = 30, rotate_private_key_on_renewal = True, preferred_profile = None\<rparr>,
      http01 = \<lparr>webroot_base = ''/web'',
                responder = \<lparr>bind_address = ''0.0.0.0'', bind_port = 80, health_path = ''/healthz'',
                             readiness_path = ''/readyz'', max_request_body_bytes = 1024,
                             max_challenge_file_bytes = 4096, max_concurrent_requests = 128,
                             request_timeout_seconds = 5, keepalive_timeout_seconds = 5, backlog = 128\<rparr>,
                self_check = \<lparr>self_check_enabled = True, require_all_domains = True,
                              self_require_all_addresses = True, allow_redirects = False,
                              self_reject_non_global = True, connect_timeout_seconds = 3,
                              response_timeout_seconds = 5, total_timeout_seconds = 90\<rparr>\<rparr>,
      oci_settings = \<lparr>authentication = ''instance_principal'', oci_connect_timeout_seconds = 10,
                      oci_read_timeout_seconds = 60, max_read_attempts = 5,
                      mutation_reconciliation_attempts = 5, oci_operation_timeout_seconds = 1200,
                      use_etag = True\<rparr>,
      notifications = \<lparr>notifications_enabled = False, provider = ''slack'', credential_ref = None,
                       allowed_hosts = [], minimum_repeat_interval_minutes = 60,
                       notify_connect_timeout_seconds = 5, notify_total_timeout_seconds = 10\<rparr>,
      monitoring = \<lparr>warning_days = 20, critical_days = 7, textfile_enabled = False, textfile_path = ''/m''\<rparr>,
      certificates = [example_certificate]\<rparr>"

definition example_material :: lineage_material where
  "example_material =
     \<lparr>leaf = example_leaf ''new456'', mat_intermediates = [], private_key_public_der = ''k'',
      leaf_pem = ''new456'', chain_pem = [], private_key_pem = ''key''\<rparr>"

definition example_chain :: oci_certificate_chain where
  "example_chain = \<lparr>chain_root = example_leaf ''root'', chain_intermediates = [], chain_cert_chain_pem = ''root''\<rparr>"

definition example_fingerprint :: string where
  "example_fingerprint = certificate_sha256 example_libs (example_leaf ''new456'')"

subsection \<open>Answers of the service\<close>

definition ok :: "(string \<times> pyval) list \<Rightarrow> lib_exn + response" where
  "ok attributes = Inr \<lparr>resp_data = PObj attributes, resp_headers = [(''etag'', PStr ''e'')]\<rparr>"

definition certificate_answer :: "int \<Rightarrow> lib_exn + response" where
  "certificate_answer n =
     ok [(''id'', PStr ''ocid1.certificate.x''), (''current_version'', PObj [(''version_number'', PInt n)])]"

definition version_fields :: "int \<Rightarrow> string list \<Rightarrow> pyval" where
  "version_fields n names = PObj [(''version_number'', PInt n), (''stages'', PList (map PStr names))]"

definition versions_answer :: "(int \<times> string list) list \<Rightarrow> lib_exn + response" where
  "versions_answer vs = ok [(''items'', PList (map (\<lambda>(n, s). version_fields n s) vs))]"

definition bundle_answer :: "int \<Rightarrow> string \<Rightarrow> lib_exn + response" where
  "bundle_answer n text =
     ok [(''certificate_pem'', PStr text), (''cert_chain_pem'', PStr ''c''), (''version_number'', PInt n),
         (''stages'', PList [PStr ''CURRENT''])]"

text \<open>Version 1 is current; the new material is uploaded as version 2, verified and promoted.\<close>

definition publishing_answers :: "(lib_exn + response) list" where
  "publishing_answers =
     [certificate_answer 1, bundle_answer 1 ''old123'', versions_answer [(1, [''CURRENT''])],
      ok [], versions_answer [(1, [''CURRENT'']), (2, [''PENDING''])], bundle_answer 2 ''new456'',
      certificate_answer 1, ok [], bundle_answer 2 ''new456'']"

text \<open>The new material is already current.\<close>

definition settled_answers :: "(lib_exn + response) list" where
  "settled_answers = [certificate_answer 2, bundle_answer 2 ''new456'']"

definition publish_example ::
  "(lib_exn + response) list \<Rightarrow> (exn + publication_result) \<times> script world" where
  "publish_example answers =
     reconcile script_env example_libs (oci_adapters script_env (default_policy 5)) example_config
       example_certificate example_material example_chain example_fingerprint (10 * second) PUBLISH
       (script_world answers)"

text \<open>A leaf with its issuer and root, all of which the library accepts.\<close>

definition issuer_ca :: x509 where
  "issuer_ca = (example_leaf ''ic'')\<lparr>subject_name := ''intermediate'', issuer_name := ''root'',
     basic_constraints_ca := Some True, subject_common_names := [PStr ''R3'']\<rparr>"

definition root_ca :: x509 where
  "root_ca = (example_leaf ''rc'')\<lparr>subject_name := ''root'', issuer_name := ''root'', basic_constraints_ca := Some True\<rparr>"

definition root_libs :: libs where
  "root_libs = example_libs\<lparr>load_pem := (\<lambda>text. Inr root_ca)\<rparr>"

definition chained_material :: lineage_material where
  "chained_material = example_material\<lparr>mat_intermediates := [issuer_ca]\<rparr>"

definition chained_certificate :: certificate_config where
  "chained_certificate = example_certificate\<lparr>chain_of := \<lparr>root_pem_path = ''/root.pem'',
     allowed_root_sha256 = [certificate_sha256 root_libs root_ca], allowed_issuer_common_names = [''R3'']\<rparr>\<rparr>"

end
