(* ===== verification/Desk.thy ===== *)
theory Desk
  imports Sessions Example
begin

section \<open>A concrete publisher\<close>

text \<open>
  A console on which commands can be evaluated: its world is a file tree, the descriptors of the
  host and the script of answers of theory Example. The tree holds a configuration of one
  certificate set, the generation of its material and the pinned root.
\<close>

record desk =
  desk_disk :: fs
  desk_host :: host
  desk_script :: script

definition at_script :: "(script \<Rightarrow> 'a \<times> script) \<Rightarrow> desk \<Rightarrow> 'a \<times> desk" where
  "at_script f w = (case f (desk_script w) of (a, s) \<Rightarrow> (a, w\<lparr>desk_script := s\<rparr>))"

definition desk_env :: "desk env" where
  "desk_env =
     \<lparr>oci_call = (\<lambda>req rid. at_script (oci_call script_env req rid)),
      read_clock = at_script (read_clock script_env), new_uuid = at_script (new_uuid script_env),
      wait = (\<lambda>t w. w), uniform = (\<lambda>c w. (0, w)), sql_fault = (\<lambda>w. (None, w)),
      open_database = (\<lambda>w. (None, w)), page_budget = 3\<rparr>"

definition desk_mount :: "desk mount" where
  "desk_mount =
     \<lparr>disk = desk_disk, set_disk = (\<lambda>f w. w\<lparr>desk_disk := f\<rparr>), io_fault = (\<lambda>w. (None, w)),
      token_bytes = (\<lambda>n w. (''t'', w)), chunk = (\<lambda>w. (1, w)), euid = 7, umask = 0x12\<rparr>"

text \<open>The library reads the PEM text of the root as the root and any other text as a leaf.\<close>

definition root_text :: string where
  "root_text = ''-the-root-certificate-of-the-ca-''"

definition desk_root :: x509 where
  "desk_root = root_ca\<lparr>pem_bytes := root_text\<rparr>"

definition desk_leaf :: "string \<Rightarrow> x509" where
  "desk_leaf content = (example_leaf content)\<lparr>not_after := 10000000 * second\<rparr>"

definition desk_libs :: libs where
  "desk_libs = example_libs\<lparr>load_pem := (\<lambda>content. Inr (if content = root_text then desk_root else desk_leaf content))\<rparr>"

definition desk_pems :: pem_libs where
  "desk_pems = \<lparr>load_pems = (\<lambda>content. Inr [issuer_ca]), load_private_key = (\<lambda>content. Inr ''k'')\<rparr>"

definition desk_certificate :: certificate_config where
  "desk_certificate = example_certificate\<lparr>
     chain_of := \<lparr>root_pem_path = ''/root.pem'',
       allowed_root_sha256 = [''2d7468652d726f6f742d63657274696669636174652d6f662d7468652d63612d''],
       allowed_issuer_common_names = [''R3'']\<rparr>,
     retention_of := (retention_of example_certificate)\<lparr>retention_enabled := False\<rparr>\<rparr>"

definition desk_config :: app_config where
  "desk_config = example_config\<lparr>
     http01 := (http01 example_config)\<lparr>self_check := (self_check (http01 example_config))\<lparr>self_check_enabled := False\<rparr>\<rparr>,
     certificates := [desk_certificate]\<rparr>"

text \<open>Every text is a YAML mapping of one key, whose fields are those of the configuration.\<close>

definition desk_schemas :: schema_libs where
  "desk_schemas =
     \<lparr>yaml_compose = (\<lambda>content. Inr (Some (NodeMapping [(NodeScalar (YText ''certificates''), NodeScalar (YText content))]))),
      model_fields = (\<lambda>document. Some desk_config)\<rparr>"

definition desk_tree :: fs where
  "desk_tree =
     [([''config.yaml''], Regular 0 0x1A4 ''certificates''), ([''root.pem''], Regular 0 0x1A4 root_text),
      ([''var''], Directory 7 0x1C0), ([''var'', ''state.sqlite3''], Regular 7 0x180 []),
      ([''web''], Directory 7 0x1ED), ([''web'', ''web''], Directory 7 0x1ED),
      ([''certs''], Directory 7 0x1C0), ([''certs'', ''web''], Directory 7 0x1C0),
      ([''certs'', ''web'', ''generations''], Directory 7 0x1C0), ([''certs'', ''web'', ''generations'', ''g''], Directory 7 0x1C0),
      ([''certs'', ''web'', ''current''], Symlink 7 ''generations/g''),
      ([''certs'', ''web'', ''generations'', ''g'', ''cert.pem''], Regular 7 0x180 ''new456''),
      ([''certs'', ''web'', ''generations'', ''g'', ''chain.pem''], Regular 7 0x180 ''ic''),
      ([''certs'', ''web'', ''generations'', ''g'', ''privkey.pem''], Regular 7 0x180 ''key'')]"

subsection \<open>The services\<close>

definition no_mail :: "desk mailer" where
  "no_mail =
     \<lparr>read_credential = (\<lambda>p w. (Inl ENOENT, w)), http_post = (\<lambda>t u p w. (Inl TimeoutError, w)), nfkc = (\<lambda>_. True)\<rparr>"

definition no_tls :: "desk network" where
  "no_tls =
     \<lparr>getaddrinfo = (\<lambda>h w. (Inl (OSError ''no route''), w)), tls_connect = (\<lambda>trust a h p t w. (Inl TimeoutError, w)),
      load_der = (\<lambda>s. Inl (ValueError s)), monotonic = (\<lambda>w. (0, w)), audit_budget = 1\<rparr>"

definition no_http :: "desk http_network" where
  "no_http =
     \<lparr>resolve_host = (\<lambda>h w. (Inl (OSError ''no route''), w)), http_connect = (\<lambda>a p t w. (Some TimeoutError, w)),
      http_exchange = (\<lambda>r t w. (Inl TimeoutError, w)), http_close = (\<lambda>w. (None, w)),
      url_token = (\<lambda>n w. (''t'', w)), total_deadline = (\<lambda>t w. (False, w))\<rparr>"

definition desk_acme_libs :: acme_libs where
  "desk_acme_libs =
     \<lparr>reencode_key = id, rsa_or_ec = (\<lambda>_. True), sign_csr = (\<lambda>cn ds k. Inr ''csr''),
      load_account_key = (\<lambda>_. Inr True), key_authorization = (\<lambda>k t. t)\<rparr>"

definition no_acme :: "desk acme_server" where
  "no_acme =
     \<lparr>generate_key = (\<lambda>s w. (\<lparr>key_pem = ''key'', key_der = ''k''\<rparr>, w)), acme_clock = (\<lambda>w. (10 * second, w)),
      local_clock = (\<lambda>w. (10 * second, w)), get_directory = (\<lambda>u k t w. (Some TimeoutError, w)),
      new_account = (\<lambda>m a w. (Some TimeoutError, w)), query_registration = (\<lambda>u w. (Some TimeoutError, w)),
      new_order = (\<lambda>c p w. (Inl TimeoutError, w)), answer_challenge = (\<lambda>u w. (Some TimeoutError, w)),
      poll_authorizations = (\<lambda>d w. (Some TimeoutError, w)), finalize_order = (\<lambda>d w. (Inl TimeoutError, w))\<rparr>"

definition desk_services :: "desk services" where
  "desk_services =
     \<lparr>run_env = desk_env, run_disk = desk_mount, run_libs = desk_libs, run_pems = desk_pems,
      run_json = \<lparr>json_loads = (\<lambda>s. Inl (ValueError s)), json_dumps = (\<lambda>j. [])\<rparr>,
      run_acme_libs = desk_acme_libs, run_acme = no_acme, run_http = no_http, run_tls = no_tls, run_mail = no_mail,
      instance_principals = (\<lambda>w. (None, w)), owner_uid = 7, publisher_account = Inr 7\<rparr>"

definition desk_console :: "desk console" where
  "desk_console =
     \<lparr>service = desk_services,
      host_system = \<lparr>account = Some (7, 7), challenge_group = Some 8, systemctl = (\<lambda>args w. (Inr (0, []), w))\<rparr>,
      host_probes =
        \<lparr>timedatectl = (\<lambda>w. (Inr (0, ''yes''), w)), responder_open = (\<lambda>a p w. (None, w)),
         responder_talk = (\<lambda>s w. (Inr ''HTTP/1.1 200 OK'', w)), responder_close = (\<lambda>w. (None, w))\<rparr>,
      schemas = desk_schemas,
      printing = \<lparr>yaml_dump = (\<lambda>v. ''certificate''), json_indented = (\<lambda>j. ''json''), model_dump = (\<lambda>c. [])\<rparr>,
      state_connection = (\<lambda>w. (None, w)), print_float = (\<lambda>x. ''0''), process_id = 1, json_schema = JNull,
      lock_host = desk_host, set_lock_host = (\<lambda>h w. w\<lparr>desk_host := h\<rparr>), lock_fault = (\<lambda>w. (None, w)),
      publisher_number = 0\<rparr>"

definition quiet_host :: host where
  "quiet_host = \<lparr>open_fds = [], lock_owner = None, held_fd = (\<lambda>_. None)\<rparr>"

definition desk_world :: "(lib_exn + response) list \<Rightarrow> desk world" where
  "desk_world answers =
     \<lparr>outside = \<lparr>desk_disk = desk_tree, desk_host = quiet_host, desk_script = (answers, 10)\<rparr>,
      db = empty_database, trace = [], journal = []\<rparr>"

lemma desk_law: "console_law desk_console"
  by (simp add: console_law_def files_of_def mount_law_def desk_console_def desk_services_def desk_mount_def)

lemma desk_session: "session desk_console (desk_world answers)"
  by (rule session.fresh) (simp_all add: desk_world_def)

definition renewal_example :: "(exn + printed list \<times> int) \<times> desk world" where
  "renewal_example = main desk_console (RenewCommand ''/config.yaml'' None False) (desk_world settled_answers)"

lemma desk_configured: "command_config desk_console desk_tree ''/config.yaml'' = Inr desk_config"
  by code_simp

lemma renewal_example_runs:
  "map_sum id snd (fst (perform desk_console (RenewCommand ''/config.yaml'' None False) (desk_world settled_answers))) = Inr Exit_SUCCESS"
  by code_simp

lemma renewal_example_returns: "\<exists>out. renewal_example = (Inr (out, 0), snd renewal_example)"
proof -
  obtain out w' where "perform desk_console (RenewCommand ''/config.yaml'' None False) (desk_world settled_answers) = (Inr (out, Exit_SUCCESS), w')"
    using renewal_example_runs by (cases "perform desk_console (RenewCommand ''/config.yaml'' None False) (desk_world settled_answers)")
      (auto simp: map_sum_Inr)
  from main_returns[OF this] show ?thesis by (simp add: renewal_example_def usage_error_def)
qed

end
