(* ===== verification/Redaction.thy ===== *)
theory Redaction
  imports Status "HOL-Library.AList"
begin

section \<open>Redaction and the structured log\<close>

text \<open>
  \<open>redaction.py\<close> and the formatter of \<open>logging_config.py\<close>. The regular expressions are written as
  functions that take one match off the front of a text: in each of them every repetition stops at a
  character the next part begins with, so that \<open>re\<close> has nothing to backtrack to. \<open>bol\<close> says that
  the front is the start of a line.
\<close>

subsection \<open>Substitution\<close>

type_synonym pattern = "bool \<Rightarrow> string \<Rightarrow> (string \<times> string) option"

text \<open>\<open>pattern.sub(...)\<close>: a match gives its replacement and what follows it.\<close>

function substitute :: "pattern \<Rightarrow> bool \<Rightarrow> string \<Rightarrow> string" where
  "substitute m bol [] = []"
| "substitute m bol (c # cs) =
     (case m bol (c # cs) of
        None \<Rightarrow> c # substitute m (c = CHR 0x0A) cs
      | Some (replacement, rest) \<Rightarrow>
          if length rest \<le> length cs
          then replacement @ substitute m (last (take (length (c # cs) - length rest) (c # cs)) = CHR 0x0A) rest
          else c # cs)"
  by pat_completeness auto
termination by (relation "measure (\<lambda>(m, bol, s). length s)") auto

text \<open>\<open>[^-]+-----\<close> after a given beginning.\<close>

definition marker :: "string \<Rightarrow> string \<Rightarrow> string option" where
  "marker beginning s =
     (if startswith s beginning
      then
        let body = drop (length beginning) s;
            label = takeWhile (\<lambda>c. c \<noteq> CHR ''-'') body;
            rest = drop (length label) body
        in if label \<noteq> [] \<and> startswith rest ''-----'' then Some (drop 5 rest) else None
      else None)"

text \<open>\<open>.*?-----END [^-]+-----\<close>: what follows the first end marker.\<close>

fun after_end :: "string \<Rightarrow> string option" where
  "after_end [] = None"
| "after_end (c # cs) =
     (case marker ''-----END '' (c # cs) of
        Some rest \<Rightarrow> Some rest
      | None \<Rightarrow> after_end cs)"

definition pem_block :: pattern where
  "pem_block bol s =
     (case marker ''-----BEGIN '' s of
        None \<Rightarrow> None
      | Some body \<Rightarrow> map_option (\<lambda>rest. (''[REDACTED_PEM]'', rest)) (after_end body))"

definition authorization :: pattern where
  "authorization bol s =
     (if bol \<and> lower (take 13 s) = ''authorization''
      then
        let spaces = takeWhile is_space (drop 13 s)
        in case drop (length spaces) (drop 13 s) of
             [] \<Rightarrow> None
           | c # cs \<Rightarrow>
               let gap = takeWhile is_space cs; rest = drop (length gap) cs
               in if (c = CHR '':'' \<or> c = CHR ''='') \<and> rest \<noteq> []
                  then Some (take 13 s @ spaces @ [c] @ gap @ ''[REDACTED]'', dropWhile (\<lambda>x. x \<noteq> CHR 0x0A) rest)
                  else None
      else None)"

definition url_credential :: pattern where
  "url_credential bol s =
     (if startswith s ''https://''
      then
        let user = takeWhile (\<lambda>c. \<not> is_space c \<and> c \<noteq> CHR ''/'' \<and> c \<noteq> CHR ''@'' \<and> c \<noteq> CHR '':'') (drop 8 s)
        in case drop (length user) (drop 8 s) of
             [] \<Rightarrow> None
           | c # cs \<Rightarrow>
               let password = takeWhile (\<lambda>c. \<not> is_space c \<and> c \<noteq> CHR ''/'' \<and> c \<noteq> CHR ''@'') cs;
                   rest = drop (length password) cs
               in if c = CHR '':'' \<and> user \<noteq> [] \<and> password \<noteq> [] \<and> startswith rest ''@''
                  then Some (''https://[REDACTED]@'', drop 1 rest) else None
      else None)"

definition bearer_char :: "char \<Rightarrow> bool" where
  "bearer_char c \<longleftrightarrow> is_lower_letter (lower_char c) \<or> is_digit c \<or> List.member ''._~+/-'' c"

definition bearer_token :: pattern where
  "bearer_token bol s =
     (let spaces = takeWhile is_space (drop 6 s);
          body = drop (length spaces) (drop 6 s);
          token = takeWhile bearer_char body
      in if lower (take 6 s) = ''bearer'' \<and> spaces \<noteq> [] \<and> token \<noteq> []
         then Some (''Bearer [REDACTED]'', dropWhile (\<lambda>c. c = CHR ''='') (drop (length token) body))
         else None)"

definition https_url :: pattern where
  "https_url bol s =
     (if startswith s ''https://'' \<and> takeWhile (\<lambda>c. \<not> is_space c) (drop 8 s) \<noteq> []
      then Some (''[REDACTED_HTTPS_URL]'', dropWhile (\<lambda>c. \<not> is_space c) (drop 8 s)) else None)"

definition redact :: "string \<Rightarrow> string" where
  "redact value =
     (let without_pem = substitute pem_block True value;
          without_auth = substitute authorization True without_pem;
          without_credentials = substitute url_credential True without_auth;
          without_bearer = substitute bearer_token True without_credentials
      in substitute https_url True without_bearer)"

lemma substitute_Some:
  assumes "m bol s = Some (r, rest)" and "length rest < length s"
  shows "\<exists>bol'. substitute m bol s = r @ substitute m bol' rest"
  using assms by (cases s) (auto simp: less_Suc_eq_le)

subsection \<open>Values and log lines\<close>

text \<open>A field of an event; a mapping is given by the texts of its keys, and \<open>LObject\<close> is any other object.\<close>

datatype log_value =
    LText string
  | LNone
  | LBool bool
  | LInt int
  | LFloat pyfloat
  | LMapping "(string \<times> log_value) list"
  | LSequence "log_value list"
  | LObject

text \<open>The dict of the comprehension: of two equal keys the later value stays, at the place of the first.\<close>

definition dict_of :: "(string \<times> 'v) list \<Rightarrow> (string \<times> 'v) list" where
  "dict_of kvs = fold (\<lambda>(k, v). AList.update k v) kvs []"

fun redact_value :: "log_value \<Rightarrow> json" where
  "redact_value (LText s) = JStr (redact s)"
| "redact_value LNone = JNull"
| "redact_value (LBool b) = JBool b"
| "redact_value (LInt n) = JInt n"
| "redact_value (LFloat x) = JFloat x"
| "redact_value (LMapping kvs) = JDict (dict_of (map (\<lambda>(k, v). (redact k, redact_value v)) kvs))"
| "redact_value (LSequence vs) = JList (map redact_value vs)"
| "redact_value LObject = JStr ''[REDACTED_UNSUPPORTED_VALUE]''"

definition reserved_fields :: "string list" where
  "reserved_fields = [''timestamp'', ''level'', ''event'', ''message'', ''exc_info'', ''stack_info'']"

text \<open>A log record: its level and logger, the event and the fields that \<open>log_event\<close> attaches (a key that is
  no text is None), and the class of the exception.\<close>

record log_record =
  level_name :: string
  logger_name :: string
  event_name :: "string option"
  event_fields :: "(string option \<times> log_value) list"
  exception_class :: "string option"

definition add_field :: "string option \<times> log_value \<Rightarrow> (string \<times> json) list \<Rightarrow> (string \<times> json) list" where
  "add_field field payload =
     (case field of
        (Some k, v) \<Rightarrow> if List.member reserved_fields k then payload else AList.update k (redact_value v) payload
      | (None, v) \<Rightarrow> payload)"

definition log_payload :: "instant \<Rightarrow> log_record \<Rightarrow> (string \<times> json) list" where
  "log_payload now r =
     (let payload = fold add_field (event_fields r)
            [(''timestamp'', JStr (zulu_text now)), (''level'', JStr (level_name r)),
             (''event'', JStr (case event_name r of Some e \<Rightarrow> e | None \<Rightarrow> logger_name r))]
      in case exception_class r of
           None \<Rightarrow> payload
         | Some c \<Rightarrow> AList.update ''error_class'' (JStr c) payload)"

text \<open>The line, with \<open>json.dumps\<close> as a parameter.\<close>

definition log_format :: "(json \<Rightarrow> string) \<Rightarrow> instant \<Rightarrow> log_record \<Rightarrow> string" where
  "log_format dumps now r = dumps (JDict (log_payload now r))"

subsection \<open>No URL is left\<close>

text \<open>No \<open>https://\<close> with something behind it begins anywhere in the text.\<close>

fun url_free :: "string \<Rightarrow> bool" where
  "url_free [] = True"
| "url_free (c # cs) = (https_url False (c # cs) = None \<and> url_free cs)"

lemma https_url_bol: "https_url bol s = https_url False s"
  by (simp add: https_url_def)

lemma https_url_Some:
  "https_url bol s = Some (r, rest) \<longleftrightarrow>
     (\<exists>c cs. s = ''https://'' @ c # cs \<and> \<not> is_space c \<and> r = ''[REDACTED_HTTPS_URL]'' \<and> rest = dropWhile (\<lambda>c. \<not> is_space c) cs)"
proof -
  have "startswith s ''https://'' \<longleftrightarrow> (\<exists>t. s = ''https://'' @ t)" by (auto simp: startswith_prefix prefix_def)
  then show ?thesis by (cases "drop 8 s") (auto simp: https_url_def split: if_splits)
qed

lemma https_url_None: "https_url bol s = None \<longleftrightarrow> (\<nexists>c cs. s = ''https://'' @ c # cs \<and> \<not> is_space c)"
proof -
  have "https_url bol s \<noteq> None \<longleftrightarrow> (\<exists>r rest. https_url bol s = Some (r, rest))" by auto
  then show ?thesis unfolding https_url_Some by blast
qed

lemma https_url_shorter: "https_url bol (c # cs) = Some (r, rest) \<Longrightarrow> length rest \<le> length cs"
  by (auto simp: https_url_Some intro!: le_SucI le_trans[OF length_dropWhile_le])

lemma substitute_match:
  assumes "https_url bol s = Some (r, rest)"
  shows "\<exists>bol'. substitute https_url bol s = ''[REDACTED_HTTPS_URL]'' @ substitute https_url bol' rest"
proof -
  have "https_url bol [] = None" by (simp add: https_url_None)
  then have "length rest < length s" using assms https_url_shorter by (cases s) (auto simp: less_Suc_eq_le)
  moreover have "r = ''[REDACTED_HTTPS_URL]''" using assms by (auto simp: https_url_Some)
  ultimately show ?thesis using substitute_Some[where m = https_url, OF assms] by simp
qed

lemma substitute_kept:
  assumes "substitute https_url bol s = p @ t" and "CHR ''['' \<notin> set p"
  shows "\<exists>s' bol'. s = p @ s' \<and> t = substitute https_url bol' s'"
  using assms
proof (induction p arbitrary: bol s)
  case (Cons x p)
  have "https_url bol s = None"
  proof (rule ccontr)
    assume "https_url bol s \<noteq> None"
    then obtain r rest where "https_url bol s = Some (r, rest)" by fastforce
    from substitute_match[OF this] show False using Cons.prems by auto
  qed
  then obtain cs where s: "s = x # cs" and rest: "substitute https_url (x = CHR 0x0A) cs = p @ t"
    using Cons.prems(1) by (cases s) auto
  then show ?case using Cons.IH[OF rest] Cons.prems(2) by auto
qed auto

lemma substitute_still_None:
  assumes "https_url bol (c # cs) = None"
  shows "https_url False (c # substitute https_url bol' cs) = None"
proof (rule ccontr)
  assume "https_url False (c # substitute https_url bol' cs) \<noteq> None"
  then obtain x xs where c: "c = CHR ''h''" and cs: "substitute https_url bol' cs = ''ttps://'' @ x # xs" and x: "\<not> is_space x"
    by (auto simp: https_url_None)
  from substitute_kept[OF cs] obtain s' b where s': "cs = ''ttps://'' @ s'" "x # xs = substitute https_url b s'" by auto
  then obtain y ys where y: "s' = y # ys" by (cases s') auto
  have "\<not> is_space y"
  proof (cases "https_url b s'")
    case None
    then show ?thesis using s'(2) x y by simp
  next
    case (Some m)
    then obtain r rest where "https_url b s' = Some (r, rest)" by (cases m) auto
    then have "y = CHR ''h''" using y by (auto simp: https_url_Some)
    then show ?thesis by (simp add: is_space_def)
  qed
  then show False using assms c s'(1) y by (auto simp: https_url_None)
qed

lemma url_free_append: "CHR ''h'' \<notin> set a \<Longrightarrow> url_free b \<Longrightarrow> url_free (a @ b)"
  by (induction a) (auto simp: https_url_None)

lemma url_free_substitute: "url_free (substitute https_url bol s)"
proof (induction "length s" arbitrary: bol s rule: less_induct)
  case less
  show ?case
  proof (cases s)
    case (Cons c cs)
    show ?thesis
    proof (cases "https_url bol s")
      case None
      then show ?thesis using less[of cs] substitute_still_None[of bol c cs] Cons by simp
    next
      case (Some m)
      then obtain r rest where m: "https_url bol s = Some (r, rest)" by (cases m) auto
      obtain bol' where "substitute https_url bol s = ''[REDACTED_HTTPS_URL]'' @ substitute https_url bol' rest"
        using substitute_match[OF m] by blast
      moreover have "url_free (substitute https_url bol' rest)"
        by (rule less) (use https_url_shorter[of bol c cs r rest] m Cons in auto)
      ultimately show ?thesis using url_free_append[of "''[REDACTED_HTTPS_URL]''"] by (simp del: append_Cons)
    qed
  qed simp
qed

lemma url_free_redact: "url_free (redact value)"
  by (simp add: redact_def url_free_substitute)

text \<open>The texts of a value, keys included.\<close>

fun json_texts :: "json \<Rightarrow> string list" where
  "json_texts (JStr s) = [s]"
| "json_texts (JList vs) = concat (map json_texts vs)"
| "json_texts (JDict kvs) = concat (map (\<lambda>(k, v). k # json_texts v) kvs)"
| "json_texts _ = []"

lemma set_update: "set (AList.update k v d) \<subseteq> insert (k, v) (set d)"
  by (induction d) auto

lemma set_dict_of: "set (dict_of kvs) \<subseteq> set kvs"
proof -
  have "set (fold (\<lambda>(k, v). AList.update k v) kvs d) \<subseteq> set d \<union> set kvs" for d
  proof (induction kvs arbitrary: d)
    case (Cons x kvs)
    then show ?case by (cases x) (use set_update in fastforce)
  qed simp
  from this[of "[]"] show ?thesis by (simp add: dict_of_def)
qed

lemma redact_value_texts: "t \<in> set (json_texts (redact_value v)) \<Longrightarrow> url_free t"
proof (induction v)
  case (LMapping kvs)
  then obtain k j where "(k, j) \<in> set (dict_of (map (\<lambda>(k, v). (redact k, redact_value v)) kvs))" and t: "t = k \<or> t \<in> set (json_texts j)"
    by auto
  then obtain k' v where "(k', v) \<in> set kvs" "k = redact k'" "j = redact_value v"
    using set_dict_of by fastforce
  then show ?case using t LMapping.IH by (auto simp: url_free_redact)
qed (auto simp: url_free_redact https_url_None)

subsection \<open>No key material is left\<close>

lemma pem_block_kept: "CHR ''-'' \<noteq> c \<Longrightarrow> pem_block bol (c # cs) = None"
  by (simp add: pem_block_def marker_def startswith_def)

lemma substitute_pem_kept: "CHR ''-'' \<notin> set a \<Longrightarrow> \<exists>bol'. substitute pem_block bol (a @ s) = a @ substitute pem_block bol' s"
  by (induction a arbitrary: bol) (auto simp: pem_block_kept)

lemma substitute_pem_bol: "substitute pem_block bol s = substitute pem_block bol' s"
proof (cases s)
  case (Cons c cs)
  have "pem_block bol (c # cs) = pem_block bol' (c # cs)" by (simp add: pem_block_def)
  then show ?thesis using Cons by simp
qed simp

lemma marker_found:
  assumes "label \<noteq> []" and "CHR ''-'' \<notin> set label"
  shows "marker beginning (beginning @ label @ ''-----'' @ rest) = Some rest"
proof -
  have "takeWhile (\<lambda>c. c \<noteq> CHR ''-'') (label @ ''-----'' @ rest) = label"
    using assms(2) by (induction label) auto
  then show ?thesis using assms(1) by (simp add: marker_def startswith_def)
qed

lemma after_end_found:
  "CHR ''-'' \<notin> set body \<Longrightarrow> label \<noteq> [] \<Longrightarrow> CHR ''-'' \<notin> set label \<Longrightarrow>
     after_end (body @ ''-----END '' @ label @ ''-----'' @ rest) = Some rest"
proof (induction body)
  case Nil
  then show ?case using marker_found[of label "''-----END ''" rest] by simp
next
  case (Cons c body)
  then show ?case by (auto simp: marker_def startswith_def)
qed

lemma substitute_pem_block:
  assumes "label \<noteq> []" "CHR ''-'' \<notin> set label" "CHR ''-'' \<notin> set body" "label' \<noteq> []" "CHR ''-'' \<notin> set label'"
  shows "substitute pem_block bol (''-----BEGIN '' @ label @ ''-----'' @ body @ ''-----END '' @ label' @ ''-----'' @ post) =
     ''[REDACTED_PEM]'' @ substitute pem_block True post"
proof -
  have "pem_block bol (''-----BEGIN '' @ label @ ''-----'' @ body @ ''-----END '' @ label' @ ''-----'' @ post) = Some (''[REDACTED_PEM]'', post)"
    using marker_found[OF assms(1,2), of "''-----BEGIN ''"] after_end_found[OF assms(3-5)] by (simp add: pem_block_def)
  from substitute_Some[where m = pem_block, OF this] obtain bol' where
    "substitute pem_block bol (''-----BEGIN '' @ label @ ''-----'' @ body @ ''-----END '' @ label' @ ''-----'' @ post) =
       ''[REDACTED_PEM]'' @ substitute pem_block bol' post"
    by auto
  then show ?thesis using substitute_pem_bol[of bol' post True] by simp
qed



subsection \<open>The log\<close>

lemma add_field_keeps: "(k, j) \<in> set (add_field field payload) \<Longrightarrow> (k, j) \<in> set payload \<or> (\<exists>v. j = redact_value v)"
  by (cases field) (auto simp: add_field_def split: option.splits if_splits dest: set_mp[OF set_update])

lemma add_field_redacted:
  "(k, j) \<in> set (fold add_field fs payload) \<Longrightarrow> (k, j) \<in> set payload \<or> (\<exists>v. j = redact_value v)"
  by (induction fs arbitrary: payload) (auto dest: add_field_keeps)

text \<open>No log line shows an HTTPS URL with anything behind the scheme, in any text of any field of the
  event, nested keys included; only the timestamp, the level, the event and the exception's class are
  written as they are.\<close>

theorem log_fields_redacted:
  assumes "(k, j) \<in> set (log_payload now r)" and "\<not> List.member [''timestamp'', ''level'', ''event'', ''error_class''] k"
  shows "list_all url_free (json_texts j)"
proof -
  have "(k, j) \<in> set (fold add_field (event_fields r)
      [(''timestamp'', JStr (zulu_text now)), (''level'', JStr (level_name r)),
       (''event'', JStr (case event_name r of Some e \<Rightarrow> e | None \<Rightarrow> logger_name r))])"
    using assms set_update by (fastforce simp: log_payload_def Let_def split: option.splits)
  from add_field_redacted[OF this] assms(2) obtain v where "j = redact_value v" by auto
  then show ?thesis by (simp add: list_all_iff redact_value_texts)
qed

definition logged_example :: log_record where
  "logged_example = \<lparr>level_name = ''ERROR'', logger_name = ''oci'', event_name = Some ''OPERATION_FAILED'',
     event_fields = [(Some ''event'', LText ''x''), (Some ''detail'', LSequence [LText ''at https://h/T''])],
     exception_class = None\<rparr>"

lemma redact_example: "redact ''at https://h/T'' = ''at [REDACTED_HTTPS_URL]''"
  by code_simp

lemma logged_example_field: "(''detail'', JList [JStr ''at [REDACTED_HTTPS_URL]'']) \<in> set (log_payload now logged_example)"
  by (simp add: log_payload_def logged_example_def add_field_def reserved_fields_def redact_example)

theorem log_fields_redacted_witness: "url_free ''at [REDACTED_HTTPS_URL]''"
  using log_fields_redacted[OF logged_example_field] by simp

end
