(* ===== verification/Commands.thy ===== *)
theory Commands
  imports Desk Redaction
begin

section \<open>Properties of the commands\<close>

text \<open>
  What the commands of the publisher guarantee as a whole, from an invariant of every session to the
  files that the operator's commands write, each applied on the concrete console of theory Desk.
\<close>

subsection \<open>Sessions and exit statuses\<close>



text \<open>C10
  A command that may change something does nothing while another publisher holds the lock of the host:
  it ends with the status 75 for a temporary failure, nothing is sent, the database is as it was, and the
  lock is still the other's.\<close>

theorem main_locked_out:
  fixes w :: "'w world"
  assumes law: "console_law C" and host: "consistent (lock_host C (outside w))" and taken: "lock_owner (lock_host C (outside w)) = Some fd"
    and fault: "fst (lock_fault C (outside w)) = None" and cmd: "mutating_config cmd = Some p" and "\<not> usage_error cmd"
  shows "\<exists>o'. main C cmd w = (Inr ([Line ''publisher lock is already held''], 75),
       w\<lparr>outside := o', journal := journal w @ [(''OPERATION_FAILED'', ''CONFIGURATION_INVALID'')]\<rparr>) \<and>
     lock_host C o' = lock_host C (outside w)"
proof -
  obtain o1 where o1: "lock_fault C (outside w) = (None, o1)" using fault by (cases "lock_fault C (outside w)") auto
  then have h: "lock_host C o1 = lock_host C (outside w)" using law by (auto simp: console_law_def dest: spec[where x = "outside w"])
  have "under_lock C (locked_body C cmd) w =
      (Inl LockUnavailableError, w\<lparr>outside := set_lock_host C (lock_host C (outside w)) o1\<rparr>)"
    using acquire_taken[OF host taken] by (simp add: under_lock_def run_bind run_seq external_def o1 on_host_def h)
  then have "main C cmd w = (Inr ([Line ''publisher lock is already held''], 75),
      w\<lparr>outside := set_lock_host C (lock_host C (outside w)) o1, journal := journal w @ [(''OPERATION_FAILED'', ''CONFIGURATION_INVALID'')]\<rparr>)"
    using assms(6) by (simp add: main_def dispatch_locked[OF cmd] run_try_except run_bind run_seq run_return expected_failure_def
        log_event_def run_modify)
  then show ?thesis using law by (intro exI[of _ "set_lock_host C (lock_host C (outside w)) o1"]) (simp add: console_law_def)
qed

definition taken_host :: host where
  "taken_host = \<lparr>open_fds = [3], lock_owner = Some 3, held_fd = (\<lambda>i. if i = 1 then Some 3 else None)\<rparr>"

theorem main_locked_out_witness:
  "\<exists>out o'. main desk_console (PublishCommand ''/config.yaml'' ''web'')
      ((desk_world [])\<lparr>outside := (outside (desk_world []))\<lparr>desk_host := taken_host\<rparr>\<rparr>) =
     (Inr (out, 75), (desk_world [])\<lparr>outside := o', journal := [(''OPERATION_FAILED'', ''CONFIGURATION_INVALID'')]\<rparr>)"
proof -
  let ?w = "(desk_world [])\<lparr>outside := (outside (desk_world []))\<lparr>desk_host := taken_host\<rparr>\<rparr>"
  have host: "lock_host desk_console (outside ?w) = taken_host" by (simp add: desk_console_def)
  have "consistent taken_host" by (auto simp: consistent_def taken_host_def split: if_splits)
  moreover have "fst (lock_fault desk_console (outside ?w)) = None" by (simp add: desk_console_def)
  moreover have "lock_owner taken_host = Some 3" by (simp add: taken_host_def)
  ultimately show ?thesis
    using main_locked_out[OF desk_law, of ?w 3 "PublishCommand ''/config.yaml'' ''web''" "''/config.yaml''"] host
    by (auto simp: usage_error_def desk_world_def)
qed





subsection \<open>An expired lineage\<close>

text \<open>A set whose stored material no longer validates, here because it has expired, is not renewed, not even
  on demand: \<open>renew\<close> validates the old material before it issues the new, and raises.\<close>

lemma expired_lineage_not_renewed:
  "(let (out, w') = renew desk_services desk_config ''web'' True
          ((desk_world [])\<lparr>outside := (outside (desk_world []))\<lparr>desk_script := ([], 10001000)\<rparr>\<rparr>)
    in out = Inl (CertificateValidationError ''certificate is expired'') \<and>
       \<not> list_ex (\<lambda>e. fst e = ''ACME_STARTED'') (journal w') \<and> desk_disk (outside w') = desk_tree)"
  by code_simp

end
