(* ===== verification/Checks.thy ===== *)
theory Checks
  imports Desk
begin

section \<open>Properties of the reading and the operator's commands\<close>

text \<open>
  The operational preflight, the retention, the status report, the loading of the configuration and the
  file that \<open>config add-certificate\<close> writes, each applied on the concrete console of theory Desk.
\<close>

subsection \<open>Preflight, retention and status\<close>


definition check_example :: "(exn + unit) \<times> desk world" where
  "check_example =
     operational_preflight desk_services (host_probes desk_console) desk_config [desk_certificate] (desk_world [certificate_answer 2])"

lemma check_example_runs: "fst check_example = Inr ()"
  by code_simp



definition old_version :: "int \<Rightarrow> pyval" where
  "old_version n = PObj [(''version_number'', PInt n), (''stages'', PList [PStr ''DEPRECATED'']), (''time_created'', PTime (n - 60 * day))]"

definition retention_world :: "desk world" where
  "retention_world = (desk_world [])\<lparr>outside := (outside (desk_world []))\<lparr>desk_script :=
     ([ok [(''items'', PList [old_version 1, old_version 2])],
       ok [(''version_number'', PInt 1), (''stages'', PList [PStr ''DEPRECATED''])], ok []], 10)\<rparr>\<rparr>"

definition retention_example :: "(exn + retention_result) \<times> desk world" where
  "retention_example =
     apply_retention desk_services (oci_adapters (run_env desk_services) (default_policy 5)) example_certificate
       ''ocid1.certificate.x'' retention_world"


lemma retention_example_runs: "map_sum id scheduled_version_numbers (fst retention_example) = Inr [1]"
  by code_simp


definition status_example :: "(exn + (string \<times> json) list list) \<times> desk world" where
  "status_example = status_items desk_env (state_connection desk_console) desk_mount desk_libs desk_config (desk_world [])"

lemma status_example_runs: "map_sum id (map (\<lambda>item. json_get item ''state'')) (fst status_example) = Inr [JStr ''NO_PUBLICATION_STATE'']"
  by code_simp


subsection \<open>Configuration files\<close>

text \<open>C15
  Loading is a function of the files: if no call fails, it returns the configuration that the tree gives
  or raises its error; with failing calls it returns nothing else; it never changes a file; and a
  configuration it returns has passed the validation.\<close>

theorem load_config_refines:
  assumes "mount_law K" and "load_config K L Y p w = (out, w')"
  shows "disk K w' = disk K w \<and> (reliable K \<longrightarrow> out = config_in L Y (disk K w) p) \<and>
     (case out of Inl _ \<Rightarrow> True
      | Inr config \<Rightarrow> config_in L Y (disk K w) p = Inr config \<and> (\<exists>drafted. validate_config (idna_encode L) drafted = Inr config))"
proof (cases out)
  case (Inl e)
  then show ?thesis
    using wp_Inl[OF load_config_reads[OF assms(1), unfolded reads_as_def, rule_format, OF refl]] assms(2) by auto
next
  case (Inr config)
  then show ?thesis
    using wp_Inr[OF load_config_reads[OF assms(1), unfolded reads_as_def, rule_format, OF refl]] assms(2)
      config_in_validated[of L Y "disk K w" p config]
    by auto
qed

theorem load_config_refines_witness:
  "fst (load_config desk_mount desk_libs desk_schemas ''/config.yaml'' (outside (desk_world []))) = Inr desk_config"
proof -
  let ?w = "outside (desk_world [])"
  have "mount_law desk_mount" "reliable desk_mount" by (simp_all add: mount_law_def reliable_def desk_mount_def)
  moreover have "disk desk_mount ?w = desk_tree" by (simp add: desk_mount_def desk_world_def)
  moreover have "config_in desk_libs desk_schemas desk_tree ''/config.yaml'' = Inr desk_config"
    using desk_configured by (simp add: command_config_def desk_console_def desk_services_def)
  ultimately show ?thesis
    using load_config_refines[of desk_mount desk_libs desk_schemas "''/config.yaml''" ?w
        "fst (load_config desk_mount desk_libs desk_schemas ''/config.yaml'' ?w)"
        "snd (load_config desk_mount desk_libs desk_schemas ''/config.yaml'' ?w)"]
    by simp
qed

text \<open>C16
  The loader accepts no document with a duplicate key: in every value it constructs, each mapping at any
  depth has pairwise different keys, compared as Python compares them.\<close>

theorem yaml_keys_unique:
  assumes "yaml_load Y raw = Inr v"
  shows "unique_keys v"
  using assms construct_unique(1) by (auto simp: yaml_load_def split: sum.splits option.splits)

theorem yaml_keys_unique_witness:
  "unique_keys (YDict [(YText ''certificates'', YScalar (YText ''x''))])"
  by (rule yaml_keys_unique[of desk_schemas "''x''"]) (simp add: yaml_load_def desk_schemas_def has_key_def)


fun node_of :: "yaml_value \<Rightarrow> yaml_node" where
  "node_of (YScalar s) = NodeScalar s"
| "node_of (YList vs) = NodeSequence (map node_of vs)"
| "node_of (YDict kvs) = NodeMapping (map (\<lambda>(k, v). (NodeScalar k, node_of v)) kvs)"

definition api_certificate :: new_certificate where
  "api_certificate = \<lparr>new_id = ''api'', new_domains = [''api.example''], new_region = ''r'',
     new_compartment = ''ocid1.compartment.c'', new_ocid = None\<rparr>"

definition etc_tree :: fs where
  "etc_tree = [([''etc''], Directory 0 0x1ED), ([''etc'', ''certificates''], Directory 0 0x1ED)]"

text \<open>A library that dumps every document as one text and reads that text as the document.\<close>

definition dumped :: schema_libs where
  "dumped = \<lparr>yaml_compose = (\<lambda>_. Inr (Some (node_of (certificate_document api_certificate [''api.example''])))),
     model_fields = (\<lambda>_. None)\<rparr>"

definition added_example :: "(exn + string) \<times> desk" where
  "added_example = add_certificate desk_mount (host_system desk_console) desk_libs (printing desk_console) ''/etc''
     api_certificate False ((outside (desk_world []))\<lparr>desk_disk := etc_tree\<rparr>)"

lemma added_example_runs: "fst added_example = Inr ''/etc/certificates/api.yaml''"
  by code_simp

lemma added_example_reads_back: "reads_back dumped (printing desk_console) (certificate_document api_certificate [''api.example''])"
proof -
  have "yaml_load dumped ''certificate'' = Inr (certificate_document api_certificate [''api.example''])" by code_simp
  then show ?thesis by (simp add: reads_back_def desk_console_def)
qed


end
