(* ===== verification/Responder.thy ===== *)
theory Responder
  imports Challenge Config
begin

section \<open>The HTTP-01 responder\<close>

text \<open>
  \<open>http01_responder.py\<close>: the routes, the Host check, the token check and the bounded read of a
  challenge file. A request is what aiohttp hands to a handler: the method, the decoded path and
  the raw headers. \<open>raise web.HTTPNotFound()\<close> ends a request with the 404 response, which is
  returned here.
\<close>

subsection \<open>Tokens and hosts\<close>

definition token_char :: "char \<Rightarrow> bool" where
  "token_char c \<longleftrightarrow> is_lower_letter (lower_char c) \<or> is_digit c \<or> c = CHR ''_'' \<or> c = CHR ''-''"

text \<open>\<open>^[A-Za-z0-9_-]{20,256}$\<close>.\<close>

definition token_pattern :: "string \<Rightarrow> bool" where
  "token_pattern t \<longleftrightarrow> 20 \<le> length t \<and> length t \<le> 256 \<and> list_all token_char t"

abbreviation host_error :: "exn + 'a" where
  "host_error \<equiv> Inl (HostHeaderError ''invalid Host header'')"

definition normalize_host_header :: "(string \<Rightarrow> string option) \<Rightarrow> string \<Rightarrow> exn + string" where
  "normalize_host_header idna value =
     (let normalize = (\<lambda>host. case normalize_domain idna host of
             Inl e \<Rightarrow> if is_ValueError e then host_error else Inl e
           | Inr d \<Rightarrow> Inr d)
      in if value = [] \<or> list_ex is_space value \<or> List.member value (CHR ''%'') then host_error
         else if list_ex (\<lambda>c. List.member value c) [CHR ''/'', CHR 0x5C, CHR ''@'', CHR ''['', CHR '']''] then host_error
         else if List.member value (CHR '':'') then
           (case rpartition_at (CHR '':'') value of
              (host, found, port) \<Rightarrow>
                if \<not> found \<or> host = [] \<or> \<not> all_digits port then host_error
                else if \<not> (1 \<le> decimal_value port \<and> decimal_value port \<le> 65535) then host_error
                else normalize host)
         else normalize value)"

definition config_host_webroots :: "app_config \<Rightarrow> string \<Rightarrow> string option" where
  "config_host_webroots config =
     foldl (\<lambda>m cert. foldl (\<lambda>m d. m(d \<mapsto> webroot_id cert)) m (domains cert)) Map.empty (certificates config)"

subsection \<open>State and requests\<close>

record responder_state =
  host_webroots :: "string \<Rightarrow> string option"
  state_reader :: challenge_reader
  state_health :: string
  state_readiness :: string
  required_webroots :: "string list"

record http_request =
  req_method :: string
  req_path :: string
  raw_headers :: "(string \<times> string) list"

record http_response =
  status :: int
  resp_headers_out :: "(string \<times> string) list"
  resp_body :: string

definition plain_response :: "int \<Rightarrow> string \<Rightarrow> http_response" where
  "plain_response code body = \<lparr>status = code, resp_headers_out = [], resp_body = body\<rparr>"

definition security_headers :: "(string \<times> string) list" where
  "security_headers =
     [(''Cache-Control'', ''no-store, no-cache, must-revalidate''), (''Pragma'', ''no-cache''),
      (''X-Content-Type-Options'', ''nosniff'')]"

definition create_state :: "app_config \<Rightarrow> int \<Rightarrow> responder_state" where
  "create_state config owner =
     (let r = responder (http01 config)
      in \<lparr>host_webroots = config_host_webroots config,
          state_reader = \<lparr>reader_base = components (webroot_base (http01 config)),
             max_file_bytes = max_challenge_file_bytes r, reader_owner = owner\<rparr>,
          state_health = health_path r, state_readiness = readiness_path r,
          required_webroots = map webroot_id (certificates config)\<rparr>)"

subsection \<open>Handlers\<close>

fun is_ChallengeFileError :: "exn \<Rightarrow> bool" where
  "is_ChallengeFileError (ChallengeFileError _) = True"
| "is_ChallengeFileError _ = False"

primrec ready :: "'w mount \<Rightarrow> challenge_reader \<Rightarrow> string list \<Rightarrow> ('w, exn, bool) prog" where
  "ready K R [] = return True"
| "ready K R (webroot # rest) =
     bind
       (try_except (seq (open_challenge_directory K R webroot) (return True))
          (\<lambda>e. if is_ChallengeFileError e then Some (return False) else None))
       (\<lambda>opened. if opened then ready K R rest else return False)"

definition readiness :: "'w mount \<Rightarrow> responder_state \<Rightarrow> ('w, exn, http_response) prog" where
  "readiness K st =
     bind (ready K (state_reader st) (required_webroots st)) (\<lambda>ok.
       return (if ok then plain_response 200 (''ready'' @ [CHR 0x0A])
               else plain_response 503 (''not ready'' @ [CHR 0x0A])))"

definition single_host :: "(string \<Rightarrow> string option) \<Rightarrow> http_request \<Rightarrow> exn + string" where
  "single_host idna req =
     (case map snd (filter (\<lambda>(k, v). lower k = ''host'') (raw_headers req)) of
        [h] \<Rightarrow>
          if is_ascii h then normalize_host_header idna h
          else Inl (Lib (ValueError ''ordinal not in range(128)''))
      | _ \<Rightarrow> Inl (HostHeaderError ''Host must appear exactly once''))"

text \<open>The webroot of a request, \<open>None\<close> where the handler answers 404.\<close>

definition request_webroot :: "(string \<Rightarrow> string option) \<Rightarrow> responder_state \<Rightarrow> http_request \<Rightarrow> string option" where
  "request_webroot idna st req =
     (case single_host idna req of Inl _ \<Rightarrow> None | Inr host \<Rightarrow> host_webroots st host)"

text \<open>\<open>asyncio.wait_for(m, timeout=5)\<close>: whether the deadline passes first is up to the outside.\<close>

definition within_deadline :: "('w \<Rightarrow> bool \<times> 'w) \<Rightarrow> ('w, exn, 'a) prog \<Rightarrow> ('w, exn, 'a) prog" where
  "within_deadline late m =
     (\<lambda>w. case m w of (r, w1) \<Rightarrow>
        (case late w1 of (passed, w2) \<Rightarrow> if passed then (Inl (Lib TimeoutError), w2) else (r, w2)))"

definition challenge ::
  "'w mount \<Rightarrow> ('w \<Rightarrow> bool \<times> 'w) \<Rightarrow> (string \<Rightarrow> string option) \<Rightarrow> responder_state \<Rightarrow> http_request \<Rightarrow> string \<Rightarrow>
     ('w, exn, http_response) prog" where
  "challenge K late idna st req token =
     (if \<not> token_pattern token then return (plain_response 404 [])
      else
        (case request_webroot idna st req of
           None \<Rightarrow> return (plain_response 404 [])
         | Some webroot \<Rightarrow>
             try_except
               (bind (within_deadline late (read_challenge K (state_reader st) webroot token)) (\<lambda>content.
                 return \<lparr>status = 200, resp_headers_out = security_headers, resp_body = content\<rparr>))
               (\<lambda>e. if is_ChallengeFileError e \<or> e = Lib TimeoutError
                    then Some (return (plain_response 404 [])) else None)))"

fun is_RuntimeError :: "exn \<Rightarrow> bool" where
  "is_RuntimeError (Lib (RuntimeError _)) = True"
| "is_RuntimeError _ = False"

definition error_middleware :: "('w, exn, http_response) prog \<Rightarrow> ('w, exn, http_response) prog" where
  "error_middleware handler =
     try_except handler (\<lambda>e.
       if e = Lib TimeoutError then Some (return (plain_response 408 []))
       else if is_OSError e \<or> is_RuntimeError e \<or> is_ValueError e then Some (return (plain_response 500 []))
       else None)"

definition challenge_prefix :: string where
  "challenge_prefix = ''/.well-known/acme-challenge/''"

text \<open>
  The routing table of \<open>create_app\<close>. The router matches a fixed path exactly, and \<open>{token}\<close> as one
  nonempty segment; a path that exists for another method is answered 405.
\<close>

definition dispatch ::
  "'w mount \<Rightarrow> ('w \<Rightarrow> bool \<times> 'w) \<Rightarrow> (string \<Rightarrow> string option) \<Rightarrow> responder_state \<Rightarrow> http_request \<Rightarrow>
     ('w, exn, http_response) prog" where
  "dispatch K late idna st req =
     (let path = req_path req; token = removeprefix challenge_prefix path;
          is_get = (req_method req = ''GET''); is_head = (req_method req = ''HEAD'')
      in if path = state_health st then
           (if is_get then return (plain_response 200 (''ok'' @ [CHR 0x0A])) else return (plain_response 405 []))
         else if path = state_readiness st then
           (if is_get then readiness K st else return (plain_response 405 []))
         else if startswith path challenge_prefix \<and> token \<noteq> [] \<and>
                 \<not> list_ex (\<lambda>c. List.member ''{}/'' c) token then
           (if is_get \<or> is_head then challenge K late idna st req token else return (plain_response 405 []))
         else return (plain_response 404 []))"

definition respond ::
  "'w mount \<Rightarrow> ('w \<Rightarrow> bool \<times> 'w) \<Rightarrow> (string \<Rightarrow> string option) \<Rightarrow> responder_state \<Rightarrow> http_request \<Rightarrow>
     ('w, exn, http_response) prog" where
  "respond K late idna st req = error_middleware (dispatch K late idna st req)"

subsection \<open>What is served, and to whom\<close>

lemma token_one_component:
  assumes "token_pattern t"
  shows "one_component t"
proof -
  have "\<not> token_char (CHR ''/'')" by (simp add: token_char_def lower_char_def is_lower_letter_def is_digit_def)
  moreover have "3 \<le> length t" using assms by (simp add: token_pattern_def)
  ultimately show ?thesis
    using assms by (auto simp: one_component_def token_pattern_def list_all_iff)
qed

lemma domains_step: "foldl (\<lambda>m d. m(d \<mapsto> x)) m ds h = (if h \<in> set ds then Some x else m h)"
  by (induction ds arbitrary: m) auto

lemma webroots_fold:
  "foldl (\<lambda>m cert. foldl (\<lambda>m d. m(d \<mapsto> webroot_id cert)) m (domains cert)) m cs h =
     (case filter (\<lambda>cert. h \<in> set (domains cert)) cs of [] \<Rightarrow> m h | c # cs' \<Rightarrow> Some (webroot_id (last (c # cs'))))"
  by (induction cs arbitrary: m) (auto simp: domains_step split: list.split)

lemma config_host_webroots_Some:
  assumes "config_host_webroots config h = Some webroot"
  shows "\<exists>cert\<in>set (certificates config). h \<in> set (domains cert) \<and> webroot = webroot_id cert"
proof -
  let ?cs = "filter (\<lambda>cert. h \<in> set (domains cert)) (certificates config)"
  have "?cs \<noteq> []" and "webroot = webroot_id (last ?cs)"
    using assms by (auto simp: config_host_webroots_def webroots_fold split: list.splits)
  then have "last ?cs \<in> set ?cs" by (intro last_in_set)
  then show ?thesis using \<open>webroot = _\<close> by auto
qed

text \<open>A domain of one certificate set only is routed to the web root of that set.\<close>

lemma config_host_webroots_unique:
  assumes "cert \<in> set (certificates config)" and "h \<in> set (domains cert)"
    and "\<And>c. c \<in> set (certificates config) \<Longrightarrow> h \<in> set (domains c) \<Longrightarrow> c = cert"
  shows "config_host_webroots config h = Some (webroot_id cert)"
proof (cases "config_host_webroots config h")
  case None
  then have "filter (\<lambda>c. h \<in> set (domains c)) (certificates config) = []"
    by (auto simp: config_host_webroots_def webroots_fold split: list.splits)
  then show ?thesis using assms(1,2) by (auto simp: filter_empty_conv)
qed (use assms(3) config_host_webroots_Some in fastforce)

text \<open>\<open>keeps_disk late\<close>: the timer does not touch the files.\<close>

definition keeps_disk :: "'w mount \<Rightarrow> ('w \<Rightarrow> 'a \<times> 'w) \<Rightarrow> bool" where
  "keeps_disk K f \<longleftrightarrow> (\<forall>w. disk K (snd (f w)) = disk K w)"

lemma wp_within_deadline:
  assumes "keeps_disk K late" and "wp m (\<lambda>a w'. disk K w' = f \<and> P a) (\<lambda>_ w'. disk K w' = f) w"
  shows "wp (within_deadline late m) (\<lambda>a w'. disk K w' = f \<and> P a) (\<lambda>_ w'. disk K w' = f) w"
  using assms unfolding wp_def within_deadline_def keeps_disk_def
  by (auto split: prod.splits sum.splits) (metis snd_conv)+

lemma wp_challenge:
  assumes K: "mount_law K" and late: "keeps_disk K late"
    and slug: "\<And>h r. host_webroots st h = Some r \<Longrightarrow> one_component r"
  shows "wp (challenge K late idna st req token)
     (\<lambda>r w'. disk K w' = disk K w \<and>
        (r = plain_response 404 [] \<or>
         (\<exists>host webroot d. single_host idna req = Inr host \<and> host_webroots st host = Some webroot \<and> token_pattern token \<and>
            resolve (disk K w) False (reader_base (state_reader st)) = Inr d \<and>
            served (state_reader st) (disk K w) d webroot token (resp_body r) \<and>
            r = \<lparr>status = 200, resp_headers_out = security_headers, resp_body = resp_body r\<rparr>)))
     (\<lambda>_ w'. disk K w' = disk K w) w"
proof (cases "request_webroot idna st req")
  case None
  then show ?thesis by (simp add: challenge_def wp_return)
next
  case (Some webroot)
  then obtain host where host: "single_host idna req = Inr host" "host_webroots st host = Some webroot"
    by (auto simp: request_webroot_def split: sum.splits)
  show ?thesis
  proof (cases "token_pattern token")
    case True
    note reader = wp_read_challenge[OF K slug[OF host(2)] token_one_component[OF True], of "state_reader st" w]
    show ?thesis
      unfolding challenge_def Some option.case
      by (simp add: True wp_try_except wp_bind wp_return,
          rule wp_mono[OF wp_within_deadline[OF late reader]])
        (use host True in \<open>auto simp: wp_return\<close>)
  qed (simp add: challenge_def wp_return)
qed

text \<open>Every request is answered, unless an exception no handler names ends it.\<close>

definition known_status :: "http_response \<Rightarrow> bool" where
  "known_status r \<longleftrightarrow> List.member [200, 404, 405, 408, 500, 503] (status r)"

lemma known_plain: "List.member [200, 404, 405, 408, 500, 503] code \<Longrightarrow> known_status (plain_response code body)"
  by (simp add: known_status_def plain_response_def)

lemma wp_dispatch_status: "wp (dispatch K late idna st req) (\<lambda>r _. known_status r) (\<lambda>_ _. True) w"
proof -
  have ready: "wp (readiness K st) (\<lambda>r _. known_status r) (\<lambda>_ _. True) w"
    unfolding readiness_def wp_bind
    by (rule wp_mono[OF wp_True]) (simp_all add: wp_return known_plain)
  have challenge: "wp (challenge K late idna st req token) (\<lambda>r _. known_status r) (\<lambda>_ _. True) w" for token
    unfolding challenge_def wp_if wp_case_option wp_try_except wp_bind
    by (auto simp: wp_return known_plain split: option.split
        intro!: wp_mono[where m = "within_deadline l m" for l m, OF wp_True])
      (simp add: known_status_def)
  show ?thesis
    unfolding dispatch_def Let_def
    by (simp add: wp_if wp_return known_plain ready challenge)
qed

lemma wp_respond_status:
  "wp (respond K late idna st req) (\<lambda>r _. known_status r)
     (\<lambda>e _. \<not> is_OSError e \<and> \<not> is_RuntimeError e \<and> \<not> is_ValueError e) w"
  unfolding respond_def error_middleware_def wp_try_except
  by (rule wp_mono[OF wp_dispatch_status]) (auto simp: wp_return known_plain)

lemma slug_one_component: "is_slug s \<Longrightarrow> one_component s"
proof -
  assume s: "is_slug s"
  then obtain c cs where "s = c # cs" by (cases s) (simp_all add: is_slug_def)
  moreover have "\<not> is_lower_letter (CHR ''.'')" "\<not> is_lower_letter (CHR ''/'')" "\<not> is_digit (CHR ''/'')"
    by (simp_all add: is_lower_letter_def is_digit_def)
  ultimately show ?thesis using s by (auto simp: is_slug_def one_component_def list_all_iff)
qed

subsection \<open>The responder only reads\<close>

abbreviation disk_is :: "'w mount \<Rightarrow> fs \<Rightarrow> 'w \<Rightarrow> bool" where
  "disk_is K f w \<equiv> disk K w = f"

lemma keeps_read:
  assumes "mount_law K" and "\<And>a f'. call f = Inr (a, f') \<Longrightarrow> f' = f"
  shows "keeps (disk_is K f) (sys K call)"
  unfolding keeps_wp by (intro allI impI wp_sys[OF assms(1)]) (use assms(2) in auto)

lemma keeps_open_directory:
  assumes "mount_law K"
  shows "keeps (disk_is K f) (open_challenge_directory K R webroot)"
proof -
  have down: "keeps (disk_is K f) (descend K d cs)" for d cs
    by (induction cs arbitrary: d)
      (auto intro!: keeps_intros keeps_read[OF assms] simp: open_dir_at_def split: sum.splits)
  then show ?thesis
    unfolding open_challenge_directory_def
    by (intro keeps_bind keeps_try_except keeps_read[OF assms] down)
      (auto dest: open_root_directory intro: keeps_raise split: if_splits)
qed

lemma keeps_respond:
  assumes K: "mount_law K" and late: "keeps_disk K late"
  shows "keeps (disk_is K f) (respond K late idna st req)"
proof -
  have ready: "keeps (disk_is K f) (ready K R ws)" for R ws
    by (induction ws) (auto intro!: keeps_intros keeps_open_directory[OF K] split: if_splits)
  have token: "keeps (disk_is K f) (read_token K R d t)" for R d t
    unfolding read_token_def
    by (intro keeps_intros keeps_read[OF K]) (auto simp: open_file_at_def intro: keeps_raise split: sum.splits if_splits)
  have deadline: "keeps (disk_is K f) (within_deadline late m)" if "keeps (disk_is K f) m" for m :: "('a, exn, string) prog"
    using that late unfolding keeps_def within_deadline_def keeps_disk_def
    by (auto split: prod.splits) (metis snd_conv)+
  have "keeps (disk_is K f) (challenge K late idna st req t)" for t
    unfolding challenge_def read_challenge_def
    by (intro keeps_intros deadline keeps_open_directory[OF K] token) (auto intro: keeps_return split: if_splits)
  with ready show ?thesis
    unfolding respond_def error_middleware_def dispatch_def Let_def readiness_def
    by (intro keeps_intros) (auto intro: keeps_return split: if_splits)
qed

lemma challenge_response:
  assumes "mount_law K" and "keeps_disk K late" and "\<forall>h r. host_webroots st h = Some r \<longrightarrow> one_component r"
    and "respond K late idna st req w = (Inr r, w')" and "status r = 200"
    and "req_path req \<noteq> state_health st" and "req_path req \<noteq> state_readiness st"
  shows "\<exists>token host webroot d.
     req_path req = challenge_prefix @ token \<and> token_pattern token \<and> List.member [''GET'', ''HEAD''] (req_method req) \<and>
     single_host idna req = Inr host \<and> host_webroots st host = Some webroot \<and>
     resolve (disk K w) False (reader_base (state_reader st)) = Inr d \<and>
     served (state_reader st) (disk K w) d webroot token (resp_body r)"
proof -
  let ?t = "removeprefix challenge_prefix (req_path req)"
  have code: "status (plain_response n b) = n" for n b by (simp add: plain_response_def)
  from assms(4-7) have run: "challenge K late idna st req ?t w = (Inr r, w')"
      and pre: "startswith (req_path req) challenge_prefix" and meth: "req_method req = ''GET'' \<or> req_method req = ''HEAD''"
    by (auto simp: respond_def error_middleware_def dispatch_def Let_def try_except_def code run_return
        split: sum.splits prod.splits if_splits option.splits)
  then have "req_path req = challenge_prefix @ ?t"
    by (simp add: removeprefix_def startswith_def) (metis append_take_drop_id)
  moreover have "r = plain_response 404 [] \<or>
         (\<exists>host webroot d. single_host idna req = Inr host \<and> host_webroots st host = Some webroot \<and> token_pattern ?t \<and>
            resolve (disk K w) False (reader_base (state_reader st)) = Inr d \<and>
            served (state_reader st) (disk K w) d webroot ?t (resp_body r))"
    using wp_Inr[OF wp_challenge[OF assms(1,2)] run] assms(3) by blast
  with assms(5) obtain host webroot d
    where "single_host idna req = Inr host" "host_webroots st host = Some webroot" "token_pattern ?t"
      "resolve (disk K w) False (reader_base (state_reader st)) = Inr d"
      "served (state_reader st) (disk K w) d webroot ?t (resp_body r)"
    by (auto simp: code)
  ultimately show ?thesis using meth by (intro exI[of _ ?t] exI[of _ host] exI[of _ webroot] exI[of _ d]) auto
qed

lemma created_webroot:
  assumes "validate_config idna raw = Inr config" and "host_webroots (create_state config owner) h = Some r"
  shows "\<exists>cert\<in>set (certificates config). h \<in> set (domains cert) \<and> r = webroot_id cert \<and> one_component r"
proof -
  have "config_host_webroots config h = Some r" using assms(2) by (simp add: create_state_def Let_def)
  then obtain cert where "cert \<in> set (certificates config)" "h \<in> set (domains cert)" "r = webroot_id cert"
    using config_host_webroots_Some by blast
  then show ?thesis using validated_certificate(2)[OF assms(1)] slug_one_component by blast
qed

end
