(* ===== verification/Issuance.thy ===== *)
theory Issuance
  imports Acme Example
begin

section \<open>Properties of the issuance\<close>

text \<open>
  What holds of the production gate (\<open>StagingEvidence\<close>) and of the ACME service (\<open>Acme\<close>), with the
  runs that witness it: a record written and found again, an order closed on a disk in memory, and an
  account key whose first writing was interrupted.
\<close>

subsection \<open>The gate\<close>

text \<open>C38
  The production gate: a run that passes it had live verification configured and found, at one of the
  configured paths, a regular file that no other account may write, of at most a megabyte, whose JSON
  object is a passed record of schema 2 for exactly the profile of the certificate set. Passing or
  not, the gate changes no file.\<close>

theorem gate_sound:
  assumes "mount_law K" and "require_qualified_profile K J config cert w = (out, w')"
  shows "disk K w' = disk K w \<and>
     (case out of Inl _ \<Rightarrow> True
      | Inr _ \<Rightarrow> live_verified (compatibility config) \<and>
          (\<exists>file\<in>set (live_evidence_paths (compatibility config)). \<exists>payload.
             retained J (disk K w) file payload \<and>
             json_eq (json_get payload ''schema_version'') (JInt 2) \<and>
             json_eq (json_get payload ''result'') (JStr passed_result) \<and>
             json_eq (json_get payload ''qualified_profile'') (certificate_profile cert)))"
  using wp_require_qualified_profile[OF assms(1), of J config cert w] assms(2)
  by (auto simp: wp_def qualifies_def split: sum.splits)

text \<open>C39
  What \<open>write_evidence\<close> recorded for a certificate set opens the gate for every set of the same
  profile: the record names no issuer, root or identifier.\<close>

theorem evidence_roundtrip:
  assumes "mount_law K" and "reliable K"
    and "json_loads J (json_dumps J (evidence_payload now cert r) @ [CHR 0x0A]) = Inr (JDict d)"
    and "json_eq (JDict d) (evidence_payload now cert r)"
    and "int (length (json_dumps J (evidence_payload now cert r))) < max_evidence_bytes"
    and "write_evidence K J now file cert r w = (Inr (), w1)"
    and "live_verified (compatibility config)" and "live_evidence_paths (compatibility config) = file # files"
    and "certificate_profile other = certificate_profile cert"
  shows "\<exists>w2. require_qualified_profile K J config other w1 = (Inr (), w2) \<and> disk K w2 = disk K w1"
proof -
  let ?text = "json_dumps J (evidence_payload now cert r) @ [CHR 0x0A]"
  obtain q where stat: "\<And>fl. stat_at (disk K w1) fl (components file) = Inr (q, Regular (euid K) (created_mode K 0x1A0) ?text)"
    using wp_Inr[OF wp_write_evidence[OF assms(1)] assms(6)] by blast
  have node: "lstat_node (components file) f = Inr (Regular (euid K) (created_mode K 0x1A0) ?text, f)"
    and raw: "read_file (components file) f = Inr (?text, f)" if "f = disk K w1" for f
    using stat that by (simp_all add: lstat_node_def read_file_def)
  have ok: "check_evidence_node (Regular (euid K) (created_mode K 0x1A0) ?text) = Inr ()"
    using assms(5) created_mode_private[of K] by (simp add: check_evidence_node_def)
  have parse: "parse_evidence J ?text = Inr d" using assms(3) by (simp add: parse_evidence_Inr)
  have q: "qualifies (certificate_profile other) d" using evidence_qualifies[OF assms(4)] assms(9) by simp
  have "wp (require_qualified_profile K J config other) (\<lambda>_ w'. disk K w' = disk K w1) (\<lambda>_ _. False) w1"
    unfolding require_qualified_profile_def using assms(7,8)
    by (auto simp: read_evidence_def wp_simps ok parse q intro!: wp_sys_reliable[OF assms(1,2) node] wp_sys_reliable[OF assms(1,2) raw])
  then show ?thesis by (auto simp: wp_def split: prod.splits sum.splits)
qed


text \<open>A library that knows one record.\<close>

definition record_evidence :: live_probe_evidence where
  "record_evidence = \<lparr>ev_ocid = ''o'', ev_initial_version = 1, ev_promoted_version = 2, ev_rollback_version = 1,
     ev_leaf_fingerprint = ''f'', ev_root_fingerprint = ''r'', ev_chain_bytes = 3, ev_country_enforced = False\<rparr>"

definition record_json :: json_libs where
  "record_json = \<lparr>json_loads = (\<lambda>s. if s = ''r'' @ [CHR 0x0A] then Inr (evidence_payload 0 example_certificate record_evidence) else Inl JSONDecodeError),
     json_dumps = (\<lambda>_. ''r'')\<rparr>"

definition live_config :: app_config where
  "live_config = example_config\<lparr>compatibility := (compatibility example_config)\<lparr>live_verified := True, live_evidence_paths := [''/e'']\<rparr>\<rparr>"

abbreviation record_run :: "(exn + unit) \<times> fs" where
  "record_run \<equiv> write_evidence web_mount record_json 0 ''/e'' example_certificate record_evidence []"

theorem evidence_roundtrip_witness:
  "\<exists>f. require_qualified_profile web_mount record_json live_config example_certificate (snd record_run) = (Inr (), f) \<and> f = snd record_run"
proof -
  have "fst record_run = Inr ()" by code_simp
  then have run: "record_run = (Inr (), snd record_run)" by (simp add: prod_eq_iff)
  obtain d where d: "evidence_payload 0 example_certificate record_evidence = JDict d" by (simp add: evidence_payload_def)
  have "json_eq (JDict d) (evidence_payload 0 example_certificate record_evidence)"
    unfolding d[symmetric] by code_simp
  from evidence_roundtrip[OF web_mount_laws(1,2) _ this _ run, of live_config "[]" example_certificate]
  show ?thesis using d by (simp add: record_json_def live_config_def web_mount_def)
qed

theorem gate_sound_witness:
  "\<exists>payload. retained record_json (snd record_run) ''/e'' payload \<and>
     json_eq (json_get payload ''qualified_profile'') (certificate_profile example_certificate)"
proof -
  let ?run = "require_qualified_profile web_mount record_json live_config example_certificate (snd record_run)"
  have "fst ?run = Inr ()" by code_simp
  then have run: "?run = (Inr (), snd ?run)" by (simp add: prod_eq_iff)
  show ?thesis using gate_sound[OF web_mount_laws(1) run] by (auto simp: live_config_def web_mount_def)
qed

subsection \<open>Orders\<close>

text \<open>The lineage an issuance starts from, and its stages.\<close>

lemma wp_load_optional:
  assumes "mount_law K"
  shows "wp (load_optional K L X S cid)
     (\<lambda>current w'. disk K w' = disk K w \<and>
        (case current of None \<Rightarrow> \<forall>c. loaded L X S cid (disk K w) \<noteq> Inr c
         | Some c \<Rightarrow> loaded L X S cid (disk K w) = Inr c)) (\<lambda>_ _. True) w"
  unfolding load_optional_def lineage_exists_def wp_bind
  by (rule wp_observe[OF assms])
    (auto simp: wp_simps loaded_def Let_def intro!: wp_mono[OF wp_load_lineage[OF assms]])

lemma issue_Inr:
  assumes "issue K L X A R S publisher config cert force w = (Inr m, w')"
  obtains current w1 due w2 where "load_optional K L X S (cert_id cert) w = (Inr current, w1)"
    and "(case current of None \<Rightarrow> return True
       | Some m \<Rightarrow> if force then return True else bind (ext (acme_clock R)) (\<lambda>now. return (renewal_due (acme config) m now))) w1 = (Inr due, w2)"
    and "(case (due, current) of (False, Some m) \<Rightarrow> return m
       | _ \<Rightarrow> bind (certificate_key A R (acme config) cert current) (\<lambda>key.
           bind (lift (map_sum Lib id (sign_csr A (common_name cert) (domains cert) key))) (\<lambda>csr.
             run_order K L X A R S publisher config cert key csr))) w2 = (Inr m, w')"
  using assms unfolding issue_def bind_Inr_iff by blast

text \<open>C40
  An issuance that returns was either not needed (the current lineage loads, is not due and nothing
  is forced; no file changes), or it closed an order for exactly the configured domains, each
  challenge being one HTTP-01 token whose file is gone again, and committed material that passed the
  certificate validation and the OCI chain construction, under a key that is the current one if keys
  are not rotated. A lineage that is not due is replaced only on demand.\<close>

theorem issue_sound:
  assumes "mount_law K" and "no_false_missing K" and "\<And>w. disk K (snd (acme_clock R w)) = disk K w"
    and "issue K L X A R S publisher config cert force w = (Inr m, w')"
  shows "(\<not> force \<and> loaded L X S (cert_id cert) (disk K w) = Inr m \<and> (\<exists>now. \<not> renewal_due (acme config) m now) \<and>
      disk K w' = disk K w) \<or>
    (\<exists>key csr. sign_csr A (common_name cert) (domains cert) key = Inr csr \<and>
      order_closed K R config cert csr (disk K w') \<and> issued K L X S config cert key m \<and>
      (\<forall>c. loaded L X S (cert_id cert) (disk K w) = Inr c \<longrightarrow>
         (\<not> rotate_private_key_on_renewal (acme config) \<longrightarrow> key_pem key = reencode_key A (private_key_pem c)) \<and>
         (\<not> force \<longrightarrow> (\<exists>now. renewal_due (acme config) c now))))"
proof -
  obtain current w1 due w2 where current: "load_optional K L X S (cert_id cert) w = (Inr current, w1)"
    and due: "(case current of None \<Rightarrow> return True
       | Some m \<Rightarrow> if force then return True else bind (ext (acme_clock R)) (\<lambda>now. return (renewal_due (acme config) m now))) w1 = (Inr due, w2)"
    and rest: "(case (due, current) of (False, Some m) \<Rightarrow> return m
       | _ \<Rightarrow> bind (certificate_key A R (acme config) cert current) (\<lambda>key.
           bind (lift (map_sum Lib id (sign_csr A (common_name cert) (domains cert) key))) (\<lambda>csr.
             run_order K L X A R S publisher config cert key csr))) w2 = (Inr m, w')"
    by (rule issue_Inr[OF assms(4)])
  note before = wp_Inr[OF wp_load_optional[OF assms(1)] current]
  show ?thesis
  proof (cases "\<exists>c. current = Some c \<and> \<not> due")
    case True
    then have "current = Some m" "w' = w2" "\<not> force" and late: "\<exists>now. acme_clock R w1 = (now, w2) \<and> \<not> renewal_due (acme config) m now"
      using due rest by (auto simp: run_return bind_Inr_iff ext_def split: if_splits prod.splits)
    then have "disk K w' = disk K w1" using assms(3)[of w1] by auto
    then show ?thesis using before late \<open>current = Some m\<close> \<open>\<not> force\<close> by auto
  next
    case False
    then have "bind (certificate_key A R (acme config) cert current) (\<lambda>key.
         bind (lift (map_sum Lib id (sign_csr A (common_name cert) (domains cert) key))) (\<lambda>csr.
           run_order K L X A R S publisher config cert key csr)) w2 = (Inr m, w')"
      using rest by (cases current; cases due) auto
    then obtain key csr w3 w4 where key: "certificate_key A R (acme config) cert current w2 = (Inr key, w3)"
      and csr: "sign_csr A (common_name cert) (domains cert) key = Inr csr"
      and run: "run_order K L X A R S publisher config cert key csr w4 = (Inr m, w')"
      by (auto simp: bind_Inr_iff lift_library_Inr)
    have "(\<not> rotate_private_key_on_renewal (acme config) \<longrightarrow> key_pem key = reencode_key A (private_key_pem c)) \<and>
        (\<not> force \<longrightarrow> (\<exists>now. renewal_due (acme config) c now))"
      if "loaded L X S (cert_id cert) (disk K w) = Inr c" for c
    proof -
      have "current = Some c" using before that by (auto split: option.splits)
      then show ?thesis
        using key due False by (auto simp: certificate_key_def run_return run_raise bind_Inr_iff split: if_splits)
    qed
    then show ?thesis using csr run_order_Inr[OF assms(1,2) run] by blast
  qed
qed

text \<open>An account key file that does not parse, such as the one an interrupted first run leaves after
  creating it and before writing all of it, is never repaired: every later attempt to use the account
  fails, and leaves the file as it is.\<close>

theorem torn_account_key:
  assumes "mount_law K" and "\<And>fl. stat_at (disk K w) fl (components (account_key_path c)) = Inr (q, Regular uid mode content)"
    and "load_account_key A content = Inl e" and "account_key K A R c w = (out, w')"
  shows "disk K w' = disk K w \<and> (\<exists>x. out = Inl x)"
proof -
  let ?p = "components (account_key_path c)"
  have there: "path_exists ?p (disk K w)" using assms(2) by (simp add: path_exists_def)
  have "wp (account_key K A R c) (\<lambda>_ _. False) (\<lambda>_ w'. disk K w' = disk K w) w"
    unfolding account_key_def Let_def wp_bind wp_seq
    by (rule wp_observe[OF assms(1)])
      (auto simp: there wp_simps check_account_key_def assms(2,3) open_nofollow_def intro!: wp_sys[OF assms(1)])
  then show ?thesis using assms(4) by (auto simp: wp_def split: sum.splits)
qed


subsection \<open>An issuance\<close>

definition issue_libs :: acme_libs where
  "issue_libs = \<lparr>reencode_key = id, rsa_or_ec = (\<lambda>_. True), sign_csr = (\<lambda>cn ds key. Inr ''csr''),
     load_account_key = (\<lambda>s. if s = ''rsa'' then Inr True else Inl (ValueError ''no key'')), key_authorization = (\<lambda>k t. t @ ''.'')\<rparr>"

definition issue_server :: "fs acme_server" where
  "issue_server = \<lparr>generate_key = (\<lambda>_ w. (\<lparr>key_pem = ''rsa'', key_der = ''k''\<rparr>, w)),
     acme_clock = (\<lambda>w. (10 * second, w)), local_clock = (\<lambda>w. (10 * second, w)),
     get_directory = (\<lambda>_ _ _ w. (None, w)), new_account = (\<lambda>_ _ w. (Some (AcmeConflict ''a''), w)),
     query_registration = (\<lambda>_ w. (None, w)),
     new_order = (\<lambda>_ _ w. (Inr [\<lparr>auth_identifier = ''a.example'', auth_challenges = [OtherChallenge, Http01 ''tok'']\<rparr>], w)),
     answer_challenge = (\<lambda>_ w. (None, w)), poll_authorizations = (\<lambda>_ w. (None, w)),
     finalize_order = (\<lambda>_ w. (Inr \<lparr>fullchain_pem = Some ''chain'', alternative_fullchains = []\<rparr>, w))\<rparr>"

definition issue_pems :: pem_libs where
  "issue_pems = \<lparr>load_pems = (\<lambda>s. Inr (leaf chained_material # mat_intermediates chained_material)), load_private_key = (\<lambda>s. Inr ''k'')\<rparr>"

definition issue_tree :: fs where
  "issue_tree = ([''c''], Directory 7 0x1C0) # ([''k''], Regular 7 0x180 ''rsa'') # ([''root.pem''], Regular 0 0x1A4 ''pem'') # web_tree"

abbreviation issue_run :: "(exn + lineage_material) \<times> fs" where
  "issue_run \<equiv> issue web_mount root_libs issue_pems issue_libs issue_server store_c (Inr 7) example_config chained_certificate False issue_tree"

text \<open>The run, stage by stage.\<close>

definition issue_auth :: acme_authorization where
  "issue_auth = \<lparr>auth_identifier = ''a.example'', auth_challenges = [OtherChallenge, Http01 ''tok'']\<rparr>"

definition issue_directory :: path where
  "issue_directory = challenge_directory (webroot_base (http01 example_config)) (webroot_id chained_certificate)"

definition issue_key :: acme_key where
  "issue_key = \<lparr>key_pem = ''rsa'', key_der = ''k''\<rparr>"

definition answered_tree :: fs where
  "answered_tree = issue_tree @ [(issue_directory @ [''tok''], Regular 7 0x1A0 ''tok.'')]"

lemma issue_stages:
  "load_optional web_mount root_libs issue_pems store_c (cert_id chained_certificate) issue_tree = (Inr None, issue_tree)"
  "certificate_key issue_libs issue_server (acme example_config) chained_certificate None issue_tree = (Inr issue_key, issue_tree)"
  "open_order web_mount issue_libs issue_server example_config chained_certificate ''csr'' issue_tree = (Inr (''rsa'', [issue_auth]), issue_tree)"
  "answer_challenges web_mount (Inr 7) issue_libs issue_server ''rsa'' issue_directory [] [issue_auth] issue_tree =
     (Inr ([issue_directory @ [''tok'']], Inr ()), answered_tree)"
  by code_simp+

definition issue_choice :: lineage_material where
  "issue_choice = chained_material\<lparr>chain_pem := ''ic'', private_key_pem := ''rsa''\<rparr>"

definition commit_run :: "(exn + lineage_material) \<times> fs" where
  "commit_run = commit_generation web_mount root_libs issue_pems store_c ''web'' ''new456'' ''ic'' ''rsa'' ''19700101T000010Z-6e6577343536-t'' answered_tree"

lemma finish_stages:
  "select_chain web_mount root_libs issue_pems issue_server example_config chained_certificate issue_key [''chain''] answered_tree =
     (Inr issue_choice, answered_tree)"
  "generation_name root_libs issue_choice 10000000 ''t'' = ''19700101T000010Z-6e6577343536-t''"
  by code_simp+

lemma commit_returns:
  "(case commit_run of (Inr m, w) \<Rightarrow> fst (remove_challenge web_mount (issue_directory @ [''tok'']) w) = Inr () | _ \<Rightarrow> False)"
  by code_simp

lemma finish_run:
  "finish_order web_mount root_libs issue_pems issue_server store_c example_config chained_certificate issue_key answered_tree = commit_run"
proof -
  have server: "acme_clock issue_server w = (10 * second, w)" "local_clock issue_server w = (10 * second, w)"
      "poll_authorizations issue_server t w = (None, w)"
      "finalize_order issue_server t w = (Inr \<lparr>fullchain_pem = Some ''chain'', alternative_fullchains = []\<rparr>, w)" for w t
    by (simp_all add: issue_server_def)
  have texts: "cert_id chained_certificate = ''web''" "leaf_pem issue_choice = ''new456''" "chain_pem issue_choice = ''ic''" "key_pem issue_key = ''rsa''"
    by (simp_all add: chained_certificate_def example_certificate_def issue_choice_def chained_material_def example_material_def issue_key_def)
  have hex: "token_hex web_mount 4 w = (Inr ''t'', w)" for w by (simp add: token_hex_def web_mount_def)
  show ?thesis
    by (simp add: finish_order_def run_simps ext_def ext_fail_def ext_try_def server hex finish_stages texts fullchains_def commit_run_def del: select_chain.simps)
qed

lemma issue_run_returns: "\<exists>m. fst issue_run = Inr m"
proof -
  obtain m w1 w2 where fin: "commit_run = (Inr m, w1)"
      and gone: "remove_challenge web_mount (issue_directory @ [''tok'']) w1 = (Inr (), w2)"
    using commit_returns by (auto split: prod.splits sum.splits simp: prod_eq_iff)
  have "run_order web_mount root_libs issue_pems issue_libs issue_server store_c (Inr 7) example_config chained_certificate issue_key ''csr'' issue_tree = (Inr m, w2)"
    by (simp add: run_order_def converted_def issue_stages run_simps issue_directory_def[symmetric] finish_run del: answer_challenges.simps)
      (simp add: fin gone run_return)
  moreover have "sign_csr issue_libs (common_name chained_certificate) (domains chained_certificate) issue_key = Inr ''csr''"
    by (simp add: issue_libs_def)
  ultimately show ?thesis by (simp add: issue_def run_simps issue_stages)
qed

theorem issue_sound_witness:
  "\<exists>m csr. fst issue_run = Inr m \<and> order_closed web_mount issue_server example_config chained_certificate csr (snd issue_run)"
proof -
  obtain m where m: "fst issue_run = Inr m" using issue_run_returns by blast
  then have run: "issue_run = (Inr m, snd issue_run)" by (simp add: prod_eq_iff)
  have "no_false_missing web_mount" "\<And>w. disk web_mount (snd (acme_clock issue_server w)) = disk web_mount w"
    by (simp_all add: no_false_missing_def web_mount_def issue_server_def)
  note issue_sound[OF web_mount_laws(1) this run]
  moreover have "loaded root_libs issue_pems store_c (cert_id chained_certificate) (disk web_mount issue_tree) =
      Inl (CertificateStoreError ''native ACME certificate generation is unavailable'')"
    by code_simp
  moreover have "disk web_mount f = f" for f by (simp add: web_mount_def)
  ultimately show ?thesis using m by auto
qed

text \<open>The first use of the account, interrupted after the key file was created.\<close>

abbreviation torn_run :: "(exn + string) \<times> fs \<times> int" where
  "torn_run \<equiv> account_key (failing_mount 7) issue_libs
     \<lparr>generate_key = (\<lambda>_ w. (\<lparr>key_pem = ''rsa'', key_der = ''k''\<rparr>, w)), acme_clock = Pair 0, local_clock = Pair 0,
      get_directory = (\<lambda>_ _ _ w. (None, w)), new_account = (\<lambda>_ _ w. (None, w)), query_registration = (\<lambda>_ w. (None, w)),
      new_order = (\<lambda>_ _ w. (Inr [], w)), answer_challenge = (\<lambda>_ w. (None, w)), poll_authorizations = (\<lambda>_ w. (None, w)),
      finalize_order = (\<lambda>_ w. (Inl TimeoutError, w))\<rparr> (acme example_config) ([], 4)"

theorem torn_account_key_witness:
  "fst torn_run = Inl (Lib (OSError ''EIO'')) \<and> node_at (fst (snd torn_run)) [''k''] = Some (Regular 7 0x180 []) \<and>
   (\<exists>x. fst (account_key web_mount issue_libs issue_server (acme example_config) (fst (snd torn_run))) = Inl x)"
proof -
  have "fst torn_run = Inl (Lib (OSError ''EIO''))" "fst (snd torn_run) = [([''k''], Regular 7 0x180 [])]" by code_simp+
  moreover have "stat_at (disk web_mount [([''k''], Regular 7 0x180 [])]) fl (components (account_key_path (acme example_config))) =
      Inr ([''k''], Regular 7 0x180 [])" for fl
    by (cases fl) (code_simp+)
  from torn_account_key[OF web_mount_laws(1) this, of issue_libs "ValueError ''no key''" issue_server
      "fst (account_key web_mount issue_libs issue_server (acme example_config) [([''k''], Regular 7 0x180 [])])"
      "snd (account_key web_mount issue_libs issue_server (acme example_config) [([''k''], Regular 7 0x180 [])])"]
  have "\<exists>x. fst (account_key web_mount issue_libs issue_server (acme example_config) [([''k''], Regular 7 0x180 [])]) = Inl x"
    by (simp add: issue_libs_def)
  ultimately show ?thesis by (simp add: node_at_def)
qed

end
