(* ===== verification/Logging.thy ===== *)
theory Logging
  imports Redaction Example
begin

section \<open>The root logger\<close>

text \<open>
  The rest of \<open>logging_config.py\<close>, and the use \<open>cli.py\<close> makes of it: the handlers and the level of the
  root logger, and what a call of \<open>logger.log\<close> writes through them. A logger of the package has no
  level and no handler of its own. A handler is its stream, by its descriptor, and its formatter.
\<close>

subsection \<open>Handlers and levels\<close>

record log_handler =
  handler_stream :: nat
  formatter :: "instant \<Rightarrow> log_record \<Rightarrow> string"

record root_logger =
  root_handlers :: "log_handler list"
  root_level :: nat

abbreviation stderr :: nat where
  "stderr \<equiv> 2"

text \<open>The levels of \<open>logging\<close> by their names, and the name of a level.\<close>

definition level_number :: "string \<Rightarrow> nat option" where
  "level_number = map_of
     [(''CRITICAL'', 50), (''FATAL'', 50), (''ERROR'', 40), (''WARN'', 30), (''WARNING'', 30), (''INFO'', 20),
      (''DEBUG'', 10), (''NOTSET'', 0)]"

text \<open>\<open>configure_json_logging\<close>: \<open>setLevel\<close> comes last and raises \<open>ValueError\<close> for an unknown name.\<close>

definition configure_json_logging :: "(json \<Rightarrow> string) \<Rightarrow> string \<Rightarrow> nat \<Rightarrow> (root_logger, exn, unit) prog" where
  "configure_json_logging dumps lvl stream =
     seq (modify (\<lambda>st. st\<lparr>root_handlers := []\<rparr>))
     (seq (modify (\<lambda>st. st\<lparr>root_handlers := root_handlers st @
         [\<lparr>handler_stream = stream, formatter = log_format dumps\<rparr>]\<rparr>))
     (case level_number lvl of
        None \<Rightarrow> raise (Lib (ValueError (''Unknown level: '' @ [CHR 0x27] @ lvl @ [CHR 0x27])))
      | Some n \<Rightarrow> modify (\<lambda>st. st\<lparr>root_level := n\<rparr>)))"

definition configure_runtime_logging :: "(json \<Rightarrow> string) \<Rightarrow> app_config \<Rightarrow> (root_logger, exn, unit) prog" where
  "configure_runtime_logging dumps config =
     (if json_logging (global_of config) then configure_json_logging dumps (log_level (global_of config)) stderr
      else return ())"

subsection \<open>Events\<close>

text \<open>The level of a call; the program uses INFO and ERROR.\<close>

datatype severity = LogInfo | LogWarning | LogError

primrec severity_number :: "severity \<Rightarrow> nat" where
  "severity_number LogInfo = 20"
| "severity_number LogWarning = 30"
| "severity_number LogError = 40"

primrec severity_name :: "severity \<Rightarrow> string" where
  "severity_name LogInfo = ''INFO''"
| "severity_name LogWarning = ''WARNING''"
| "severity_name LogError = ''ERROR''"

text \<open>\<open>log_event\<close>: the record it makes, and what the logger writes. Without any handler Python falls back on
  one that writes the message alone to stderr, from WARNING on.\<close>

definition event_record :: "string \<Rightarrow> severity \<Rightarrow> string \<Rightarrow> (string option \<times> log_value) list \<Rightarrow> log_record" where
  "event_record logger sev event entries =
     \<lparr>level_name = severity_name sev, logger_name = logger, event_name = Some event, event_fields = entries,
      exception_class = None\<rparr>"

definition logged_lines ::
  "root_logger \<Rightarrow> instant \<Rightarrow> string \<Rightarrow> severity \<Rightarrow> string \<Rightarrow> (string option \<times> log_value) list \<Rightarrow> (nat \<times> string) list" where
  "logged_lines st now logger sev event entries =
     (if severity_number sev < root_level st then []
      else if root_handlers st = [] then (if 30 \<le> severity_number sev then [(stderr, event)] else [])
      else map (\<lambda>h. (handler_stream h, formatter h now (event_record logger sev event entries))) (root_handlers st))"

lemma run_configure_json_logging:
  "configure_json_logging dumps lvl stream st =
     (let st' = st\<lparr>root_handlers := [\<lparr>handler_stream = stream, formatter = log_format dumps\<rparr>]\<rparr>
      in case level_number lvl of
           None \<Rightarrow> (Inl (Lib (ValueError (''Unknown level: '' @ [CHR 0x27] @ lvl @ [CHR 0x27]))), st')
         | Some n \<Rightarrow> (Inr (), st'\<lparr>root_level := n\<rparr>))"
  by (simp add: configure_json_logging_def run_seq run_modify run_raise Let_def split: option.split)

text \<open>The level of a validated configuration is known.\<close>

lemma validated_level:
  assumes "validate_config idna raw = Inr config"
  shows "\<exists>n. level_number (log_level (global_of config)) = Some n \<and> n \<le> 40"
proof -
  have "List.member [''DEBUG'', ''INFO'', ''WARNING'', ''ERROR''] (log_level (global_of config))"
    using assms
    by (auto simp: validate_config_def Let_def then_return_Inr app_checks_def global_checks_def all_of_Inr split: sum.splits)
  then show ?thesis by (auto simp: level_number_def)
qed

lemma payload_redacted:
  "list_all (\<lambda>(k, j). List.member [''timestamp'', ''level'', ''event'', ''error_class''] k \<or> list_all url_free (json_texts j))
     (log_payload now r)"
  using log_fields_redacted by (fastforce simp: list_all_iff)

text \<open>C19
  After a command has read its configuration with JSON logging, whatever handlers and level were there
  before, an event is written as exactly one line to stderr if its level is at least the configured one,
  and not at all otherwise; an error always is. The line is one JSON object in which no field but the
  timestamp, the level, the event and the exception's class shows an HTTPS URL with anything behind the scheme,
  in any nested text.\<close>

theorem logs_one_redacted_line:
  assumes "validate_config idna raw = Inr config" and "json_logging (global_of config)"
  shows "\<exists>st' n. configure_runtime_logging dumps config st = (Inr (), st') \<and>
     level_number (log_level (global_of config)) = Some n \<and> n \<le> severity_number LogError \<and>
     (\<forall>now logger sev event entries.
        \<exists>payload.
          logged_lines st' now logger sev event entries =
            (if n \<le> severity_number sev then [(stderr, dumps (JDict payload))] else []) \<and>
          list_all (\<lambda>(k, j). List.member [''timestamp'', ''level'', ''event'', ''error_class''] k \<or>
            list_all url_free (json_texts j)) payload)"
proof -
  obtain n where n: "level_number (log_level (global_of config)) = Some n" "n \<le> 40"
    using validated_level[OF assms(1)] by blast
  let ?st = "st\<lparr>root_handlers := [\<lparr>handler_stream = stderr, formatter = log_format dumps\<rparr>], root_level := n\<rparr>"
  have "configure_runtime_logging dumps config st = (Inr (), ?st)"
    by (simp add: configure_runtime_logging_def assms(2) run_configure_json_logging n(1))
  moreover have "logged_lines ?st now logger sev event entries =
      (if n \<le> severity_number sev then [(stderr, dumps (JDict (log_payload now (event_record logger sev event entries))))] else [])"
    for now logger sev event entries
    by (simp add: logged_lines_def log_format_def)
  ultimately show ?thesis using n payload_redacted by fastforce
qed

lemma example_config_valid: "validate_config Some example_config = Inr example_config"
  by code_simp

theorem logs_one_redacted_line_witness:
  "\<exists>st'. configure_runtime_logging (\<lambda>_. ''{}'') example_config \<lparr>root_handlers = [], root_level = 30\<rparr> = (Inr (), st') \<and>
     (\<forall>now. logged_lines st' now ''cli'' LogError ''OPERATION_FAILED'' [] = [(stderr, ''{}'')])"
proof -
  have "json_logging (global_of example_config)" by (simp add: example_config_def)
  from logs_one_redacted_line[OF example_config_valid this, of "\<lambda>_. ''{}''" "\<lparr>root_handlers = [], root_level = 30\<rparr>"]
  show ?thesis by (auto split: if_splits)
qed

end
