(* ===== verification/Serving.thy ===== *)
theory Serving
  imports Responder Loading
begin

section \<open>The command of the responder\<close>

text \<open>
  \<open>main\<close> of \<open>http01_responder.py\<close> after \<open>argparse\<close>: \<open>run_app\<close> is aiohttp's server, which calls \<open>respond\<close> for
  each request until it is stopped; \<open>owner\<close> is what \<open>publisher_uid\<close> finds.
\<close>

definition serve ::
  "'w mount \<Rightarrow> libs \<Rightarrow> schema_libs \<Rightarrow> exn + int \<Rightarrow>
     (responder_state \<Rightarrow> string \<Rightarrow> int \<Rightarrow> int \<Rightarrow> ('w, exn, unit) prog) \<Rightarrow> string \<Rightarrow> ('w, exn, int) prog" where
  "serve K L Y owner run_app p =
     bind (load_config K L Y p) (\<lambda>config.
     bind (lift owner) (\<lambda>uid.
     let r = responder (http01 config)
     in seq (run_app (create_state config uid) (bind_address r) (bind_port r) (backlog r)) (return 0)))"

text \<open>A server is only started for a configuration that the files give and that has passed the
  validation, and the files are as they were until then.\<close>

lemma wp_serve:
  assumes "mount_law K"
    and "\<And>config drafted uid w'. config_in L Y (disk K w) p = Inr config \<Longrightarrow>
      validate_config (idna_encode L) drafted = Inr config \<Longrightarrow> owner = Inr uid \<Longrightarrow> disk K w' = disk K w \<Longrightarrow>
      wp (run_app (create_state config uid) (bind_address (responder (http01 config)))
        (bind_port (responder (http01 config))) (backlog (responder (http01 config)))) (\<lambda>_. Q 0) E w'"
    and "\<And>e w'. disk K w' = disk K w \<Longrightarrow> E e w'"
  shows "wp (serve K L Y owner run_app p) Q E w"
proof -
  have started: "wp (bind (lift owner) (\<lambda>uid. let r = responder (http01 config)
      in seq (run_app (create_state config uid) (bind_address r) (bind_port r) (backlog r)) (return 0))) Q E w'"
    if c: "config_in L Y (disk K w) p = Inr config" and d: "disk K w' = disk K w" for config w'
  proof -
    obtain drafted where "validate_config (idna_encode L) drafted = Inr config" using config_in_validated[OF c] by blast
    moreover have "wp (return 0) Q E = Q 0" by (rule ext) (simp add: wp_return)
    ultimately show ?thesis
      using assms(2)[OF c _ _ d] assms(3)[OF d]
      by (cases owner) (simp_all add: wp_bind wp_seq wp_return wp_lift Let_def)
  qed
  show ?thesis
    unfolding serve_def wp_bind
    by (rule wp_mono[OF load_config_reads[OF assms(1), unfolded reads_as_def, rule_format, OF refl]])
      (auto intro: assms(3) started[unfolded wp_bind])
qed

end
