(* ===== verification/AsyncRetry.thy ===== *)
theory AsyncRetry
  imports OciRetry
begin

section \<open>The asynchronous retry loop\<close>

text \<open>
  \<open>retry_read\<close> of \<open>oci_retry.py\<close>, which no other file uses, and its agreement with \<open>retry_read_sync\<close>.
\<close>

text \<open>\<open>RetryableOciError\<close>: the status and the Retry-After of a read that may be repeated.\<close>

record retryable_error =
  status_code :: int
  retry_after_seconds :: "pyfloat option"

text \<open>
  \<open>retry_read\<close>: of an awaited operation the value \<open>Inl\<close> stands for a raised \<open>RetryableOciError\<close>,
  the only exception the loop names; any other one is an exception of the program.
\<close>

fun read_loop ::
  "'w env \<Rightarrow> read_retry_policy \<Rightarrow> ('w, retryable_error + 'a) action \<Rightarrow> nat list \<Rightarrow> ('w, retryable_error + 'a) action" where
  "read_loop env policy operation [] =
     raise (Lib (RuntimeError ''read retry policy has no attempts''))"
| "read_loop env policy operation (attempt # attempts) =
     bind operation (\<lambda>awaited.
       case awaited of
         Inr result \<Rightarrow> return (Inr result)
       | Inl error \<Rightarrow>
           if int attempt + 1 \<ge> max_attempts policy then return (Inl error)
           else
             bind (delay env policy attempt (retry_after_seconds error)) (\<lambda>d.
             seq (sleep env d)
             (read_loop env policy operation attempts)))"

definition retry_read ::
  "'w env \<Rightarrow> read_retry_policy \<Rightarrow> ('w, retryable_error + 'a) action \<Rightarrow> ('w, retryable_error + 'a) action" where
  "retry_read env policy operation = read_loop env policy operation (range_of (max_attempts policy))"

text \<open>An operation of the SDK as the asynchronous loop wants it: a transient error becomes a \<open>RetryableOciError\<close>.\<close>

definition translated :: "('w, 'a) action \<Rightarrow> ('w, retryable_error + 'a) action" where
  "translated operation =
     try_except (bind operation (\<lambda>result. return (Inr result))) (\<lambda>error.
       if \<not> is_transport_error error then None
       else map_option (\<lambda>(status, retry_after). return (Inl \<lparr>status_code = status, retry_after_seconds = retry_after\<rparr>))
         (retryable_exception error))"

definition translates :: "exn + 'a \<Rightarrow> exn + (retryable_error + 'a) \<Rightarrow> bool" where
  "translates r q \<longleftrightarrow>
     (case r of
        Inr a \<Rightarrow> q = Inr (Inr a)
      | Inl e \<Rightarrow>
          q = Inl e \<or>
          (is_transport_error e \<and> (\<exists>s ra. retryable_exception e = Some (s, ra) \<and>
             q = Inr (Inl \<lparr>status_code = s, retry_after_seconds = ra\<rparr>))))"

lemma run_translated:
  "translated operation w =
     (case operation w of
        (Inr a, w') \<Rightarrow> (Inr (Inr a), w')
      | (Inl e, w') \<Rightarrow>
          (case if is_transport_error e then retryable_exception e else None of
             None \<Rightarrow> (Inl e, w')
           | Some (s, ra) \<Rightarrow> (Inr (Inl \<lparr>status_code = s, retry_after_seconds = ra\<rparr>), w')))"
  by (simp add: translated_def run_simps try_except_def split: prod.split sum.split option.split)

text \<open>The two loops do the same: the same attempts at the same states, the same waits, and outcomes that
  differ only in how a last transient error is named.\<close>

lemma read_loop_translated:
  "snd (read_loop env policy (translated operation) attempts w) = snd (retry_loop env policy operation attempts w) \<and>
     translates (fst (retry_loop env policy operation attempts w)) (fst (read_loop env policy (translated operation) attempts w))"
proof (induction attempts arbitrary: w)
  case Nil
  then show ?case by (simp add: raise_def translates_def)
next
  case (Cons a attempts)
  obtain r w1 where op: "operation w = (r, w1)" by fastforce
  consider (result) x where "r = Inr x"
    | (final) e where "r = Inl e" "\<not> is_transport_error e \<or> retryable_exception e = None"
    | (again) e s ra where "r = Inl e" "is_transport_error e" "retryable_exception e = Some (s, ra)"
    by (metis sum.exhaust option.exhaust surj_pair)
  then show ?case
  proof cases
    case result
    then show ?thesis by (simp add: run_bind run_translated[of operation w] op try_except_def translates_def run_return)
  next
    case final
    then show ?thesis by (auto simp: run_bind run_translated[of operation w] op try_except_def translates_def raise_def)
  next
    case again
    obtain d o1 where "delay env policy a ra w1 = (Inr d, w1\<lparr>outside := o1\<rparr>)"
      using run_delay[of env policy a ra w1] by blast
    with again show ?thesis
      using Cons.IH[of "w1\<lparr>outside := wait env d o1\<rparr>"]
      by (simp add: run_bind run_seq run_translated[of operation w] op try_except_def raise_def run_return run_sleep)
        (simp add: translates_def)
  qed
qed

theorem retry_read_agrees:
  "snd (retry_read env policy (translated operation) w) = snd (retry_read_sync env policy operation w) \<and>
     translates (fst (retry_read_sync env policy operation w)) (fst (retry_read env policy (translated operation) w))"
  by (simp add: retry_read_def retry_read_sync_def read_loop_translated)

end
