(* ===== verification/Spec2Isabelle.thy ===== *)
theory Spec2Isabelle
  imports Commands Checks Rollback Notification Retention Locking CertificateStore Responder Preflight Issuance ServicePolicy
    Logging Serving AsyncRetry
begin

text \<open>
  A verification library for OCI ACME Publisher, the Python program under \<open>src/src/oci_acme_publisher\<close>
  (file names below are relative to it). The program renews certificates over ACME HTTP-01 on a host
  and publishes them to OCI Certificates: material is issued and stored as a generation of files,
  validated, imported into OCI as a pending version, verified and promoted, audited on the TLS
  endpoints, rolled back when the audit fails, and old versions are scheduled for deletion. What was
  begun is recorded in an SQLite state store, so that an interrupted run is completed by the next one.

  \<^bold>\<open>Programs.\<close> A program is a function from a state to an outcome, \<open>Inl\<close> the exception or \<open>Inr\<close> the value,
  and the next state; what was changed before an exception stays changed (theory \<open>Prelude\<close>, with the weakest
  preconditions \<open>wp\<close> and the preservation rules \<open>keeps\<close>). A \<open>prog\<close> runs on the outside of the program alone:
  files, sockets, clocks. An \<open>action\<close> runs on a \<open>world\<close> (theory \<open>Runtime\<close>): the outside, the database, the
  trace of the exchange with OCI and the journal of log events; \<open>locally\<close> embeds the first in the second.
  Every SQL statement, system call and request is one call of a parameter that may fail at that point and
  move the outside in any way, so that a statement about every outcome covers a stop at any of them.
  Python's exceptions are the constructors of \<open>exn\<close> (theory \<open>Models\<close>); an \<open>except\<close> clause is a predicate on it.
  Texts are their UTF-8 bytes; white space and case are those of ASCII (theory \<open>PyString\<close>).

  \<^bold>\<open>Theories and sources.\<close>
  \<^item> \<open>Models\<close>: \<open>models.py\<close>, \<open>exit_codes.py\<close>, \<open>errors.py\<close>. \<open>Config\<close>: the classes and validators of \<open>config.py\<close>;
    \<open>Loading\<close>: its YAML loader and the composition of a directory. \<open>Ipaddress\<close>: the part of Python's module in use.
  \<^item> \<open>Tables\<close>, \<open>StateStore\<close>: \<open>migrations.py\<close>, \<open>state_store.py\<close>, \<open>clock.py\<close>, a table as the list of its rows and a
    method as its SQL statements. \<open>Lifecycle\<close>: the state machine of an operation, as the step relation
    \<open>store_step\<close> on databases, its closure \<open>evolves\<close> and the invariant \<open>wf_db\<close> by rule induction.
  \<^item> \<open>OciRetry\<close>, \<open>AsyncRetry\<close>, \<open>OciCertificates\<close>: \<open>oci_retry.py\<close>, \<open>oci_certificates.py\<close>; the interface \<open>oci_ports\<close> of the adapters
    is a locale, interpreted on the adapters over the SDK client. \<open>Exchange\<close>: what a trace justifies.
  \<^item> \<open>X509\<close>: \<open>certificate_validator.py\<close>, \<open>chain_builder.py\<close>, \<open>fingerprint.py\<close>. \<open>Reconciler\<close>, \<open>Rollback\<close>, \<open>Retention\<close>,
    \<open>TlsAudit\<close>, \<open>Notification\<close>, \<open>Locking\<close>: the files of those names (\<open>audit_service.py\<close> and so on), with the
    locales \<open>audit_ports\<close> and \<open>alert_cooldown\<close>.
  \<^item> \<open>Files\<close>: the file tree and its system calls. \<open>CertificateStore\<close>: \<open>certificate_store.py\<close>. \<open>Challenge\<close>, \<open>Responder\<close>,
    \<open>Serving\<close>, \<open>Preflight\<close>: \<open>http01_paths.py\<close>, \<open>http01_responder.py\<close>, \<open>http01_preflight.py\<close>. \<open>Acme\<close>, \<open>Issuance\<close>:
    \<open>acme_service.py\<close> and its laws. \<open>StagingEvidence\<close>: \<open>staging_evidence.py\<close>. \<open>Metrics\<close>: \<open>metrics.py\<close>.
  \<^item> \<open>PublicationService\<close>: \<open>publication_service.py\<close>, with \<open>oci_auth.py\<close> and \<open>oci_clients.py\<close>. \<open>ServiceLaws\<close> verifies each
    method once for any \<open>mutation_policy\<close>; \<open>ServicePolicy\<close> interprets it on one configuration and lifts it to a batch.
  \<^item> \<open>Status\<close>, \<open>PreflightService\<close>, \<open>CompatibilityProbe\<close>: \<open>status_service.py\<close>, \<open>preflight_service.py\<close>,
    \<open>compatibility_probe.py\<close>. \<open>Operator\<close>: \<open>operator.py\<close>, \<open>support.py\<close>. \<open>Redaction\<close>: \<open>redaction.py\<close> and the formatter
    of \<open>logging_config.py\<close>; \<open>Logging\<close>: its handlers and the lines they write. \<open>Cli\<close>: \<open>cli.py\<close>, from the parsed arguments to the exit status; \<open>CliLaws\<close>, \<open>CliExit\<close>: what
    every command sends, and how it ends. \<open>Sessions\<close>: sequences of commands as an inductive relation.
  \<^item> \<open>Example\<close>, \<open>Desk\<close>: concrete services on which the definitions are evaluated. \<open>Commands\<close>, \<open>Checks\<close> and this
    theory: the properties that span components; the others are in the theory of their component.

  \<^bold>\<open>What is shown.\<close> One invariant covers the program: whatever commands run in whatever order, and however each
  ends, the database is well-formed and every mutation sent to OCI is justified by what was read before it
  (\<open>session_invariant\<close>, from \<open>publication_mutations_justified\<close>, \<open>rollback_justified\<close>, \<open>retention_applied\<close> and the laws of
  the service). Success means what it says (\<open>publication_success\<close>, \<open>rollback_success\<close>, \<open>renew_exit_zero\<close>,
  \<open>issue_sound\<close>). Commits of material are atomic and loaded back, the lock excludes, the responder and the
  preflight are confined, history is not rewritten, loading refines a function of the tree, and what is
  logged is redacted. Some theorems exhibit a flaw: \<open>root_commit_dangles\<close>, \<open>interrupted_migration_fails\<close>,
  \<open>torn_account_key\<close>, \<open>unreachable_addresses\<close> and, for the metrics, \<open>uncounted\<close>.

  \<^bold>\<open>Bounds.\<close> Two loops have fuel, and its exhaustion is the exception \<open>OutOfFuel\<close>, which no handler catches: the
  pages of a listing (\<open>page_budget\<close>, which the program does not bound either) and the attempts of an audit
  (\<open>audit_budget\<close>; \<open>audit_terminates\<close> shows that 3601 attempts are enough for a valid configuration). The
  retry loops count down the configured attempts. Name resolution follows 40 links, as Linux does.

  \<^bold>\<open>Parameters.\<close> Code outside the repository is a parameter: the OCI SDK, SQLite's own failures, the ACME and
  cryptography libraries, PyYAML, pydantic's field typing, \<open>idna\<close>, \<open>json\<close>, DNS and sockets, systemd, clocks and
  randomness. What is relied upon is a named hypothesis (\<open>mount_law\<close>: failing calls leave the tree alone;
  \<open>console_law\<close>; \<open>reads_back\<close>: a dumped document is read back), which each witness discharges.

  \<^bold>\<open>Not modelled.\<close> The argument parser of \<open>argparse\<close>, the printing itself, the
  server loop of the responder and threads and event loops (each coroutine is the sequence of its steps;
  the gathered probes of an audit run one after another). The commands keep a journal of their events in
  place of the logger's lines, which theory \<open>Logging\<close> gives for each event. A kill without cleanup is covered where a call may raise an interruption, but the cleanup
  code is then run. Lock contention is between processes of this program on one host.
\<close>

section \<open>Properties\<close>

text \<open>C2
  Whatever OCI answers and however the run ends, every mutation a publication sends is justified
  by what it read before. A version is promoted only if its own public bundle was read, passed
  the identity check and has the local fingerprint, and only right after a fresh read of the
  certificate that gave the ETag used and showed another current version. A version is uploaded
  only as PENDING, with the local leaf, chain and key, the name derived from the fingerprint and
  an ETag that was read. No certificate is created and no deletion is scheduled.\<close>

theorem publication_mutations_justified:
  assumes "publishes ty" and "wf_db (db w)" and "certificate_ocid (oci_of cert) = Some ocid"
    and "reconcile env L (oci_adapters env policy) config cert m chain fp now ty w = (out, w')"
  shows "\<exists>io. trace w' = trace w @ io \<and> justified (publication_guard L config cert m chain fp now ocid) io"
  using sdk.wp_reconcile[OF assms(1-3), of env L env policy config m chain fp now] assms(4)
  by (cases out) (auto simp: wp_def lawful_def exchanged_def)

theorem publication_mutations_justified_witness:
  "\<exists>io. trace (snd (publish_example publishing_answers)) = [] @ io \<and>
     justified (publication_guard example_libs example_config example_certificate example_material
       example_chain example_fingerprint (10 * second) ''ocid1.certificate.x'') io"
  using publication_mutations_justified[of PUBLISH "script_world publishing_answers" example_certificate
      "''ocid1.certificate.x''" script_env example_libs "default_policy 5" example_config example_material
      example_chain example_fingerprint "10 * second" "fst (publish_example publishing_answers)"
      "snd (publish_example publishing_answers)"]
  by (simp add: publish_example_def publishes_def script_world_def wf_empty example_certificate_def)

text \<open>C3
  A publication that returns has done its work: the current public bundle was read, passed the
  identity check and has the local fingerprint at the version the result names; the operation it
  started is COMPLETED at that version, the recorded facts say that local and OCI agree on it,
  and no operation for this material is still active.\<close>

theorem publication_success:
  assumes "publishes ty" and "wf_db (db w)" and "certificate_ocid (oci_of cert) = Some ocid"
    and "reconcile env L (oci_adapters env policy) config cert m chain fp now ty w = (Inr r, w')"
  shows "pub_certificate_id r = cert_id cert \<and> pub_fingerprint r = fp \<and>
     (\<exists>oid. oid \<notin> row_id ` set (operations (db w)) \<and> published oid (cert_id cert) fp (pub_version r) (db w')) \<and>
     (\<exists>io. trace w' = trace w @ io \<and> confirmed_current L config cert now fp ocid (pub_version r) io)"
  using sdk.wp_reconcile[OF assms(1-3), of env L env policy config m chain fp now] assms(4)
  by (auto simp: wp_def exchanged_def)

lemma publish_example_runs:
  "fst (publish_example publishing_answers) =
     Inr \<lparr>pub_certificate_id = ''web'', pub_version = 2, pub_fingerprint = example_fingerprint, pub_changed = True\<rparr>"
  by code_simp

theorem publication_success_witness:
  "\<exists>oid. oid \<notin> row_id ` set (operations empty_database) \<and>
     published oid ''web'' example_fingerprint 2 (db (snd (publish_example publishing_answers)))"
  using publication_success[of PUBLISH "script_world publishing_answers" example_certificate
      "''ocid1.certificate.x''" script_env example_libs "default_policy 5" example_config example_material
      example_chain example_fingerprint "10 * second"
      "\<lparr>pub_certificate_id = ''web'', pub_version = 2, pub_fingerprint = example_fingerprint, pub_changed = True\<rparr>"
      "snd (publish_example publishing_answers)"] publish_example_runs
  by (simp add: prod_eq_iff publish_example_def publishes_def script_world_def wf_empty example_certificate_def)

text \<open>C5
  Whatever OCI answers and however the run ends, a rollback sends at most promotions of versions
  that OCI listed as PREVIOUS and not under deletion, whose public bundle it has read and
  validated, each right after a fresh read of the certificate that gave the ETag used; it uploads,
  creates and deletes nothing, and moves the database by lifecycle steps only.\<close>

theorem rollback_justified:
  assumes "\<And>A. audit = Some A \<Longrightarrow> audit_ports A"
    and "wf_db (db w)" and "certificate_ocid (oci_of cert) = Some ocid"
    and "rollback env L N (oci_adapters env policy) config cert now audit w = (out, w')"
  shows "wf_db (db w') \<and> evolves (db w) (db w') \<and>
     (\<exists>io. trace w' = trace w @ io \<and> justified (rollback_guard L config cert now ocid) io)"
proof (cases out)
  case (Inl e)
  then show ?thesis
    using wp_Inl[OF sdk.wp_rollback[OF assms(1-3)] assms(4)[unfolded Inl]] by (auto simp: lawful_def safe_def exchanged_def)
next
  case (Inr r)
  then show ?thesis
    using wp_Inr[OF sdk.wp_rollback[OF assms(1-3)] assms(4)[unfolded Inr]] by (auto simp: safe_def exchanged_def)
qed

definition rollback_answers :: "(lib_exn + response) list" where
  "rollback_answers =
     [versions_answer [(1, [''PREVIOUS'']), (2, [''CURRENT''])], bundle_answer 1 ''old123'', certificate_answer 2, ok [],
      bundle_answer 1 ''old123'']"

definition no_network :: "script network" where
  "no_network = \<lparr>getaddrinfo = (\<lambda>h w. (Inl (OSError ''no route''), w)),
     tls_connect = (\<lambda>trust a h p t w. (Inl TimeoutError, w)),
     load_der = (\<lambda>s. Inl (ValueError s)), monotonic = (\<lambda>w. (0, w)), audit_budget = 1\<rparr>"

definition rollback_example :: "(exn + rollback_result) \<times> script world" where
  "rollback_example =
     rollback script_env example_libs no_network (oci_adapters script_env (default_policy 5)) example_config
       example_certificate (10 * second) None (script_world rollback_answers)"

lemma rollback_example_runs:
  "fst rollback_example = Inr \<lparr>rolled_certificate_id = ''web'', rolled_version = 1,
     rolled_fingerprint = certificate_sha256 example_libs (example_leaf ''old123'')\<rparr>"
  by code_simp

theorem rollback_justified_witness:
  "wf_db (db (snd rollback_example)) \<and> evolves empty_database (db (snd rollback_example))"
  using rollback_justified[of None "script_world rollback_answers" example_certificate "''ocid1.certificate.x''"
      script_env example_libs no_network "default_policy 5" example_config "10 * second"
      "fst rollback_example" "snd rollback_example"]
  by (simp add: rollback_example_def script_world_def wf_empty example_certificate_def)

text \<open>C6
  A rollback that returns has done its work: the version it names was listed as the restorable one
  and its bundle validated, the current public bundle read afterwards is that version with the
  same fingerprint, the operation it started is COMPLETED at it, and the recorded facts name it as
  OCI's current version while the local lineage is as it was.\<close>

theorem rollback_success:
  assumes "\<And>A. audit = Some A \<Longrightarrow> audit_ports A"
    and "wf_db (db w)" and "certificate_ocid (oci_of cert) = Some ocid"
    and "rollback env L N (oci_adapters env policy) config cert now audit w = (Inr r, w')"
  shows "rolled_certificate_id r = cert_id cert \<and>
     (\<exists>oid. oid \<notin> row_id ` set (operations (db w)) \<and> completed_at oid (rolled_version r) (db w')) \<and>
     rollback_facts (cert_id cert) (local_lineage (cert_id cert) (db w)) (rolled_fingerprint r) (rolled_version r) (db w') \<and>
     (\<exists>io. trace w' = trace w @ io \<and>
        rollback_target L config cert now ocid (rolled_version r) (rolled_fingerprint r) io \<and>
        restored L config cert now ocid (rolled_version r) (rolled_fingerprint r) io)"
  using wp_Inr[OF sdk.wp_rollback[OF assms(1-3)] assms(4)] by (auto simp: exchanged_def)

theorem rollback_success_witness:
  "rollback_facts ''web'' None (certificate_sha256 example_libs (example_leaf ''old123'')) 1 (db (snd rollback_example))"
proof -
  let ?w = "script_world rollback_answers"
  have run: "rollback script_env example_libs no_network (oci_adapters script_env (default_policy 5)) example_config
      example_certificate (10 * second) None ?w =
     (Inr \<lparr>rolled_certificate_id = ''web'', rolled_version = 1,
        rolled_fingerprint = certificate_sha256 example_libs (example_leaf ''old123'')\<rparr>, snd rollback_example)"
    using rollback_example_runs by (simp add: prod_eq_iff rollback_example_def)
  have "certificate_ocid (oci_of example_certificate) = Some ''ocid1.certificate.x''" "cert_id example_certificate = ''web''"
      "db ?w = empty_database"
    by (simp_all add: example_certificate_def script_world_def)
  moreover have "local_lineage ''web'' empty_database = None"
    by (simp add: local_lineage_def empty_database_def)
  ultimately show ?thesis
    using rollback_success[OF _ _ _ run] wf_empty by simp
qed

text \<open>A notification never moves the publication itself: whatever the endpoint, the clock and SQLite
  do, the operations, the certificate facts and the exchange with OCI are as they were; and an
  alert reported as sent was enabled and is remembered with its status, so that it is not repeated
  within the cooldown.\<close>

theorem notify_neutral:
  assumes "notify env M c event entries (Some (store_cooldown env)) w = (out, w')"
  shows "operations (db w') = operations (db w) \<and> certificate_states (db w') = certificate_states (db w) \<and>
     trace w' = trace w \<and>
     (out = Inr True \<longrightarrow> notifications_enabled c \<and>
        (\<exists>t. sent (db w') (event @ '':'' @ field_or entries ''certificate_id'' []) =
           Some (Some t, field_or entries ''status'' event)))"
proof -
  have "unmoved w w'"
    using keepsD[OF store.keeps_notify unmoved_refl assms] .
  then show ?thesis
    using wp_Inr[OF store.wp_notify, of env M c event entries env w True w'] assms by (auto simp: unmoved_def)
qed

definition mailing :: notifications_config where
  "mailing =
     \<lparr>notifications_enabled = True, provider = ''webhook'', credential_ref = Some ''systemd-credential:hook'',
      allowed_hosts = [''hooks.example''], minimum_repeat_interval_minutes = 60,
      notify_connect_timeout_seconds = 5, notify_total_timeout_seconds = 10\<rparr>"

definition script_mailer :: "script mailer" where
  "script_mailer =
     \<lparr>read_credential = (\<lambda>path w. (Inr ''https://hooks.example/T'', w)),
      http_post = (\<lambda>t url payload w. (Inr 200, w)), nfkc = (\<lambda>_. True)\<rparr>"

abbreviation alert_example :: "script world \<Rightarrow> (exn + bool) \<times> script world" where
  "alert_example w \<equiv> notify script_env script_mailer mailing ''RENEW_FAILED'' [(''certificate_id'', ''web'')]
     (Some (store_cooldown script_env)) w"

lemma alert_example_sent: "fst (alert_example (script_world [])) = Inr True"
  by code_simp

theorem notify_neutral_witness:
  "\<exists>t. sent (db (snd (alert_example (script_world [])))) ''RENEW_FAILED:web'' = Some (Some t, ''RENEW_FAILED'')"
proof -
  have "alert_example (script_world []) = (Inr True, snd (alert_example (script_world [])))"
    using alert_example_sent by (simp add: prod_eq_iff)
  from notify_neutral[OF this] show ?thesis by (simp add: field_or_def)
qed

text \<open>C31
  An alert whose status is the remembered one is not repeated within the configured interval:
  \<open>notify\<close> returns False, having read no credential and posted nothing, and the database, the
  journal and the exchange are untouched.\<close>

theorem repeated_alert_suppressed:
  assumes "notifications_enabled c"
    and "sent (db w) (event @ '':'' @ field_or entries ''certificate_id'' []) = Some (Some t, field_or entries ''status'' event)"
    and "sql_fault env (outside w) = (None, o1)" and "read_clock env o1 = (now, o2)"
    and "now \<le> (t + minimum_repeat_interval_minutes c * 60) * second"
  shows "notify env M c event entries (Some (store_cooldown env)) w = (Inr False, w\<lparr>outside := o2\<rparr>)"
proof (rule notify_suppressed[OF assms(1) _ assms(3-5)])
  show "alerts (db w) (event @ '':'' @ field_or entries ''certificate_id'' []) =
       Some \<lparr>last_sent_at = Some t, last_status = field_or entries ''status'' event\<rparr>"
    using assms(2) by (auto simp: sent_def)
qed

theorem repeated_alert_suppressed_witness:
  "fst (alert_example (snd (alert_example (script_world [])))) = Inr False"
proof -
  let ?w = "snd (alert_example (script_world []))"
  have sent: "sent (db ?w) ''RENEW_FAILED:web'' = Some (Some 0, ''RENEW_FAILED'')" by code_simp
  have out: "outside ?w = ([], 1)" by code_simp
  show ?thesis
    using repeated_alert_suppressed[of mailing ?w "''RENEW_FAILED''" "[(''certificate_id'', ''web'')]" 0
        script_env "([], 1)" "second" "([], 2)"] sent out
    by (simp add: mailing_def field_or_def script_env_def)
qed

text \<open>C22
  Whatever is asked of the responder of a validated configuration, the files are left alone; and
  apart from the two health routes a 200 response is only given to a GET or HEAD of a well-formed
  token below the challenge prefix whose single Host header is a domain of a configured
  certificate set, with exactly the content of the token's own file: below the web root of that
  set, through directories that are no links, of safe owner, mode and size.\<close>

theorem responder_confined:
  assumes "mount_law K" and "keeps_disk K late" and "validate_config idna raw = Inr config" and "st = create_state config owner"
    and "respond K late idna st req w = (out, w')"
  shows "disk K w' = disk K w \<and>
     (case out of Inl _ \<Rightarrow> True
      | Inr r \<Rightarrow> status r = 200 \<and> req_path req \<noteq> state_health st \<and> req_path req \<noteq> state_readiness st \<longrightarrow>
          (\<exists>token host cert d.
             req_path req = challenge_prefix @ token \<and> token_pattern token \<and> List.member [''GET'', ''HEAD''] (req_method req) \<and>
             single_host idna req = Inr host \<and> cert \<in> set (certificates config) \<and> host \<in> set (domains cert) \<and>
             resolve (disk K w) False (components (webroot_base (http01 config))) = Inr d \<and>
             served (state_reader st) (disk K w) d (webroot_id cert) token (resp_body r)))"
proof
  show "disk K w' = disk K w"
    using keepsD[OF keeps_respond[OF assms(1,2)] refl assms(5)] .
  note webroot = created_webroot[OF assms(3), of owner, folded assms(4)]
  have base: "reader_base (state_reader st) = components (webroot_base (http01 config))"
    by (simp add: assms(4) create_state_def Let_def)
  show "case out of Inl _ \<Rightarrow> True
      | Inr r \<Rightarrow> status r = 200 \<and> req_path req \<noteq> state_health st \<and> req_path req \<noteq> state_readiness st \<longrightarrow>
          (\<exists>token host cert d.
             req_path req = challenge_prefix @ token \<and> token_pattern token \<and> List.member [''GET'', ''HEAD''] (req_method req) \<and>
             single_host idna req = Inr host \<and> cert \<in> set (certificates config) \<and> host \<in> set (domains cert) \<and>
             resolve (disk K w) False (components (webroot_base (http01 config))) = Inr d \<and>
             served (state_reader st) (disk K w) d (webroot_id cert) token (resp_body r))"
  proof (cases out)
    case (Inr r)
    have slugs: "\<forall>h r. host_webroots st h = Some r \<longrightarrow> one_component r" using webroot by blast
    show ?thesis
      unfolding Inr sum.case
    proof
      assume "status r = 200 \<and> req_path req \<noteq> state_health st \<and> req_path req \<noteq> state_readiness st"
      then obtain token host root d where t: "req_path req = challenge_prefix @ token" "token_pattern token"
          "List.member [''GET'', ''HEAD''] (req_method req)" "single_host idna req = Inr host"
        and h: "host_webroots st host = Some root" and d: "resolve (disk K w) False (reader_base (state_reader st)) = Inr d"
          "served (state_reader st) (disk K w) d root token (resp_body r)"
        using challenge_response[OF assms(1,2) slugs assms(5)[unfolded Inr]] by blast
      obtain cert where "cert \<in> set (certificates config)" "host \<in> set (domains cert)" "root = webroot_id cert"
        using webroot[OF h] by blast
      with t d base show "\<exists>token host cert d.
             req_path req = challenge_prefix @ token \<and> token_pattern token \<and> List.member [''GET'', ''HEAD''] (req_method req) \<and>
             single_host idna req = Inr host \<and> cert \<in> set (certificates config) \<and> host \<in> set (domains cert) \<and>
             resolve (disk K w) False (components (webroot_base (http01 config))) = Inr d \<and>
             served (state_reader st) (disk K w) d (webroot_id cert) token (resp_body r)"
        by metis
    qed
  qed simp
qed

definition token_request :: http_request where
  "token_request = \<lparr>req_method = ''GET'', req_path = challenge_prefix @ ''abcdefghijklmnopqrst'',
     raw_headers = [(''Host'', ''a.example:80'')]\<rparr>"

definition served_example :: "(exn + http_response) \<times> fs" where
  "served_example =
     respond web_mount (\<lambda>w. (False, w)) Some (create_state example_config 7) token_request
       (snd (write_challenge web_mount (Inr 9) [''web'', ''web'', ''.well-known'', ''acme-challenge''] ''abcdefghijklmnopqrst'' ''abc'' web_tree))"

lemma served_example_runs: "fst served_example = Inr \<lparr>status = 200, resp_headers_out = security_headers, resp_body = ''abc''\<rparr>"
  by code_simp

theorem responder_confined_witness:
  "\<exists>cert\<in>set (certificates example_config). \<exists>host\<in>set (domains cert). single_host Some token_request = Inr host"
proof -
  let ?st = "create_state example_config 7"
  have "keeps_disk web_mount (\<lambda>w. (False, w))" by (simp add: keeps_disk_def)
  moreover have "req_path token_request \<noteq> state_health ?st" "req_path token_request \<noteq> state_readiness ?st" by code_simp+
  moreover have run: "served_example = (Inr \<lparr>status = 200, resp_headers_out = security_headers, resp_body = ''abc''\<rparr>, snd served_example)"
    using served_example_runs by (simp add: prod_eq_iff)
  ultimately show ?thesis
    using responder_confined[OF web_mount_laws(1) _ example_config_valid refl run[unfolded served_example_def]] by fastforce
qed

text \<open>Every request is answered with one of the six statuses the responder uses; an exception that ends
  a request unanswered is none of the operating system's, of a value or of the run time.\<close>

theorem responder_answers:
  assumes "respond K late idna st req w = (out, w')"
  shows "case out of
       Inr r \<Rightarrow> List.member [200, 404, 405, 408, 500, 503] (status r)
     | Inl e \<Rightarrow> \<not> is_OSError e \<and> \<not> is_RuntimeError e \<and> \<not> is_ValueError e"
  using wp_respond_status[of K late idna st req w] assms
  by (auto simp: wp_def known_status_def split: sum.splits)
theorem responder_answers_witness:
  "List.member [200, 404, 405, 408, 500, 503] (status \<lparr>status = 200, resp_headers_out = security_headers, resp_body = ''abc''\<rparr>)"
proof -
  have "served_example = (Inr \<lparr>status = 200, resp_headers_out = security_headers, resp_body = ''abc''\<rparr>, snd served_example)"
    using served_example_runs by (simp add: prod_eq_iff)
  from responder_answers[OF this[unfolded served_example_def]] show ?thesis by simp
qed

text \<open>C4
  History is never rewritten by a publication: an operation that had ended stays as it was, row for
  row, and every other one is still there under its id, of the same certificate set, type,
  fingerprint and start, with no recorded OCID, version or request id lost.\<close>

theorem publication_keeps_history:
  assumes "publishes ty" and "wf_db (db w)"
    and "reconcile env L (oci_adapters env policy) config cert m chain fp now ty w = (out, w')"
    and "r \<in> set (operations (db w))"
  shows "(is_terminal (row_state r) \<longrightarrow> r \<in> set (operations (db w'))) \<and>
     (\<exists>r'\<in>set (operations (db w')). continues r r')"
proof -
  have "evolves (db w) (db w')"
  proof (cases "certificate_ocid (oci_of cert)")
    case None
    then show ?thesis using assms(3) by (auto simp: reconcile_def run_raise)
  next
    case (Some ocid)
    show ?thesis
    proof (cases out)
      case (Inl e)
      then show ?thesis
        using wp_Inl[OF sdk.wp_reconcile[OF assms(1,2) Some] assms(3)[unfolded Inl]] by (auto simp: lawful_def safe_def)
    next
      case (Inr p)
      then show ?thesis
        using wp_Inr[OF sdk.wp_reconcile[OF assms(1,2) Some] assms(3)[unfolded Inr]] by (auto simp: lawful_def safe_def)
    qed
  qed
  then show ?thesis
    using evolves_terminal_final[OF _ assms(2,4)] evolves_continues[OF _ assms(4)] by blast
qed

definition ended_row :: op_row where
  "ended_row =
     \<lparr>row_id = ''old'', row_certificate = ''web'', row_type = PUBLISH, row_state = COMPLETED,
      row_fingerprint = Some ''old123'', row_ocid = None, row_version = Some 1, row_request = None,
      row_started = 0, row_updated = 0, row_completed = Some 0, row_error_code = None, row_error_message = None\<rparr>"

theorem publication_keeps_history_witness:
  "\<exists>w'. snd (reconcile script_env example_libs (oci_adapters script_env (default_policy 5)) example_config
      example_certificate example_material example_chain example_fingerprint (10 * second) PUBLISH
      ((script_world publishing_answers)\<lparr>db := empty_database\<lparr>operations := [ended_row]\<rparr>\<rparr>)) = w' \<and>
     ended_row \<in> set (operations (db w'))"
proof -
  let ?w = "(script_world publishing_answers)\<lparr>db := empty_database\<lparr>operations := [ended_row]\<rparr>\<rparr>"
  let ?run = "reconcile script_env example_libs (oci_adapters script_env (default_policy 5)) example_config
      example_certificate example_material example_chain example_fingerprint (10 * second) PUBLISH ?w"
  have "wf_db (db ?w)" by (simp add: wf_db_def wf_row_def ended_row_def is_terminal_def terminal_states_def)
  moreover have "is_terminal (row_state ended_row)" by (simp add: ended_row_def is_terminal_def terminal_states_def)
  moreover have "?run = (fst ?run, snd ?run)" by simp
  ultimately show ?thesis
    using publication_keeps_history[of PUBLISH ?w script_env example_libs "default_policy 5" example_config example_certificate
        example_material example_chain example_fingerprint "10 * second" "fst ?run" "snd ?run" ended_row]
    by (simp add: publishes_def)
qed

text \<open>A transition of an operation that exists changes that row and no other: it takes the new state,
  is stamped as completed exactly when the state is terminal, keeps every optional column for which
  no value is given, and everything else in the database is as it was. When it raises, nothing has
  changed.\<close>

theorem transition_exact:
  assumes "wf_db (db w)" and "r \<in> set (operations (db w))"
    and "transition env (row_id r) st cols w = (out, w')"
  shows "case out of
       Inl _ \<Rightarrow> db w' = db w
     | Inr _ \<Rightarrow> (\<exists>now completed. (completed \<noteq> None \<longleftrightarrow> is_terminal st) \<and>
          db w' = (db w)\<lparr>operations := map (\<lambda>x. if x = r then set_transition st cols now completed r else x) (operations (db w))\<rparr>)"
proof -
  have one: "filter (\<lambda>x. row_id x = row_id r) (operations (db w)) = [r]"
    using assms(1,2) by (auto simp: wf_db_def intro: filter_id_distinct)
  have same: "x = r \<longleftrightarrow> row_id x = row_id r" if "x \<in> set (operations (db w))" for x
    using that assms map_filter_update_distinct[of row_id "operations (db w)" x r] by (auto simp: wf_db_def)
  let ?new = "\<lambda>now completed. (db w)\<lparr>operations :=
     map (\<lambda>x. if x = r then set_transition st cols now completed r else x) (operations (db w))\<rparr>"
  have upd: "update_where (\<lambda>x. row_id x = row_id r) (set_transition st cols now completed) (db w) = ?new now completed"
    for now completed
  proof -
    have "map (\<lambda>x. if row_id x = row_id r then set_transition st cols now completed x else x) (operations (db w)) =
       map (\<lambda>x. if x = r then set_transition st cols now completed r else x) (operations (db w))"
      using same by (auto intro!: map_cong)
    then show ?thesis by (simp only: update_where_def with_operations_def)
  qed
  have "wp (transition env (row_id r) st cols)
     (\<lambda>_ w'. \<exists>now completed. (completed \<noteq> None \<longleftrightarrow> is_terminal st) \<and> db w' = ?new now completed) (\<lambda>_ w'. db w' = db w) w"
    by (rule wp_transition) (use one in \<open>auto simp: has_row_def upd\<close>)
  then show ?thesis using assms(3) by (auto simp: wp_def split: sum.splits)
qed

text \<open>A transition of an id that names no operation raises, a \<open>KeyError\<close> when SQLite itself does not
  fail, and changes nothing in the database.\<close>

theorem transition_unknown:
  assumes "oid \<notin> row_id ` set (operations (db w))" and "transition env oid st cols w = (out, w')"
  shows "db w' = db w \<and>
     (out = Inl (Lib (KeyError ''operation does not exist'')) \<or>
      (\<exists>e o1 o2. sql_fault env o1 = (Some e, o2) \<and> out = Inl (Lib e)))"
proof -
  have none: "filter (\<lambda>r. row_id r = oid) (operations (db w)) = []"
    using assms(1) by (auto simp: filter_empty_conv)
  have same: "map (\<lambda>r. if row_id r = oid then f r else r) (operations (db w)) = operations (db w)" for f
    using assms(1) by (intro map_idI) auto
  have "wp (transition env oid st cols) (\<lambda>_ _. False)
     (\<lambda>e w'. db w' = db w \<and> (e = Lib (KeyError ''operation does not exist'') \<or>
        (\<exists>x o1 o2. sql_fault env o1 = (Some x, o2) \<and> e = Lib x))) w"
    unfolding transition_def
    by (auto simp: wp_simps wp_sql update_operations_def none same split: prod.splits option.splits
        intro!: wp_utc_nowI)
  then show ?thesis using assms(2) by (auto simp: wp_def split: sum.splits)
qed

theorem transition_unknown_witness:
  "db (snd (transition script_env ''none'' COMPLETED no_columns (script_world []))) = empty_database"
  using transition_unknown[of "''none''" "script_world []" script_env COMPLETED no_columns
      "fst (transition script_env ''none'' COMPLETED no_columns (script_world []))"
      "snd (transition script_env ''none'' COMPLETED no_columns (script_world []))"]
  by (simp add: script_world_def empty_database_def)

theorem transition_exact_witness:
  "row_state ended_row = COMPLETED \<and>
   (case fst (transition script_env ''old'' ROLLBACK_FAILED no_columns ((script_world [])\<lparr>db := empty_database\<lparr>operations := [ended_row]\<rparr>\<rparr>)) of
      Inl _ \<Rightarrow> True
    | Inr _ \<Rightarrow> length (operations (db (snd (transition script_env ''old'' ROLLBACK_FAILED no_columns
        ((script_world [])\<lparr>db := empty_database\<lparr>operations := [ended_row]\<rparr>\<rparr>))))) = 1)"
proof -
  let ?w = "(script_world [])\<lparr>db := empty_database\<lparr>operations := [ended_row]\<rparr>\<rparr>"
  let ?run = "transition script_env (row_id ended_row) ROLLBACK_FAILED no_columns ?w"
  have "wf_db (db ?w)" by (simp add: wf_db_def wf_row_def ended_row_def is_terminal_def terminal_states_def)
  moreover have "ended_row \<in> set (operations (db ?w))" by simp
  moreover have "?run = (fst ?run, snd ?run)" by simp
  ultimately have "case fst ?run of Inl _ \<Rightarrow> db (snd ?run) = db ?w
     | Inr _ \<Rightarrow> (\<exists>now completed. (completed \<noteq> None \<longleftrightarrow> is_terminal ROLLBACK_FAILED) \<and>
          db (snd ?run) = (db ?w)\<lparr>operations := map (\<lambda>x. if x = ended_row then set_transition ROLLBACK_FAILED no_columns now completed ended_row else x) (operations (db ?w))\<rparr>)"
    by (rule transition_exact)
  moreover have "row_id ended_row = ''old''" "row_state ended_row = COMPLETED" by (simp_all add: ended_row_def)
  ultimately show ?thesis by (auto split: sum.splits)
qed

text \<open>C32
  Opening a database in which an earlier first migration was interrupted between its statements
  fails every time: the tables exist, the version is not recorded, and \<open>CREATE TABLE\<close> raises.\<close>

theorem interrupted_migration_fails:
  assumes "''operations'' \<in> set (objects (db w))" and "1 \<notin> fst ` set (schema_meta (db w))"
    and "open_store env w = (out, w')"
  shows "\<exists>e. out = Inl e"
proof -
  let ?J = "\<lambda>w' :: 'a world. ''operations'' \<in> set (objects (db w')) \<and> schema_meta (db w') = schema_meta (db w)"
  have meta: "wp (sql env (exec_ddl (CreateTableIfNotExists n))) Q (\<lambda>_ _. True) w'"
    if "?J w'" "\<And>w''. ?J w'' \<Longrightarrow> Q () w''" for n Q w'
    by (rule wp_sqlI) (use that in \<open>auto simp: create_object_def split: if_splits\<close>)
  have create: "wp (sql env (exec_ddl (CreateTable ''operations''))) Q (\<lambda>_ _. True) w'" if "?J w'" for Q w'
    by (rule wp_sqlI) (use that in \<open>auto simp: create_object_def\<close>)
  have applied: "wp (apply_migrations env) (\<lambda>_ _. False) (\<lambda>_ _. True) w'" if "?J w'" for w'
    unfolding apply_migrations_def wp_seq
  proof (rule meta[OF that])
    fix w2 :: "'a world" assume J: "?J w2"
    show "wp (bind (sql env (select_from (\<lambda>d. map fst (schema_meta d)))) (\<lambda>applied.
        for_each migrations (\<lambda>(version, statements).
          if List.member applied version then return ()
          else
            seq (for_each statements (\<lambda>statement. sql env (exec_ddl statement)))
            (bind (utc_now_rfc3339 env) (\<lambda>t. sql env (insert_schema_version version t))))))
       (\<lambda>_ _. False) (\<lambda>_ _. True) w2"
      unfolding wp_bind
      by (rule wp_select) (use assms(2) J in \<open>auto simp: migrations_def wp_simps intro!: meta create\<close>)
  qed
  have "wp (open_store env) (\<lambda>_ _. False) (\<lambda>_ _. True) w"
    unfolding open_store_def wp_bind
    by (rule wp_externalI) (use assms(1) in \<open>auto split: option.splits simp: wp_raise intro: applied\<close>)
  then show ?thesis using assms(3) by (cases out) (auto simp: wp_def)
qed

theorem interrupted_migration_fails_witness:
  "\<exists>e. fst (open_store script_env ((script_world [])\<lparr>db := empty_database\<lparr>objects := [''schema_meta'', ''operations'']\<rparr>\<rparr>)) = Inl e"
proof -
  let ?w = "(script_world [])\<lparr>db := empty_database\<lparr>objects := [''schema_meta'', ''operations'']\<rparr>\<rparr>"
  show ?thesis
    using interrupted_migration_fails[of ?w script_env "fst (open_store script_env ?w)" "snd (open_store script_env ?w)"]
    by (simp add: empty_database_def)
qed

lemma checked_Inr: "(if b then Inl e else k) = Inr a \<longleftrightarrow> \<not> b \<and> k = Inr a"
  by simp

text \<open>C33
  A retried read asks the same request again only after transient failures, at most
  \<open>max_attempts\<close> times in all, and gives the last answer: the first that is not a transient
  failure, or the last one when the attempts are used up. Nothing else is sent, and the database
  and the journal are as they were.\<close>

theorem retry_exact:
  assumes "0 < max_attempts policy" and "retry_read_sync env policy (oci env req rid) w = (out, w')"
  shows "\<exists>failures r. trace w' = trace w @ map (Pair req) (failures @ [r]) \<and> out = map_sum Lib id r \<and>
     all_transient failures \<and> int (length failures) < max_attempts policy \<and>
     (case r of Inl e \<Rightarrow> transient e \<longrightarrow> int (length failures) + 1 = max_attempts policy | Inr _ \<Rightarrow> True) \<and>
     db w' = db w \<and> journal w' = journal w"
proof -
  obtain failures r where "trace w' = trace w @ retried req failures r" "out = map_sum Lib id r"
    "all_transient failures" and less: "length failures < nat (max_attempts policy)"
    and last: "\<And>e. r = Inl e \<Longrightarrow> transient e \<Longrightarrow> Suc (length failures) = nat (max_attempts policy)"
    and "db w' = db w" "journal w' = journal w"
    using retry_loop_oci[of 0 policy env req rid w out w'] assms by (auto simp: retry_read_sync_def range_of_def)
  moreover have "int (length failures) < max_attempts policy" using less by linarith
  moreover have "case r of Inl e \<Rightarrow> transient e \<longrightarrow> int (length failures) + 1 = max_attempts policy | Inr _ \<Rightarrow> True"
    using last assms(1) by (auto split: sum.split)
  ultimately show ?thesis by (auto simp: retried_def)
qed

theorem retry_exact_witness:
  "\<exists>failures r. trace (snd (retry_read_sync script_env (default_policy 2) (oci script_env (GetCertificate ''x'') ''rid'')
       (script_world [Inl TimeoutError, Inl TimeoutError, ok []]))) = map (Pair (GetCertificate ''x'')) (failures @ [r]) \<and>
     length failures < 2"
  using retry_exact[of "default_policy 2" script_env "GetCertificate ''x''" "''rid''"
      "script_world [Inl TimeoutError, Inl TimeoutError, ok []]"
      "fst (retry_read_sync script_env (default_policy 2) (oci script_env (GetCertificate ''x'') ''rid'')
         (script_world [Inl TimeoutError, Inl TimeoutError, ok []]))"
      "snd (retry_read_sync script_env (default_policy 2) (oci script_env (GetCertificate ''x'') ''rid'')
         (script_world [Inl TimeoutError, Inl TimeoutError, ok []]))"]
  by (auto simp: default_policy_def script_world_def)

text \<open>C34
  The pause before a retry is never negative and never longer than the maximum of the policy,
  whatever \<open>Retry-After\<close> header the service sent (also an infinite or a meaningless one).\<close>

theorem delay_bounded:
  assumes "\<And>c o'. 0 \<le> c \<Longrightarrow> 0 \<le> fst (uniform env c o') \<and> fst (uniform env c o') \<le> c"
    and "0 \<le> base_delay_seconds policy" and "0 \<le> maximum_delay_seconds policy"
    and "delay env policy attempt retry_after w = (Inr d, w')"
  shows "0 \<le> d \<and> d \<le> maximum_delay_seconds policy"
  by (rule delay_bounds[OF assms])

theorem delay_bounded_witness:
  "\<exists>d w'. delay script_env (default_policy 5) 3 (Some FInf) (script_world []) = (Inr d, w') \<and> 0 \<le> d \<and> d \<le> 10"
proof -
  obtain d w' where run: "delay script_env (default_policy 5) 3 (Some FInf) (script_world []) = (Inr d, w')"
    using run_delay[of script_env "default_policy 5" 3 "Some FInf" "script_world []"] by blast
  have "0 \<le> d \<and> d \<le> maximum_delay_seconds (default_policy 5)"
    by (rule delay_bounded[OF _ _ _ run]) (simp_all add: script_env_def default_policy_def split: prod.splits)
  then show ?thesis using run by (auto simp: default_policy_def)
qed

text \<open>C35
  Material that passes validation is what the configuration asks for: its leaf has the configured
  Common Name and exactly the configured names, is within its validity (up to the tolerated clock
  skew), is no CA and usable for a server, has the configured key, matches the private key, is
  signed by the first intermediate, and fits OCI's limits. The result is the leaf's fingerprint.\<close>

theorem material_validated:
  assumes "validate_certificate_material L m cert policy g now = Inr fp"
  shows "fp = certificate_sha256 L (leaf m) \<and>
     common_name_of L (leaf m) = Inr (common_name cert) \<and> dns_sans L (leaf m) = Inr (domains cert) \<and>
     public_key_der (leaf m) = private_key_public_der m \<and>
     not_before (leaf m) \<le> now + clock_skew_tolerance_seconds g * second \<and>
     now - clock_skew_tolerance_seconds g * second \<le> not_after (leaf m) \<and>
     basic_constraints_ca (leaf m) = Some False \<and> digital_signature (leaf m) \<noteq> Some False \<and>
     (case extended_key_usage (leaf m) of None \<Rightarrow> True | Some eku \<Rightarrow> ''1.3.6.1.5.5.7.3.1'' \<in> set eku) \<and>
     (case (key_family (key_of cert), public_key_of (leaf m)) of
        (RSA, RsaKey bits) \<Rightarrow> rsa_size (key_of cert) = Some bits
      | (ECDSA, EcKey curve) \<Rightarrow> ecdsa_curve (key_of cert) = Some curve
      | _ \<Rightarrow> False) \<and>
     length (leaf_pem m) \<le> 10240 \<and> length (private_key_pem m) \<le> 5120 \<and> length (leaf_pem m) + length (chain_pem m) \<le> 51200 \<and>
     (\<exists>issuer rest. mat_intermediates m = issuer # rest \<and> signature_hash (leaf m) \<noteq> None \<and>
        verify_signature L issuer (leaf m) = None)"
proof -
  from assms have names: "common_name_of L (leaf m) = Inr (common_name cert)" "dns_sans L (leaf m) = Inr (domains cert)"
      "public_key_der (leaf m) = private_key_public_der m"
    and parts: "validate_validity (leaf m) g now = Inr ()" "validate_extensions (leaf m) = Inr ()" "validate_key (leaf m) cert = Inr ()"
    and rest: "length (leaf_pem m) \<le> 10240" "length (private_key_pem m) \<le> 5120" "length (leaf_pem m) + length (chain_pem m) \<le> 51200"
      "\<exists>issuer rest. mat_intermediates m = issuer # rest \<and> verify_certificate_signature L (leaf m) issuer = Inr ()"
      "fp = certificate_sha256 L (leaf m)"
    by (auto simp: validate_certificate_material_def split: sum.splits if_splits list.splits)
  from parts(2) have "basic_constraints_ca (leaf m) = Some False \<and> digital_signature (leaf m) \<noteq> Some False \<and>
     (case extended_key_usage (leaf m) of None \<Rightarrow> True | Some eku \<Rightarrow> ''1.3.6.1.5.5.7.3.1'' \<in> set eku)"
    by (auto simp: validate_extensions_def split: option.splits bool.splits if_splits)
  moreover from parts(3) have "case (key_family (key_of cert), public_key_of (leaf m)) of
        (RSA, RsaKey bits) \<Rightarrow> rsa_size (key_of cert) = Some bits
      | (ECDSA, EcKey curve) \<Rightarrow> ecdsa_curve (key_of cert) = Some curve
      | _ \<Rightarrow> False"
    by (cases "key_family (key_of cert)") (auto simp: validate_key_def split: public_key.splits if_splits)
  ultimately show ?thesis using names parts(1) rest by auto
qed

theorem material_validated_witness:
  "dns_sans example_libs (leaf chained_material) = Inr [''a.example'']"
proof -
  have "validate_certificate_material example_libs chained_material example_certificate (compatibility example_config)
      (global_of example_config) (10 * second) = Inr example_fingerprint"
    by code_simp
  from material_validated[OF this] show ?thesis by (simp add: example_certificate_def)
qed

text \<open>C36
  A chain built for OCI is a chain: it leads from the leaf over the intermediates to the pinned
  root, each certificate issued by the next (name, CA flag and signature), the root's fingerprint
  is allowlisted, the first issuer's name is allowlisted, and the bundle is the PEM of the
  intermediates followed by the root, within OCI's limit.\<close>

theorem chain_sound:
  assumes "build_oci_chain L content m cert policy = Inr c"
  shows "certified L (leaf m # chain_intermediates c @ [chain_root c]) \<and>
     certificate_sha256 L (chain_root c) \<in> set (allowed_root_sha256 (chain_of cert)) \<and>
     (\<exists>bytes. content = Inr bytes \<and> load_pem L bytes = Inr (chain_root c)) \<and>
     chain_intermediates c \<noteq> [] \<and> set (chain_intermediates c) \<subseteq> set (mat_intermediates m) \<and>
     (\<exists>issuer. subject_common_name (hd (chain_intermediates c)) = Inr issuer \<and>
        issuer \<in> set (allowed_issuer_common_names (chain_of cert))) \<and>
     chain_cert_chain_pem c = concat (map pem_bytes (chain_intermediates c @ [chain_root c])) \<and>
     length (chain_cert_chain_pem c) + length (leaf_pem m) \<le> 51200"
proof -
  from assms obtain root final issuer where root: "load_pinned_root L content cert = Inr root"
    and c: "chain_root c = root"
      "chain_intermediates c = filter (\<lambda>x. certificate_sha256 L x \<noteq> certificate_sha256 L root) (mat_intermediates m)"
      "chain_cert_chain_pem c = concat (map pem_bytes (chain_intermediates c @ [chain_root c]))"
    and nonempty: "chain_intermediates c \<noteq> []"
    and walk: "walk_chain L (leaf m) (chain_intermediates c) = Inr final"
    and top: "issuer_name final = subject_name root" "validate_ca root = Inr ()" "verify_certificate_signature L final root = Inr ()"
    and issuer: "subject_common_name (hd (chain_intermediates c)) = Inr issuer"
      "issuer \<in> set (allowed_issuer_common_names (chain_of cert))"
    and size: "length (chain_cert_chain_pem c) + length (leaf_pem m) \<le> 51200"
    unfolding build_oci_chain_def Let_def case_result_Inr checked_Inr
    by (auto simp: checked_Inr split: bool.splits)
  from walk have w: "certified L (leaf m # chain_intermediates c)" "final = last (leaf m # chain_intermediates c)"
    by (simp_all add: walk_chain_Inr)
  obtain init where init: "leaf m # chain_intermediates c = init @ [final]"
    using w(2) by (metis append_butlast_last_id list.distinct(1))
  have "issued_by L final root" using top by (simp add: issued_by_def)
  then have "certified L (init @ [final, root])" using w(1) init by (simp add: certified_append)
  then have "certified L (leaf m # chain_intermediates c @ [root])" using init by (metis append.assoc append_Cons append_Nil)
  moreover have "certificate_sha256 L root \<in> set (allowed_root_sha256 (chain_of cert)) \<and>
      (\<exists>bytes. content = Inr bytes \<and> load_pem L bytes = Inr root)"
    using root by (auto simp: load_pinned_root_def split: sum.splits if_splits)
  ultimately show ?thesis using c nonempty issuer size by auto
qed

theorem chain_sound_witness:
  "\<exists>c. build_oci_chain root_libs (Inr ''pem'') chained_material chained_certificate (compatibility example_config) = Inr c \<and>
     certified root_libs (leaf chained_material # chain_intermediates c @ [chain_root c])"
proof -
  have "(case build_oci_chain root_libs (Inr ''pem'') chained_material chained_certificate (compatibility example_config) of
      Inr c \<Rightarrow> True | Inl _ \<Rightarrow> False)"
    by code_simp
  then obtain c where "build_oci_chain root_libs (Inr ''pem'') chained_material chained_certificate (compatibility example_config) = Inr c"
    by (auto split: sum.splits)
  with chain_sound[OF this] show ?thesis by blast
qed

text \<open>C37
  A validated configuration has the shape the services rely on: the ids and the web roots of the
  certificate sets are distinct slugs, no domain belongs to two sets or twice to one, every set has
  at least one domain, the first being its Common Name of at most 64 characters, and every domain
  is at most 253 characters of well-formed labels.\<close>

theorem configuration_validated:
  assumes "validate_config idna raw = Inr config"
  shows "distinct (map cert_id (certificates config)) \<and> distinct (map webroot_id (certificates config)) \<and>
     distinct (concat (map domains (certificates config))) \<and>
     (\<forall>c\<in>set (certificates config). is_slug (cert_id c) \<and> is_slug (webroot_id c) \<and>
        domains c \<noteq> [] \<and> common_name c = hd (domains c) \<and> length (common_name c) \<le> 64 \<and>
        (\<forall>d\<in>set (domains c). length d \<le> 253 \<and> (\<forall>l\<in>set (split_on (CHR ''.'') d). label_error l = None)))"
proof -
  have cross: "cross_field_invariants config = Inr ()"
    using assms by (auto simp: validate_config_def Let_def then_return_Inr split: sum.splits)
  have sets: "is_slug (cert_id c) \<and> is_slug (webroot_id c) \<and>
        domains c \<noteq> [] \<and> common_name c = hd (domains c) \<and> length (common_name c) \<le> 64 \<and> distinct (domains c) \<and>
        (\<forall>d\<in>set (domains c). length d \<le> 253 \<and> (\<forall>l\<in>set (split_on (CHR ''.'') d). label_error l = None))"
    if "c \<in> set (certificates config)" for c
    using validated_certificate[OF assms that]
    by (auto simp: certificate_invariants_def all_of_Inr first_label_error_None)
  have "disjoint_sets (certificates config) [] [] = Inr ()" "distinct (map cert_id (certificates config))"
      "distinct (map webroot_id (certificates config))"
    using cross by (simp_all add: cross_field_invariants_def all_of_Inr)
  moreover from disjoint_sets_distinct[OF this(1)] sets have "distinct (concat (map domains (certificates config)))" by blast
  ultimately show ?thesis using sets by blast
qed

theorem configuration_validated_witness: "is_slug (webroot_id example_certificate)"
  using configuration_validated[OF example_config_valid] by (simp add: example_config_def)

end
